(* ===== verification/Prelude.thy ===== *)
theory Prelude
  imports Main "HOL-Library.Word" "HOL-Library.Sublist"
begin

text \<open>
  Shared vocabulary of the development: the types every component uses
  (timestamps, page ids, JavaScript strings that may be \<open>null\<close>), the
  JavaScript idioms the sources repeat (\<open>x || d\<close>, \<open>for (i = 0; i < n;
  i += B) xs.slice(i, i + B)\<close>, a log capped by \<open>while (log.length > cap)
  log.shift()\<close>) and their generic lemmas, declared so that the component
  proofs can use them through \<open>simp\<close>.
\<close>

named_theorems store_simps "equations of the local page table operations"
named_theorems sync_simps "equations of the sync engine steps"
named_theorems frame_simps "what a step of the sync engine leaves unchanged"
named_theorems inv_simps "preservation of the sync engine's world invariant"

type_synonym time = int
type_synonym page_id = nat
type_synonym jstr = "string option"

section \<open>JavaScript idioms\<close>

text \<open>\<open>x || d\<close> on a value that is \<open>null\<close>/\<open>undefined\<close> (\<open>None\<close>) or present.\<close>

definition or_default :: "'a option \<Rightarrow> 'a \<Rightarrow> 'a" where
  "or_default x d = (case x of None \<Rightarrow> d | Some v \<Rightarrow> v)"

lemma or_default_simps [simp]:
  "or_default None d = d" "or_default (Some v) d = v"
  by (simp_all add: or_default_def)

text \<open>
  The batching loop of the sync engine:
  \<^verbatim>\<open>for (let i = 0; i < xs.length; i += B) { const batch = xs.slice(i, i + B); ... }\<close>
  visits these batches in this order.
\<close>

function chunks :: "nat \<Rightarrow> 'a list \<Rightarrow> 'a list list" where
  "chunks n xs = (if n = 0 \<or> xs = [] then [] else take n xs # chunks n (drop n xs))"
  by pat_completeness auto
termination
  by (relation "measure (\<lambda>(n, xs). length xs)") auto

declare chunks.simps [simp del]

lemma chunks_Nil [simp]: "chunks n [] = []"
  by (simp add: chunks.simps)

lemma chunks_Cons: "0 < n \<Longrightarrow> xs \<noteq> [] \<Longrightarrow> chunks n xs = take n xs # chunks n (drop n xs)"
  by (simp add: chunks.simps)

lemma concat_chunks [simp]: "0 < n \<Longrightarrow> concat (chunks n xs) = xs"
proof (induction n xs rule: chunks.induct)
  case (1 n xs)
  then show ?case by (cases "xs = []") (simp_all add: chunks_Cons)
qed

lemma chunks_nonempty_bounded:
  "c \<in> set (chunks n xs) \<Longrightarrow> c \<noteq> [] \<and> length c \<le> n"
proof (induction n xs rule: chunks.induct)
  case (1 n xs)
  then show ?case
    by (cases "n = 0 \<or> xs = []") (auto simp: chunks.simps [of n xs])
qed

lemma ceil_div_step:
  assumes "0 < n" and "0 < L"
  shows "(L + n - 1) div n = Suc ((L - n + n - 1) div n)"
proof (cases "L \<le> n")
  case True
  then have a: "L + n - 1 = (L - 1) + n" and b: "L - 1 < n" and c: "L - n + n - 1 = n - 1"
    using assms by arith+
  have "(L - 1 + n) div n = Suc ((L - 1) div n)"
    using assms(1) by (simp add: div_add_self2)
  moreover have "(L - 1) div n = 0" and "(n - 1) div n = 0"
    using b assms(1) by simp_all
  ultimately show ?thesis by (simp only: a c)
next
  case False
  then have a: "L + n - 1 = (L - n + n - 1) + n" using assms by arith
  show ?thesis
    using assms(1) by (simp only: a div_add_self2)
qed

lemma length_chunks:
  "0 < n \<Longrightarrow> length (chunks n xs) = (length xs + n - 1) div n"
proof (induction n xs rule: chunks.induct)
  case (1 n xs)
  show ?case
  proof (cases "xs = []")
    case True
    with "1.prems" show ?thesis by simp
  next
    case False
    with "1" have IH: "length (chunks n (drop n xs)) = (length xs - n + n - 1) div n"
      by simp
    have "(length xs + n - 1) div n = Suc ((length xs - n + n - 1) div n)"
      by (rule ceil_div_step [OF "1.prems"]) (simp add: False)
    with IH show ?thesis
      by (simp only: chunks_Cons [OF "1.prems" False] list.size(4))
  qed
qed

text \<open>
  A log that keeps at most \<open>cap\<close> entries, oldest first:
  \<^verbatim>\<open>log.push(x); while (log.length > cap) log.shift();\<close>
\<close>

definition push_capped :: "nat \<Rightarrow> 'a \<Rightarrow> 'a list \<Rightarrow> 'a list" where
  "push_capped cap x log = drop (length (log @ [x]) - cap) (log @ [x])"

lemma length_push_capped: "length (push_capped cap x log) = min cap (Suc (length log))"
  by (simp add: push_capped_def)

lemma push_capped_last: "0 < cap \<Longrightarrow> last (push_capped cap x log) = x"
  by (simp add: push_capped_def)

lemma push_capped_suffix: "suffix (push_capped cap x log) (log @ [x])"
  unfolding push_capped_def by (rule suffix_drop)

text \<open>\<open>Number.prototype.toString()\<close> of a non-negative integer: its decimal digits.\<close>

text \<open>\<open>Array.prototype.join(sep)\<close> of strings.\<close>

fun js_join :: "string \<Rightarrow> string list \<Rightarrow> string" where
  "js_join sep [] = []"
| "js_join sep [x] = x"
| "js_join sep (x # xs) = x @ sep @ js_join sep xs"

fun dec_nat :: "nat \<Rightarrow> string" where
  "dec_nat n = (if n < 10 then [char_of (48 + n)] else dec_nat (n div 10) @ [char_of (48 + n mod 10)])"

declare dec_nat.simps [simp del]

lemma dec_nat_ne: "dec_nat n \<noteq> []"
  by (subst dec_nat.simps) simp

text \<open>Reading decimal digits back (\<open>parseInt(s, 10)\<close> on digits only).\<close>

definition parse_dec :: "string \<Rightarrow> nat" where
  "parse_dec s = foldl (\<lambda>a c. 10 * a + (of_char c - 48)) 0 s"

lemma parse_dec_snoc: "parse_dec (s @ [c]) = 10 * parse_dec s + (of_char c - 48)"
  by (simp add: parse_dec_def)

lemma parse_dec_dec_nat: "parse_dec (dec_nat n) = n"
proof (induction n rule: dec_nat.induct)
  case (1 n)
  show ?case
  proof (cases "n < 10")
    case True
    then show ?thesis by (subst dec_nat.simps) (simp add: parse_dec_def)
  next
    case False
    then have "parse_dec (dec_nat n) = 10 * parse_dec (dec_nat (n div 10)) + n mod 10"
      by (subst dec_nat.simps) (simp add: parse_dec_snoc)
    then show ?thesis using 1 False by simp
  qed
qed

lemma dec_nat_inj: "dec_nat m = dec_nat n \<longleftrightarrow> m = n"
  by (metis parse_dec_dec_nat)

section \<open>Lists and maps\<close>

lemma distinct_map_tl: "distinct (map f xs) \<Longrightarrow> distinct (map f (tl xs))"
  by (cases xs) auto

lemma fold_map_upd_notin:
  "a \<notin> k ` set xs \<Longrightarrow> fold (\<lambda>x m. m(k x \<mapsto> v x)) xs m a = m a"
  by (induction xs arbitrary: m) auto

lemma fold_map_upd_in:
  "distinct (map k xs) \<Longrightarrow> x \<in> set xs \<Longrightarrow> fold (\<lambda>x m. m(k x \<mapsto> v x)) xs m (k x) = Some (v x)"
proof (induction xs arbitrary: m)
  case Nil then show ?case by simp
next
  case (Cons y ys)
  show ?case
  proof (cases "x = y")
    case True
    then have "k x \<notin> k ` set ys" using Cons.prems by simp
    then have "fold (\<lambda>x m. m(k x \<mapsto> v x)) ys (m(k x \<mapsto> v x)) (k x) = (m(k x \<mapsto> v x)) (k x)"
      by (rule fold_map_upd_notin)
    then show ?thesis using True by (simp only: fold_Cons comp_apply fun_upd_same)
  next
    case False
    then show ?thesis using Cons by simp
  qed
qed

lemma last_concat: "xss \<noteq> [] \<Longrightarrow> last xss \<noteq> [] \<Longrightarrow> last (concat xss) = last (last xss)"
  by (induction xss rule: rev_induct) (auto simp: last_append)

lemma last_last_chunks:
  "0 < n \<Longrightarrow> xs \<noteq> [] \<Longrightarrow> last (last (chunks n xs)) = last xs"
proof -
  assume n: "0 < n" and xs: "xs \<noteq> []"
  have ne: "chunks n xs \<noteq> []" using n xs by (simp add: chunks.simps)
  then have "last (chunks n xs) \<noteq> []" using chunks_nonempty_bounded last_in_set by blast
  then show ?thesis using n ne last_concat [of "chunks n xs"] by simp
qed

end
