(* ===== verification/LocalStore.thy ===== *)
theory LocalStore
  imports Prelude
begin

text \<open>
  The local store of \<^verbatim>\<open>src/src/utils/noteTextStorage.js\<close>: the Dexie table
  \<open>pages\<close> (a list of rows in primary-key order, the order in which Dexie returns
  them), the helpers of \<open>noteTextStorage\<close> that the sync engine calls, and the
  durable set of page ids marked for deletion kept by \<open>appMetadataStorage\<close>.
  The table is abstracted to a map by \<open>table_map\<close>; every operation is shown to
  keep the table well formed (strictly increasing ids) and to refine the
  corresponding map update.
\<close>

section \<open>Rows and the table\<close>

datatype sync_status = Synced | Merged | Pending | StatusError

record page =
  pg_id :: page_id
  pg_name :: string
  pg_order :: int
  pg_content :: jstr
  pg_createdAt :: time
  pg_lastModified :: time
  pg_lastSynced :: "time option"
  pg_isEncrypted :: bool
  pg_pendingSync :: bool
  pg_syncStatus :: sync_status

type_synonym table = "page list"

datatype store_error = ConstraintError | DataError

definition table_wf :: "table \<Rightarrow> bool" where
  "table_wf t \<longleftrightarrow> sorted_wrt (<) (map pg_id t)"

definition table_map :: "table \<Rightarrow> page_id \<rightharpoonup> page" where
  "table_map t = map_of (map (\<lambda>p. (pg_id p, p)) t)"

text \<open>\<open>db.pages.get(id)\<close>\<close>

definition table_get :: "table \<Rightarrow> page_id \<Rightarrow> page option" where
  "table_get t i = find (\<lambda>p. pg_id p = i) t"

text \<open>\<open>db.pages.update(id, changes)\<close>: changes the row if there is one, else nothing.\<close>

definition table_update :: "table \<Rightarrow> page_id \<Rightarrow> (page \<Rightarrow> page) \<Rightarrow> table" where
  "table_update t i f = map (\<lambda>p. if pg_id p = i then f p else p) t"

text \<open>\<open>db.pages.delete(id)\<close>\<close>

definition table_delete :: "table \<Rightarrow> page_id \<Rightarrow> table" where
  "table_delete t i = filter (\<lambda>p. pg_id p \<noteq> i) t"

text \<open>\<open>db.pages.add(page)\<close>: rejects a key that is already present.\<close>

definition table_add :: "table \<Rightarrow> page \<Rightarrow> store_error + table" where
  "table_add t p =
     (if table_get t (pg_id p) \<noteq> None then Inl ConstraintError
      else Inr (insort_key pg_id p t))"

text \<open>
  Writing a whole row under its key: the row replaces the one stored, or is
  inserted. This is also a Firestore \<open>batch.set(ref, doc, {merge: true})\<close> of a
  document that carries every field.
\<close>

definition table_put :: "table \<Rightarrow> page \<Rightarrow> table" where
  "table_put t p =
     (if table_get t (pg_id p) = None then insort_key pg_id p t
      else table_update t (pg_id p) (\<lambda>_. p))"

section \<open>noteTextStorage\<close>

text \<open>
  \<open>savePage(pageId, content, vaultKey)\<close>: the third argument is a vault key that
  the body never reads; the row gets the content, \<open>lastModified = now\<close> and
  \<open>pendingSync = 1\<close>, whatever the caller passed as third argument.
\<close>

definition savePage :: "time \<Rightarrow> table \<Rightarrow> page_id \<Rightarrow> jstr \<Rightarrow> table" where
  "savePage now t i c =
     table_update t i (\<lambda>p. p\<lparr>pg_content := c, pg_lastModified := now, pg_pendingSync := True\<rparr>)"

text \<open>\<open>updatePage(pageId, updates)\<close>: the updates and \<open>pendingSync = 1\<close>.\<close>

definition updatePage :: "table \<Rightarrow> page_id \<Rightarrow> (page \<Rightarrow> page) \<Rightarrow> table" where
  "updatePage t i upd = table_update t i (\<lambda>p. (upd p)\<lparr>pg_pendingSync := True\<rparr>)"

definition deletePage :: "table \<Rightarrow> page_id \<Rightarrow> table" where
  "deletePage t i = table_delete t i"

text \<open>
  \<open>createPageFromFirestore(pageId, name, order, ...)\<close>. A Dexie key argument is
  either a page id or, when a caller passes an object, not a key at all. With no
  existing row the body calls \<open>db.pages.add(pageId, data)\<close>: the key goes where
  Dexie expects the row and the row where it expects an explicit key, which a
  table with an inbound key (\<open>++id\<close>) rejects. \<open>data\<close> is the field update the
  body builds from its arguments.
\<close>

datatype dexie_key = KeyId page_id | KeyObject

definition createPageFromFirestore :: "table \<Rightarrow> dexie_key \<Rightarrow> (page \<Rightarrow> page) \<Rightarrow> store_error + table" where
  "createPageFromFirestore t k data =
     (case k of
        KeyId i \<Rightarrow> (case table_get t i of Some _ \<Rightarrow> Inr (table_update t i data) | None \<Rightarrow> Inl DataError)
      | KeyObject \<Rightarrow> Inl DataError)"

text \<open>\<open>getPendingSyncPages()\<close>: \<open>where('pendingSync').equals(1)\<close>.\<close>

definition getPendingSyncPages :: "table \<Rightarrow> page list" where
  "getPendingSyncPages t = filter pg_pendingSync t"

text \<open>\<open>where("id").above(token).and(page => page.pendingSync === 1)\<close>\<close>

definition pendingPagesAbove :: "table \<Rightarrow> page_id \<Rightarrow> page list" where
  "pendingPagesAbove t tok = filter (\<lambda>p. tok < pg_id p \<and> pg_pendingSync p) t"

text \<open>\<open>getPages()\<close>: \<open>orderBy('order')\<close>, ties in primary-key order.\<close>

definition getPages :: "table \<Rightarrow> page list" where
  "getPages t = sort_key pg_order t"

section \<open>The deletion set of appMetadataStorage\<close>

text \<open>
  \<open>deletedPageIds\<close> is stored as \<open>Array.from(set)\<close>: a list without repetitions
  in insertion order.
\<close>

definition markPageForDeletion :: "page_id list \<Rightarrow> page_id \<Rightarrow> page_id list" where
  "markPageForDeletion ids i = (if i \<in> set ids then ids else ids @ [i])"

definition clearDeletedPageId :: "page_id list \<Rightarrow> page_id \<Rightarrow> page_id list" where
  "clearDeletedPageId ids i = removeAll i ids"

text \<open>A row with the given id and content and every other field at its default, for examples.\<close>

definition sample_page :: "page_id \<Rightarrow> string \<Rightarrow> page" where
  "sample_page i c =
     \<lparr>pg_id = i, pg_name = ''Page'', pg_order = 1, pg_content = Some c, pg_createdAt = 0,
      pg_lastModified = 0, pg_lastSynced = None, pg_isEncrypted = False, pg_pendingSync = False,
      pg_syncStatus = Synced\<rparr>"

lemmas table_defs [store_simps] =
  table_get_def table_update_def table_delete_def table_add_def
  savePage_def updatePage_def deletePage_def

section \<open>The table invariant\<close>

lemma map_pg_id_table_update [simp]:
  "(\<And>p. pg_id (f p) = pg_id p) \<Longrightarrow> map pg_id (table_update t i f) = map pg_id t"
  by (induction t) (simp_all add: table_update_def)

lemma table_wf_update:
  "(\<And>p. pg_id (f p) = pg_id p) \<Longrightarrow> table_wf t \<Longrightarrow> table_wf (table_update t i f)"
  by (simp add: table_wf_def)

lemma table_wf_delete: "table_wf t \<Longrightarrow> table_wf (table_delete t i)"
  by (simp add: table_wf_def table_delete_def sorted_wrt_filter sorted_wrt_map)

lemma table_wf_add:
  assumes "table_wf t" and "table_add t p = Inr t'"
  shows "table_wf t'"
proof -
  have new: "pg_id p \<notin> pg_id ` set t"
    using assms(2) by (auto simp: table_add_def table_get_def find_None_iff split: if_splits)
  have t': "t' = insort_key pg_id p t"
    using assms(2) by (simp add: table_add_def split: if_splits)
  have "sorted (map pg_id t)" and "distinct (map pg_id t)"
    using assms(1) by (simp_all add: table_wf_def strict_sorted_iff)
  then have "sorted (map pg_id t') \<and> distinct (map pg_id t')"
    using new by (simp add: t' sorted_insort_key distinct_insort_key)
  then show ?thesis
    by (simp add: table_wf_def strict_sorted_iff)
qed

lemma table_wf_savePage: "table_wf t \<Longrightarrow> table_wf (savePage now t i c)"
  by (simp add: savePage_def table_wf_update)

lemma table_wf_updatePage:
  "(\<And>p. pg_id (upd p) = pg_id p) \<Longrightarrow> table_wf t \<Longrightarrow> table_wf (updatePage t i upd)"
  by (simp add: updatePage_def table_wf_update)

section \<open>Refinement: the table implements a map\<close>

lemma table_map_get: "table_wf t \<Longrightarrow> table_get t i = table_map t i"
proof (induction t)
  case Nil
  then show ?case by (simp add: table_get_def table_map_def)
next
  case (Cons p t)
  then have "table_wf t" by (simp add: table_wf_def)
  with Cons show ?case by (simp add: table_get_def table_map_def)
qed

lemma table_map_update:
  "table_map (table_update t i f) = (table_map t)(i := map_option f (table_map t i))"
  if "\<And>p. pg_id (f p) = pg_id p"
proof
  fix j
  show "table_map (table_update t i f) j = ((table_map t)(i := map_option f (table_map t i))) j"
    using that by (induction t) (auto simp: table_map_def table_update_def)
qed

lemma table_map_delete: "table_map (table_delete t i) = (table_map t)(i := None)"
proof
  fix j
  show "table_map (table_delete t i) j = ((table_map t)(i := None)) j"
    by (induction t) (auto simp: table_map_def table_delete_def)
qed

lemma table_map_insort:
  "pg_id p \<notin> set (map pg_id t) \<Longrightarrow>
   table_map (insort_key pg_id p t) = (table_map t)(pg_id p \<mapsto> p)"
proof
  fix j
  assume "pg_id p \<notin> set (map pg_id t)"
  then show "table_map (insort_key pg_id p t) j = ((table_map t)(pg_id p \<mapsto> p)) j"
    by (induction t) (auto simp: table_map_def)
qed

lemma table_map_add:
  assumes "table_add t p = Inr t'"
  shows "table_map t' = (table_map t)(pg_id p \<mapsto> p)"
proof -
  have "pg_id p \<notin> set (map pg_id t)" and t': "t' = insort_key pg_id p t"
    using assms by (auto simp: table_add_def table_get_def find_None_iff split: if_splits)
  then show ?thesis by (simp add: table_map_insort)
qed

lemma table_wf_put: "table_wf t \<Longrightarrow> table_wf (table_put t p)"
proof (cases "table_get t (pg_id p) = None")
  case True
  assume wf: "table_wf t"
  with True have "table_add t p = Inr (table_put t p)"
    by (simp add: table_add_def table_put_def)
  with wf show ?thesis by (rule table_wf_add)
next
  case False
  assume "table_wf t"
  then have "table_wf (table_update t (pg_id p) (\<lambda>_. p))"
  proof -
    have "map pg_id (table_update t (pg_id p) (\<lambda>_. p)) = map pg_id t"
      by (induction t) (simp_all add: table_update_def)
    with \<open>table_wf t\<close> show ?thesis by (simp add: table_wf_def)
  qed
  with False show ?thesis by (auto simp: table_put_def)
qed

lemma table_map_update_const_other:
  "j \<noteq> pg_id p \<Longrightarrow> table_map (table_update t (pg_id p) (\<lambda>_. p)) j = table_map t j"
  by (induction t) (auto simp: table_map_def table_update_def)

lemma table_map_update_const_same:
  "\<exists>q\<in>set t. pg_id q = pg_id p \<Longrightarrow> table_map (table_update t (pg_id p) (\<lambda>_. p)) (pg_id p) = Some p"
  by (induction t) (auto simp: table_map_def table_update_def)

lemma table_map_update_const:
  "\<exists>q\<in>set t. pg_id q = pg_id p \<Longrightarrow>
   table_map (table_update t (pg_id p) (\<lambda>_. p)) j = ((table_map t)(pg_id p \<mapsto> p)) j"
  by (cases "j = pg_id p") (simp_all add: table_map_update_const_other table_map_update_const_same)

lemma table_map_put: "table_map (table_put t p) = (table_map t)(pg_id p \<mapsto> p)"
proof (cases "table_get t (pg_id p) = None")
  case True
  then have "pg_id p \<notin> set (map pg_id t)"
    by (auto simp: table_get_def find_None_iff)
  with True show ?thesis by (simp add: table_put_def table_map_insort)
next
  case False
  then obtain q where q: "q \<in> set t" "pg_id q = pg_id p"
    by (auto simp: table_get_def find_None_iff)
  then have "table_map (table_update t (pg_id p) (\<lambda>_. p)) j = ((table_map t)(pg_id p \<mapsto> p)) j" for j
    by (intro table_map_update_const) blast
  with False show ?thesis by (auto simp: table_put_def)
qed

lemma table_add_error:
  "table_add t p = Inl e \<longleftrightarrow> e = ConstraintError \<and> (\<exists>q\<in>set t. pg_id q = pg_id p)"
  by (auto simp: table_add_def table_get_def find_None_iff)


lemma table_get_delete: "table_get (table_delete t i) j = (if j = i then None else table_get t j)"
  by (induction t) (auto simp: table_get_def table_delete_def find_None_iff)

lemma table_get_fold_delete:
  "table_get (fold (\<lambda>i t. table_delete t i) ids t) j = (if j \<in> set ids then None else table_get t j)"
  by (induction ids arbitrary: t) (auto simp: table_get_delete)

end
