(* ===== verification/Merge.thy ===== *)
theory Merge
  imports LocalStore
begin

text \<open>
  Conflict resolution of the sync engine (\<^verbatim>\<open>src/src/firebase2.js\<close>,
  \<open>shouldMergePages\<close> and \<open>mergeAndSavePages\<close>). A remote document has the shape
  of a local row (the upload spreads the row, \<open>{...page}\<close>), with its content
  encrypted when \<open>isEncrypted\<close> is set. \<open>merged_page\<close> is the object the code
  computes; \<open>mergeAndSavePages\<close> is what it writes, through \<open>savePage\<close>.
\<close>

type_synonym remote_doc = page

text \<open>\<open>s.length\<close> of a string that may be \<open>null\<close>: \<open>None\<close> is the TypeError.\<close>

definition js_length :: "jstr \<Rightarrow> nat option" where
  "js_length s = map_option length s"

text \<open>JavaScript truthiness of the name and order fields.\<close>

definition truthy_str :: "string \<Rightarrow> bool" where
  "truthy_str s \<longleftrightarrow> s \<noteq> []"

definition truthy_int :: "int \<Rightarrow> bool" where
  "truthy_int n \<longleftrightarrow> n \<noteq> 0"

definition MERGE_TOLERANCE :: int where
  "MERGE_TOLERANCE = 60000"

definition shouldMergePages :: "page \<Rightarrow> remote_doc \<Rightarrow> bool" where
  "shouldMergePages l r =
     (if pg_pendingSync l then
        pg_content l \<noteq> pg_content r \<or> pg_name l \<noteq> pg_name r \<or> pg_order l \<noteq> pg_order r
      else if MERGE_TOLERANCE < \<bar>pg_lastModified l - pg_lastModified r\<bar> then True
      else if pg_content l \<noteq> pg_content r then True
      else if pg_name l \<noteq> pg_name r \<or> pg_order l \<noteq> pg_order r then True
      else False)"

text \<open>
  The merged object of \<open>mergeAndSavePages\<close>, \<open>None\<close> when the code throws: the
  comparison \<open>decryptedRemoteContent.length > localPage.content.length\<close> on a
  \<open>null\<close> string.
\<close>

definition merged_page :: "page \<Rightarrow> remote_doc \<Rightarrow> jstr \<Rightarrow> page option" where
  "merged_page l r dec =
     (if pg_lastModified l < pg_lastModified r then
        (let taken = (\<lambda>m. m\<lparr>pg_name := pg_name r, pg_order := pg_order r,
                              pg_lastModified := pg_lastModified r\<rparr>) in
         if pg_pendingSync l then
           (if dec \<noteq> pg_content l then
              (case (js_length dec, js_length (pg_content l)) of
                 (Some n, Some k) \<Rightarrow>
                   Some (taken (l\<lparr>pg_content := (if k < n then dec else pg_content l),
                                  pg_pendingSync := True\<rparr>))
               | _ \<Rightarrow> None)
            else Some (taken l))
         else Some (taken (l\<lparr>pg_content := dec\<rparr>)))
      else
        (let m1 = (if truthy_str (pg_name r) \<and> pg_name r \<noteq> pg_name l
                   then l\<lparr>pg_name := pg_name r, pg_pendingSync := True\<rparr> else l) in
         Some (if truthy_int (pg_order r) \<and> pg_order r \<noteq> pg_order l
               then m1\<lparr>pg_order := pg_order r, pg_pendingSync := True\<rparr> else m1)))"

datatype merge_error = MergeTypeError

text \<open>
  \<open>noteTextStorage.savePage(localPage.id, mergedPage.content, {name, order,
  pendingSync, lastModified, syncStatus})\<close>: the object lands in the unused
  \<open>vaultKey\<close> parameter, so only the content is written.
\<close>

definition mergeAndSavePages :: "time \<Rightarrow> table \<Rightarrow> page \<Rightarrow> remote_doc \<Rightarrow> jstr \<Rightarrow> merge_error + table" where
  "mergeAndSavePages now t l r dec =
     (case merged_page l r dec of
        None \<Rightarrow> Inl MergeTypeError
      | Some m \<Rightarrow> Inr (savePage now t (pg_id l) (pg_content m)))"

section \<open>The decision\<close>

lemma shouldMerge_pending_iff:
  "pg_pendingSync l \<Longrightarrow>
   shouldMergePages l r \<longleftrightarrow>
     pg_content l \<noteq> pg_content r \<or> pg_name l \<noteq> pg_name r \<or> pg_order l \<noteq> pg_order r"
  by (simp add: shouldMergePages_def)

lemma shouldMerge_clean_iff:
  "\<not> pg_pendingSync l \<Longrightarrow>
   shouldMergePages l r \<longleftrightarrow>
     60000 < \<bar>pg_lastModified l - pg_lastModified r\<bar> \<or> pg_content l \<noteq> pg_content r
     \<or> pg_name l \<noteq> pg_name r \<or> pg_order l \<noteq> pg_order r"
  by (simp add: shouldMergePages_def MERGE_TOLERANCE_def)

text \<open>Whatever the flags, a merge is skipped only when content, name and order agree.\<close>

lemma shouldMerge_differs:
  "pg_content l \<noteq> pg_content r \<or> pg_name l \<noteq> pg_name r \<or> pg_order l \<noteq> pg_order r \<Longrightarrow>
   shouldMergePages l r"
  by (simp add: shouldMergePages_def)

section \<open>The merged object\<close>

lemma merged_page_id: "merged_page l r dec = Some m \<Longrightarrow> pg_id m = pg_id l"
  by (auto simp: merged_page_def Let_def split: if_splits option.splits prod.splits)

lemma merged_page_remote_clean:
  "pg_lastModified l < pg_lastModified r \<Longrightarrow> \<not> pg_pendingSync l \<Longrightarrow>
   merged_page l r dec =
     Some (l\<lparr>pg_content := dec, pg_name := pg_name r, pg_order := pg_order r,
             pg_lastModified := pg_lastModified r\<rparr>)"
  by (simp add: merged_page_def)

lemma merged_page_remote_pending:
  assumes "pg_lastModified l < pg_lastModified r" and "pg_pendingSync l"
    and "dec = Some d" and "pg_content l = Some c" and "Some d \<noteq> Some c"
  shows "merged_page l r dec =
     Some (l\<lparr>pg_content := Some (if length c < length d then d else c), pg_pendingSync := True,
             pg_name := pg_name r, pg_order := pg_order r, pg_lastModified := pg_lastModified r\<rparr>)"
  using assms by (auto simp: merged_page_def js_length_def)

lemma merged_page_keeps_longer:
  "pg_lastModified l < pg_lastModified r \<Longrightarrow> pg_pendingSync l \<Longrightarrow>
   merged_page l r (Some d) = Some m \<Longrightarrow> pg_content l = Some c \<Longrightarrow>
   pg_content m = Some (if length c < length d then d else c)"
  by (auto simp: merged_page_def js_length_def Let_def split: if_splits)

lemma merged_page_null_fails:
  "pg_lastModified l < pg_lastModified r \<Longrightarrow> pg_pendingSync l \<Longrightarrow>
   pg_content l \<noteq> None \<Longrightarrow> merged_page l r None = None"
  by (auto simp: merged_page_def js_length_def)

lemma merged_page_local_content:
  "\<not> pg_lastModified l < pg_lastModified r \<Longrightarrow> merged_page l r dec = Some m \<Longrightarrow>
   pg_content m = pg_content l \<and> pg_lastModified m = pg_lastModified l"
  by (auto simp: merged_page_def Let_def split: if_splits)

lemma merged_page_local_pending:
  "\<not> pg_lastModified l < pg_lastModified r \<Longrightarrow> merged_page l r dec = Some m \<Longrightarrow>
   pg_pendingSync m \<longleftrightarrow> pg_pendingSync l
     \<or> (truthy_str (pg_name r) \<and> pg_name r \<noteq> pg_name l)
     \<or> (truthy_int (pg_order r) \<and> pg_order r \<noteq> pg_order l)"
  by (auto simp: merged_page_def Let_def split: if_splits)

section \<open>What is written\<close>

lemma mergeAndSavePages_Inr:
  "mergeAndSavePages now t l r dec = Inr t' \<longleftrightarrow>
   (\<exists>m. merged_page l r dec = Some m \<and> t' = savePage now t (pg_id l) (pg_content m))"
  by (auto simp: mergeAndSavePages_def split: option.splits)

lemma mergeAndSavePages_row:
  assumes "mergeAndSavePages now t l r dec = Inr t'" and "table_map t (pg_id l) = Some p"
  obtains m where "merged_page l r dec = Some m"
    and "table_map t' (pg_id l) =
           Some (p\<lparr>pg_content := pg_content m, pg_lastModified := now, pg_pendingSync := True\<rparr>)"
  using assms by (auto simp: mergeAndSavePages_Inr savePage_def table_map_update)

lemma mergeAndSavePages_frame:
  "mergeAndSavePages now t l r dec = Inr t' \<Longrightarrow> j \<noteq> pg_id l \<Longrightarrow> table_map t' j = table_map t j"
  by (auto simp: mergeAndSavePages_Inr savePage_def table_map_update)

lemma table_wf_mergeAndSavePages:
  "table_wf t \<Longrightarrow> mergeAndSavePages now t l r dec = Inr t' \<Longrightarrow> table_wf t'"
  by (auto simp: mergeAndSavePages_Inr table_wf_savePage)

section \<open>Properties\<close>

text \<open>
  C6. a local page with unpushed edits (\<open>pendingSync = 1\<close>) whose content
  differs from the downloaded document is always merged.
\<close>

theorem shouldMerge_pending_content_differs:
  assumes "pg_pendingSync l" and "pg_content l \<noteq> pg_content r"
  shows "shouldMergePages l r"
  using assms by (simp add: shouldMergePages_def)

theorem shouldMerge_pending_content_differs_witness:
  "pg_pendingSync ((sample_page 1 ''a'')\<lparr>pg_pendingSync := True\<rparr>)
   \<and> pg_content ((sample_page 1 ''a'')\<lparr>pg_pendingSync := True\<rparr>) \<noteq> pg_content (sample_page 1 ''b'')
   \<and> shouldMergePages ((sample_page 1 ''a'')\<lparr>pg_pendingSync := True\<rparr>) (sample_page 1 ''b'')"
  using shouldMerge_pending_content_differs
    [of "(sample_page 1 ''a'')\<lparr>pg_pendingSync := True\<rparr>" "sample_page 1 ''b''"]
  by (simp add: sample_page_def)

text \<open>
  C7. two versions with the same content, name and order whose modification
  times are at most 60 seconds apart are not merged.
\<close>

theorem shouldMerge_identical_within_tolerance:
  assumes "pg_content l = pg_content r" and "pg_name l = pg_name r" and "pg_order l = pg_order r"
    and "\<bar>pg_lastModified l - pg_lastModified r\<bar> \<le> 60000"
  shows "\<not> shouldMergePages l r"
  using assms by (simp add: shouldMergePages_def MERGE_TOLERANCE_def)

theorem shouldMerge_identical_within_tolerance_witness:
  "\<bar>pg_lastModified (sample_page 1 ''a'') - pg_lastModified ((sample_page 1 ''a'')\<lparr>pg_lastModified := 30000\<rparr>)\<bar> \<le> 60000
   \<and> \<not> shouldMergePages (sample_page 1 ''a'') ((sample_page 1 ''a'')\<lparr>pg_lastModified := 30000\<rparr>)"
  using shouldMerge_identical_within_tolerance
    [of "sample_page 1 ''a''" "(sample_page 1 ''a'')\<lparr>pg_lastModified := 30000\<rparr>"]
  by (simp add: sample_page_def)

text \<open>
  C8. whatever the merge policy decides, the row \<open>mergeAndSavePages\<close> writes
  keeps its old name and order and is flagged \<open>pendingSync = 1\<close> with
  \<open>lastModified = now\<close>: only the merged content reaches \<open>savePage\<close>.
\<close>

theorem mergeAndSavePages_written_row:
  assumes "mergeAndSavePages now t l r dec = Inr t'" and "table_map t (pg_id l) = Some p"
  shows "\<exists>c. table_map t' (pg_id l) =
           Some (p\<lparr>pg_content := c, pg_lastModified := now, pg_pendingSync := True\<rparr>)"
  using assms by (auto simp: mergeAndSavePages_Inr savePage_def table_map_update)

theorem mergeAndSavePages_written_row_witness:
  "mergeAndSavePages 100 [sample_page 1 ''a''] (sample_page 1 ''a'')
      ((sample_page 1 ''a'')\<lparr>pg_name := ''Renamed'', pg_lastModified := 50\<rparr>) (Some ''a'')
     = Inr [(sample_page 1 ''a'')\<lparr>pg_lastModified := 100, pg_pendingSync := True\<rparr>]
   \<and> table_map [sample_page 1 ''a''] 1 = Some (sample_page 1 ''a'')
   \<and> table_map [(sample_page 1 ''a'')\<lparr>pg_lastModified := 100, pg_pendingSync := True\<rparr>] 1
       = Some ((sample_page 1 ''a'')\<lparr>pg_content := Some ''a'', pg_lastModified := 100, pg_pendingSync := True\<rparr>)"
proof -
  have run: "mergeAndSavePages 100 [sample_page 1 ''a''] (sample_page 1 ''a'')
      ((sample_page 1 ''a'')\<lparr>pg_name := ''Renamed'', pg_lastModified := 50\<rparr>) (Some ''a'')
     = Inr [(sample_page 1 ''a'')\<lparr>pg_lastModified := 100, pg_pendingSync := True\<rparr>]"
    by (simp add: mergeAndSavePages_def merged_page_def sample_page_def savePage_def
        table_update_def truthy_str_def truthy_int_def)
  have old: "table_map [sample_page 1 ''a''] 1 = Some (sample_page 1 ''a'')"
    by (simp add: table_map_def sample_page_def)
  from mergeAndSavePages_written_row [OF run, of "sample_page 1 ''a''"] old
  obtain c where "table_map [(sample_page 1 ''a'')\<lparr>pg_lastModified := 100, pg_pendingSync := True\<rparr>] 1
      = Some ((sample_page 1 ''a'')\<lparr>pg_content := c, pg_lastModified := 100, pg_pendingSync := True\<rparr>)"
    by (auto simp: sample_page_def)
  then show ?thesis using run old by (simp add: table_map_def sample_page_def)
qed

end
