(* ===== verification/SyncState.thy ===== *)
theory SyncState
  imports Merge
begin

text \<open>
  The state of the sync engine of \<^verbatim>\<open>src/src/firebase2.js\<close> and its helpers:
  \<open>syncState\<close>, the persisted metadata it reads and writes, the environment a
  job runs in (the local table, the remote collections, the vault key, and the
  outcomes of the operations the code cannot predict: remote failures,
  \<open>Math.random()\<close> and a concurrent \<open>lockUserVault()\<close>), and the helpers
  \<open>executeWithRetry\<close>, \<open>logSyncError\<close>, \<open>saveCheckpoint\<close>,
  \<open>saveResumeCheckpoint\<close>, \<open>checkVaultLock\<close>, \<open>handleSyncRetry\<close>,
  \<open>resetSyncState\<close> and \<open>abortSync\<close>.
\<close>

section \<open>Configuration\<close>

definition BATCH_SIZE :: nat where "BATCH_SIZE = 20"
definition MAX_RETRIES :: nat where "MAX_RETRIES = 5"
definition BASE_RETRY_DELAY :: nat where "BASE_RETRY_DELAY = 200"
definition SYNC_PAGE_LIMIT :: nat where "SYNC_PAGE_LIMIT = 50"
definition ERROR_LOG_LIMIT :: nat where "ERROR_LOG_LIMIT = 100"

lemmas sync_config = BATCH_SIZE_def MAX_RETRIES_def BASE_RETRY_DELAY_def
  SYNC_PAGE_LIMIT_def ERROR_LOG_LIMIT_def

section \<open>State\<close>

datatype phase = Downloading | Uploading | Deleting

text \<open>The logged operations, one per string literal passed to \<open>logSyncError\<close>.\<close>

datatype sync_op =
    OpDownloadBatch | OpDecryptError | OpProcessDownload | OpPrepareUpload | OpUploadBatch
  | OpUploadPages | OpHandleDeletions | OpMergeOperation | OpSyncJob | OpResumeSync
  | OpProcessTombstoneDelete | OpFetchTombstones | OpVaultUnlock | OpVaultCreation
  | OpPassphraseChange

record error_info =
  ei_operation :: sync_op
  ei_documentId :: "page_id option"
  ei_timestamp :: time
  ei_jobId :: "nat option"

text \<open>
  The key \<open>`${operation}:${documentId || 'general'}`\<close>: a falsy id
  (\<open>null\<close> or \<open>0\<close>) gives \<open>general\<close>.
\<close>

type_synonym err_key = "sync_op \<times> page_id option"

definition error_key :: "sync_op \<Rightarrow> page_id option \<Rightarrow> err_key" where
  "error_key op d = (op, if d = Some 0 then None else d)"

record checkpoint =
  cp_jobId :: "nat option"
  cp_phase :: "phase option"
  cp_resumeToken :: "page_id option"
  cp_processedItems :: nat
  cp_totalItems :: nat
  cp_failedItems :: "page_id list"
  cp_timestamp :: time

record sync_state =
  ss_inProgress :: bool
  ss_currentJobId :: "nat option"
  ss_totalItems :: nat
  ss_processedItems :: nat
  ss_startTime :: "time option"
  ss_failedItems :: "page_id list"
  ss_resumeToken :: "page_id option"
  ss_errorLog :: "(err_key \<times> error_info) list"
  ss_aborted :: bool
  ss_phase :: "phase option"
  ss_currentBatch :: nat
  ss_totalBatches :: nat

text \<open>The object literal \<open>syncState\<close> at module load.\<close>

definition init_sync_state :: sync_state where
  "init_sync_state =
     \<lparr>ss_inProgress = False, ss_currentJobId = None, ss_totalItems = 0, ss_processedItems = 0,
      ss_startTime = None, ss_failedItems = [], ss_resumeToken = None, ss_errorLog = [],
      ss_aborted = False, ss_phase = None, ss_currentBatch = 0, ss_totalBatches = 0\<rparr>"

record meta =
  md_lastSyncTime :: "time option"
  md_pendingSyncJob :: "checkpoint option"
  md_deletedPageIds :: "page_id list"
  md_syncErrorLog :: "error_info list"
  md_lastSuccessfulSync :: "(time \<times> nat) option"

text \<open>The metadata table before anything was stored: every \<open>getItem\<close> gives \<open>null\<close>.\<close>

definition empty_meta :: meta where
  "empty_meta =
     \<lparr>md_lastSyncTime = None, md_pendingSyncJob = None, md_deletedPageIds = [],
      md_syncErrorLog = [], md_lastSuccessfulSync = None\<rparr>"

type_synonym tombstone = "page_id \<times> time"

text \<open>
  The world of one engine instance. The oracle lists are consumed in order:
  \<open>w_faults\<close> says which remote operation attempts throw (an empty list: none),
  \<open>w_coins\<close> gives \<open>Math.random() < 0.2\<close> at each \<open>saveResumeCheckpoint\<close>,
  \<open>w_jitter\<close> gives \<open>Math.floor(Math.random() * maxJitter)\<close>, and \<open>w_locks\<close>
  says at which \<open>checkVaultLock\<close> a concurrent \<open>lockUserVault()\<close> has run.
  \<open>w_edits\<close> are the \<open>savePage\<close> calls of the editor (page id, new content) that
  run while \<open>processUploadBatch\<close> awaits its batch commit; the other await points
  of a job are not interleaved with edits.
  \<open>w_recovery\<close> counts the recovery syncs \<open>scheduleRecovery\<close> has put on a timer.
  \<open>w_encrypt\<close> and \<open>w_decrypt\<close> are \<open>encryptData(key, _)\<close> and
  \<open>decryptData(key, _)\<close> under the current key; both return \<open>null\<close> on failure.
\<close>

record world =
  w_local :: table
  w_meta :: meta
  w_remote :: table
  w_tombs :: "tombstone list"
  w_vault :: bool
  w_user :: bool
  w_sync :: sync_state
  w_now :: time
  w_nextJob :: nat
  w_faults :: "bool list"
  w_coins :: "bool list"
  w_jitter :: "nat list"
  w_locks :: "bool list"
  w_edits :: "(page_id \<times> jstr) list"
  w_recovery :: nat
  w_encrypt :: "jstr \<Rightarrow> jstr"
  w_decrypt :: "string \<Rightarrow> jstr"

section \<open>Helpers\<close>

text \<open>\<open>resetSyncState()\<close>: everything but the error log.\<close>

definition resetSyncState :: "sync_state \<Rightarrow> sync_state" where
  "resetSyncState s = s\<lparr>ss_inProgress := False, ss_currentJobId := None, ss_totalItems := 0,
     ss_processedItems := 0, ss_startTime := None, ss_failedItems := [], ss_resumeToken := None,
     ss_aborted := False, ss_phase := None, ss_currentBatch := 0, ss_totalBatches := 0\<rparr>"

text \<open>\<open>saveCheckpoint()\<close>\<close>

definition checkpoint_of :: "time \<Rightarrow> sync_state \<Rightarrow> checkpoint" where
  "checkpoint_of now s =
     \<lparr>cp_jobId = ss_currentJobId s, cp_phase = ss_phase s, cp_resumeToken = ss_resumeToken s,
      cp_processedItems = ss_processedItems s, cp_totalItems = ss_totalItems s,
      cp_failedItems = ss_failedItems s, cp_timestamp = now\<rparr>"

definition saveCheckpoint :: "world \<Rightarrow> world" where
  "saveCheckpoint w =
     w\<lparr>w_meta := (w_meta w)\<lparr>md_pendingSyncJob := Some (checkpoint_of (w_now w) (w_sync w))\<rparr>\<rparr>"

text \<open>\<open>Math.random()\<close> below 0.2, read from the oracle.\<close>

definition take_coin :: "world \<Rightarrow> bool \<times> world" where
  "take_coin w = (case w_coins w of [] \<Rightarrow> (False, w) | c # cs \<Rightarrow> (c, w\<lparr>w_coins := cs\<rparr>))"

text \<open>\<open>saveResumeCheckpoint(phase, token)\<close>\<close>

definition saveResumeCheckpoint :: "phase \<Rightarrow> page_id option \<Rightarrow> world \<Rightarrow> world" where
  "saveResumeCheckpoint ph tok w =
     (let w1 = w\<lparr>w_sync := (w_sync w)\<lparr>ss_phase := Some ph, ss_resumeToken := tok\<rparr>\<rparr>;
          (c, w2) = take_coin w1
      in if c then saveCheckpoint w2 else w2)"

text \<open>\<open>handleSyncRetry(phase, token)\<close>: \<open>True\<close> means continue.\<close>

definition handleSyncRetry :: "phase \<Rightarrow> page_id option \<Rightarrow> world \<Rightarrow> bool \<times> world" where
  "handleSyncRetry ph tok w =
     (let w' = saveResumeCheckpoint ph tok w in (\<not> ss_aborted (w_sync w'), w'))"

text \<open>
  \<open>checkVaultLock()\<close>: a concurrent \<open>lockUserVault()\<close> observed here clears the
  key first. With the key gone the job is marked aborted and checkpointed.
\<close>

definition checkVaultLock :: "world \<Rightarrow> bool \<times> world" where
  "checkVaultLock w =
     (let w1 = (case w_locks w of [] \<Rightarrow> w
                 | l # ls \<Rightarrow> w\<lparr>w_locks := ls, w_vault := (w_vault w \<and> \<not> l)\<rparr>)
      in if \<not> w_vault w1
         then (True, saveCheckpoint (w1\<lparr>w_sync := (w_sync w1)\<lparr>ss_aborted := True\<rparr>\<rparr>))
         else (False, w1))"

text \<open>\<open>abortSync()\<close>\<close>

definition abortSync :: "world \<Rightarrow> bool \<times> world" where
  "abortSync w =
     (if ss_inProgress (w_sync w)
      then (True, saveCheckpoint (w\<lparr>w_sync := (w_sync w)\<lparr>ss_aborted := True\<rparr>\<rparr>))
      else (False, w))"

section \<open>The error log\<close>

text \<open>A JavaScript \<open>Map\<close>: \<open>set\<close> keeps the position of a key already present.\<close>

definition amap_set :: "('k \<times> 'v) list \<Rightarrow> 'k \<Rightarrow> 'v \<Rightarrow> ('k \<times> 'v) list" where
  "amap_set al k v =
     (if k \<in> set (map fst al) then map (\<lambda>(k', v'). if k' = k then (k, v) else (k', v')) al
      else al @ [(k, v)])"

text \<open>
  \<open>logSyncError(operation, documentId, error)\<close>: evict the oldest key when the
  map is full, set the key, and append the entry to the persisted log, capped.
\<close>

definition logSyncError :: "sync_op \<Rightarrow> page_id option \<Rightarrow> world \<Rightarrow> world" where
  "logSyncError op d w =
     (let info = \<lparr>ei_operation = op, ei_documentId = d, ei_timestamp = w_now w,
                  ei_jobId = ss_currentJobId (w_sync w)\<rparr>;
          log = ss_errorLog (w_sync w);
          log1 = (if ERROR_LOG_LIMIT \<le> length log then tl log else log);
          s' = (w_sync w)\<lparr>ss_errorLog := amap_set log1 (error_key op d) info\<rparr>;
          m' = (w_meta w)\<lparr>md_syncErrorLog :=
                  push_capped ERROR_LOG_LIMIT info (md_syncErrorLog (w_meta w))\<rparr>
      in w\<lparr>w_sync := s', w_meta := m'\<rparr>)"

section \<open>Retry with exponential backoff\<close>

record retry_out =
  ro_ok :: bool
  ro_attempts :: nat
  ro_delays :: "nat list"
  ro_faults :: "bool list"
  ro_jitter :: "nat list"

text \<open>
  The loop of \<open>executeWithRetry(operation, maxRetries)\<close>: an attempt succeeds
  unless the fault oracle says it throws; after the \<open>attempt\<close>-th failure the
  code waits \<open>2 ^ attempt * BASE_RETRY_DELAY + jitter\<close>, unless that was the last
  attempt, in which case it rethrows.
\<close>

definition jhd :: "nat list \<Rightarrow> nat" where
  "jhd js = (case js of [] \<Rightarrow> 0 | j # _ \<Rightarrow> j)"

function retry_loop :: "nat \<Rightarrow> nat \<Rightarrow> nat list \<Rightarrow> bool list \<Rightarrow> nat list \<Rightarrow> retry_out" where
  "retry_loop maxR attempt ds fs js =
     (if attempt < maxR then
        (case fs of
           [] \<Rightarrow> \<lparr>ro_ok = True, ro_attempts = Suc attempt, ro_delays = ds, ro_faults = [], ro_jitter = js\<rparr>
         | f # fs' \<Rightarrow>
             (if \<not> f then \<lparr>ro_ok = True, ro_attempts = Suc attempt, ro_delays = ds, ro_faults = fs',
                         ro_jitter = js\<rparr>
              else if maxR \<le> Suc attempt then
                \<lparr>ro_ok = False, ro_attempts = Suc attempt, ro_delays = ds, ro_faults = fs', ro_jitter = js\<rparr>
              else retry_loop maxR (Suc attempt)
                     (ds @ [2 ^ Suc attempt * BASE_RETRY_DELAY + jhd js]) fs' (tl js)))
      else \<lparr>ro_ok = False, ro_attempts = attempt, ro_delays = ds, ro_faults = fs, ro_jitter = js\<rparr>)"
  by pat_completeness auto
termination
  by (relation "measure (\<lambda>(maxR, attempt, _). maxR - attempt)") auto

declare retry_loop.simps [simp del]

definition executeWithRetry :: "nat \<Rightarrow> world \<Rightarrow> bool \<times> world" where
  "executeWithRetry maxR w =
     (let r = retry_loop maxR 0 [] (w_faults w) (w_jitter w)
      in (ro_ok r, w\<lparr>w_faults := ro_faults r, w_jitter := ro_jitter r\<rparr>))"

lemmas sync_helper_defs [sync_simps] =
  resetSyncState_def checkpoint_of_def saveCheckpoint_def take_coin_def
  saveResumeCheckpoint_def handleSyncRetry_def checkVaultLock_def abortSync_def
  logSyncError_def executeWithRetry_def

section \<open>Predicates and sample data\<close>

text \<open>
  The range of \<open>Math.floor(Math.random() * maxJitter)\<close> with
  \<open>maxJitter = 0.3 * BASE_RETRY_DELAY\<close>: every jitter is below 60.
\<close>

definition jitter_ok :: "nat list \<Rightarrow> bool" where
  "jitter_ok js \<longleftrightarrow> (\<forall>j\<in>set js. j < 3 * BASE_RETRY_DELAY div 10)"

text \<open>The in-memory error log: at most \<open>ERROR_LOG_LIMIT\<close> entries, one per key.\<close>

definition errlog_wf :: "(err_key \<times> error_info) list \<Rightarrow> bool" where
  "errlog_wf l \<longleftrightarrow> length l \<le> ERROR_LOG_LIMIT \<and> distinct (map fst l)"

text \<open>
  One page \<open>hello\<close> edited locally at 500 and never uploaded, the last sync at 100,
  the clock at 1000, a remote that never fails, and a cipher that reverses the text.
\<close>

definition sample_world :: world where
  "sample_world =
     \<lparr>w_local = [(sample_page 1 ''hello'')\<lparr>pg_pendingSync := True, pg_lastModified := 500\<rparr>],
      w_meta = empty_meta\<lparr>md_lastSyncTime := Some 100\<rparr>, w_remote = [], w_tombs = [],
      w_vault = True, w_user = True, w_sync = init_sync_state, w_now = 1000, w_nextJob = 0,
      w_faults = [], w_coins = [], w_jitter = [], w_locks = [], w_edits = [], w_recovery = 0,
      w_encrypt = map_option rev, w_decrypt = (\<lambda>c. Some (rev c))\<rparr>"

section \<open>Lemmas on the helpers\<close>

lemma map_fst_update_key:
  "map (fst \<circ> (\<lambda>(k', v'). if k' = k then (k, v) else (k', v'))) al = map fst al"
  by (induction al) auto

lemma length_amap_set:
  "length (amap_set al k v) = (if k \<in> set (map fst al) then length al else Suc (length al))"
  by (simp add: amap_set_def)

lemma distinct_amap_set:
  "distinct (map fst al) \<Longrightarrow> distinct (map fst (amap_set al k v))"
  by (simp add: amap_set_def map_fst_update_key)

lemma map_of_update_key_other:
  "j \<noteq> k \<Longrightarrow> map_of (map (\<lambda>(k', v'). if k' = k then (k, v) else (k', v')) al) j = map_of al j"
  by (induction al) auto

lemma map_of_update_key_same:
  "k \<in> set (map fst al) \<Longrightarrow> map_of (map (\<lambda>(k', v'). if k' = k then (k, v) else (k', v')) al) k = Some v"
  by (induction al) auto

lemma map_of_amap_set: "map_of (amap_set al k v) j = ((map_of al)(k \<mapsto> v)) j"
proof (cases "k \<in> set (map fst al)")
  case True
  then show ?thesis
    by (cases "j = k") (simp_all add: amap_set_def map_of_update_key_other map_of_update_key_same)
next
  case False
  then have "map_of al k = None" by (simp add: map_of_eq_None_iff)
  with False show ?thesis by (auto simp: amap_set_def map_of_append map_add_def split: option.splits)
qed

lemma retry_loop_attempts:
  "attempt \<le> maxR \<Longrightarrow> attempt \<le> ro_attempts (retry_loop maxR attempt ds fs js)
     \<and> ro_attempts (retry_loop maxR attempt ds fs js) \<le> maxR"
proof (induction maxR attempt ds fs js rule: retry_loop.induct)
  case (1 maxR attempt ds fs js)
  show ?case
  proof (cases "attempt < maxR")
    case False
    then have "ro_attempts (retry_loop maxR attempt ds fs js) = attempt"
      by (simp add: retry_loop.simps [of maxR attempt])
    with False "1.prems" show ?thesis by simp
  next
    case True
    show ?thesis
    proof (cases fs)
      case Nil
      with True show ?thesis by (simp add: retry_loop.simps [of maxR attempt])
    next
      case (Cons f fs')
      show ?thesis
      proof (cases "f \<and> \<not> maxR \<le> Suc attempt")
        case False
        with True Cons show ?thesis by (auto simp: retry_loop.simps [of maxR attempt])
      next
        case rec: True
        with True Cons "1.IH" have
          "Suc attempt \<le> ro_attempts (retry_loop maxR (Suc attempt)
              (ds @ [2 ^ Suc attempt * BASE_RETRY_DELAY + jhd js]) fs' (tl js))
           \<and> ro_attempts (retry_loop maxR (Suc attempt)
              (ds @ [2 ^ Suc attempt * BASE_RETRY_DELAY + jhd js]) fs' (tl js)) \<le> maxR"
          by simp
        with True Cons rec show ?thesis by (simp add: retry_loop.simps [of maxR attempt])
      qed
    qed
  qed
qed

lemma checkVaultLock_unlocked:
  "w_locks w = [] \<Longrightarrow> w_vault w \<Longrightarrow> checkVaultLock w = (False, w)"
  by (simp add: checkVaultLock_def)

lemma executeWithRetry_no_faults:
  "w_faults w = [] \<Longrightarrow> 0 < maxR \<Longrightarrow> executeWithRetry maxR w = (True, w)"
  by (simp add: executeWithRetry_def retry_loop.simps)

text \<open>The loop succeeds unless each of its remaining attempts meets a fault.\<close>

lemma retry_loop_ok:
  "ro_ok (retry_loop maxR a ds fs js) \<longleftrightarrow>
   a < maxR \<and> \<not> (maxR - a \<le> length fs \<and> list_all id (take (maxR - a) fs))"
proof (induction maxR a ds fs js rule: retry_loop.induct)
  case (1 maxR a ds fs js)
  show ?case
  proof (cases "a < maxR")
    case False then show ?thesis by (simp add: retry_loop.simps [of maxR a])
  next
    case True
    show ?thesis
    proof (cases fs)
      case Nil with True show ?thesis by (simp add: retry_loop.simps [of maxR a])
    next
      case (Cons f fs')
      have d: "maxR - a = Suc (maxR - Suc a)" using True by simp
      show ?thesis
      proof (cases "f \<and> \<not> maxR \<le> Suc a")
        case False
        with True Cons d show ?thesis by (auto simp: retry_loop.simps [of maxR a])
      next
        case rec: True
        with True Cons d "1.IH" show ?thesis by (simp add: retry_loop.simps [of maxR a])
      qed
    qed
  qed
qed

lemma jitter_ok_tl: "jitter_ok js \<Longrightarrow> jitter_ok (tl js)"
  by (cases js) (simp_all add: jitter_ok_def)

lemma jitter_ok_jhd: "jitter_ok js \<Longrightarrow> jhd js \<le> 59"
  by (cases js) (simp_all add: jitter_ok_def jhd_def sync_config)

text \<open>Each wait after the \<open>i\<close>-th failure is at most \<open>2 ^ i * BASE_RETRY_DELAY + 59\<close>.\<close>

lemma retry_loop_delays:
  "jitter_ok js \<Longrightarrow>
   sum_list (ro_delays (retry_loop maxR a ds fs js))
     \<le> sum_list ds + (\<Sum>i\<in>{Suc a..<maxR}. 2 ^ i * BASE_RETRY_DELAY + 59)"
proof (induction maxR a ds fs js rule: retry_loop.induct)
  case (1 maxR a ds fs js)
  show ?case
  proof (cases "a < maxR \<and> fs \<noteq> [] \<and> hd fs \<and> \<not> maxR \<le> Suc a")
    case False
    then show ?thesis by (auto simp: retry_loop.simps [of maxR a] split: list.splits)
  next
    case True
    then obtain fs' where fs: "fs = True # fs'" by (cases fs) auto
    have rng: "{Suc a..<maxR} = insert (Suc a) {Suc (Suc a)..<maxR}" using True by auto
    have "sum_list (ro_delays (retry_loop maxR (Suc a) (ds @ [2 ^ Suc a * BASE_RETRY_DELAY + jhd js])
            fs' (tl js)))
          \<le> sum_list (ds @ [2 ^ Suc a * BASE_RETRY_DELAY + jhd js])
             + (\<Sum>i\<in>{Suc (Suc a)..<maxR}. 2 ^ i * BASE_RETRY_DELAY + 59)"
      using "1.IH" [OF _ fs] True "1.prems" jitter_ok_tl by simp
    then show ?thesis
      using True fs jitter_ok_jhd [OF "1.prems"] by (simp add: retry_loop.simps [of maxR a] rng)
  qed
qed

text \<open>Frames: the helpers touch neither the remote collection nor the fault oracle.\<close>

lemma frame_logSyncError [simp, frame_simps]:
  "w_remote (logSyncError op d w) = w_remote w" "w_faults (logSyncError op d w) = w_faults w"
  by (simp_all add: logSyncError_def Let_def)

lemma frame_saveCheckpoint [simp, frame_simps]:
  "w_remote (saveCheckpoint w) = w_remote w" "w_faults (saveCheckpoint w) = w_faults w"
  by (simp_all add: saveCheckpoint_def)

lemma frame_saveResumeCheckpoint [simp, frame_simps]:
  "w_remote (saveResumeCheckpoint ph tok w) = w_remote w"
  "w_faults (saveResumeCheckpoint ph tok w) = w_faults w"
  by (simp_all add: saveResumeCheckpoint_def take_coin_def Let_def split: list.splits)

lemma frame_handleSyncRetry [simp, frame_simps]:
  "w_remote (snd (handleSyncRetry ph tok w)) = w_remote w"
  "w_faults (snd (handleSyncRetry ph tok w)) = w_faults w"
  by (simp_all add: handleSyncRetry_def Let_def)

lemma frame_checkVaultLock [simp, frame_simps]:
  "w_remote (snd (checkVaultLock w)) = w_remote w" "w_faults (snd (checkVaultLock w)) = w_faults w"
  by (simp_all add: checkVaultLock_def Let_def split: list.splits)

lemma frame_checkVaultLock_pair:
  "checkVaultLock w = (b, w') \<Longrightarrow> w_remote w' = w_remote w \<and> w_faults w' = w_faults w"
  by (metis frame_checkVaultLock snd_conv)

lemma handleSyncRetry_frame_pair:
  "handleSyncRetry ph tok w = (c, w') \<Longrightarrow> w_remote w' = w_remote w \<and> w_faults w' = w_faults w"
  by (metis frame_handleSyncRetry snd_conv)

lemma retry_loop_faults:
  "length (ro_faults (retry_loop maxR a ds fs js)) \<le> length fs \<and>
   (\<not> ro_ok (retry_loop maxR a ds fs js) \<and> a < maxR \<longrightarrow> length (ro_faults (retry_loop maxR a ds fs js)) < length fs)"
proof (induction maxR a ds fs js rule: retry_loop.induct)
  case (1 maxR a ds fs js)
  show ?case
  proof (cases "a < maxR \<and> fs \<noteq> [] \<and> hd fs \<and> \<not> maxR \<le> Suc a")
    case False
    then show ?thesis by (auto simp: retry_loop.simps [of maxR a] split: list.splits)
  next
    case True
    then obtain fs' where fs: "fs = True # fs'" by (cases fs) auto
    then show ?thesis using True "1.IH" [OF _ fs] by (simp add: retry_loop.simps [of maxR a])
  qed
qed

lemma executeWithRetry_frame:
  "executeWithRetry maxR w = (ok, w') \<Longrightarrow>
   w_remote w' = w_remote w \<and> length (w_faults w') \<le> length (w_faults w) \<and>
   (\<not> ok \<and> 0 < maxR \<longrightarrow> length (w_faults w') < length (w_faults w))"
  using retry_loop_faults [of maxR 0 "[]" "w_faults w" "w_jitter w"]
  by (auto simp: executeWithRetry_def Let_def)

text \<open>\<open>logSyncError\<close> keeps both error logs bounded and the in-memory one keyed uniquely.\<close>

lemma logSyncError_errlog:
  "errlog_wf (ss_errorLog (w_sync w)) \<Longrightarrow>
   errlog_wf (ss_errorLog (w_sync (logSyncError op d w))) \<and>
   length (md_syncErrorLog (w_meta (logSyncError op d w))) \<le> ERROR_LOG_LIMIT"
proof -
  assume a: "errlog_wf (ss_errorLog (w_sync w))"
  let ?log = "ss_errorLog (w_sync w)"
  let ?log1 = "if ERROR_LOG_LIMIT \<le> length ?log then tl ?log else ?log"
  have len: "length ?log1 < ERROR_LOG_LIMIT"
    using a by (auto simp: errlog_wf_def sync_config)
  have dist: "distinct (map fst ?log1)"
    using a by (simp add: errlog_wf_def distinct_map_tl)
  show ?thesis
    using len dist
    by (auto simp: logSyncError_def Let_def errlog_wf_def length_amap_set distinct_amap_set
        length_push_capped)
qed

section \<open>Properties of the helpers\<close>

text \<open>
  C11. \<open>executeWithRetry(op, maxRetries)\<close> returns normally exactly when one of
  its first \<open>maxRetries\<close> attempts does not throw; it rethrows after
  \<open>maxRetries\<close> consecutive failures.
\<close>

theorem executeWithRetry_succeeds_iff:
  "fst (executeWithRetry maxR w) \<longleftrightarrow>
   0 < maxR \<and> \<not> (maxR \<le> length (w_faults w) \<and> list_all id (take maxR (w_faults w)))"
  by (simp add: executeWithRetry_def retry_loop_ok Let_def)

text \<open>
  C12. With the configured five attempts, the backoff of one \<open>executeWithRetry\<close>
  waits at most 400 + 800 + 1600 + 3200 ms plus four jitters below 60 ms: 6236 ms
  in total; the witness shows the bound is reached.
\<close>

theorem executeWithRetry_total_delay:
  assumes "jitter_ok js"
  shows "sum_list (ro_delays (retry_loop MAX_RETRIES 0 [] fs js)) \<le> 6236"
proof -
  have "{Suc 0..<5} = {1, 2, 3, 4 :: nat}" by auto
  then have "(\<Sum>i\<in>{Suc 0..<MAX_RETRIES}. 2 ^ i * BASE_RETRY_DELAY + 59) = (6236::nat)"
    by (simp add: sync_config)
  then show ?thesis using retry_loop_delays [OF assms, of MAX_RETRIES 0 "[]" fs] by simp
qed

theorem executeWithRetry_total_delay_witness:
  "jitter_ok [59, 59, 59, 59] \<and>
   sum_list (ro_delays (retry_loop MAX_RETRIES 0 [] [True, True, True, True, True] [59, 59, 59, 59])) \<le> 6236 \<and>
   sum_list (ro_delays (retry_loop MAX_RETRIES 0 [] [True, True, True, True, True] [59, 59, 59, 59])) = 6236"
proof -
  have j: "jitter_ok [59, 59, 59, 59]" by (simp add: jitter_ok_def sync_config)
  have "sum_list (ro_delays (retry_loop MAX_RETRIES 0 [] [True, True, True, True, True] [59, 59, 59, 59])) = 6236"
    by (simp add: retry_loop.simps sync_config jhd_def)
  then show ?thesis using j executeWithRetry_total_delay [OF j] by simp
qed

end
