(* ===== verification/SyncPhases.thy ===== *)
theory SyncPhases
  imports SyncState
begin

text \<open>
  The four phases of a sync job in \<^verbatim>\<open>src/src/firebase2.js\<close>:
  \<open>processRemoteDeletions\<close> (tombstones), \<open>uploadFromDexieToFirestore\<close> with
  \<open>processUploadBatch\<close>, \<open>handleDeletions\<close>, and \<open>downloadFromFirestore\<close> with
  \<open>processDownloadBatch\<close>. A phase maps a world to an outcome: \<open>Inl\<close> is an
  exception thrown out of the phase, \<open>Inr\<close> a normal return. Loops are recursion
  over the batches the code slices (\<open>chunks\<close>); the paginated download loop, whose
  end depends on the remote collection, is a \<^theory_text>\<open>partial_function\<close>.
\<close>

datatype sync_exn = ExnRemote | ExnUpload | ExnDownload | ExnDeletions

type_synonym 'a outcome = "(sync_exn + 'a) \<times> world"

section \<open>Small state updates\<close>

definition map_sync :: "(sync_state \<Rightarrow> sync_state) \<Rightarrow> world \<Rightarrow> world" where
  "map_sync f w = w\<lparr>w_sync := f (w_sync w)\<rparr>"

definition add_failed :: "page_id list \<Rightarrow> world \<Rightarrow> world" where
  "add_failed ids = map_sync (\<lambda>s. s\<lparr>ss_failedItems := ss_failedItems s @ ids\<rparr>)"

definition add_processed :: "nat \<Rightarrow> world \<Rightarrow> world" where
  "add_processed n = map_sync (\<lambda>s. s\<lparr>ss_processedItems := ss_processedItems s + n\<rparr>)"

definition add_total :: "nat \<Rightarrow> world \<Rightarrow> world" where
  "add_total n = map_sync (\<lambda>s. s\<lparr>ss_totalItems := ss_totalItems s + n\<rparr>)"

text \<open>\<open>updateSyncProgress(phase, currentBatch, totalBatches)\<close>; a \<open>null\<close> total is 0.\<close>

definition updateSyncProgress :: "phase \<Rightarrow> nat \<Rightarrow> nat \<Rightarrow> world \<Rightarrow> world" where
  "updateSyncProgress ph cur tot =
     map_sync (\<lambda>s. s\<lparr>ss_phase := Some ph, ss_currentBatch := cur, ss_totalBatches := tot\<rparr>)"

text \<open>One remote call that is not retried: \<open>True\<close> when it throws.\<close>

definition remote_attempt :: "world \<Rightarrow> bool \<times> world" where
  "remote_attempt w = (case w_faults w of [] \<Rightarrow> (False, w) | f # fs \<Rightarrow> (f, w\<lparr>w_faults := fs\<rparr>))"

text \<open>JavaScript truthiness of a resume token: \<open>null\<close> and the id \<open>0\<close> are falsy.\<close>

definition truthy_tok :: "page_id option \<Rightarrow> bool" where
  "truthy_tok t \<longleftrightarrow> t \<noteq> None \<and> t \<noteq> Some 0"

section \<open>Tombstones\<close>

text \<open>\<open>setDoc(doc(deletedPages, pageId), {...})\<close> replaces the tombstone of the page.\<close>

definition tomb_put :: "tombstone list \<Rightarrow> tombstone \<Rightarrow> tombstone list" where
  "tomb_put ts tb = filter (\<lambda>x. fst x \<noteq> fst tb) ts @ [tb]"

text \<open>\<open>uploadTombstone(userId, pageId)\<close>: errors are caught and dropped.\<close>

definition uploadTombstone :: "page_id \<Rightarrow> world \<Rightarrow> world" where
  "uploadTombstone i w =
     (case remote_attempt w of
        (True, w1) \<Rightarrow> w1
      | (False, w1) \<Rightarrow> w1\<lparr>w_tombs := tomb_put (w_tombs w1) (i, w_now w1)\<rparr>)"

text \<open>\<open>fetchNewTombstones(userId, lastSyncTime)\<close>: \<open>deletedAt > lastSyncTime\<close>, ordered by \<open>deletedAt\<close>; on error \<open>[]\<close>.\<close>

definition fetchNewTombstones :: "time \<Rightarrow> world \<Rightarrow> tombstone list \<times> world" where
  "fetchNewTombstones since w =
     (case remote_attempt w of
        (True, w1) \<Rightarrow> ([], w1)
      | (False, w1) \<Rightarrow> (sort_key snd (filter (\<lambda>tb. since < snd tb) (w_tombs w1)), w1))"

text \<open>\<open>processRemoteDeletions(userId)\<close>: every new tombstone deletes its page locally.\<close>

definition processRemoteDeletions :: "world \<Rightarrow> unit outcome" where
  "processRemoteDeletions w =
     (let since = or_default (md_lastSyncTime (w_meta w)) 0;
          (ts, w1) = fetchNewTombstones since w
      in (Inr (), w1\<lparr>w_local := fold (\<lambda>tb t. table_delete t (fst tb)) ts (w_local w1)\<rparr>))"

section \<open>Upload\<close>

text \<open>
  The document staged for a page: \<open>{...page, content: await encryptData(key,
  page.content), isEncrypted: 1, lastModified: page.lastModified || now}\<close>.
  \<open>encryptData\<close> returns \<open>null\<close> instead of throwing, so the \<open>prepare_upload\<close>
  handler of the loop never runs.
\<close>

definition upload_doc :: "world \<Rightarrow> page \<Rightarrow> remote_doc" where
  "upload_doc w p =
     p\<lparr>pg_content := w_encrypt w (pg_content p), pg_isEncrypted := True,
       pg_lastModified := (if pg_lastModified p \<noteq> 0 then pg_lastModified p else w_now w)\<rparr>"

text \<open>The staging loop of \<open>processUploadBatch\<close>; \<open>True\<close> first: the vault was found locked.\<close>

fun upload_stage :: "world \<Rightarrow> page list \<Rightarrow> remote_doc list \<Rightarrow> page_id option
    \<Rightarrow> bool \<times> remote_doc list \<times> page_id option \<times> world" where
  "upload_stage w [] acc lst = (False, acc, lst, w)"
| "upload_stage w (p # ps) acc lst =
     (case checkVaultLock w of
        (True, w1) \<Rightarrow> (True, acc, lst, w1)
      | (False, w1) \<Rightarrow>
          (if pg_id p \<in> set (ss_failedItems (w_sync w1)) then upload_stage w1 ps acc lst
           else upload_stage w1 ps (acc @ [upload_doc w1 p]) (Some (pg_id p))))"

text \<open>After the commit: \<open>update(id, {pendingSync: 0, syncStatus: 'synced', lastSynced})\<close>.\<close>

definition mark_synced :: "time \<Rightarrow> table \<Rightarrow> page_id \<Rightarrow> table" where
  "mark_synced now t i =
     table_update t i (\<lambda>p. p\<lparr>pg_pendingSync := False, pg_syncStatus := Synced, pg_lastSynced := Some now\<rparr>)"

text \<open>The editor's saves that land during the commit's \<open>await\<close>, in order.\<close>

definition editor_saves :: "world \<Rightarrow> world" where
  "editor_saves w =
     w\<lparr>w_local := fold (\<lambda>(i, c) t. savePage (w_now w) t i c) (w_edits w) (w_local w), w_edits := []\<rparr>"

definition processUploadBatch :: "page list \<Rightarrow> world \<Rightarrow> page_id option outcome" where
  "processUploadBatch batch w =
     (case upload_stage w batch [] None of
        (True, _, _, w1) \<Rightarrow> (Inr None, w1)
      | (False, docs, lst, w1) \<Rightarrow>
          (if docs = [] then (Inr lst, w1)
           else
             (case apsnd editor_saves (executeWithRetry MAX_RETRIES w1) of
                (True, w2) \<Rightarrow>
                  (Inr lst,
                   add_processed (length docs)
                     (w2\<lparr>w_remote := fold (\<lambda>d t. table_put t d) docs (w_remote w2),
                         w_local := fold (\<lambda>d t. mark_synced (w_now w2) t (pg_id d)) docs (w_local w2)\<rparr>))
              | (False, w2) \<Rightarrow>
                  (let w3 = logSyncError OpUploadBatch None (add_failed (map pg_id batch) w2);
                       (cont, w4) = handleSyncRetry Uploading (Some (pg_id (hd batch))) w3
                   in if cont then (Inr None, w4) else (Inl ExnRemote, w4)))))"

text \<open>The batch loop of \<open>uploadFromDexieToFirestore\<close>, checked against \<open>aborted\<close> each round.\<close>

fun upload_batches :: "nat \<Rightarrow> nat \<Rightarrow> page list list \<Rightarrow> world \<Rightarrow> unit outcome" where
  "upload_batches k n [] w = (Inr (), w)"
| "upload_batches k n (b # bs) w =
     (if ss_aborted (w_sync w) then (Inr (), w)
      else
        (case checkVaultLock w of
           (True, w1) \<Rightarrow> (Inr (), w1)
         | (False, w1) \<Rightarrow>
             (case processUploadBatch b w1 of
                (Inl e, w2) \<Rightarrow> (Inl e, w2)
              | (Inr r, w2) \<Rightarrow>
                  (let w3 = (case r of None \<Rightarrow> w2 | Some i \<Rightarrow> saveResumeCheckpoint Uploading (Some i) w2)
                   in upload_batches (Suc k) n bs (updateSyncProgress Uploading (Suc k) n w3)))))"

text \<open>
  \<open>uploadFromDexieToFirestore(userId, ref, resumeToken)\<close>; the number of batches
  \<open>Math.ceil(length / BATCH_SIZE)\<close> is \<open>length (chunks BATCH_SIZE pending)\<close>
  (\<open>length_chunks\<close>).
\<close>

definition uploadFromDexieToFirestore :: "page_id option \<Rightarrow> world \<Rightarrow> unit outcome" where
  "uploadFromDexieToFirestore tok w =
     (let w1 = updateSyncProgress Uploading 0 0 w;
          pending = (if truthy_tok tok then pendingPagesAbove (w_local w1) (the tok)
                     else getPendingSyncPages (w_local w1))
      in if pending = [] then (Inr (), w1)
         else
           (let bs = chunks BATCH_SIZE pending;
                w2 = updateSyncProgress Uploading 0 (length bs) (add_total (length pending) w1)
            in case upload_batches 0 (length bs) bs w2 of
                 (Inl e, w3) \<Rightarrow> (Inl ExnUpload, logSyncError OpUploadPages tok w3)
               | (Inr u, w3) \<Rightarrow> (Inr u, w3)))"

section \<open>Deletions\<close>

text \<open>\<open>processedIds.add(id)\<close> on a JavaScript \<open>Set\<close>.\<close>

definition set_add :: "page_id list \<Rightarrow> page_id \<Rightarrow> page_id list" where
  "set_add xs i = (if i \<in> set xs then xs else xs @ [i])"

text \<open>
  The batch loop of \<open>handleDeletions\<close>: \<open>Some done\<close> when the loop ends,
  \<open>None\<close> when a locked vault returns from the function before the ids are
  cleared.
\<close>

fun delete_batches :: "nat \<Rightarrow> nat \<Rightarrow> page_id list list \<Rightarrow> page_id list \<Rightarrow> world
    \<Rightarrow> page_id list option outcome" where
  "delete_batches k n [] done w = (Inr (Some done), w)"
| "delete_batches k n (b # bs) done w =
     (if ss_aborted (w_sync w) then (Inr (Some done), w)
      else
        (case checkVaultLock w of
           (True, w1) \<Rightarrow> (Inr None, w1)
         | (False, w1) \<Rightarrow>
             (let staged = filter (\<lambda>i. i \<notin> set (ss_failedItems (w_sync w1))) b
              in case executeWithRetry MAX_RETRIES w1 of
                   (False, w2) \<Rightarrow> (Inl ExnRemote, w2)
                 | (True, w2) \<Rightarrow>
                     delete_batches (Suc k) n bs (fold (\<lambda>i d. set_add d i) staged done)
                       (updateSyncProgress Deleting (Suc k) n
                         (add_processed (length b)
                           (w2\<lparr>w_remote := fold (\<lambda>i t. table_delete t i) staged (w_remote w2)\<rparr>))))))"

text \<open>
  \<open>handleDeletions(userId, ref, resumeToken)\<close>: the ids come from
  \<open>new Set(deletedPageIds)\<close>; the resume token is only logged.
\<close>

definition handleDeletions :: "page_id option \<Rightarrow> world \<Rightarrow> unit outcome" where
  "handleDeletions tok w =
     (let w1 = updateSyncProgress Deleting 0 0 w;
          ids = remdups (md_deletedPageIds (w_meta w1))
      in if ids = [] then (Inr (), w1)
         else
           (let bs = chunks BATCH_SIZE ids;
                w2 = updateSyncProgress Deleting 0 (length bs) (add_total (length ids) w1)
            in case delete_batches 0 (length bs) bs [] w2 of
                 (Inl e, w3) \<Rightarrow> (Inl ExnDeletions, logSyncError OpHandleDeletions tok w3)
               | (Inr None, w3) \<Rightarrow> (Inr (), w3)
               | (Inr (Some done), w3) \<Rightarrow>
                   (Inr (), w3\<lparr>w_meta := (w_meta w3)\<lparr>md_deletedPageIds :=
                      fold (\<lambda>i ids. clearDeletedPageId ids i) done (md_deletedPageIds (w_meta w3))\<rparr>\<rparr>)))"

section \<open>Download\<close>

text \<open>\<open>firestorePage.content || ""\<close>, decrypted when \<open>isEncrypted\<close> and non-empty.\<close>

definition download_content :: "world \<Rightarrow> remote_doc \<Rightarrow> jstr" where
  "download_content w r =
     (case pg_content r of
        None \<Rightarrow> Some []
      | Some c \<Rightarrow> (if pg_isEncrypted r \<and> c \<noteq> [] then w_decrypt w c else Some c))"

text \<open>
  The body of the \<open>try\<close> block for one downloaded document; \<open>False\<close> when it
  throws. A document with no local row goes to
  \<open>createPageFromFirestore({id, name, ...})\<close>, whose first parameter receives
  the whole object. A failed merge is logged and recorded by
  \<open>mergeAndSavePages\<close> itself before it rethrows.
\<close>

definition download_one :: "remote_doc \<Rightarrow> world \<Rightarrow> bool \<times> world" where
  "download_one r w =
     (let dec = download_content w r in
      case table_get (w_local w) (pg_id r) of
        None \<Rightarrow>
          (case createPageFromFirestore (w_local w) KeyObject
                  (\<lambda>p. p\<lparr>pg_name := pg_name r, pg_order := pg_order r, pg_content := dec\<rparr>) of
             Inl _ \<Rightarrow> (False, w)
           | Inr t \<Rightarrow> (True, w\<lparr>w_local := t\<rparr>))
      | Some l \<Rightarrow>
          (if shouldMergePages l r then
             (case mergeAndSavePages (w_now w) (w_local w) l r dec of
                Inl _ \<Rightarrow> (False, add_failed [pg_id l] (logSyncError OpMergeOperation (Some (pg_id l)) w))
              | Inr t \<Rightarrow> (True, w\<lparr>w_local := t\<rparr>))
           else (True, w)))"

text \<open>\<open>processDownloadBatch(docBatch)\<close>: never throws.\<close>

fun processDownloadBatch :: "remote_doc list \<Rightarrow> world \<Rightarrow> world" where
  "processDownloadBatch [] w = w"
| "processDownloadBatch (r # rs) w =
     (if ss_aborted (w_sync w) then w
      else
        (case checkVaultLock w of
           (True, w1) \<Rightarrow> w1
         | (False, w1) \<Rightarrow>
             (if pg_id r \<in> set (ss_failedItems (w_sync w1)) then processDownloadBatch rs w1
              else
                (case download_one r w1 of
                   (True, w2) \<Rightarrow> processDownloadBatch rs (add_processed 1 w2)
                 | (False, w2) \<Rightarrow>
                     processDownloadBatch rs
                       (add_failed [pg_id r] (logSyncError OpProcessDownload (Some (pg_id r)) w2))))))"

text \<open>
  The query of one page of the download: \<open>where("lastModified", ">", since)\<close>,
  \<open>orderBy("lastModified")\<close>, \<open>limit(50)\<close>, and, when a cursor document
  exists remotely, \<open>where("__id", ">", lastDocId)\<close>. That filter names a field
  \<open>__id\<close>; the documents the upload writes carry the page's fields and no
  \<open>__id\<close> field, and Firestore leaves a document without the field out of the
  result.
\<close>

definition field___id :: "remote_doc \<Rightarrow> page_id option" where
  "field___id d = None"

definition firestore_query :: "time \<Rightarrow> page_id option \<Rightarrow> table \<Rightarrow> remote_doc list" where
  "firestore_query since cursor remote =
     (let ordered = sort_key pg_lastModified (filter (\<lambda>d. since < pg_lastModified d) remote);
          cursor_on = truthy_tok cursor \<and> table_get remote (the cursor) \<noteq> None;
          hits = (if cursor_on
                  then filter (\<lambda>d. case field___id d of Some v \<Rightarrow> the cursor < v | None \<Rightarrow> False) ordered
                  else ordered)
      in take SYNC_PAGE_LIMIT hits)"

text \<open>The sub-batch loop: process 20 documents, then move the resume token to the last one.\<close>

fun download_subbatches :: "remote_doc list list \<Rightarrow> page_id option \<Rightarrow> world \<Rightarrow> page_id option \<times> world" where
  "download_subbatches [] lst w = (lst, w)"
| "download_subbatches (b # bs) lst w =
     (let w1 = processDownloadBatch b w;
          lst' = Some (pg_id (List.last b))
      in download_subbatches bs lst' (saveResumeCheckpoint Downloading lst' w1))"

text \<open>
  \<open>while (hasMoreDocs && !syncState.aborted)\<close> of \<open>downloadFromFirestore\<close>.
  A failed query is logged and, unless the job was aborted, tried again from the
  same cursor.
\<close>

partial_function (option) download_loop :: "time \<Rightarrow> page_id option \<Rightarrow> nat \<Rightarrow> world \<Rightarrow> unit outcome option" where
  "download_loop since lst nb w =
     (if ss_aborted (w_sync w) then Some (Inr (), w)
      else
        (case checkVaultLock w of
           (locked, w1) \<Rightarrow>
             (if locked then Some (Inr (), w1)
              else
                (case executeWithRetry MAX_RETRIES w1 of
                   (ok, w2) \<Rightarrow>
                     (if \<not> ok then
                        (case handleSyncRetry Downloading lst (logSyncError OpDownloadBatch lst w2) of
                           (cont, w4) \<Rightarrow>
                             (if cont then download_loop since lst nb w4 else Some (Inl ExnDownload, w4)))
                      else if firestore_query since lst (w_remote w2) = [] then Some (Inr (), w2)
                      else
                        (case download_subbatches (chunks BATCH_SIZE (firestore_query since lst (w_remote w2))) lst
                                (add_total (length (firestore_query since lst (w_remote w2)))
                                  (updateSyncProgress Downloading (Suc nb) 0 w2)) of
                           (lst', w4) \<Rightarrow>
                             (if length (firestore_query since lst (w_remote w2)) < SYNC_PAGE_LIMIT
                              then Some (Inr (), w4)
                              else download_loop since lst' (Suc nb) w4)))))))"

definition downloadFromFirestore :: "page_id option \<Rightarrow> world \<Rightarrow> unit outcome option" where
  "downloadFromFirestore tok w =
     download_loop (or_default (md_lastSyncTime (w_meta w)) 0) tok 0 (updateSyncProgress Downloading 0 0 w)"

section \<open>Lemmas\<close>

lemma pg_id_upload_doc [simp]: "pg_id (upload_doc w p) = pg_id p"
  by (simp add: upload_doc_def)

text \<open>With the vault open, staging keeps every page not already failed, in order.\<close>

lemma upload_stage_unlocked:
  "w_locks w = [] \<Longrightarrow> w_vault w \<Longrightarrow>
   upload_stage w ps acc lst =
     (False, acc @ map (upload_doc w) (filter (\<lambda>p. pg_id p \<notin> set (ss_failedItems (w_sync w))) ps),
      (if filter (\<lambda>p. pg_id p \<notin> set (ss_failedItems (w_sync w))) ps = [] then lst
       else Some (pg_id (last (filter (\<lambda>p. pg_id p \<notin> set (ss_failedItems (w_sync w))) ps)))), w)"
  by (induction ps arbitrary: acc lst) (simp_all add: checkVaultLock_unlocked)

lemma table_map_fold_put:
  "table_map (fold (\<lambda>d t. table_put t d) ds t) = fold (\<lambda>d m. m(pg_id d \<mapsto> d)) ds (table_map t)"
  by (induction ds arbitrary: t) (simp_all add: table_map_put)

lemma table_map_mark_synced:
  "table_map (mark_synced now t i) = (table_map t)(i := map_option
     (\<lambda>p. p\<lparr>pg_pendingSync := False, pg_syncStatus := Synced, pg_lastSynced := Some now\<rparr>) (table_map t i))"
  by (simp add: mark_synced_def table_map_update)

lemma table_map_fold_mark_synced:
  "table_map (fold (\<lambda>d t. mark_synced now t (pg_id d)) ds t) i =
     (if i \<in> pg_id ` set ds
      then map_option (\<lambda>p. p\<lparr>pg_pendingSync := False, pg_syncStatus := Synced, pg_lastSynced := Some now\<rparr>)
             (table_map t i)
      else table_map t i)"
  by (induction ds arbitrary: t) (auto simp: table_map_mark_synced option.map_comp comp_def)

text \<open>Frames of the download: it reads the remote collection and consumes faults only in its query.\<close>

lemma frame_map_sync [simp, frame_simps]:
  "w_remote (map_sync f w) = w_remote w" "w_faults (map_sync f w) = w_faults w"
  by (simp_all add: map_sync_def)

lemma frame_counters [simp, frame_simps]:
  "w_remote (add_failed ids w) = w_remote w" "w_faults (add_failed ids w) = w_faults w"
  "w_remote (add_processed n w) = w_remote w" "w_faults (add_processed n w) = w_faults w"
  "w_remote (add_total n w) = w_remote w" "w_faults (add_total n w) = w_faults w"
  "w_remote (updateSyncProgress ph c t w) = w_remote w" "w_faults (updateSyncProgress ph c t w) = w_faults w"
  by (simp_all add: add_failed_def add_processed_def add_total_def updateSyncProgress_def)

lemma frame_download_one [simp, frame_simps]:
  "w_remote (snd (download_one r w)) = w_remote w" "w_faults (snd (download_one r w)) = w_faults w"
  by (auto simp: download_one_def Let_def split: option.splits sum.splits)

lemma frame_download_one_pair:
  "download_one r w = (b, w') \<Longrightarrow> w_remote w' = w_remote w \<and> w_faults w' = w_faults w"
  by (metis frame_download_one snd_conv)

lemma frame_processDownloadBatch [simp, frame_simps]:
  "w_remote (processDownloadBatch rs w) = w_remote w \<and> w_faults (processDownloadBatch rs w) = w_faults w"
proof (induction rs w rule: processDownloadBatch.induct)
  case (2 r rs w)
  then show ?case
    by (auto split: prod.splits bool.splits dest!: frame_checkVaultLock_pair frame_download_one_pair)
qed simp

lemma frame_download_subbatches:
  "w_remote (snd (download_subbatches bs lst w)) = w_remote w \<and>
   w_faults (snd (download_subbatches bs lst w)) = w_faults w"
  by (induction bs lst w rule: download_subbatches.induct) (simp_all add: Let_def)

text \<open>The query, the cursor, and the two ways the loop ends.\<close>

lemma firestore_query_subset: "set (firestore_query since cur remote) \<subseteq> set remote"
  by (auto simp: firestore_query_def Let_def dest: in_set_takeD)

lemma firestore_query_cursor:
  "truthy_tok cur \<Longrightarrow> table_get remote (the cur) \<noteq> None \<Longrightarrow> firestore_query since cur remote = []"
  by (simp add: firestore_query_def field___id_def)

lemma download_subbatches_last:
  "\<forall>b\<in>set bs. b \<noteq> [] \<Longrightarrow> bs \<noteq> [] \<Longrightarrow> fst (download_subbatches bs lst w) = Some (pg_id (last (last bs)))"
  by (induction bs lst w rule: download_subbatches.induct) (auto simp: Let_def)

lemma download_loop_cursor_returns:
  "truthy_tok lst \<Longrightarrow> table_get (w_remote w) (the lst) \<noteq> None \<Longrightarrow>
   \<exists>r. download_loop since lst nb w = Some r"
proof (induction "length (w_faults w)" arbitrary: w nb rule: less_induct)
  case less
  obtain locked w1 where cv: "checkVaultLock w = (locked, w1)" by fastforce
  obtain ok w2 where ex: "executeWithRetry MAX_RETRIES w1 = (ok, w2)" by fastforce
  obtain cont w4 where hr: "handleSyncRetry Downloading lst (logSyncError OpDownloadBatch lst w2) = (cont, w4)"
    by fastforce
  have f1: "w_remote w1 = w_remote w" "w_faults w1 = w_faults w" using frame_checkVaultLock_pair [OF cv] by simp_all
  have f2: "w_remote w2 = w_remote w1" "\<not> ok \<Longrightarrow> length (w_faults w2) < length (w_faults w1)"
    using executeWithRetry_frame [OF ex] by (simp_all add: sync_config)
  have f4: "w_remote w4 = w_remote w2" "w_faults w4 = w_faults w2"
    using handleSyncRetry_frame_pair [OF hr] by simp_all
  have q: "firestore_query since lst (w_remote w2) = []"
    using firestore_query_cursor less.prems f1 f2 by simp
  show ?case
  proof (cases "\<not> ss_aborted (w_sync w) \<and> \<not> locked \<and> \<not> ok \<and> cont")
    case False
    then show ?thesis by (subst download_loop.simps) (auto simp: cv ex hr q)
  next
    case True
    have "\<exists>r. download_loop since lst nb w4 = Some r"
      using less.hyps [of w4] less.prems True f1 f2 f4 by simp
    then show ?thesis using True by (subst download_loop.simps) (simp add: cv ex hr)
  qed
qed

lemma download_loop_returns:
  "0 \<notin> pg_id ` set (w_remote w) \<Longrightarrow> \<exists>r. download_loop since lst nb w = Some r"
proof (induction "length (w_faults w)" arbitrary: w nb lst rule: less_induct)
  case less
  obtain locked w1 where cv: "checkVaultLock w = (locked, w1)" by fastforce
  obtain ok w2 where ex: "executeWithRetry MAX_RETRIES w1 = (ok, w2)" by fastforce
  obtain cont w4 where hr: "handleSyncRetry Downloading lst (logSyncError OpDownloadBatch lst w2) = (cont, w4)"
    by fastforce
  have f1: "w_remote w1 = w_remote w" "w_faults w1 = w_faults w" using frame_checkVaultLock_pair [OF cv] by simp_all
  have f2: "w_remote w2 = w_remote w1" "\<not> ok \<Longrightarrow> length (w_faults w2) < length (w_faults w1)"
    using executeWithRetry_frame [OF ex] by (simp_all add: sync_config)
  have f4: "w_remote w4 = w_remote w2" "w_faults w4 = w_faults w2"
    using handleSyncRetry_frame_pair [OF hr] by simp_all
  define q where "q = firestore_query since lst (w_remote w2)"
  obtain lst' w5 where sb: "download_subbatches (chunks BATCH_SIZE q) lst
      (add_total (length q) (updateSyncProgress Downloading (Suc nb) 0 w2)) = (lst', w5)" by fastforce
  show ?case
  proof (cases "\<not> ss_aborted (w_sync w) \<and> \<not> locked")
    case False
    then show ?thesis by (subst download_loop.simps) (auto simp: cv)
  next
    case run: True
    show ?thesis
    proof (cases ok)
      case False
      have "cont \<Longrightarrow> \<exists>r. download_loop since lst nb w4 = Some r"
        using less.hyps [of w4] less.prems False f1 f2 f4 by simp
      then show ?thesis using run False by (subst download_loop.simps) (auto simp: cv ex hr)
    next
      case True
      show ?thesis
      proof (cases "q = [] \<or> length q < SYNC_PAGE_LIMIT")
        case True
        then show ?thesis using run \<open>ok\<close> by (subst download_loop.simps) (auto simp: cv ex q_def [symmetric] sb)
      next
        case False
        then have q: "q \<noteq> []" by simp
        have ne: "chunks BATCH_SIZE q \<noteq> []" using q by (simp add: sync_config chunks.simps [of _ q])
        have all: "\<forall>b\<in>set (chunks BATCH_SIZE q). b \<noteq> []" using chunks_nonempty_bounded by blast
        have "fst (download_subbatches (chunks BATCH_SIZE q) lst
                (add_total (length q) (updateSyncProgress Downloading (Suc nb) 0 w2)))
              = Some (pg_id (last (last (chunks BATCH_SIZE q))))"
          by (rule download_subbatches_last [OF all ne])
        then have lst': "lst' = Some (pg_id (last q))"
          using sb last_last_chunks [OF _ q, of BATCH_SIZE] by (simp add: sync_config)
        have rem5: "w_remote w5 = w_remote w"
          using frame_download_subbatches [of "chunks BATCH_SIZE q" lst
              "add_total (length q) (updateSyncProgress Downloading (Suc nb) 0 w2)"] sb f1 f2 by simp
        have "last q \<in> set (w_remote w)"
          using firestore_query_subset [of since lst "w_remote w2"] last_in_set [OF q] f1 f2
          by (auto simp: q_def)
        then have "truthy_tok lst' \<and> table_get (w_remote w5) (the lst') \<noteq> None"
          using less.prems lst' rem5 by (force simp: truthy_tok_def table_get_def find_None_iff)
        then have "\<exists>r. download_loop since lst' (Suc nb) w5 = Some r"
          using download_loop_cursor_returns by blast
        then show ?thesis using run \<open>ok\<close> False
          by (subst download_loop.simps) (simp add: cv ex q_def [symmetric] sb)
      qed
    qed
  qed
qed

lemma editor_saves_none: "w_edits w = [] \<Longrightarrow> editor_saves w = w"
  by (simp add: editor_saves_def)

lemma frame_editor_saves [simp, frame_simps]:
  "w_remote (editor_saves w) = w_remote w" "w_faults (editor_saves w) = w_faults w"
  "w_sync (editor_saves w) = w_sync w" "w_now (editor_saves w) = w_now w"
  by (simp_all add: editor_saves_def)

text \<open>
  A batch whose commit succeeds with the vault open: the staged documents are
  written, and the staged pages are marked synced in the table as the editor left
  it after the commit.
\<close>

lemma processUploadBatch_commit:
  assumes "w_faults w = []" and "w_locks w = []" and "w_vault w"
    and "filter (\<lambda>p. pg_id p \<notin> set (ss_failedItems (w_sync w))) b \<noteq> []"
  shows "processUploadBatch b w =
    (Inr (Some (pg_id (last (filter (\<lambda>p. pg_id p \<notin> set (ss_failedItems (w_sync w))) b)))),
     add_processed (length (filter (\<lambda>p. pg_id p \<notin> set (ss_failedItems (w_sync w))) b))
       ((editor_saves w)\<lparr>w_remote := fold (\<lambda>d t. table_put t d)
            (map (upload_doc w) (filter (\<lambda>p. pg_id p \<notin> set (ss_failedItems (w_sync w))) b)) (w_remote w),
          w_local := fold (\<lambda>d t. mark_synced (w_now w) t (pg_id d))
            (map (upload_doc w) (filter (\<lambda>p. pg_id p \<notin> set (ss_failedItems (w_sync w))) b))
            (w_local (editor_saves w))\<rparr>))"
  using assms
  by (simp add: processUploadBatch_def upload_stage_unlocked executeWithRetry_no_faults sync_config)

lemma staged_upload_written:
  assumes "distinct (map pg_id b)" and "p \<in> set b" and "pg_id p \<notin> set fl"
  shows "table_map (fold (\<lambda>d t. table_put t d) (map (upload_doc w) (filter (\<lambda>p. pg_id p \<notin> set fl) b)) t)
           (pg_id p) = Some (upload_doc w p)"
    and "pg_id p \<in> pg_id ` set (map (upload_doc w) (filter (\<lambda>p. pg_id p \<notin> set fl) b))"
    and "filter (\<lambda>p. pg_id p \<notin> set fl) b \<noteq> []"
proof -
  let ?st = "filter (\<lambda>p. pg_id p \<notin> set fl) b"
  have inst: "p \<in> set ?st" using assms(2,3) by simp
  have dist: "distinct (map pg_id (map (upload_doc w) ?st))"
    using assms(1) by (simp add: comp_def distinct_map_filter)
  have "fold (\<lambda>d m. m(pg_id d \<mapsto> d)) (map (upload_doc w) ?st) (table_map t) (pg_id (upload_doc w p))
          = Some (upload_doc w p)"
    by (rule fold_map_upd_in [OF dist]) (use inst in auto)
  then show "table_map (fold (\<lambda>d t. table_put t d) (map (upload_doc w) ?st) t) (pg_id p) = Some (upload_doc w p)"
    by (simp add: table_map_fold_put)
  show "pg_id p \<in> pg_id ` set (map (upload_doc w) ?st)" using inst by (auto simp: image_iff)
  show "?st \<noteq> []" using inst by (metis empty_iff empty_set)
qed

text \<open>The deletion loop: the ids it reports done are gone remotely; it leaves the persisted id set alone.\<close>

lemma set_fold_set_add: "set (fold (\<lambda>i d. set_add d i) xs dn) = set dn \<union> set xs"
  by (induction xs arbitrary: dn) (auto simp: set_add_def)

lemma delete_batches_done:
  "delete_batches k n bs dn w = (Inr (Some dn'), w') \<Longrightarrow> (\<forall>i\<in>set dn. table_get (w_remote w) i = None) \<Longrightarrow>
   (\<forall>i\<in>set dn'. table_get (w_remote w') i = None) \<and> md_deletedPageIds (w_meta w') = md_deletedPageIds (w_meta w)"
proof (induction bs arbitrary: k dn w)
  case Nil then show ?case by simp
next
  case (Cons b bs)
  obtain l w1 where cv: "checkVaultLock w = (l, w1)" by fastforce
  obtain ok w2 where ex: "executeWithRetry MAX_RETRIES w1 = (ok, w2)" by fastforce
  have f1: "w_remote w1 = w_remote w" "md_deletedPageIds (w_meta w1) = md_deletedPageIds (w_meta w)"
    using cv by (auto simp: checkVaultLock_def saveCheckpoint_def Let_def split: list.splits if_splits)
  have f2: "w_remote w2 = w_remote w1" "w_meta w2 = w_meta w1"
    using ex by (auto simp: executeWithRetry_def Let_def)
  show ?case
  proof (cases "ss_aborted (w_sync w)")
    case True then show ?thesis using Cons.prems by simp
  next
    case False
    let ?st = "filter (\<lambda>i. i \<notin> set (ss_failedItems (w_sync w1))) b"
    let ?w3 = "updateSyncProgress Deleting (Suc k) n (add_processed (length b)
                 (w2\<lparr>w_remote := fold (\<lambda>i t. table_delete t i) ?st (w_remote w2)\<rparr>))"
    have "\<forall>i\<in>set (fold (\<lambda>i d. set_add d i) ?st dn). table_get (w_remote ?w3) i = None"
      using Cons.prems(2) f1 f2 by (auto simp: table_get_fold_delete set_fold_set_add)
    then show ?thesis
      using Cons.prems(1) Cons.IH [of "Suc k" _ ?w3] False cv ex f1 f2
      by (cases l; cases ok) (auto simp: Let_def updateSyncProgress_def add_processed_def map_sync_def)
  qed
qed

lemma delete_batches_ids:
  "md_deletedPageIds (w_meta (snd (delete_batches k n bs dn w))) = md_deletedPageIds (w_meta w)"
proof (induction bs arbitrary: k dn w)
  case Nil then show ?case by simp
next
  case (Cons b bs)
  obtain l w1 where cv: "checkVaultLock w = (l, w1)" by fastforce
  obtain ok w2 where ex: "executeWithRetry MAX_RETRIES w1 = (ok, w2)" by fastforce
  have "md_deletedPageIds (w_meta w1) = md_deletedPageIds (w_meta w)"
    using cv by (auto simp: checkVaultLock_def saveCheckpoint_def Let_def split: list.splits if_splits)
  moreover have "w_meta w2 = w_meta w1" using ex by (auto simp: executeWithRetry_def Let_def)
  ultimately show ?case using Cons.IH cv ex
    by (cases l; cases ok) (simp_all add: Let_def updateSyncProgress_def add_processed_def map_sync_def)
qed

section \<open>Properties of the phases\<close>

text \<open>
  C9. When the commit succeeds, the vault stays open and the editor does not save
  meanwhile, \<open>processUploadBatch\<close> writes the encrypted document of every page of
  the batch not already failed to the remote collection, clears its
  \<open>pendingSync\<close> locally and stamps it \<open>synced\<close> at the current time, and returns
  the id of the last staged page.
\<close>

theorem processUploadBatch_marks_synced:
  assumes "w_faults w = []" and "w_locks w = []" and "w_vault w" and "w_edits w = []"
    and "distinct (map pg_id b)" and "p \<in> set b" and "pg_id p \<notin> set (ss_failedItems (w_sync w))"
    and "table_map (w_local w) (pg_id p) = Some q"
  shows "\<exists>w'. processUploadBatch b w =
      (Inr (Some (pg_id (last (filter (\<lambda>p. pg_id p \<notin> set (ss_failedItems (w_sync w))) b)))), w') \<and>
     table_map (w_remote w') (pg_id p) = Some (upload_doc w p) \<and>
     table_map (w_local w') (pg_id p) =
       Some (q\<lparr>pg_pendingSync := False, pg_syncStatus := Synced, pg_lastSynced := Some (w_now w)\<rparr>)"
  using staged_upload_written(1) [OF assms(5-7), of w "w_remote w"]
    staged_upload_written(2) [OF assms(5-7), of w] staged_upload_written(3) [OF assms(5-7)] assms(1-4,8)
  by (simp add: processUploadBatch_commit table_map_fold_mark_synced editor_saves_none
      add_processed_def map_sync_def)

theorem processUploadBatch_marks_synced_witness:
  "\<exists>w'. processUploadBatch (w_local sample_world) sample_world = (Inr (Some 1), w') \<and>
     table_map (w_remote w') 1 = Some (upload_doc sample_world (hd (w_local sample_world))) \<and>
     table_map (w_local w') 1 =
       Some ((hd (w_local sample_world))\<lparr>pg_pendingSync := False, pg_syncStatus := Synced,
         pg_lastSynced := Some 1000\<rparr>)"
  using processUploadBatch_marks_synced
    [of sample_world "w_local sample_world" "hd (w_local sample_world)" "hd (w_local sample_world)"]
  by (simp add: sample_world_def init_sync_state_def sample_page_def table_map_def)

text \<open>
  C10. An edit the editor saves while the batch commit is awaited is lost to the
  remote: the remote document keeps the content staged before the edit, while the
  local row holds the edit with \<open>pendingSync\<close> cleared, so no later sync uploads it.
\<close>

theorem processUploadBatch_loses_concurrent_edit:
  assumes "w_faults w = []" and "w_locks w = []" and "w_vault w" and "w_edits w = [(pg_id p, c)]"
    and "distinct (map pg_id b)" and "p \<in> set b" and "pg_id p \<notin> set (ss_failedItems (w_sync w))"
    and "table_map (w_local w) (pg_id p) = Some q"
  shows "\<exists>w'. fst (processUploadBatch b w) = Inr (Some (pg_id (last (filter (\<lambda>p. pg_id p \<notin> set (ss_failedItems (w_sync w))) b)))) \<and>
     snd (processUploadBatch b w) = w' \<and>
     table_map (w_remote w') (pg_id p) = Some (upload_doc w p) \<and>
     table_map (w_local w') (pg_id p) =
       Some (q\<lparr>pg_content := c, pg_lastModified := w_now w, pg_pendingSync := False,
               pg_syncStatus := Synced, pg_lastSynced := Some (w_now w)\<rparr>)"
  using staged_upload_written(1) [OF assms(5-7), of w "w_remote w"]
    staged_upload_written(2) [OF assms(5-7), of w] staged_upload_written(3) [OF assms(5-7)] assms(1-4,8)
  by (simp add: processUploadBatch_commit table_map_fold_mark_synced editor_saves_def savePage_def
      table_map_update add_processed_def map_sync_def)

theorem processUploadBatch_loses_concurrent_edit_witness:
  "\<exists>w'. fst (processUploadBatch (w_local sample_world) (sample_world\<lparr>w_edits := [(1, Some ''hello world'')]\<rparr>))
         = Inr (Some 1) \<and>
     snd (processUploadBatch (w_local sample_world) (sample_world\<lparr>w_edits := [(1, Some ''hello world'')]\<rparr>)) = w' \<and>
     table_map (w_remote w') 1 = Some (upload_doc sample_world (hd (w_local sample_world))) \<and>
     table_map (w_local w') 1 =
       Some ((hd (w_local sample_world))\<lparr>pg_content := Some ''hello world'', pg_lastModified := 1000,
         pg_pendingSync := False, pg_syncStatus := Synced, pg_lastSynced := Some 1000\<rparr>)"
  using processUploadBatch_loses_concurrent_edit
    [of "sample_world\<lparr>w_edits := [(1, Some ''hello world'')]\<rparr>" "hd (w_local sample_world)"
        "Some ''hello world''" "w_local sample_world" "hd (w_local sample_world)"]
  by (simp add: sample_world_def init_sync_state_def sample_page_def table_map_def upload_doc_def)



text \<open>
  C15. Deletion intent survives: \<open>handleDeletions\<close> removes a page id from the
  persisted \<open>deletedPageIds\<close> only when the remote document is gone, whether the
  phase completes, stops at a vault lock or throws.
\<close>

theorem handleDeletions_keeps_intent:
  assumes "handleDeletions tok w = (x, w')"
    and "i \<in> set (md_deletedPageIds (w_meta w))" and "i \<notin> set (md_deletedPageIds (w_meta w'))"
  shows "table_get (w_remote w') i = None"
proof -
  let ?w1 = "updateSyncProgress Deleting 0 0 w"
  let ?ids = "remdups (md_deletedPageIds (w_meta ?w1))"
  let ?bs = "chunks BATCH_SIZE ?ids"
  let ?w2 = "updateSyncProgress Deleting 0 (length ?bs) (add_total (length ?ids) ?w1)"
  have ne: "?ids \<noteq> []" using assms(2) by (auto simp: updateSyncProgress_def map_sync_def)
  have m1: "md_deletedPageIds (w_meta ?w2) = md_deletedPageIds (w_meta w)"
    by (simp add: updateSyncProgress_def add_total_def map_sync_def)
  obtain r w3 where db: "delete_batches 0 (length ?bs) ?bs [] ?w2 = (r, w3)" by fastforce
  have m3: "md_deletedPageIds (w_meta w3) = md_deletedPageIds (w_meta w)"
    using delete_batches_ids [of 0 "length ?bs" ?bs "[]" ?w2] db m1 by simp
  have out: "(x, w') = (case (r, w3) of
        (Inl e, w3) \<Rightarrow> (Inl ExnDeletions, logSyncError OpHandleDeletions tok w3)
      | (Inr None, w3) \<Rightarrow> (Inr (), w3)
      | (Inr (Some dn), w3) \<Rightarrow>
          (Inr (), w3\<lparr>w_meta := (w_meta w3)\<lparr>md_deletedPageIds :=
             fold (\<lambda>i ids. clearDeletedPageId ids i) dn (md_deletedPageIds (w_meta w3))\<rparr>\<rparr>))"
    using assms(1) ne db by (simp add: handleDeletions_def Let_def del: remdups_eq_nil_iff)
  show ?thesis
  proof (cases r)
    case (Inl e)
    then show ?thesis using out assms(2,3) m3 by (simp add: logSyncError_def Let_def)
  next
    case (Inr d)
    show ?thesis
    proof (cases d)
      case None
      then show ?thesis using out assms(2,3) m3 Inr by simp
    next
      case (Some dn)
      have gone: "\<forall>j\<in>set dn. table_get (w_remote w3) j = None"
        using delete_batches_done [of 0 "length ?bs" ?bs "[]" ?w2 dn w3] db Inr Some by simp
      have "set (fold (\<lambda>i ids. clearDeletedPageId ids i) dn xs) = set xs - set dn" for xs
        by (induction dn arbitrary: xs) (auto simp: clearDeletedPageId_def)
      then show ?thesis using out assms(2,3) gone m3 Inr Some by auto
    qed
  qed
qed

theorem handleDeletions_keeps_intent_witness:
  "\<exists>x w'. handleDeletions None
      (sample_world\<lparr>w_remote := [sample_page 1 ''olleh''], w_meta := empty_meta\<lparr>md_deletedPageIds := [1]\<rparr>\<rparr>)
      = (x, w') \<and> md_deletedPageIds (w_meta w') = [] \<and> table_get (w_remote w') 1 = None"
proof -
  let ?w = "sample_world\<lparr>w_remote := [sample_page 1 ''olleh''], w_meta := empty_meta\<lparr>md_deletedPageIds := [1]\<rparr>\<rparr>"
  obtain x w' where run: "handleDeletions None ?w = (x, w')" by fastforce
  have ids: "md_deletedPageIds (w_meta w') = []"
    using run by (auto simp add: handleDeletions_def Let_def sample_world_def init_sync_state_def empty_meta_def
      updateSyncProgress_def add_total_def add_processed_def map_sync_def sync_config chunks.simps
      checkVaultLock_def executeWithRetry_def retry_loop.simps set_add_def clearDeletedPageId_def)
  have "table_get (w_remote w') 1 = None"
    by (rule handleDeletions_keeps_intent [OF run]) (simp_all add: ids empty_meta_def)
  then show ?thesis using run ids by blast
qed

end
