(* ===== verification/SyncJob.thy ===== *)
theory SyncJob
  imports SyncPhases
begin

text \<open>
  The sync job of \<^verbatim>\<open>src/src/firebase2.js\<close>: \<open>syncDexieToFirestore\<close> with its
  guards, and \<open>startNewSyncJob\<close> and \<open>resumeSyncJob\<close>, which call each other:
  a fresh job resumes a persisted checkpoint if there is one, and a checkpoint
  whose phase is none of the three known ones starts a fresh job. The two are one
  \<^theory_text>\<open>partial_function\<close> over \<open>checkpoint option\<close> (\<open>None\<close>: start,
  \<open>Some cp\<close>: resume from \<open>cp\<close>), so that a job that never returns has the
  value \<open>None\<close>.
\<close>

datatype sync_reason = SYNC_IN_PROGRESS | NOT_AUTHENTICATED | VAULT_LOCKED | SYNC_ERROR

record completion_stats =
  st_jobId :: "nat option"
  st_totalProcessed :: nat
  st_failedItems :: nat

datatype sync_result = Success completion_stats | Failure sync_reason

text \<open>Sequencing of phases: an exception skips the rest.\<close>

definition then_phase :: "unit outcome \<Rightarrow> (world \<Rightarrow> unit outcome) \<Rightarrow> unit outcome" where
  "then_phase r k = (case r of (Inl e, w) \<Rightarrow> (Inl e, w) | (Inr _, w) \<Rightarrow> k w)"

definition then_last :: "unit outcome \<Rightarrow> (world \<Rightarrow> unit outcome option) \<Rightarrow> unit outcome option" where
  "then_last r k = (case r of (Inl e, w) \<Rightarrow> Some (Inl e, w) | (Inr _, w) \<Rightarrow> k w)"

text \<open>A \<open>catch\<close> that logs and rethrows.\<close>

definition log_rethrow :: "sync_op \<Rightarrow> unit outcome option \<Rightarrow> unit outcome option" where
  "log_rethrow op r =
     (case r of Some (Inl e, w) \<Rightarrow> Some (Inl e, logSyncError op None w) | _ \<Rightarrow> r)"

text \<open>The four phases in the order of \<open>startNewSyncJob\<close>, the download from \<open>tok\<close>.\<close>

definition all_phases :: "page_id option \<Rightarrow> world \<Rightarrow> unit outcome option" where
  "all_phases tok w =
     then_last
       (then_phase (then_phase (processRemoteDeletions w) (uploadFromDexieToFirestore None))
          (handleDeletions None))
       (downloadFromFirestore tok)"

text \<open>\<open>resumeSyncJob\<close> first restores the counters saved in the checkpoint.\<close>

definition restore_checkpoint :: "checkpoint \<Rightarrow> world \<Rightarrow> world" where
  "restore_checkpoint cp =
     map_sync (\<lambda>s. s\<lparr>ss_resumeToken := cp_resumeToken cp, ss_processedItems := cp_processedItems cp,
                     ss_totalItems := cp_totalItems cp, ss_failedItems := cp_failedItems cp\<rparr>)"

text \<open>A checkpoint is resumed when it exists and the job is not aborted.\<close>

definition pending_checkpoint :: "world \<Rightarrow> checkpoint option" where
  "pending_checkpoint w =
     (if ss_aborted (w_sync w) then None else md_pendingSyncJob (w_meta w))"

partial_function (option) sync_job :: "checkpoint option \<Rightarrow> world \<Rightarrow> unit outcome option" where
  "sync_job arg w =
     (case arg of
        None \<Rightarrow>
          (case pending_checkpoint w of
             Some cp \<Rightarrow> sync_job (Some cp) w
           | None \<Rightarrow> log_rethrow OpSyncJob (all_phases None w))
      | Some cp \<Rightarrow>
          (let w1 = restore_checkpoint cp w in
           case cp_phase cp of
             Some Downloading \<Rightarrow> log_rethrow OpResumeSync (all_phases (cp_resumeToken cp) w1)
           | Some Uploading \<Rightarrow>
               log_rethrow OpResumeSync
                 (Some (then_phase (uploadFromDexieToFirestore (cp_resumeToken cp) w1) (handleDeletions None)))
           | Some Deleting \<Rightarrow> log_rethrow OpResumeSync (Some (handleDeletions (cp_resumeToken cp) w1))
           | None \<Rightarrow> Option.bind (sync_job None w1) (\<lambda>r. log_rethrow OpResumeSync (Some r))))"

text \<open>\<open>scheduleRecovery()\<close>: a recovery sync on a timer unless the job was aborted.\<close>

definition scheduleRecovery :: "world \<Rightarrow> world" where
  "scheduleRecovery w = (if ss_aborted (w_sync w) then w else w\<lparr>w_recovery := Suc (w_recovery w)\<rparr>)"

definition getCompletionStats :: "sync_state \<Rightarrow> completion_stats" where
  "getCompletionStats s =
     \<lparr>st_jobId = ss_currentJobId s, st_totalProcessed = ss_processedItems s,
      st_failedItems = length (ss_failedItems s)\<rparr>"

text \<open>The body after the guards: a fresh job state, the tombstone of a deletion, the job.\<close>

definition start_job :: "page_id \<Rightarrow> bool \<Rightarrow> world \<Rightarrow> world" where
  "start_job pid isDelete w =
     (let w1 = w\<lparr>w_sync := (resetSyncState (w_sync w))\<lparr>ss_inProgress := True,
                     ss_currentJobId := Some (w_nextJob w), ss_startTime := Some (w_now w)\<rparr>,
                 w_nextJob := Suc (w_nextJob w)\<rparr>
      in if isDelete then uploadTombstone pid w1 else w1)"

definition finish_job :: "unit outcome \<Rightarrow> sync_result \<times> world" where
  "finish_job r =
     (case r of
        (Inr _, w) \<Rightarrow>
          (Success (getCompletionStats (w_sync w)),
           map_sync (\<lambda>s. s\<lparr>ss_inProgress := False\<rparr>)
             (w\<lparr>w_meta := (w_meta w)\<lparr>md_pendingSyncJob := None, md_lastSyncTime := Some (w_now w),
                  md_lastSuccessfulSync := Some (w_now w, ss_processedItems (w_sync w))\<rparr>\<rparr>))
      | (Inl _, w) \<Rightarrow>
          (Failure SYNC_ERROR, map_sync (\<lambda>s. s\<lparr>ss_inProgress := False\<rparr>) (scheduleRecovery (saveCheckpoint w))))"

definition syncDexieToFirestore :: "page_id \<Rightarrow> bool \<Rightarrow> world \<Rightarrow> (sync_result \<times> world) option" where
  "syncDexieToFirestore pid isDelete w =
     (if ss_inProgress (w_sync w) then Some (Failure SYNC_IN_PROGRESS, w)
      else if \<not> w_user w then Some (Failure NOT_AUTHENTICATED, w)
      else if \<not> w_vault w then Some (Failure VAULT_LOCKED, w)
      else
        (let w1 = start_job pid isDelete w in
         map_option finish_job (sync_job (pending_checkpoint w1) w1)))"

text \<open>
  The persisted checkpoint that \<open>startNewSyncJob\<close> and \<open>resumeSyncJob\<close> hand
  back and forth: present, with no known phase, and the job not aborted.
\<close>

definition stuck_checkpoint :: "world \<Rightarrow> bool" where
  "stuck_checkpoint w \<longleftrightarrow> \<not> ss_aborted (w_sync w) \<and>
     (case md_pendingSyncJob (w_meta w) of None \<Rightarrow> False | Some cp \<Rightarrow> cp_phase cp = None)"

section \<open>Sample worlds\<close>

text \<open>
  A page \<open>old\<close> in sync locally, edited on another device at 500 to \<open>new\<close>
  (stored encrypted); \<open>locks\<close> are the outcomes of the vault-lock checks.
\<close>

definition edited_world :: "bool list \<Rightarrow> world" where
  "edited_world locks =
     sample_world\<lparr>w_local := [(sample_page 1 ''old'')\<lparr>pg_lastModified := 100\<rparr>],
       w_remote := [(sample_page 1 ''wen'')\<lparr>pg_lastModified := 500, pg_isEncrypted := True\<rparr>],
       w_locks := locks\<rparr>"

text \<open>A checkpoint with no phase, as \<open>saveCheckpoint\<close> writes it before any phase started.\<close>

definition unknown_checkpoint :: checkpoint where
  "unknown_checkpoint =
     \<lparr>cp_jobId = Some 0, cp_phase = None, cp_resumeToken = None, cp_processedItems = 0,
      cp_totalItems = 0, cp_failedItems = [], cp_timestamp = 0\<rparr>"

text \<open>Everything a concrete run of the job unfolds to.\<close>

lemmas sync_run_defs = syncDexieToFirestore_def start_job_def sync_job.simps pending_checkpoint_def
  all_phases_def then_phase_def then_last_def log_rethrow_def processRemoteDeletions_def
  fetchNewTombstones_def remote_attempt_def uploadFromDexieToFirestore_def handleDeletions_def
  downloadFromFirestore_def download_loop.simps finish_job_def getCompletionStats_def
  sync_helper_defs map_sync_def updateSyncProgress_def add_total_def add_processed_def
  processUploadBatch_def editor_saves_def chunks.simps init_sync_state_def empty_meta_def getPendingSyncPages_def
  truthy_tok_def sample_page_def upload_doc_def mark_synced_def table_put_def table_defs
  firestore_query_def field___id_def download_content_def download_one_def shouldMergePages_def
  mergeAndSavePages_def merged_page_def MERGE_TOLERANCE_def sync_config retry_loop.simps
  truthy_str_def truthy_int_def Let_def sample_world_def edited_world_def

section \<open>Lemmas\<close>

lemma finish_job_result:
  "fst (finish_job r) = Failure SYNC_ERROR \<or> (\<exists>st. fst (finish_job r) = Success st)"
  unfolding finish_job_def by (auto split: prod.splits sum.splits)

lemma finish_job_not_running: "\<not> ss_inProgress (w_sync (snd (finish_job r)))"
  unfolding finish_job_def map_sync_def by (auto split: prod.splits sum.splits)

lemma start_job_meta: "w_meta (start_job pid d w) = w_meta w"
  unfolding start_job_def uploadTombstone_def remote_attempt_def
  by (auto simp: Let_def split: list.splits bool.splits)

lemma start_job_not_aborted: "\<not> ss_aborted (w_sync (start_job pid d w))"
  unfolding start_job_def uploadTombstone_def remote_attempt_def resetSyncState_def
  by (auto simp: Let_def split: list.splits bool.splits)

text \<open>Past the guards, the result is the one \<open>finish_job\<close> builds.\<close>

lemma syncDexieToFirestore_finish:
  "syncDexieToFirestore pid d w = Some (r, w') \<Longrightarrow>
   \<not> (ss_inProgress (w_sync w) \<or> \<not> w_user w \<or> \<not> w_vault w) \<Longrightarrow>
   \<exists>x. finish_job x = (r, w')"
  by (auto simp: syncDexieToFirestore_def Let_def)

lemma restore_checkpoint_stuck: "stuck_checkpoint (restore_checkpoint cp w) = stuck_checkpoint w"
  by (simp add: stuck_checkpoint_def restore_checkpoint_def map_sync_def)

text \<open>
  Partial correctness read backwards: no run of the job that starts from a stuck
  checkpoint returns, by induction on the fixpoint.
\<close>

lemma sync_job_stuck_no_result:
  "sync_job arg w = Some r \<Longrightarrow>
   stuck_checkpoint w \<longrightarrow> (case arg of None \<Rightarrow> True | Some cp \<Rightarrow> cp_phase cp = None) \<longrightarrow> False"
proof (induction rule: sync_job.raw_induct [rotated, consumes 1])
  case (1 sj arg w r)
  show ?case
  proof (intro impI)
    assume st: "stuck_checkpoint w"
      and ph: "case arg of None \<Rightarrow> True | Some cp \<Rightarrow> cp_phase cp = None"
    show False
    proof (cases arg)
      case None
      then obtain cp where "cp_phase cp = None" "pending_checkpoint w = Some cp"
        using st by (auto simp: stuck_checkpoint_def pending_checkpoint_def split: option.splits)
      then show False using "1"(1) [of "Some cp" w r] "1"(2) st None by simp
    next
      case (Some cp)
      then have "cp_phase cp = None" using ph by simp
      then obtain r' where "sj None (restore_checkpoint cp w) = Some r'"
        using "1"(2) Some by (auto simp: Let_def bind_eq_Some_conv)
      then show False using "1"(1) [of None "restore_checkpoint cp w" r'] st
        by (simp add: restore_checkpoint_stuck)
    qed
  qed
qed

section \<open>Properties of the job\<close>

text \<open>
  C1. A persisted checkpoint whose phase is none of downloading, uploading and
  deleting makes the sync never return: \<open>resumeSyncJob\<close> falls to its default
  branch, \<open>startNewSyncJob\<close> reads the same checkpoint again and resumes it, and
  so on; the comment "starting fresh sync" is not what happens.
\<close>

theorem unknown_phase_diverges:
  assumes "md_pendingSyncJob (w_meta w) = Some cp" and "cp_phase cp = None"
    and "\<not> ss_inProgress (w_sync w)" and "w_user w" and "w_vault w"
  shows "syncDexieToFirestore pid d w = None"
proof -
  let ?w1 = "start_job pid d w"
  have st: "stuck_checkpoint ?w1"
    using assms(1,2) by (simp add: stuck_checkpoint_def start_job_meta start_job_not_aborted)
  have "pending_checkpoint ?w1 = Some cp"
    using assms(1) by (simp add: pending_checkpoint_def start_job_meta start_job_not_aborted)
  moreover have "sync_job (Some cp) ?w1 = None"
    using sync_job_stuck_no_result [of "Some cp" ?w1] st assms(2)
    by (cases "sync_job (Some cp) ?w1") auto
  ultimately show ?thesis using assms(3-5) by (simp add: syncDexieToFirestore_def)
qed

theorem unknown_phase_diverges_witness:
  "syncDexieToFirestore 0 False
     (sample_world\<lparr>w_meta := empty_meta\<lparr>md_pendingSyncJob := Some unknown_checkpoint\<rparr>\<rparr>) = None"
  by (rule unknown_phase_diverges [where cp = unknown_checkpoint])
    (simp_all add: sample_world_def init_sync_state_def unknown_checkpoint_def)



text \<open>
  C3. Every call that returns leaves the in-progress flag as it found it: a job
  that ran clears it in its \<open>finally\<close>, on success and on error.
\<close>

theorem syncDexieToFirestore_releases_flag:
  assumes "syncDexieToFirestore pid d w = Some (r, w')"
  shows "ss_inProgress (w_sync w') = ss_inProgress (w_sync w)"
proof (cases "ss_inProgress (w_sync w) \<or> \<not> w_user w \<or> \<not> w_vault w")
  case True
  then show ?thesis using assms by (auto simp: syncDexieToFirestore_def split: if_splits)
next
  case False
  then obtain x where "finish_job x = (r, w')"
    using syncDexieToFirestore_finish [OF assms] by blast
  then show ?thesis using False finish_job_not_running [of x] by simp
qed

theorem syncDexieToFirestore_releases_flag_witness:
  "\<exists>r w'. syncDexieToFirestore 0 False sample_world = Some (r, w') \<and> \<not> ss_inProgress (w_sync w')"
proof -
  obtain r w' where run: "syncDexieToFirestore 0 False sample_world = Some (r, w')"
    by (simp add: sync_run_defs)
  show ?thesis
    using syncDexieToFirestore_releases_flag [OF run] run by (simp add: sample_world_def init_sync_state_def)
qed



end
