(* ===== verification/SyncInvariant.thy ===== *)
theory SyncInvariant
  imports SyncJob
begin

text \<open>
  The invariant of the engine's world and the states an app can reach. The
  invariant: both page tables well formed (ids strictly increasing) and both error
  logs bounded, the in-memory one with one entry per key. Every step of the
  engine preserves it, down to the batch loops and the two partial functions
  (by fixpoint induction). \<open>reachable\<close> closes an initial world under the
  operations of the app: a sync job, a local save of the editor through
  \<open>savePage\<close> (\<^verbatim>\<open>src/src/smartSync.js\<close>), a local deletion recorded for the
  deletion phase, a write of another device to the remote collection, changes of
  the environment (network faults, random coins, jitter, vault locks, clock,
  user), and \<open>abortSync\<close>.
\<close>

definition world_inv :: "world \<Rightarrow> bool" where
  "world_inv w \<longleftrightarrow> table_wf (w_local w) \<and> table_wf (w_remote w) \<and>
     errlog_wf (ss_errorLog (w_sync w)) \<and> length (md_syncErrorLog (w_meta w)) \<le> ERROR_LOG_LIMIT"

inductive reachable :: "world \<Rightarrow> bool" where
  init: "table_wf (w_local w) \<Longrightarrow> table_wf (w_remote w) \<Longrightarrow> ss_errorLog (w_sync w) = [] \<Longrightarrow>
         md_syncErrorLog (w_meta w) = [] \<Longrightarrow> \<not> ss_inProgress (w_sync w) \<Longrightarrow> reachable w"
| sync: "reachable w \<Longrightarrow> syncDexieToFirestore pid d w = Some (r, w') \<Longrightarrow> reachable w'"
| save: "reachable w \<Longrightarrow> reachable (w\<lparr>w_local := savePage (w_now w) (w_local w) i c\<rparr>)"
| delete: "reachable w \<Longrightarrow>
    reachable (w\<lparr>w_local := deletePage (w_local w) i,
      w_meta := (w_meta w)\<lparr>md_deletedPageIds := markPageForDeletion (md_deletedPageIds (w_meta w)) i\<rparr>\<rparr>)"
| remote_write: "reachable w \<Longrightarrow> reachable (w\<lparr>w_remote := table_put (w_remote w) d\<rparr>)"
| env: "reachable w \<Longrightarrow>
    reachable (w\<lparr>w_faults := fs, w_coins := cs, w_jitter := js, w_locks := ls, w_edits := es,
      w_vault := v, w_user := u, w_now := t\<rparr>)"
| abort: "reachable w \<Longrightarrow> reachable (snd (abortSync w))"

section \<open>Preservation by the helpers\<close>

lemma inv_logSyncError [inv_simps]: "world_inv w \<Longrightarrow> world_inv (logSyncError op d w)"
  using logSyncError_errlog [of w op d]
  by (simp add: world_inv_def logSyncError_def Let_def)

lemma inv_saveCheckpoint [inv_simps]: "world_inv w \<Longrightarrow> world_inv (saveCheckpoint w)"
  by (simp add: world_inv_def saveCheckpoint_def)

lemma inv_saveResumeCheckpoint [inv_simps]: "world_inv w \<Longrightarrow> world_inv (saveResumeCheckpoint ph tok w)"
  by (simp add: world_inv_def saveResumeCheckpoint_def take_coin_def saveCheckpoint_def Let_def
      split: list.splits)

lemma inv_handleSyncRetry [inv_simps]: "world_inv w \<Longrightarrow> world_inv (snd (handleSyncRetry ph tok w))"
  by (simp add: handleSyncRetry_def Let_def inv_saveResumeCheckpoint)

lemma inv_checkVaultLock [inv_simps]: "world_inv w \<Longrightarrow> world_inv (snd (checkVaultLock w))"
  by (simp add: world_inv_def checkVaultLock_def saveCheckpoint_def Let_def split: list.splits)

lemma inv_executeWithRetry [inv_simps]: "world_inv w \<Longrightarrow> world_inv (snd (executeWithRetry m w))"
  by (simp add: world_inv_def executeWithRetry_def Let_def)

lemma inv_map_sync [inv_simps]:
  "(\<And>s. ss_errorLog (f s) = ss_errorLog s) \<Longrightarrow> world_inv w \<Longrightarrow> world_inv (map_sync f w)"
  by (simp add: world_inv_def map_sync_def)

lemma inv_counters [inv_simps]:
  "world_inv w \<Longrightarrow> world_inv (add_failed ids w)"
  "world_inv w \<Longrightarrow> world_inv (add_processed n w)"
  "world_inv w \<Longrightarrow> world_inv (add_total n w)"
  "world_inv w \<Longrightarrow> world_inv (updateSyncProgress ph c t w)"
  by (simp_all add: add_failed_def add_processed_def add_total_def updateSyncProgress_def inv_map_sync)

lemma table_wf_fold_savePage: "table_wf t \<Longrightarrow> table_wf (fold (\<lambda>(i, c) t. savePage now t i c) es t)"
  by (induction es arbitrary: t) (auto simp: table_wf_savePage)

lemma table_wf_fold_put: "table_wf t \<Longrightarrow> table_wf (fold (\<lambda>d t. table_put t d) ds t)"
  by (induction ds arbitrary: t) (auto simp: table_wf_put)

lemma table_wf_fold_delete: "table_wf t \<Longrightarrow> table_wf (fold (\<lambda>i t. table_delete t (f i)) ds t)"
  by (induction ds arbitrary: t) (auto simp: table_wf_delete)

lemma table_wf_fold_mark_synced: "table_wf t \<Longrightarrow> table_wf (fold (\<lambda>d t. mark_synced now t (pg_id d)) ds t)"
  by (induction ds arbitrary: t) (auto simp: mark_synced_def table_wf_update)

lemma inv_editor_saves [inv_simps]: "world_inv w \<Longrightarrow> world_inv (editor_saves w)"
  by (simp add: world_inv_def editor_saves_def table_wf_fold_savePage)

lemma inv_scheduleRecovery [inv_simps]: "world_inv w \<Longrightarrow> world_inv (scheduleRecovery w)"
  by (simp add: world_inv_def scheduleRecovery_def)

lemma inv_uploadTombstone [inv_simps]: "world_inv w \<Longrightarrow> world_inv (uploadTombstone i w)"
  by (simp add: world_inv_def uploadTombstone_def remote_attempt_def split: list.splits bool.splits)

lemma inv_processRemoteDeletions [inv_simps]: "world_inv w \<Longrightarrow> world_inv (snd (processRemoteDeletions w))"
  by (simp add: world_inv_def processRemoteDeletions_def fetchNewTombstones_def remote_attempt_def Let_def
      table_wf_fold_delete split: list.splits bool.splits prod.splits)

section \<open>Preservation by the phases\<close>

lemma inv_snd_pair: "world_inv (snd p) \<Longrightarrow> p = (a, w') \<Longrightarrow> world_inv w'"
  by simp

lemmas inv_pairs =
  inv_snd_pair [OF inv_checkVaultLock] inv_snd_pair [OF inv_executeWithRetry]
  inv_snd_pair [OF inv_handleSyncRetry]

lemma inv_upload_stage:
  "world_inv w \<Longrightarrow> upload_stage w ps acc lst = (b, acc', lst', w') \<Longrightarrow> world_inv w'"
proof (induction ps arbitrary: w acc lst)
  case Nil then show ?case by simp
next
  case (Cons p ps)
  obtain l w1 where cv: "checkVaultLock w = (l, w1)" by fastforce
  have i1: "world_inv w1" using inv_pairs(1) [OF Cons.prems(1) cv] .
  show ?case
  proof (cases l)
    case True then show ?thesis using Cons.prems(2) cv i1 by simp
  next
    case False
    then show ?thesis using Cons.prems(2) cv Cons.IH [OF i1] by (auto split: if_splits)
  qed
qed

lemma inv_processUploadBatch:
  "world_inv w \<Longrightarrow> world_inv (snd (processUploadBatch b w))"
proof -
  assume i: "world_inv w"
  obtain l docs lst w1 where st: "upload_stage w b [] None = (l, docs, lst, w1)" by (cases "upload_stage w b [] None") auto
  have i1: "world_inv w1" using inv_upload_stage [OF i st] .
  obtain ok w2 where ex: "executeWithRetry MAX_RETRIES w1 = (ok, w2)" by fastforce
  have i2: "world_inv (editor_saves w2)" using inv_editor_saves inv_pairs(2) [OF i1 ex] by blast
  let ?w3 = "logSyncError OpUploadBatch None (add_failed (map pg_id b) (editor_saves w2))"
  have i3: "world_inv ?w3" using i2 by (simp add: inv_simps)
  obtain c w4 where hr: "handleSyncRetry Uploading (Some (pg_id (hd b))) ?w3 = (c, w4)" by fastforce
  have i4: "world_inv w4" using inv_pairs(3) [OF i3 hr] .
  have ok: "world_inv (add_processed n ((editor_saves w2)\<lparr>w_remote := fold (\<lambda>d t. table_put t d) ds (w_remote (editor_saves w2)),
      w_local := fold (\<lambda>d t. mark_synced (w_now (editor_saves w2)) t (pg_id d)) ds (w_local (editor_saves w2))\<rparr>))"
    for n ds
    using i2 by (simp add: world_inv_def add_processed_def map_sync_def table_wf_fold_put table_wf_fold_mark_synced)
  show ?thesis
    using st ex hr i1 i4 ok
    by (auto simp: processUploadBatch_def Let_def split: bool.splits)
qed

lemma inv_upload_batches:
  "world_inv w \<Longrightarrow> world_inv (snd (upload_batches k n bs w))"
proof (induction bs arbitrary: k w)
  case Nil then show ?case by simp
next
  case (Cons b bs)
  obtain l w1 where cv: "checkVaultLock w = (l, w1)" by fastforce
  have i1: "world_inv w1" using inv_pairs(1) [OF Cons.prems cv] .
  obtain r w2 where pb: "processUploadBatch b w1 = (r, w2)" by fastforce
  have i2: "world_inv w2" using inv_snd_pair [OF inv_processUploadBatch [OF i1] pb] .
  have i3: "world_inv (case x of None \<Rightarrow> w2 | Some i \<Rightarrow> saveResumeCheckpoint Uploading (Some i) w2)" for x
    using i2 by (simp add: inv_simps split: option.splits)
  show ?case
    using cv pb i1 i2 Cons.prems Cons.IH [OF inv_counters(4) [OF i3]]
    by (auto simp: Let_def split: sum.splits bool.splits)
qed

lemma inv_uploadFromDexieToFirestore:
  "world_inv w \<Longrightarrow> world_inv (snd (uploadFromDexieToFirestore tok w))"
proof -
  assume i: "world_inv w"
  let ?w1 = "updateSyncProgress Uploading 0 0 w"
  have i1: "world_inv ?w1" using i by (simp add: inv_simps)
  have "world_inv (snd (upload_batches 0 m bs (updateSyncProgress Uploading 0 m (add_total n ?w1))))" for m bs n
    using i1 by (simp add: inv_upload_batches inv_simps)
  then show ?thesis
    using i1 by (simp add: uploadFromDexieToFirestore_def Let_def inv_simps prod.case_eq_if sum.case_eq_if)
qed

lemma inv_delete_batches:
  "world_inv w \<Longrightarrow> world_inv (snd (delete_batches k n bs dn w))"
proof (induction bs arbitrary: k dn w)
  case Nil then show ?case by simp
next
  case (Cons b bs)
  obtain l w1 where cv: "checkVaultLock w = (l, w1)" by fastforce
  have i1: "world_inv w1" using inv_pairs(1) [OF Cons.prems cv] .
  obtain ok w2 where ex: "executeWithRetry MAX_RETRIES w1 = (ok, w2)" by fastforce
  have i2: "world_inv w2" using inv_pairs(2) [OF i1 ex] .
  have i3: "world_inv (w2\<lparr>w_remote := fold (\<lambda>i t. table_delete t i) ds (w_remote w2)\<rparr>)" for ds
    using i2 table_wf_fold_delete [of "w_remote w2" "\<lambda>i. i" ds] by (simp add: world_inv_def)
  show ?case
    using Cons.prems cv ex i1 i2 Cons.IH [OF inv_counters(4) [OF inv_counters(2) [OF i3]]]
    by (cases l; cases ok) (simp_all add: Let_def)
qed

lemma inv_deletedPageIds [inv_simps]:
  "world_inv w \<Longrightarrow> world_inv (w\<lparr>w_meta := (w_meta w)\<lparr>md_deletedPageIds := ids\<rparr>\<rparr>)"
  by (simp add: world_inv_def)

lemma inv_handleDeletions:
  "world_inv w \<Longrightarrow> world_inv (snd (handleDeletions tok w))"
proof -
  assume i: "world_inv w"
  let ?w1 = "updateSyncProgress Deleting 0 0 w"
  have i1: "world_inv ?w1" using i by (simp add: inv_simps)
  have "world_inv (snd (delete_batches 0 m bs [] (updateSyncProgress Deleting 0 m (add_total n ?w1))))" for m bs n
    using i1 by (simp add: inv_delete_batches inv_simps)
  then show ?thesis
    using i1 by (simp add: handleDeletions_def Let_def inv_simps prod.case_eq_if sum.case_eq_if
        option.case_eq_if)
qed

lemma inv_set_local:
  "world_inv w \<Longrightarrow> table_wf t \<Longrightarrow> world_inv (w\<lparr>w_local := t\<rparr>)"
  by (simp add: world_inv_def)

lemma inv_download_one:
  "world_inv w \<Longrightarrow> world_inv (snd (download_one r w))"
proof -
  assume i: "world_inv w"
  have wf: "table_wf (w_local w)" using i by (simp add: world_inv_def)
  have c: "world_inv (w\<lparr>w_local := t\<rparr>)"
    if "createPageFromFirestore (w_local w) KeyObject f = Inr t" for f t
    using that by (simp add: createPageFromFirestore_def)
  have m: "world_inv (w\<lparr>w_local := t\<rparr>)"
    if "mergeAndSavePages (w_now w) (w_local w) l r d = Inr t" for l d t
    using inv_set_local [OF i table_wf_mergeAndSavePages [OF wf that]] .
  show ?thesis
    using i c m by (auto simp: download_one_def Let_def inv_simps split: option.splits sum.splits)
qed

lemma inv_processDownloadBatch:
  "world_inv w \<Longrightarrow> world_inv (processDownloadBatch rs w)"
proof (induction rs arbitrary: w)
  case Nil then show ?case by simp
next
  case (Cons r rs)
  obtain l w1 where cv: "checkVaultLock w = (l, w1)" by fastforce
  have i1: "world_inv w1" using inv_pairs(1) [OF Cons.prems cv] .
  obtain ok w2 where d1: "download_one r w1 = (ok, w2)" by fastforce
  have i2: "world_inv w2" using inv_snd_pair [OF inv_download_one [OF i1] d1] .
  show ?case
    using Cons.prems cv d1 i1 i2 Cons.IH by (cases l; cases ok) (simp_all add: inv_simps)
qed

lemma inv_download_subbatches:
  "world_inv w \<Longrightarrow> world_inv (snd (download_subbatches bs lst w))"
  by (induction bs lst w rule: download_subbatches.induct)
    (simp_all add: Let_def inv_simps inv_processDownloadBatch)

lemma inv_download_loop:
  "download_loop since lst nb w = Some r \<Longrightarrow> world_inv w \<longrightarrow> world_inv (snd r)"
proof (induction arbitrary: rule: download_loop.raw_induct [rotated, consumes 1])
  case (1 dl since lst nb w r)
  show ?case
  proof
    assume i: "world_inv w"
    obtain l w1 where cv: "checkVaultLock w = (l, w1)" by fastforce
    have i1: "world_inv w1" using inv_pairs(1) [OF i cv] .
    obtain ok w2 where ex: "executeWithRetry MAX_RETRIES w1 = (ok, w2)" by fastforce
    have i2: "world_inv w2" using inv_pairs(2) [OF i1 ex] .
    obtain c w4 where hr: "handleSyncRetry Downloading lst (logSyncError OpDownloadBatch lst w2) = (c, w4)"
      by fastforce
    have i4: "world_inv w4" using inv_pairs(3) [OF inv_logSyncError [OF i2] hr] .
    have isb: "world_inv (snd (download_subbatches bs lst (add_total n (updateSyncProgress Downloading m 0 w2))))"
      for bs n m
      using i2 by (simp add: inv_download_subbatches inv_simps)
    show "world_inv (snd r)"
      using "1"(1) [of since lst nb w4 r] "1"(1) [of since _ "Suc nb" _ r] "1"(2) i cv ex hr i1 i2 i4 isb
      by (auto simp: prod.case_eq_if split: if_splits)
  qed
qed

section \<open>Preservation by the job\<close>

lemma inv_downloadFromFirestore:
  "downloadFromFirestore tok w = Some r \<Longrightarrow> world_inv w \<Longrightarrow> world_inv (snd r)"
  unfolding downloadFromFirestore_def using inv_download_loop inv_counters(4) by blast

lemma inv_then_phase:
  "world_inv (snd r) \<Longrightarrow> (\<And>w. world_inv w \<Longrightarrow> world_inv (snd (k w))) \<Longrightarrow> world_inv (snd (then_phase r k))"
  by (auto simp: then_phase_def split: prod.splits sum.splits)

lemma inv_then_last:
  "world_inv (snd r) \<Longrightarrow> (\<And>w r'. k w = Some r' \<Longrightarrow> world_inv w \<Longrightarrow> world_inv (snd r')) \<Longrightarrow>
   then_last r k = Some r' \<Longrightarrow> world_inv (snd r')"
  by (auto simp: then_last_def split: prod.splits sum.splits)

lemma inv_log_rethrow:
  "log_rethrow op r = Some r' \<Longrightarrow> \<exists>x. r = Some x \<and> (world_inv (snd x) \<longrightarrow> world_inv (snd r'))"
  by (auto simp: log_rethrow_def inv_simps split: option.splits prod.splits sum.splits)

lemma inv_all_phases:
  "all_phases tok w = Some r \<Longrightarrow> world_inv w \<Longrightarrow> world_inv (snd r)"
  unfolding all_phases_def
  by (erule inv_then_last [rotated 2])
    (auto intro!: inv_then_phase inv_processRemoteDeletions inv_uploadFromDexieToFirestore
      inv_handleDeletions dest: inv_downloadFromFirestore)

lemma inv_restore_checkpoint [inv_simps]: "world_inv w \<Longrightarrow> world_inv (restore_checkpoint cp w)"
  by (simp add: restore_checkpoint_def inv_map_sync)

lemma inv_sync_job:
  "sync_job arg w = Some r \<Longrightarrow> world_inv w \<longrightarrow> world_inv (snd r)"
proof (induction arbitrary: rule: sync_job.raw_induct [rotated, consumes 1])
  case (1 sj arg w r)
  show ?case
  proof
    assume i: "world_inv w"
    show "world_inv (snd r)"
    proof (cases arg)
      case None
      show ?thesis
      proof (cases "pending_checkpoint w")
        case (Some cp)
        then show ?thesis using "1"(1) [of "Some cp" w r] "1"(2) None i by simp
      next
        case n: None
        then obtain x where "all_phases None w = Some x" "world_inv (snd x) \<longrightarrow> world_inv (snd r)"
          using "1"(2) None inv_log_rethrow [of OpSyncJob "all_phases None w" r] by auto
        then show ?thesis using inv_all_phases i by blast
      qed
    next
      case (Some cp)
      let ?w1 = "restore_checkpoint cp w"
      have i1: "world_inv ?w1" using i by (simp add: inv_simps)
      have lr: "world_inv (snd r)" if "log_rethrow OpResumeSync x = Some r" and "\<And>y. x = Some y \<Longrightarrow> world_inv (snd y)" for x
        using inv_log_rethrow [OF that(1)] that(2) by blast
      show ?thesis
      proof (cases "cp_phase cp")
        case None
        then obtain y where "sj None ?w1 = Some y" "log_rethrow OpResumeSync (Some y) = Some r"
          using "1"(2) Some by (auto simp: Let_def bind_eq_Some_conv)
        then show ?thesis using "1"(1) [of None ?w1 y] i1 lr by blast
      next
        case (Some ph)
        then show ?thesis
        proof (cases ph)
          case Downloading
          then show ?thesis using "1"(2) \<open>arg = Some cp\<close> Some i1
            by (auto simp: Let_def intro!: lr dest: inv_all_phases)
        next
          case Uploading
          let ?x = "then_phase (uploadFromDexieToFirestore (cp_resumeToken cp) ?w1) (handleDeletions None)"
          have u: "world_inv (snd ?x)"
            by (rule inv_then_phase [OF inv_uploadFromDexieToFirestore [OF i1] inv_handleDeletions])
          show ?thesis
            by (rule lr [where x = "Some ?x"])
              (use "1"(2) \<open>arg = Some cp\<close> Some Uploading u in \<open>simp_all add: Let_def\<close>)
        next
          case Deleting
          have u: "world_inv (snd (handleDeletions (cp_resumeToken cp) ?w1))"
            by (rule inv_handleDeletions [OF i1])
          show ?thesis
            by (rule lr [where x = "Some (handleDeletions (cp_resumeToken cp) ?w1)"])
              (use "1"(2) \<open>arg = Some cp\<close> Some Deleting u in \<open>simp_all add: Let_def\<close>)
        qed
      qed
    qed
  qed
qed

lemma inv_set_sync:
  "world_inv w \<Longrightarrow> ss_errorLog s = ss_errorLog (w_sync w) \<Longrightarrow> world_inv (w\<lparr>w_sync := s, w_nextJob := n\<rparr>)"
  by (simp add: world_inv_def)

lemma inv_set_meta:
  "world_inv w \<Longrightarrow> md_syncErrorLog m = md_syncErrorLog (w_meta w) \<Longrightarrow> world_inv (w\<lparr>w_meta := m\<rparr>)"
  by (simp add: world_inv_def)

lemma inv_start_job [inv_simps]: "world_inv w \<Longrightarrow> world_inv (start_job pid d w)"
  by (cases d) (simp_all add: start_job_def inv_uploadTombstone inv_set_sync resetSyncState_def)

lemma inv_finish_job: "world_inv (snd r) \<Longrightarrow> world_inv (snd (finish_job r))"
  by (auto simp: finish_job_def inv_simps inv_set_meta split: prod.splits sum.splits)

lemma inv_syncDexieToFirestore:
  "syncDexieToFirestore pid d w = Some (res, w') \<Longrightarrow> world_inv w \<Longrightarrow> world_inv w'"
  by (auto simp: syncDexieToFirestore_def Let_def split: if_splits
      dest!: inv_sync_job [rule_format, OF _ inv_start_job] intro: inv_snd_pair [OF inv_finish_job])

section \<open>Preservation by the app's operations\<close>

lemma sync_keeps_idle:
  "syncDexieToFirestore pid d w = Some (r, w') \<Longrightarrow> \<not> ss_inProgress (w_sync w) \<Longrightarrow>
   \<not> ss_inProgress (w_sync w')"
proof -
  assume run: "syncDexieToFirestore pid d w = Some (r, w')" and idle: "\<not> ss_inProgress (w_sync w)"
  show ?thesis
  proof (cases "\<not> w_user w \<or> \<not> w_vault w")
    case True
    then show ?thesis using run idle by (auto simp: syncDexieToFirestore_def split: if_splits)
  next
    case False
    then obtain x where "finish_job x = (r, w')" using syncDexieToFirestore_finish [OF run] idle by blast
    then show ?thesis using finish_job_not_running [of x] by simp
  qed
qed

lemma inv_app_steps:
  "world_inv w \<Longrightarrow> world_inv (w\<lparr>w_local := savePage now (w_local w) i c\<rparr>)"
  "world_inv w \<Longrightarrow> md_syncErrorLog m = md_syncErrorLog (w_meta w) \<Longrightarrow>
     world_inv (w\<lparr>w_local := deletePage (w_local w) i, w_meta := m\<rparr>)"
  "world_inv w \<Longrightarrow> world_inv (w\<lparr>w_remote := table_put (w_remote w) d\<rparr>)"
  "world_inv w \<Longrightarrow> world_inv (w\<lparr>w_faults := fs, w_coins := cs, w_jitter := js, w_locks := ls,
     w_edits := es, w_vault := v, w_user := u, w_now := t\<rparr>)"
  by (simp_all add: world_inv_def table_wf_savePage deletePage_def table_wf_delete table_wf_put)

section \<open>Properties of reachable worlds\<close>

text \<open>
  C13. In every world the app can reach, both page tables are well formed, the
  in-memory error log has at most 100 entries with distinct keys, the persisted
  error log at most 100 entries, and no job is left running between operations.
\<close>

theorem reachable_world_inv:
  assumes "reachable w"
  shows "world_inv w \<and> \<not> ss_inProgress (w_sync w)"
  using assms
proof (induction rule: reachable.induct)
  case (init w)
  then show ?case by (simp add: world_inv_def errlog_wf_def)
next
  case (sync w pid d r w')
  then show ?case using inv_syncDexieToFirestore sync_keeps_idle by blast
next
  case (abort w)
  then show ?case by (simp add: abortSync_def)
qed (simp_all add: inv_app_steps)

theorem reachable_world_inv_witness:
  "\<exists>r w'. syncDexieToFirestore 0 False sample_world = Some (r, w') \<and> reachable w' \<and>
     world_inv w' \<and> \<not> ss_inProgress (w_sync w')"
proof -
  have r0: "reachable sample_world"
    by (rule reachable.init) (simp_all add: sample_world_def table_wf_def sample_page_def init_sync_state_def
        empty_meta_def)
  obtain r w' where run: "syncDexieToFirestore 0 False sample_world = Some (r, w')"
    by (simp add: sync_run_defs)
  have r1: "reachable w'" by (rule reachable.sync [OF r0 run])
  show ?thesis using run r1 reachable_world_inv [OF r1] by blast
qed

end
