(* ===== verification/SmartSyncPolicy.thy ===== *)
theory SmartSyncPolicy
  imports Complex_Main Prelude
begin

text \<open>
  The pure decisions of the change scheduler \<open>SmartSync\<close> of
  \<^verbatim>\<open>src/src/smartSync.js\<close>: its configuration, the metrics of one change, the
  rule that decides whether a change triggers a cloud sync, the grouping of the
  change history into editing sessions with the user patterns computed from it,
  the adaptive timings, and the content hash sent with each sync. JavaScript
  numbers that can become fractional (delays, averages) are \<open>rat\<close>; \<open>NaN\<close> is
  \<open>None\<close>; a 32-bit integer is a \<open>32 word\<close>.
\<close>

section \<open>Configuration\<close>

text \<open>The options of the constructor; \<open>None\<close> is an option not given.\<close>

record smart_opts =
  op_localSaveDelay :: "rat option"
  op_cloudSyncDelay :: "rat option"
  op_maxSyncDelay :: "rat option"
  op_minChangeThreshold :: "nat option"
  op_significantChangeThreshold :: "nat option"
  op_adaptiveTiming :: "bool option"
  op_collectMetrics :: "bool option"

record smart_config =
  cf_localSaveDelay :: rat
  cf_cloudSyncDelay :: rat
  cf_maxSyncDelay :: rat
  cf_minChangeThreshold :: nat
  cf_significantChangeThreshold :: nat
  cf_adaptiveTiming :: bool
  cf_collectMetrics :: bool

text \<open>\<open>options.x || d\<close>: an absent or zero option falls back to the default.\<close>

definition js_or :: "'a::zero option \<Rightarrow> 'a \<Rightarrow> 'a" where
  "js_or v d = (case v of Some x \<Rightarrow> if x \<noteq> 0 then x else d | None \<Rightarrow> d)"

text \<open>\<open>options.x !== false\<close>.\<close>

definition js_not_false :: "bool option \<Rightarrow> bool" where
  "js_not_false v = (v \<noteq> Some False)"

definition new_config :: "smart_opts \<Rightarrow> smart_config" where
  "new_config opts =
     \<lparr>cf_localSaveDelay = js_or (op_localSaveDelay opts) 5000,
      cf_cloudSyncDelay = js_or (op_cloudSyncDelay opts) 30000,
      cf_maxSyncDelay = js_or (op_maxSyncDelay opts) 300000,
      cf_minChangeThreshold = js_or (op_minChangeThreshold opts) 10,
      cf_significantChangeThreshold = js_or (op_significantChangeThreshold opts) 100,
      cf_adaptiveTiming = js_not_false (op_adaptiveTiming opts),
      cf_collectMetrics = js_not_false (op_collectMetrics opts)\<rparr>"

text \<open>The options \<open>createSmartSyncManager\<close> passes.\<close>

definition manager_opts :: smart_opts where
  "manager_opts =
     \<lparr>op_localSaveDelay = Some 5000, op_cloudSyncDelay = Some 30000, op_maxSyncDelay = Some 300000,
      op_minChangeThreshold = Some 10, op_significantChangeThreshold = Some 100,
      op_adaptiveTiming = Some True, op_collectMetrics = Some True\<rparr>"

section \<open>Change metrics and the cloud-sync rule\<close>

record change_metrics =
  cm_hasChanged :: bool
  cm_changeSize :: nat
  cm_isSignificant :: bool

text \<open>
  \<open>_calculateChangeMetrics(newContent)\<close>: with no previous content (\<open>null\<close> or
  empty) every change is significant; otherwise the size of a change is the
  difference of the two lengths.
\<close>

definition calculateChangeMetrics :: "smart_config \<Rightarrow> string option \<Rightarrow> string \<Rightarrow> change_metrics" where
  "calculateChangeMetrics cf prev new =
     (case prev of
        Some p \<Rightarrow>
          if p \<noteq> [] then
            (let sz = nat \<bar>int (length new) - int (length p)\<bar>
             in \<lparr>cm_hasChanged = (p \<noteq> new), cm_changeSize = sz,
                 cm_isSignificant = (cf_significantChangeThreshold cf \<le> sz)\<rparr>)
          else \<lparr>cm_hasChanged = True, cm_changeSize = length new, cm_isSignificant = True\<rparr>
      | None \<Rightarrow> \<lparr>cm_hasChanged = True, cm_changeSize = length new, cm_isSignificant = True\<rparr>)"

record user_patterns =
  up_avgEditSessionLength :: rat
  up_avgTimeBetweenEdits :: "rat option"
  up_typicalChangeSize :: rat
  up_sessionCount :: nat

definition init_patterns :: user_patterns where
  "init_patterns =
     \<lparr>up_avgEditSessionLength = 0, up_avgTimeBetweenEdits = Some 0, up_typicalChangeSize = 0,
      up_sessionCount = 0\<rparr>"

text \<open>\<open>lastCloudSync ? Date.now() - lastCloudSync : Infinity\<close>, \<open>Infinity\<close> being \<open>None\<close>.\<close>

definition time_since :: "time \<Rightarrow> time option \<Rightarrow> rat option" where
  "time_since now t = (case t of Some t \<Rightarrow> if t \<noteq> 0 then Some (of_int (now - t)) else None | None \<Rightarrow> None)"

text \<open>\<open>_shouldTriggerCloudSync(changeMetrics)\<close>, the rules in the code's order.\<close>

definition shouldTriggerCloudSync ::
  "smart_config \<Rightarrow> user_patterns \<Rightarrow> time option \<Rightarrow> nat \<Rightarrow> time \<Rightarrow> change_metrics \<Rightarrow> bool" where
  "shouldTriggerCloudSync cf up lastSync consecutive now m =
     (if cm_isSignificant m then True
      else if cm_changeSize m < cf_minChangeThreshold cf then False
      else if (case time_since now lastSync of None \<Rightarrow> True | Some d \<Rightarrow> 2 * cf_cloudSyncDelay cf < d) then True
      else if 10 < consecutive then True
      else if cf_adaptiveTiming cf \<and> 5 < up_sessionCount up
              \<and> up_avgEditSessionLength up * (4 / 5) < of_nat consecutive then True
      else False)"

section \<open>Change history and user patterns\<close>

record change =
  ch_timestamp :: time
  ch_changeSize :: nat
  ch_timeSinceLastChange :: int

text \<open>\<open>changeHistory.push(c)\<close>, then \<open>shift()\<close> when it has more than 100 entries.\<close>

definition push_history :: "change list \<Rightarrow> change \<Rightarrow> change list" where
  "push_history h c = (let h' = h @ [c] in if 100 < length h' then tl h' else h')"

text \<open>
  The \<open>forEach\<close> of \<open>_updateAdaptiveTiming\<close> that groups the history into
  sessions: a change less than five minutes after the previous one continues the
  current session. The arguments are the previous change, the current session and
  the closed sessions.
\<close>

fun session_loop :: "change option \<Rightarrow> change list \<Rightarrow> change list list \<Rightarrow> change list \<Rightarrow> change list list" where
  "session_loop prev cur ss [] = (if cur \<noteq> [] then ss @ [cur] else ss)"
| "session_loop None cur ss (c # cs) = session_loop (Some c) [c] ss cs"
| "session_loop (Some p) cur ss (c # cs) =
     (if ch_timestamp c - ch_timestamp p < 300000 then session_loop (Some c) (cur @ [c]) ss cs
      else session_loop (Some c) [c] (if cur \<noteq> [] then ss @ [cur] else ss) cs)"

definition sessions_of :: "change list \<Rightarrow> change list list" where
  "sessions_of h = session_loop None [] [] h"

text \<open>The time between consecutive changes of one session, summed.\<close>

fun gaps_sum :: "change list \<Rightarrow> int" where
  "gaps_sum (a # b # cs) = (ch_timestamp b - ch_timestamp a) + gaps_sum (b # cs)"
| "gaps_sum _ = 0"

text \<open>
  The user patterns \<open>_updateAdaptiveTiming\<close> computes, \<open>None\<close> when it returns
  early. \<open>totalTimeBetween / (totalSessionLength - sessionCount)\<close> is \<open>0 / 0 =
  NaN\<close> when every session has one change.
\<close>

definition history_patterns :: "change list \<Rightarrow> user_patterns option" where
  "history_patterns h =
     (if length h < 5 then None
      else
        (let ss = sessions_of h;
             sc = length ss;
             totalLen = sum_list (map length ss);
             totalBetween = sum_list (map gaps_sum ss);
             totalChanges = sum_list (map ch_changeSize h)
         in if 0 < sc then
              Some \<lparr>up_avgEditSessionLength = of_nat totalLen / of_nat sc,
                    up_avgTimeBetweenEdits =
                      (if totalLen - sc = 0 then None else Some (of_int totalBetween / of_nat (totalLen - sc))),
                    up_typicalChangeSize = of_nat totalChanges / of_nat totalLen,
                    up_sessionCount = sc\<rparr>
            else None))"

text \<open>
  \<open>_adjustTimings()\<close>: the new delays, and whether the debounced functions are
  built anew (with at least three sessions, whatever the delays).
\<close>

definition adjustTimings :: "smart_config \<Rightarrow> user_patterns \<Rightarrow> smart_config \<times> bool" where
  "adjustTimings cf up =
     (if up_sessionCount up < 3 then (cf, False)
      else
        (let l = up_avgEditSessionLength up;
             lsd = (case up_avgTimeBetweenEdits up of
                      Some a \<Rightarrow> if a < 1000 then min 2000 (a * 2)
                                else if 5000 < a then max 500 (a / 5) else cf_localSaveDelay cf
                    | None \<Rightarrow> cf_localSaveDelay cf);
             csd = (if l < 10 then max 10000 (l * 1000)
                    else if 50 < l then min 60000 (l * 500) else cf_cloudSyncDelay cf)
         in (cf\<lparr>cf_localSaveDelay := lsd, cf_cloudSyncDelay := csd\<rparr>, True)))"

section \<open>The content hash\<close>

text \<open>
  \<open>hash = ((hash << 5) - hash) + content.charCodeAt(i); hash |= 0\<close>: every
  intermediate value is below \<open>2 ^ 53\<close>, so the JavaScript doubles compute it
  exactly and \<open>|= 0\<close> reduces it modulo \<open>2 ^ 32\<close> into the signed range.
  Characters are the 8-bit \<open>char\<close> of HOL, whose code is the UTF-16 unit for
  the Latin-1 range.
\<close>

definition hash_step :: "32 word \<Rightarrow> char \<Rightarrow> 32 word" where
  "hash_step h c = (push_bit 5 h - h) + word_of_nat (of_char c)"

definition hash_word :: "string \<Rightarrow> 32 word" where
  "hash_word s = foldl hash_step 0 s"

text \<open>\<open>Number.prototype.toString(16)\<close> of an integer.\<close>

definition hex_digit :: "nat \<Rightarrow> char" where
  "hex_digit d = (if d < 10 then char_of (48 + d) else char_of (87 + d))"

fun hex_nat :: "nat \<Rightarrow> string" where
  "hex_nat n = (if n < 16 then [hex_digit n] else hex_nat (n div 16) @ [hex_digit (n mod 16)])"

declare hex_nat.simps [simp del]

definition js_hex :: "int \<Rightarrow> string" where
  "js_hex i = (if i < 0 then CHR ''-'' # hex_nat (nat (- i)) else hex_nat (nat i))"

definition calculateContentHash :: "string \<Rightarrow> string" where
  "calculateContentHash s = js_hex (sint (hash_word s))"

section \<open>Reference definitions\<close>

text \<open>
  The hash as the mathematical recurrence \<open>h * 31 + c\<close> over unbounded integers
  (Java's \<open>String.hashCode\<close>), and the signed 32-bit reduction \<open>x | 0\<close>.
\<close>

definition hash_ref :: "string \<Rightarrow> int" where
  "hash_ref s = foldl (\<lambda>h c. 31 * h + int (of_char c)) 0 s"

definition to_int32 :: "int \<Rightarrow> int" where
  "to_int32 x = (x + 2 ^ 31) mod 2 ^ 32 - 2 ^ 31"

text \<open>\<open>parseInt(s, 16)\<close> on the strings \<open>toString(16)\<close> produces.\<close>

definition hex_val :: "char \<Rightarrow> nat option" where
  "hex_val c = (let n = of_char c in
     if 48 \<le> n \<and> n < 58 then Some (n - 48) else if 97 \<le> n \<and> n < 103 then Some (n - 87) else None)"

fun parse_hex_nat :: "nat \<Rightarrow> string \<Rightarrow> nat option" where
  "parse_hex_nat acc [] = Some acc"
| "parse_hex_nat acc (c # cs) = (case hex_val c of None \<Rightarrow> None | Some d \<Rightarrow> parse_hex_nat (16 * acc + d) cs)"

definition parse_js_hex :: "string \<Rightarrow> int option" where
  "parse_js_hex s =
     (if s = [] then None
      else if hd s = CHR ''-'' then
        (if tl s = [] then None else map_option (\<lambda>n. - int n) (parse_hex_nat 0 (tl s)))
      else map_option int (parse_hex_nat 0 s))"

text \<open>
  What a grouping into sessions must satisfy: every session is nonempty, changes
  within a session are less than five minutes apart, and consecutive sessions
  are not.
\<close>

definition session_gap :: "change \<Rightarrow> change \<Rightarrow> bool" where
  "session_gap a b = (ch_timestamp b - ch_timestamp a < 300000)"

definition sessions_ok :: "change list list \<Rightarrow> bool" where
  "sessions_ok ss = (list_all (\<lambda>s. s \<noteq> [] \<and> successively session_gap s) ss
     \<and> successively (\<lambda>s t. \<not> session_gap (last s) (hd t)) ss)"

definition sample_change :: "time \<Rightarrow> change" where
  "sample_change t = \<lparr>ch_timestamp = t, ch_changeSize = 1, ch_timeSinceLastChange = 0\<rparr>"

text \<open>Five changes, each more than five minutes after the previous one.\<close>

definition sparse_history :: "change list" where
  "sparse_history = map sample_change [0, 400000, 800000, 1200000, 1600000]"

section \<open>The content hash computes the 32-bit reduction of the reference hash\<close>

lemma hash_step_of_int: "hash_step (word_of_int a) c = word_of_int (31 * a + int (of_char c))"
  by (simp add: hash_step_def push_bit_eq_mult algebra_simps)

lemma foldl_hash_step:
  "foldl hash_step (word_of_int a) s = word_of_int (foldl (\<lambda>h c. 31 * h + int (of_char c)) a s)"
  by (induction s arbitrary: a) (simp_all only: foldl_Nil foldl_Cons hash_step_of_int)

text \<open>
  C23. The word arithmetic of \<open>_calculateContentHash\<close> (shift, subtract, add,
  \<open>|= 0\<close>) computes the signed 32-bit reduction of the unbounded recurrence
  \<open>h * 31 + c\<close>.
\<close>

theorem hash_word_equiv: "sint (hash_word s) = to_int32 (hash_ref s)"
proof -
  have "hash_word s = word_of_int (hash_ref s)"
    using foldl_hash_step [of 0 s] by (simp add: hash_word_def hash_ref_def)
  then show ?thesis by (simp add: int_word_sint to_int32_def)
qed

section \<open>The hexadecimal form of the hash determines it\<close>

lemma hex_val_digit: "d < 16 \<Longrightarrow> hex_val (hex_digit d) = Some d"
  by (simp add: hex_val_def hex_digit_def Let_def)

lemma parse_hex_nat_append:
  "parse_hex_nat acc (xs @ ys) = Option.bind (parse_hex_nat acc xs) (\<lambda>a. parse_hex_nat a ys)"
  by (induction acc xs rule: parse_hex_nat.induct) (auto split: option.split)

lemma hex_nat_ne: "hex_nat n \<noteq> []"
  by (simp add: hex_nat.simps [of n])

lemma parse_hex_nat_hex: "parse_hex_nat acc (hex_nat n) = Some (acc * 16 ^ length (hex_nat n) + n)"
proof (induction n arbitrary: acc rule: hex_nat.induct)
  case (1 n)
  show ?case
  proof (cases "n < 16")
    case True
    then show ?thesis by (simp add: hex_nat.simps hex_val_digit)
  next
    case False
    then have "parse_hex_nat acc (hex_nat n) =
        parse_hex_nat (acc * 16 ^ length (hex_nat (n div 16)) + n div 16) [hex_digit (n mod 16)]"
      using "1.IH" by (simp add: hex_nat.simps [of n] parse_hex_nat_append)
    also have "\<dots> = Some (acc * 16 ^ length (hex_nat n) + n)"
      using False by (simp add: hex_val_digit hex_nat.simps [of n] algebra_simps)
    finally show ?thesis .
  qed
qed

lemma hex_nat_hd: "\<exists>d<16. hd (hex_nat n) = hex_digit d"
proof (induction n rule: hex_nat.induct)
  case (1 n)
  then show ?case by (cases "n < 16") (auto simp: hex_nat.simps [of n] hex_nat_ne)
qed

lemma hex_nat_hd_minus: "hd (hex_nat n) \<noteq> CHR ''-''"
proof -
  obtain d where "d < 16" "hd (hex_nat n) = hex_digit d" using hex_nat_hd by blast
  moreover have "hex_val (CHR ''-'') = None" by (simp add: hex_val_def)
  ultimately show ?thesis using hex_val_digit by force
qed


section \<open>Sessions and user patterns\<close>

lemma session_loop_some:
  "cur \<noteq> [] \<Longrightarrow> sessions_ok (ss @ [cur]) \<Longrightarrow>
   concat (session_loop (Some (last cur)) cur ss cs) = concat ss @ cur @ cs
   \<and> sessions_ok (session_loop (Some (last cur)) cur ss cs)"
proof (induction cs arbitrary: cur ss)
  case Nil
  then show ?case by simp
next
  case (Cons c cs)
  show ?case
  proof (cases "session_gap (last cur) c")
    case True
    have "sessions_ok (ss @ [cur @ [c]])"
      using Cons.prems True by (auto simp: sessions_ok_def successively_append_iff)
    then show ?thesis using Cons.IH [of "cur @ [c]" ss] True Cons.prems(1)
      by (simp add: session_gap_def)
  next
    case False
    have "sessions_ok ((ss @ [cur]) @ [[c]])"
      using Cons.prems False by (auto simp: sessions_ok_def successively_append_iff)
    then show ?thesis using Cons.IH [of "[c]" "ss @ [cur]"] False Cons.prems(1)
      by (simp add: session_gap_def)
  qed
qed

text \<open>
  C25. The \<open>forEach\<close> of \<open>_updateAdaptiveTiming\<close> partitions the change
  history into sessions: their concatenation is the history, each is nonempty
  with changes less than five minutes apart, and a session ends exactly where
  the next change comes five minutes or more after the previous one.
\<close>

theorem sessions_of_partition: "concat (sessions_of h) = h \<and> sessions_ok (sessions_of h)"
proof (cases h)
  case Nil
  then show ?thesis by (simp add: sessions_of_def sessions_ok_def)
next
  case (Cons c cs)
  have "sessions_ok ([] @ [[c]])" by (simp add: sessions_ok_def)
  then show ?thesis using session_loop_some [of "[c]" "[]" cs] Cons by (simp add: sessions_of_def)
qed

lemma sessions_of_nonempty: "list_all (\<lambda>s. s \<noteq> []) (sessions_of h)"
proof (cases h)
  case (Cons c cs)
  have "sessions_ok ([] @ [[c]])" by (simp add: sessions_ok_def)
  then show ?thesis using session_loop_some [of "[c]" "[]" cs] Cons
    by (simp add: sessions_of_def sessions_ok_def list_all_iff)
qed (simp add: sessions_of_def)

lemma sum_list_length_ge:
  "list_all (\<lambda>s. s \<noteq> []) ss \<Longrightarrow> length ss \<le> sum_list (map length ss)"
  by (induction ss) (auto simp: Suc_le_eq, metis add_less_le_mono add_0 length_greater_0_conv)

lemma sum_length_le_iff:
  "list_all (\<lambda>s. s \<noteq> []) ss \<Longrightarrow>
   (sum_list (map length ss) \<le> length ss) = list_all (\<lambda>s. length s = 1) ss"
proof (induction ss)
  case Nil
  then show ?case by simp
next
  case (Cons s ss)
  have "length ss \<le> sum_list (map length ss)"
    using Cons.prems by (auto intro: sum_list_length_ge)
  then show ?case using Cons by (cases s) auto
qed

text \<open>
  C26. \<open>avgTimeBetweenEdits\<close> is \<open>0 / 0 = NaN\<close> exactly when every session
  has a single change; then both comparisons of \<open>_adjustTimings\<close> are false
  and the local save delay is left as it was.
\<close>

theorem history_patterns_nan:
  "history_patterns h = Some up \<Longrightarrow>
   (up_avgTimeBetweenEdits up = None \<longleftrightarrow> list_all (\<lambda>s. length s = 1) (sessions_of h))
   \<and> (up_avgTimeBetweenEdits up = None \<longrightarrow>
        cf_localSaveDelay (fst (adjustTimings cf up)) = cf_localSaveDelay cf)"
proof -
  assume hp: "history_patterns h = Some up"
  have "up_avgTimeBetweenEdits up = None \<longleftrightarrow>
      sum_list (map length (sessions_of h)) \<le> length (sessions_of h)"
    using hp by (auto simp: history_patterns_def Let_def split: if_splits)
  then show ?thesis using sum_length_le_iff [OF sessions_of_nonempty]
    by (auto simp: adjustTimings_def Let_def)
qed

theorem history_patterns_nan_witness:
  "history_patterns sparse_history =
     Some \<lparr>up_avgEditSessionLength = 1, up_avgTimeBetweenEdits = None, up_typicalChangeSize = 1,
           up_sessionCount = 5\<rparr>
   \<and> list_all (\<lambda>s. length s = 1) (sessions_of sparse_history)
   \<and> cf_localSaveDelay (fst (adjustTimings (new_config manager_opts)
        \<lparr>up_avgEditSessionLength = 1, up_avgTimeBetweenEdits = None, up_typicalChangeSize = 1,
         up_sessionCount = 5\<rparr>)) = 5000"
proof -
  have hp: "history_patterns sparse_history =
     Some \<lparr>up_avgEditSessionLength = 1, up_avgTimeBetweenEdits = None, up_typicalChangeSize = 1,
           up_sessionCount = 5\<rparr>"
    by (simp add: history_patterns_def sessions_of_def sparse_history_def sample_change_def)
  show ?thesis
    using history_patterns_nan [OF hp, of "new_config manager_opts"] hp
    by (simp add: new_config_def manager_opts_def js_or_def)
qed

text \<open>
  C27. Whatever the patterns, the cloud sync delay \<open>_adjustTimings\<close> sets is
  the old one or lies between 10 and 60 seconds.
\<close>

theorem adjustTimings_cloud_bounds:
  "cf_cloudSyncDelay (fst (adjustTimings cf up)) = cf_cloudSyncDelay cf
   \<or> (10000 \<le> cf_cloudSyncDelay (fst (adjustTimings cf up))
      \<and> cf_cloudSyncDelay (fst (adjustTimings cf up)) \<le> 60000)"
  by (simp add: adjustTimings_def Let_def)

text \<open>
  C28. For a fast typer (less than a second between edits) \<open>_adjustTimings\<close>
  sets the local save delay to twice the gap, below two seconds: it shortens
  the default five-second debounce, where its comment says it increases it.
\<close>

theorem adjustTimings_fast_typer:
  "3 \<le> up_sessionCount up \<Longrightarrow> up_avgTimeBetweenEdits up = Some a \<Longrightarrow> a < 1000 \<Longrightarrow>
   cf_localSaveDelay (fst (adjustTimings cf up)) = 2 * a \<and> 2 * a < 2000"
  by (simp add: adjustTimings_def Let_def)

theorem adjustTimings_fast_typer_witness:
  "cf_localSaveDelay (fst (adjustTimings (new_config manager_opts)
      \<lparr>up_avgEditSessionLength = 20, up_avgTimeBetweenEdits = Some 300, up_typicalChangeSize = 2,
       up_sessionCount = 3\<rparr>)) = 600
   \<and> cf_localSaveDelay (new_config manager_opts) = 5000"
  using adjustTimings_fast_typer [of "\<lparr>up_avgEditSessionLength = 20, up_avgTimeBetweenEdits = Some 300,
      up_typicalChangeSize = 2, up_sessionCount = 3\<rparr>" 300 "new_config manager_opts"]
  by (simp add: new_config_def manager_opts_def js_or_def)

section \<open>Change metrics\<close>

text \<open>
  C29. An edit that keeps the length of a nonempty page (a typo fixed, a word
  replaced by one as long) has change size 0 and by itself never triggers a
  cloud sync, whatever the time since the last one: the size is the difference
  of the lengths, and the rule returns before it looks at the time.
\<close>

theorem same_length_edit_no_trigger:
  "p \<noteq> [] \<Longrightarrow> length p = length new \<Longrightarrow> 0 < cf_minChangeThreshold cf \<Longrightarrow>
   0 < cf_significantChangeThreshold cf \<Longrightarrow>
   cm_hasChanged (calculateChangeMetrics cf (Some p) new) = (p \<noteq> new)
   \<and> cm_changeSize (calculateChangeMetrics cf (Some p) new) = 0
   \<and> \<not> shouldTriggerCloudSync cf up lastSync n now (calculateChangeMetrics cf (Some p) new)"
  by (simp add: calculateChangeMetrics_def shouldTriggerCloudSync_def)

theorem same_length_edit_no_trigger_witness:
  "cm_hasChanged (calculateChangeMetrics (new_config manager_opts) (Some ''teh'') ''the'')
   \<and> \<not> shouldTriggerCloudSync (new_config manager_opts) init_patterns None 0 0
        (calculateChangeMetrics (new_config manager_opts) (Some ''teh'') ''the'')"
  using same_length_edit_no_trigger [of "''teh''" "''the''" "new_config manager_opts" init_patterns None 0 0]
  by (simp add: new_config_def manager_opts_def js_or_def)

end
