(* ===== verification/SmartSync.thy ===== *)
theory SmartSync
  imports SmartSyncPolicy SyncInvariant
begin

text \<open>
  The change scheduler \<open>SmartSync\<close> of \<^verbatim>\<open>src/src/smartSync.js\<close> as a state
  machine over the scheduler's state and the engine's \<open>world\<close>, as
  \<open>createSmartSyncManager\<close> wires it: the local save goes through
  \<open>noteTextStorage.savePage\<close>, the cloud sync is \<open>syncDexieToFirestore\<close>.
  Lodash's \<open>debounce\<close> is a \<open>debouncer\<close> holding the arguments and the time of
  its last call; the timers (the two debounced functions, the debounced functions
  left running by \<open>_adjustTimings\<close>, the forced-sync timeout, the activity
  interval) fire as events once due; \<open>Date.now()\<close> is the world's clock. An
  asynchronous handler runs to completion as one step. A cloud sync may not
  return (the engine's job is a partial function), so the handlers that sync
  return an option.
\<close>

section \<open>Debounced functions\<close>

datatype deb_kind = LocalSave | CloudSync

text \<open>
  \<open>debounce(func, wait)\<close> with lodash's defaults (trailing edge only): a call
  records its arguments and time; the function runs with the last arguments once
  \<open>wait\<close> has passed since the last call; \<open>cancel()\<close> drops the pending call,
  \<open>flush()\<close> runs it now.
\<close>

record debouncer =
  db_kind :: deb_kind
  db_wait :: rat
  db_pending :: "(page_id option \<times> jstr \<times> time) option"

definition debounce :: "deb_kind \<Rightarrow> rat \<Rightarrow> debouncer" where
  "debounce k wait = \<lparr>db_kind = k, db_wait = wait, db_pending = None\<rparr>"

definition deb_call :: "debouncer \<Rightarrow> page_id option \<Rightarrow> jstr \<Rightarrow> time \<Rightarrow> debouncer" where
  "deb_call d pid c now = d\<lparr>db_pending := Some (pid, c, now)\<rparr>"

definition deb_cancel :: "debouncer \<Rightarrow> debouncer" where
  "deb_cancel d = d\<lparr>db_pending := None\<rparr>"

definition deb_due :: "time \<Rightarrow> debouncer \<Rightarrow> bool" where
  "deb_due now d = (case db_pending d of Some (_, _, t) \<Rightarrow> db_wait d \<le> of_int (now - t) | None \<Rightarrow> False)"

section \<open>The scheduler's state\<close>

text \<open>
  \<open>this.config\<close>, \<open>this.state\<close>, the two debounced functions, the debounced
  functions \<open>_adjustTimings\<close> replaced while a call was pending
  (\<open>sm_orphans\<close>), \<open>forceSyncTimer\<close> (due time and the arguments its callback
  captured), \<open>lastActivityTime\<close>, \<open>activityInterval\<close> (its next tick, \<open>None\<close>
  once cleared) and \<open>serverDocumentTimestamps\<close> (a key present with the value
  \<open>undefined\<close> is \<open>Some None\<close>).
\<close>

record smart =
  sm_config :: smart_config
  sm_lastContent :: jstr
  sm_lastLocalSave :: "time option"
  sm_lastCloudSync :: "time option"
  sm_lastGlobalSync :: "time option"
  sm_pendingChanges :: bool
  sm_syncScheduled :: bool
  sm_forceSyncScheduled :: bool
  sm_consecutiveChanges :: nat
  sm_changeHistory :: "change list"
  sm_editorActiveTime :: nat
  sm_editorInactiveTime :: nat
  sm_userPatterns :: user_patterns
  sm_currentPage :: "page_id option"
  sm_localSave :: debouncer
  sm_cloudSync :: debouncer
  sm_orphans :: "debouncer list"
  sm_forceSyncTimer :: "(rat \<times> page_id option \<times> jstr) option"
  sm_lastActivityTime :: time
  sm_activityInterval :: "time option"
  sm_serverTs :: "page_id option \<rightharpoonup> time option"

text \<open>The constructor \<open>new SmartSync(options, emitter)\<close> at time \<open>now\<close>.\<close>

definition new_SmartSync :: "smart_opts \<Rightarrow> time \<Rightarrow> smart" where
  "new_SmartSync opts now =
     (let cf = new_config opts in
      \<lparr>sm_config = cf, sm_lastContent = None, sm_lastLocalSave = None, sm_lastCloudSync = None,
       sm_lastGlobalSync = None, sm_pendingChanges = False, sm_syncScheduled = False,
       sm_forceSyncScheduled = False, sm_consecutiveChanges = 0, sm_changeHistory = [],
       sm_editorActiveTime = 0, sm_editorInactiveTime = 0, sm_userPatterns = init_patterns,
       sm_currentPage = None,
       sm_localSave = debounce LocalSave (cf_localSaveDelay cf),
       sm_cloudSync = debounce CloudSync (cf_cloudSyncDelay cf),
       sm_orphans = [], sm_forceSyncTimer = None, sm_lastActivityTime = now,
       sm_activityInterval = Some (now + 5000), sm_serverTs = Map.empty\<rparr>)"

section \<open>The callbacks of createSmartSyncManager\<close>

text \<open>
  \<open>normalizePageId\<close>: \<open>pageId ? String(pageId).trim() : null\<close>. The string of
  a nonzero number is never empty; the model keeps the number (string and numeric
  ids are identified throughout the development).
\<close>

definition normalizePageId :: "page_id option \<Rightarrow> page_id option" where
  "normalizePageId pid = (case pid of Some i \<Rightarrow> if i \<noteq> 0 then Some i else None | None \<Rightarrow> None)"

definition truthy_jstr :: "jstr \<Rightarrow> bool" where
  "truthy_jstr c = (case c of Some s \<Rightarrow> truthy_str s | None \<Rightarrow> False)"

text \<open>
  \<open>onLocalSave(pageId, content)\<close>: returns early on a falsy id or content,
  otherwise \<open>noteTextStorage.savePage(normalizedId, content, null)\<close>.
\<close>

definition onLocalSave :: "page_id option \<Rightarrow> jstr \<Rightarrow> world \<Rightarrow> world" where
  "onLocalSave pid c w =
     (case normalizePageId pid of
        Some i \<Rightarrow> if truthy_jstr c then w\<lparr>w_local := savePage (w_now w) (w_local w) i c\<rparr> else w
      | None \<Rightarrow> w)"

definition sync_succeeded :: "sync_result \<Rightarrow> bool" where
  "sync_succeeded r = (case r of Success _ \<Rightarrow> True | Failure _ \<Rightarrow> False)"

text \<open>
  \<open>onCloudSync(pageId, metadata, isDeleteOperation)\<close>: calls
  \<open>syncDexieToFirestore(pageId, metadata, isDeleteOperation)\<close> and returns
  \<open>{success: result?.success}\<close>. \<open>syncDexieToFirestore\<close> ignores the metadata,
  and reads the page id only for a delete, where it is always defined (an
  undefined id is passed to it as 0, never read).
\<close>

definition onCloudSync :: "page_id option \<Rightarrow> 'm \<Rightarrow> bool \<Rightarrow> world \<Rightarrow> (bool \<times> world) option" where
  "onCloudSync pid metadata isDelete w =
     map_option (\<lambda>(r, w'). (sync_succeeded r, w'))
       (syncDexieToFirestore (case pid of Some i \<Rightarrow> i | None \<Rightarrow> 0) isDelete w)"

section \<open>Saving and syncing\<close>

text \<open>
  \<open>_performLocalSave(pageId, content)\<close>: the callback, then \<open>lastContent\<close> and
  \<open>lastLocalSave\<close>, whether or not the callback saved anything.
\<close>

definition performLocalSave :: "page_id option \<Rightarrow> jstr \<Rightarrow> smart \<Rightarrow> world \<Rightarrow> smart \<times> world" where
  "performLocalSave pid c s w =
     (let w1 = onLocalSave pid c w
      in (s\<lparr>sm_lastContent := c, sm_lastLocalSave := Some (w_now w1)\<rparr>, w1))"

text \<open>The data \<open>_prepareTimestampBasedSync(pageId, content)\<close> builds.\<close>

record sync_data =
  sd_pageId :: "page_id option"
  sd_localTimestamp :: time
  sd_contentHash :: string
  sd_contentLength :: nat
  sd_isFirstSync :: bool
  sd_content :: string
  sd_requireFullSync :: bool

definition prepareTimestampBasedSync :: "smart \<Rightarrow> page_id option \<Rightarrow> string \<Rightarrow> sync_data" where
  "prepareTimestampBasedSync s pid c =
     (let serverTimestamp = (case sm_serverTs s pid of Some (Some t) \<Rightarrow> t | _ \<Rightarrow> 0);
          localTimestamp = (case sm_lastCloudSync s of Some t \<Rightarrow> t | None \<Rightarrow> 0);
          isFirstSync = (pid \<notin> dom (sm_serverTs s))
      in \<lparr>sd_pageId = pid, sd_localTimestamp = localTimestamp, sd_contentHash = calculateContentHash c,
          sd_contentLength = length c, sd_isFirstSync = isFirstSync, sd_content = c,
          sd_requireFullSync = (isFirstSync \<or> localTimestamp < serverTimestamp)\<rparr>)"

text \<open>
  \<open>_adjustTimings()\<close> on the state: the new delays, and the debounced functions
  built anew. The old ones are not cancelled: a call pending in them still runs.
\<close>

definition smart_adjustTimings :: "smart \<Rightarrow> smart" where
  "smart_adjustTimings s =
     (case adjustTimings (sm_config s) (sm_userPatterns s) of
        (cf, False) \<Rightarrow> s
      | (cf, True) \<Rightarrow>
          s\<lparr>sm_config := cf,
            sm_orphans := sm_orphans s @ filter (\<lambda>d. db_pending d \<noteq> None) [sm_localSave s, sm_cloudSync s],
            sm_localSave := debounce LocalSave (cf_localSaveDelay cf),
            sm_cloudSync := debounce CloudSync (cf_cloudSyncDelay cf)\<rparr>)"

text \<open>\<open>_updateAdaptiveTiming()\<close>.\<close>

definition updateAdaptiveTiming :: "smart \<Rightarrow> smart" where
  "updateAdaptiveTiming s =
     (case history_patterns (sm_changeHistory s) of
        None \<Rightarrow> s
      | Some up \<Rightarrow> smart_adjustTimings (s\<lparr>sm_userPatterns := up\<rparr>))"

text \<open>
  \<open>_performCloudSync(pageId, content)\<close>, the live version. \<open>content.length\<close>
  of \<open>null\<close> throws in \<open>_prepareTimestampBasedSync\<close>; the \<open>catch\<close> returns a
  failure. On success the state records the sync and the server timestamp
  (\<open>undefined\<close>: the callback's result has none), then the adaptive timing runs;
  on failure the state is left as it was.
\<close>

definition performCloudSync ::
  "page_id option \<Rightarrow> jstr \<Rightarrow> smart \<Rightarrow> world \<Rightarrow> (bool \<times> smart \<times> world) option" where
  "performCloudSync pid c s w =
     (case c of
        None \<Rightarrow> Some (False, s, w)
      | Some str \<Rightarrow>
          (case onCloudSync pid (prepareTimestampBasedSync s pid str) False w of
             None \<Rightarrow> None
           | Some (True, w1) \<Rightarrow>
               (let s1 = s\<lparr>sm_lastCloudSync := Some (w_now w1), sm_pendingChanges := False,
                           sm_syncScheduled := False, sm_serverTs := (sm_serverTs s)(pid \<mapsto> None)\<rparr>
                in Some (True, if cf_adaptiveTiming (sm_config s1) then updateAdaptiveTiming s1 else s1, w1))
           | Some (False, w1) \<Rightarrow> Some (False, s, w1)))"

text \<open>A debounced function invoked with its pending arguments (trailing edge or \<open>flush()\<close>).\<close>

definition fire_debouncer :: "debouncer \<Rightarrow> smart \<Rightarrow> world \<Rightarrow> (smart \<times> world) option" where
  "fire_debouncer d s w =
     (case db_pending d of
        None \<Rightarrow> Some (s, w)
      | Some (pid, c, _) \<Rightarrow>
          (case db_kind d of
             LocalSave \<Rightarrow> Some (performLocalSave pid c s w)
           | CloudSync \<Rightarrow> map_option snd (performCloudSync pid c s w)))"

section \<open>Handlers\<close>

text \<open>
  \<open>_ensureMaxSyncDelay(pageId, content)\<close>: unless a forced sync is scheduled,
  schedule one \<open>max(0, maxSyncDelay - timeSinceLastSync)\<close> from now when
  changes are pending.
\<close>

definition ensureMaxSyncDelay :: "page_id option \<Rightarrow> jstr \<Rightarrow> time \<Rightarrow> smart \<Rightarrow> smart" where
  "ensureMaxSyncDelay pid c now s =
     (if sm_forceSyncScheduled s then s
      else
        (let timeUntil = (case time_since now (sm_lastCloudSync s) of
                            None \<Rightarrow> 0
                          | Some d \<Rightarrow> max 0 (cf_maxSyncDelay (sm_config s) - d))
         in if sm_pendingChanges s
            then s\<lparr>sm_forceSyncScheduled := True, sm_forceSyncTimer := Some (of_int now + timeUntil, pid, c)\<rparr>
            else s))"

text \<open>
  \<open>handleContentChange(pageId, content)\<close>: returns \<open>(savedLocally,
  scheduledForSync)\<close> and the new state; the world is not touched until a timer
  fires.
\<close>

definition handleContentChange :: "page_id option \<Rightarrow> string \<Rightarrow> smart \<Rightarrow> world \<Rightarrow> (bool \<times> bool) \<times> smart" where
  "handleContentChange pid c s w =
     (let now = w_now w;
          s1 = s\<lparr>sm_lastActivityTime := now\<rparr>;
          m = calculateChangeMetrics (sm_config s1) (sm_lastContent s1) c;
          s2 = s1\<lparr>sm_pendingChanges := True, sm_consecutiveChanges := Suc (sm_consecutiveChanges s1)\<rparr>;
          s3 = (if cm_hasChanged m then
                  (let s' = s2\<lparr>sm_localSave := deb_call (sm_localSave s2) pid (Some c) now\<rparr>
                   in if cf_collectMetrics (sm_config s')
                      then s'\<lparr>sm_changeHistory := push_history (sm_changeHistory s')
                                \<lparr>ch_timestamp = now, ch_changeSize = cm_changeSize m,
                                 ch_timeSinceLastChange =
                                   (case sm_lastLocalSave s' of
                                      Some t \<Rightarrow> if t \<noteq> 0 then now - t else 0 | None \<Rightarrow> 0)\<rparr>\<rparr>
                      else s')
                else s2);
          trig = shouldTriggerCloudSync (sm_config s3) (sm_userPatterns s3) (sm_lastCloudSync s3)
                   (sm_consecutiveChanges s3) now m;
          s4 = (if trig then
                  (let s' = s3\<lparr>sm_cloudSync := deb_cancel (sm_cloudSync s3)\<rparr>
                   in if \<not> sm_syncScheduled s'
                      then s'\<lparr>sm_syncScheduled := True, sm_cloudSync := deb_call (sm_cloudSync s') pid (Some c) now\<rparr>
                      else s')
                else s3)
      in ((cm_hasChanged m, trig), ensureMaxSyncDelay pid (Some c) now s4))"

definition cancel_debounced :: "smart \<Rightarrow> smart" where
  "cancel_debounced s =
     s\<lparr>sm_localSave := deb_cancel (sm_localSave s), sm_cloudSync := deb_cancel (sm_cloudSync s)\<rparr>"

text \<open>\<open>forceSync(pageId, content)\<close>: cancel both, save locally, then sync.\<close>

definition forceSync :: "page_id option \<Rightarrow> string \<Rightarrow> smart \<Rightarrow> world \<Rightarrow> (bool \<times> smart \<times> world) option" where
  "forceSync pid c s w =
     (case performLocalSave pid (Some c) (cancel_debounced s) w of
        (s1, w1) \<Rightarrow> performCloudSync pid (Some c) s1 w1)"

text \<open>
  \<open>prepareClose(pageId, content)\<close>: cancel both, save and sync when changes
  are pending, clear the forced-sync timeout and the activity interval. The flag
  \<open>forceSyncScheduled\<close> is not reset.
\<close>

definition prepareClose :: "page_id option \<Rightarrow> string \<Rightarrow> smart \<Rightarrow> world \<Rightarrow> (smart \<times> world) option" where
  "prepareClose pid c s w =
     (let s1 = cancel_debounced s;
          r = (if sm_pendingChanges s1 then
                 (case performLocalSave pid (Some c) s1 w of
                    (s2, w2) \<Rightarrow> map_option snd (performCloudSync pid (Some c) s2 w2))
               else Some (s1, w))
      in map_option (\<lambda>(s3, w3). (s3\<lparr>sm_forceSyncTimer := None, sm_activityInterval := None\<rparr>, w3)) r)"

text \<open>The metadata \<open>handlePageDeletion\<close> passes to the cloud callback.\<close>

record delete_meta =
  dm_pageId :: page_id
  dm_timestamp :: time

text \<open>
  \<open>handlePageDeletion(pageId)\<close>: clears the flags when the page is
  \<open>state.currentPage\<close> (which nothing sets), calls \<open>onLocalSave(pageId,
  null)\<close>, then the cloud callback with \<open>isDeleteOperation = true\<close>, and drops
  the page's server timestamp when it is truthy.
\<close>

definition handlePageDeletion :: "page_id \<Rightarrow> smart \<Rightarrow> world \<Rightarrow> (bool \<times> smart \<times> world) option" where
  "handlePageDeletion pid s w =
     (let s1 = (if sm_currentPage s = Some pid
                then s\<lparr>sm_pendingChanges := False, sm_syncScheduled := False\<rparr> else s);
          w1 = onLocalSave (Some pid) None w
      in case onCloudSync (Some pid) \<lparr>dm_pageId = pid, dm_timestamp = w_now w1\<rparr> True w1 of
           None \<Rightarrow> None
         | Some (ok, w2) \<Rightarrow>
             (let s2 = (case sm_serverTs s1 (Some pid) of
                          Some (Some t) \<Rightarrow> if t \<noteq> 0 then s1\<lparr>sm_serverTs := (sm_serverTs s1)(Some pid := None)\<rparr> else s1
                        | _ \<Rightarrow> s1)
              in Some (ok, s2, w2)))"

text \<open>
  \<open>_trackActivity()\<close>, run by the five-second interval: counts active or
  inactive time, and flushes the debounced cloud sync when the user has been
  inactive for a minute with changes pending.
\<close>

definition trackActivity :: "smart \<Rightarrow> world \<Rightarrow> (smart \<times> world) option" where
  "trackActivity s w =
     (if w_now w - sm_lastActivityTime s < 60000
      then Some (s\<lparr>sm_editorActiveTime := sm_editorActiveTime s + 5\<rparr>, w)
      else
        (let s1 = s\<lparr>sm_editorInactiveTime := sm_editorInactiveTime s + 5\<rparr>
         in if 0 < sm_editorActiveTime s1 \<and> sm_pendingChanges s1
            then fire_debouncer (sm_cloudSync s1) (s1\<lparr>sm_cloudSync := deb_cancel (sm_cloudSync s1)\<rparr>) w
            else Some (s1, w)))"

section \<open>Global sync\<close>

record syncall_opts =
  sa_forceAll :: bool
  sa_localOnly :: bool
  sa_initialSync :: bool

datatype item_status = Skipped | Synced | SyncFailed | LocalOnlySuccess

record syncall_results =
  r_total :: nat
  r_succeeded :: nat
  r_failed :: nat
  r_skipped :: nat
  r_details :: "page_id option \<rightharpoonup> item_status"

definition record_item :: "page_id option \<Rightarrow> item_status \<Rightarrow> syncall_results \<Rightarrow> syncall_results" where
  "record_item pid st r =
     (case st of
        Skipped \<Rightarrow> r\<lparr>r_skipped := Suc (r_skipped r), r_details := (r_details r)(pid \<mapsto> st)\<rparr>
      | SyncFailed \<Rightarrow> r\<lparr>r_failed := Suc (r_failed r), r_details := (r_details r)(pid \<mapsto> st)\<rparr>
      | _ \<Rightarrow> r\<lparr>r_succeeded := Suc (r_succeeded r), r_details := (r_details r)(pid \<mapsto> st)\<rparr>)"

text \<open>
  The \<open>for\<close> loop of \<open>syncAll\<close>. \<open>const {pageId, content} = pageInfo\<close> reads a
  page row, which has an \<open>id\<close> and no \<open>pageId\<close>: the id is \<open>undefined\<close>
  (\<open>None\<close>).
\<close>

fun syncAll_loop ::
  "syncall_opts \<Rightarrow> page list \<Rightarrow> syncall_results \<Rightarrow> smart \<Rightarrow> world \<Rightarrow>
   (syncall_results \<times> smart \<times> world) option" where
  "syncAll_loop opts [] r s w = Some (r, s, w)"
| "syncAll_loop opts (p # ps) r s w =
     (let pid = None; c = pg_content p in
      if \<not> truthy_jstr c \<and> \<not> sa_forceAll opts then syncAll_loop opts ps (record_item pid Skipped r) s w
      else
        (case performLocalSave pid c s w of
           (s1, w1) \<Rightarrow>
             if \<not> sa_localOnly opts then
               (case performCloudSync pid c s1 w1 of
                  None \<Rightarrow> None
                | Some (ok, s2, w2) \<Rightarrow>
                    syncAll_loop opts ps (record_item pid (if ok then Synced else SyncFailed) r) s2 w2)
             else syncAll_loop opts ps (record_item pid LocalOnlySuccess r) s1 w1))"

text \<open>
  \<open>_getAllPages()\<close> and \<open>_getPagesWithPendingChanges()\<close>: the page rows, by
  \<open>order\<close> or those with \<open>pendingSync = 1\<close> (their \<open>catch\<close> returns \<open>[]\<close> on a
  storage error, which the model's store does not raise).
\<close>

definition getAllPages :: "world \<Rightarrow> page list" where
  "getAllPages w = getPages (w_local w)"

definition getPagesWithPendingChanges :: "world \<Rightarrow> page list" where
  "getPagesWithPendingChanges w = getPendingSyncPages (w_local w)"

text \<open>
  \<open>syncAll(options)\<close>: cancel both debounced functions, list all pages (by
  \<open>order\<close>) or the pending ones, run the loop, record \<open>lastGlobalSync\<close>.
  The initial download \<open>await syncDexieToFirestore.download\<close> awaits an
  undefined property and does nothing.
\<close>

definition syncAll :: "syncall_opts \<Rightarrow> smart \<Rightarrow> world \<Rightarrow> ((bool \<times> syncall_results) \<times> smart \<times> world) option" where
  "syncAll opts s w =
     (let s1 = cancel_debounced s;
          pages = (if sa_forceAll opts then getAllPages w else getPagesWithPendingChanges w);
          r0 = \<lparr>r_total = length pages, r_succeeded = 0, r_failed = 0, r_skipped = 0, r_details = Map.empty\<rparr>
      in map_option (\<lambda>(r, s2, w2). ((r_failed r = 0, r), s2\<lparr>sm_lastGlobalSync := Some (w_now w2)\<rparr>, w2))
           (syncAll_loop opts pages r0 s1 w))"

record metrics =
  mt_lastLocalSave :: "time option"
  mt_lastCloudSync :: "time option"
  mt_pendingChanges :: bool
  mt_consecutiveChanges :: nat
  mt_userPatterns :: user_patterns
  mt_localSaveDelay :: rat
  mt_cloudSyncDelay :: rat
  mt_maxSyncDelay :: rat

definition getMetrics :: "smart \<Rightarrow> metrics" where
  "getMetrics s =
     \<lparr>mt_lastLocalSave = sm_lastLocalSave s, mt_lastCloudSync = sm_lastCloudSync s,
      mt_pendingChanges = sm_pendingChanges s, mt_consecutiveChanges = sm_consecutiveChanges s,
      mt_userPatterns = sm_userPatterns s, mt_localSaveDelay = cf_localSaveDelay (sm_config s),
      mt_cloudSyncDelay = cf_cloudSyncDelay (sm_config s), mt_maxSyncDelay = cf_maxSyncDelay (sm_config s)\<rparr>"

section \<open>Events\<close>

text \<open>
  What happens to a manager: a call of one of the methods
  \<open>createSmartSyncManager\<close> exposes, a timer that fires, or time passing. A
  timer event does nothing until the timer is due.
\<close>

datatype sm_event =
    ContentChange "page_id option" string
  | ForceSync "page_id option" string
  | PrepareClose "page_id option" string
  | PageDeletion page_id
  | SyncAll syncall_opts
  | FireLocalSave
  | FireCloudSync
  | FireOrphan nat
  | FireForceSync
  | ActivityTick
  | Wait nat

text \<open>The callback of the forced-sync timeout.\<close>

definition forceSyncTimeout :: "page_id option \<Rightarrow> jstr \<Rightarrow> smart \<Rightarrow> world \<Rightarrow> (smart \<times> world) option" where
  "forceSyncTimeout pid c s w =
     map_option (\<lambda>(s1, w1). (s1\<lparr>sm_forceSyncScheduled := False\<rparr>, w1))
       (if sm_pendingChanges s then map_option snd (performCloudSync pid c s w) else Some (s, w))"

fun sm_dispatch :: "sm_event \<Rightarrow> smart \<Rightarrow> world \<Rightarrow> (smart \<times> world) option" where
  "sm_dispatch (ContentChange pid c) s w = Some (snd (handleContentChange pid c s w), w)"
| "sm_dispatch (ForceSync pid c) s w = map_option snd (forceSync pid c s w)"
| "sm_dispatch (PrepareClose pid c) s w = prepareClose pid c s w"
| "sm_dispatch (PageDeletion pid) s w = map_option snd (handlePageDeletion pid s w)"
| "sm_dispatch (SyncAll opts) s w = map_option snd (syncAll opts s w)"
| "sm_dispatch FireLocalSave s w =
     (if deb_due (w_now w) (sm_localSave s)
      then fire_debouncer (sm_localSave s) (s\<lparr>sm_localSave := deb_cancel (sm_localSave s)\<rparr>) w
      else Some (s, w))"
| "sm_dispatch FireCloudSync s w =
     (if deb_due (w_now w) (sm_cloudSync s)
      then fire_debouncer (sm_cloudSync s) (s\<lparr>sm_cloudSync := deb_cancel (sm_cloudSync s)\<rparr>) w
      else Some (s, w))"
| "sm_dispatch (FireOrphan n) s w =
     (if n < length (sm_orphans s) \<and> deb_due (w_now w) (sm_orphans s ! n)
      then fire_debouncer (sm_orphans s ! n)
             (s\<lparr>sm_orphans := take n (sm_orphans s) @ drop (Suc n) (sm_orphans s)\<rparr>) w
      else Some (s, w))"
| "sm_dispatch FireForceSync s w =
     (case sm_forceSyncTimer s of
        Some (t, pid, c) \<Rightarrow>
          if t \<le> of_int (w_now w) then forceSyncTimeout pid c (s\<lparr>sm_forceSyncTimer := None\<rparr>) w
          else Some (s, w)
      | None \<Rightarrow> Some (s, w))"
| "sm_dispatch ActivityTick s w =
     (case sm_activityInterval s of
        Some t \<Rightarrow> if t \<le> w_now w then trackActivity (s\<lparr>sm_activityInterval := Some (t + 5000)\<rparr>) w
                  else Some (s, w)
      | None \<Rightarrow> Some (s, w))"
| "sm_dispatch (Wait d) s w = Some (s, w\<lparr>w_now := w_now w + int d\<rparr>)"

text \<open>A sequence of events; \<open>None\<close> when a sync job of one of them does not return.\<close>

fun run_events :: "sm_event list \<Rightarrow> smart \<Rightarrow> world \<Rightarrow> (smart \<times> world) option" where
  "run_events [] s w = Some (s, w)"
| "run_events (e # es) s w =
     (case sm_dispatch e s w of None \<Rightarrow> None | Some (s1, w1) \<Rightarrow> run_events es s1 w1)"

text \<open>
  The states of a manager built by \<open>createSmartSyncManager\<close> in a reachable
  world, under its events and the changes of the environment the engine's
  \<open>reachable\<close> admits.
\<close>

inductive sm_reach :: "smart \<Rightarrow> world \<Rightarrow> bool" where
  init: "reachable w \<Longrightarrow> sm_reach (new_SmartSync manager_opts (w_now w)) w"
| step: "sm_reach s w \<Longrightarrow> sm_dispatch e s w = Some (s', w') \<Longrightarrow> sm_reach s' w'"
| remote_write: "sm_reach s w \<Longrightarrow> sm_reach s (w\<lparr>w_remote := table_put (w_remote w) d\<rparr>)"
| env: "sm_reach s w \<Longrightarrow>
    sm_reach s (w\<lparr>w_faults := fs, w_coins := cs, w_jitter := js, w_locks := ls, w_edits := es,
      w_vault := v, w_user := u\<rparr>)"

section \<open>Sample inputs and the scheduler's invariant\<close>

text \<open>
  A world where no user is signed in (every sync returns \<open>NOT_AUTHENTICATED\<close>
  at once), an edit long enough to be significant, and the options of a local-only
  global sync.
\<close>

definition offline_world :: world where
  "offline_world = sample_world\<lparr>w_user := False\<rparr>"

definition long_text :: string where
  "long_text = replicate 120 CHR ''a''"

definition local_only :: syncall_opts where
  "local_only = \<lparr>sa_forceAll = False, sa_localOnly = True, sa_initialSync = False\<rparr>"

text \<open>
  The invariant of a manager: the history is capped, \<open>state.currentPage\<close> is
  never set, every server timestamp is \<open>undefined\<close>, a forced-sync timer implies
  the flag, and the thresholds \<open>createSmartSyncManager\<close> passes never change.
  \<open>sm_frame\<close> relates a state to one an operation that keeps all of these
  produces.
\<close>

definition smart_inv :: "smart \<Rightarrow> bool" where
  "smart_inv s \<longleftrightarrow> length (sm_changeHistory s) \<le> 100 \<and> sm_currentPage s = None
     \<and> ran (sm_serverTs s) \<subseteq> {None} \<and> (sm_forceSyncTimer s \<noteq> None \<longrightarrow> sm_forceSyncScheduled s)
     \<and> cf_minChangeThreshold (sm_config s) = 10 \<and> cf_significantChangeThreshold (sm_config s) = 100
     \<and> cf_maxSyncDelay (sm_config s) = 300000 \<and> cf_adaptiveTiming (sm_config s)
     \<and> cf_collectMetrics (sm_config s)"

definition sm_key :: "smart \<Rightarrow> _" where
  "sm_key s = (sm_changeHistory s, sm_currentPage s, sm_forceSyncScheduled s, sm_forceSyncTimer s,
     cf_minChangeThreshold (sm_config s), cf_significantChangeThreshold (sm_config s),
     cf_maxSyncDelay (sm_config s), cf_adaptiveTiming (sm_config s), cf_collectMetrics (sm_config s))"

definition sm_frame :: "smart \<Rightarrow> smart \<Rightarrow> bool" where
  "sm_frame s s' \<longleftrightarrow> sm_key s' = sm_key s \<and> (ran (sm_serverTs s) \<subseteq> {None} \<longrightarrow> ran (sm_serverTs s') \<subseteq> {None})"

lemmas smart_run_defs = handleContentChange_def Let_def calculateChangeMetrics_def shouldTriggerCloudSync_def
  new_SmartSync_def new_config_def manager_opts_def js_or_def js_not_false_def ensureMaxSyncDelay_def
  deb_call_def deb_cancel_def deb_due_def debounce_def push_history_def time_since_def init_patterns_def
  long_text_def offline_world_def performCloudSync_def onCloudSync_def syncDexieToFirestore_def
  fire_debouncer_def sync_succeeded_def performLocalSave_def onLocalSave_def normalizePageId_def
  truthy_jstr_def truthy_str_def prepareClose_def cancel_debounced_def sample_world_def init_sync_state_def

section \<open>Frames: what each operation leaves alone\<close>

lemma push_history_length: "length h \<le> 100 \<Longrightarrow> length (push_history h c) \<le> 100"
  by (simp add: push_history_def Let_def)

lemma sm_frame_refl [simp]: "sm_frame s s"
  by (simp add: sm_frame_def)

lemma sm_frame_trans: "sm_frame s1 s2 \<Longrightarrow> sm_frame s2 s3 \<Longrightarrow> sm_frame s1 s3"
  by (simp add: sm_frame_def)

lemma smart_adjustTimings_frame: "sm_frame s (smart_adjustTimings s)"
  by (auto simp: smart_adjustTimings_def adjustTimings_def Let_def sm_frame_def sm_key_def split: prod.splits bool.splits)

lemma updateAdaptiveTiming_frame: "sm_frame s (updateAdaptiveTiming s)"
  using smart_adjustTimings_frame 
  by (auto simp: updateAdaptiveTiming_def sm_frame_def sm_key_def split: option.splits)

lemma ran_upd_None: "ran m \<subseteq> {None} \<Longrightarrow> ran (m(k \<mapsto> None)) \<subseteq> {None}"
  by (auto simp: ran_def)

lemma onCloudSync_reachable:
  "onCloudSync pid md d w = Some (b, w') \<Longrightarrow> reachable w \<Longrightarrow> reachable w'"
  by (auto simp: onCloudSync_def intro: reachable.sync)

lemma onLocalSave_reachable: "reachable w \<Longrightarrow> reachable (onLocalSave pid c w)"
  by (auto simp: onLocalSave_def intro: reachable.save split: option.splits)

lemma performLocalSave_frame:
  "performLocalSave pid c s w = (s', w') \<Longrightarrow> sm_frame s s' \<and> (reachable w \<longrightarrow> reachable w')"
  by (auto simp: performLocalSave_def Let_def sm_frame_def sm_key_def onLocalSave_reachable)

lemma performCloudSync_frame:
  "performCloudSync pid c s w = Some (b, s', w') \<Longrightarrow> sm_frame s s' \<and> (reachable w \<longrightarrow> reachable w')"
proof -
  assume run: "performCloudSync pid c s w = Some (b, s', w')"
  show ?thesis
  proof (cases c)
    case None
    then show ?thesis using run by (simp add: performCloudSync_def)
  next
    case (Some str)
    then obtain ok w1 where oc: "onCloudSync pid (prepareTimestampBasedSync s pid str) False w = Some (ok, w1)"
      using run by (auto simp: performCloudSync_def split: option.splits)
    let ?s1 = "s\<lparr>sm_lastCloudSync := Some (w_now w1), sm_pendingChanges := False,
                 sm_syncScheduled := False, sm_serverTs := (sm_serverTs s)(pid \<mapsto> None)\<rparr>"
    have f1: "sm_frame s ?s1" by (simp add: sm_frame_def sm_key_def ran_upd_None)
    have "sm_frame s s'"
      using run oc Some f1 sm_frame_trans [OF f1 updateAdaptiveTiming_frame]
      by (auto simp: performCloudSync_def Let_def split: if_splits bool.splits)
    moreover have "w' = w1" using run oc Some by (auto simp: performCloudSync_def Let_def split: if_splits bool.splits)
    ultimately show ?thesis using onCloudSync_reachable [OF oc] by simp
  qed
qed

lemma fire_debouncer_frame:
  "fire_debouncer d s w = Some (s', w') \<Longrightarrow> sm_frame s s' \<and> (reachable w \<longrightarrow> reachable w')"
  by (auto simp: fire_debouncer_def split: option.splits deb_kind.splits
      dest: performLocalSave_frame performCloudSync_frame)


lemma smart_inv_frame: "sm_frame s s' \<Longrightarrow> smart_inv s \<Longrightarrow> smart_inv s'"
  by (simp add: sm_frame_def sm_key_def smart_inv_def)

lemma syncAll_loop_frame:
  "syncAll_loop opts ps r s w = Some (r', s', w') \<Longrightarrow> sm_frame s s' \<and> (reachable w \<longrightarrow> reachable w')"
proof (induction ps arbitrary: r s w)
  case Nil
  then show ?case by simp
next
  case (Cons p ps)
  obtain s1 w1 where ls: "performLocalSave None (pg_content p) s w = (s1, w1)" by fastforce
  show ?case
  proof (cases "\<not> truthy_jstr (pg_content p) \<and> \<not> sa_forceAll opts")
    case True
    then show ?thesis using Cons by simp
  next
    case nskip: False
    show ?thesis
    proof (cases "sa_localOnly opts")
      case True
      then show ?thesis using Cons.prems Cons.IH [of _ s1 w1] nskip ls performLocalSave_frame [OF ls]
        by (auto intro: sm_frame_trans)
    next
      case False
      then obtain ok s2 w2 where cs: "performCloudSync None (pg_content p) s1 w1 = Some (ok, s2, w2)"
        using Cons.prems nskip ls by (auto split: option.splits)
      then show ?thesis using Cons.prems Cons.IH [of _ s2 w2] nskip ls False
          performLocalSave_frame [OF ls] performCloudSync_frame [OF cs]
        by (auto intro: sm_frame_trans)
    qed
  qed
qed

lemma sm_frame_cancel [simp]: "sm_frame s (cancel_debounced s)"
  by (simp add: cancel_debounced_def sm_frame_def sm_key_def)

lemma sm_frame_lastGlobalSync [simp]: "sm_frame s (s'\<lparr>sm_lastGlobalSync := x\<rparr>) = sm_frame s s'"
  by (simp add: sm_frame_def sm_key_def)

lemma syncAll_frame:
  "syncAll opts s w = Some (res, s', w') \<Longrightarrow> sm_frame s s' \<and> (reachable w \<longrightarrow> reachable w')"
  by (auto simp: syncAll_def Let_def dest!: syncAll_loop_frame intro: sm_frame_trans [OF sm_frame_cancel])

lemma forceSync_frame:
  "forceSync pid c s w = Some (b, s', w') \<Longrightarrow> sm_frame s s' \<and> (reachable w \<longrightarrow> reachable w')"
proof -
  assume run: "forceSync pid c s w = Some (b, s', w')"
  obtain s1 w1 where ls: "performLocalSave pid (Some c) (cancel_debounced s) w = (s1, w1)" by fastforce
  have f1: "sm_frame s s1" and r1: "reachable w \<longrightarrow> reachable w1"
    using sm_frame_trans [OF sm_frame_cancel] performLocalSave_frame [OF ls] by blast+
  have "performCloudSync pid (Some c) s1 w1 = Some (b, s', w')" using run ls by (simp add: forceSync_def)
  then show ?thesis using f1 r1 performCloudSync_frame sm_frame_trans by blast
qed

lemma trackActivity_frame:
  "trackActivity s w = Some (s', w') \<Longrightarrow> sm_frame s s' \<and> (reachable w \<longrightarrow> reachable w')"
  by (auto simp: trackActivity_def Let_def sm_frame_def sm_key_def split: if_splits
      dest!: fire_debouncer_frame)


lemma ensureMaxSyncDelay_inv: "smart_inv s \<Longrightarrow> smart_inv (ensureMaxSyncDelay pid c now s)"
  by (auto simp: ensureMaxSyncDelay_def Let_def smart_inv_def)

lemma handleContentChange_inv: "smart_inv s \<Longrightarrow> smart_inv (snd (handleContentChange pid c s w))"
  unfolding handleContentChange_def Let_def snd_conv
  by (rule ensureMaxSyncDelay_inv) (simp add: smart_inv_def push_history_length)

lemma onLocalSave_null [simp]: "onLocalSave pid None w = w"
  by (simp add: onLocalSave_def truthy_jstr_def split: option.split)

lemma handlePageDeletion_state:
  "smart_inv s \<Longrightarrow> handlePageDeletion pid s w = map_option (\<lambda>(r, w'). (sync_succeeded r, s, w')) (syncDexieToFirestore pid True w)"
proof -
  assume inv: "smart_inv s"
  then have "sm_serverTs s (Some pid) = None \<or> sm_serverTs s (Some pid) = Some None"
    by (cases "sm_serverTs s (Some pid)") (auto simp: smart_inv_def ran_def)
  moreover have "sm_currentPage s = None" using inv by (simp add: smart_inv_def)
  ultimately show ?thesis
    by (elim disjE; cases "syncDexieToFirestore pid True w")
       (simp_all add: handlePageDeletion_def onCloudSync_def Let_def split: prod.split)
qed

lemma prepareClose_frame:
  "prepareClose pid c s w = Some (s', w') \<Longrightarrow>
   \<exists>s3. s' = s3\<lparr>sm_forceSyncTimer := None, sm_activityInterval := None\<rparr> \<and> sm_frame s s3
     \<and> (reachable w \<longrightarrow> reachable w')"
proof (cases "sm_pendingChanges s")
  case True
  assume run: "prepareClose pid c s w = Some (s', w')"
  obtain s2 w2 where ls: "performLocalSave pid (Some c) (cancel_debounced s) w = (s2, w2)" by fastforce
  then obtain b s3 where "performCloudSync pid (Some c) s2 w2 = Some (b, s3, w')"
      "s' = s3\<lparr>sm_forceSyncTimer := None, sm_activityInterval := None\<rparr>"
    using run True by (auto simp: prepareClose_def cancel_debounced_def split: option.splits)
  then show ?thesis using performLocalSave_frame [OF ls] performCloudSync_frame
      sm_frame_trans [OF sm_frame_cancel] sm_frame_trans by blast
next
  case False
  assume run: "prepareClose pid c s w = Some (s', w')"
  have "s' = (cancel_debounced s)\<lparr>sm_forceSyncTimer := None, sm_activityInterval := None\<rparr> \<and> w' = w"
    using run False by (auto simp: prepareClose_def cancel_debounced_def)
  then show ?thesis by (intro exI [of _ "cancel_debounced s"]) simp
qed

lemma prepareClose_inv:
  "prepareClose pid c s w = Some (s', w') \<Longrightarrow> smart_inv s \<Longrightarrow> smart_inv s' \<and> (reachable w \<longrightarrow> reachable w')"
proof -
  assume run: "prepareClose pid c s w = Some (s', w')" and inv: "smart_inv s"
  then obtain s3 where s3: "s' = s3\<lparr>sm_forceSyncTimer := None, sm_activityInterval := None\<rparr>"
    and f: "sm_frame s s3 \<and> (reachable w \<longrightarrow> reachable w')"
    using prepareClose_frame by blast
  moreover have "smart_inv s3" using smart_inv_frame f inv by blast
  ultimately show ?thesis by (simp add: smart_inv_def)
qed

lemma reachable_wait: "reachable w \<Longrightarrow> reachable (w\<lparr>w_now := t\<rparr>)"
  using reachable.env [where w = w and fs = "w_faults w" and cs = "w_coins w" and js = "w_jitter w" and ls = "w_locks w"
      and es = "w_edits w" and v = "w_vault w" and u = "w_user w" and t = t]
  by simp

lemma sm_frame_timer_fields [simp]:
  "sm_frame s (s\<lparr>sm_localSave := a\<rparr>)" "sm_frame s (s\<lparr>sm_cloudSync := a\<rparr>)"
  "sm_frame s (s\<lparr>sm_orphans := os\<rparr>)" "sm_frame s (s\<lparr>sm_activityInterval := t\<rparr>)"
  by (simp_all add: sm_frame_def sm_key_def)

lemma frame_step_inv:
  "sm_frame s1 s' \<and> (reachable w \<longrightarrow> reachable w') \<Longrightarrow> sm_frame s s1 \<Longrightarrow> smart_inv s \<Longrightarrow> reachable w \<Longrightarrow>
   smart_inv s' \<and> reachable w'"
  using smart_inv_frame sm_frame_trans by blast

lemma forceSyncTimeout_inv:
  "forceSyncTimeout pid c s w = Some (s', w') \<Longrightarrow> smart_inv s \<Longrightarrow> sm_forceSyncTimer s = None \<Longrightarrow>
   reachable w \<Longrightarrow> smart_inv s' \<and> reachable w'"
proof -
  assume run: "forceSyncTimeout pid c s w = Some (s', w')" and inv: "smart_inv s"
    and none: "sm_forceSyncTimer s = None" and rw: "reachable w"
  obtain s1 where s1: "s' = s1\<lparr>sm_forceSyncScheduled := False\<rparr>" and f: "sm_frame s s1"
    and r: "reachable w'"
  proof (cases "sm_pendingChanges s")
    case True
    then obtain b s2 where pc: "performCloudSync pid c s w = Some (b, s2, w')"
      and s2: "s' = s2\<lparr>sm_forceSyncScheduled := False\<rparr>"
      using run by (auto simp: forceSyncTimeout_def split: option.splits)
    then show ?thesis using that [of s2] performCloudSync_frame [OF pc] rw by blast
  next
    case False
    then show ?thesis using run rw that [of s] by (auto simp: forceSyncTimeout_def)
  qed
  then show ?thesis using inv none by (auto simp: smart_inv_def sm_frame_def sm_key_def)
qed

lemma fire_step_inv:
  "fire_debouncer d s1 w = Some (s', w') \<Longrightarrow> sm_frame s s1 \<Longrightarrow> smart_inv s \<Longrightarrow> reachable w \<Longrightarrow>
   smart_inv s' \<and> reachable w'"
  using frame_step_inv [OF fire_debouncer_frame] by blast

lemma trackActivity_step_inv:
  "trackActivity (s\<lparr>sm_activityInterval := t\<rparr>) w = Some (s', w') \<Longrightarrow> smart_inv s \<Longrightarrow> reachable w \<Longrightarrow>
   smart_inv s' \<and> reachable w'"
  using frame_step_inv [OF trackActivity_frame sm_frame_timer_fields(4)] by blast

lemma sm_dispatch_inv:
  "sm_dispatch e s w = Some (s', w') \<Longrightarrow> smart_inv s \<Longrightarrow> reachable w \<Longrightarrow> smart_inv s' \<and> reachable w'"
proof (induction e s w rule: sm_dispatch.induct)
  case (1 pid c s w)
  then show ?case using handleContentChange_inv by auto
next
  case (2 pid c s w)
  then obtain b where "forceSync pid c s w = Some (b, s', w')" by auto
  then show ?case using 2 forceSync_frame smart_inv_frame by blast
next
  case (3 pid c s w)
  then show ?case using prepareClose_inv by auto
next
  case (4 pid s w)
  then show ?case by (auto simp: handlePageDeletion_state intro: reachable.sync)
next
  case (5 opts s w)
  then obtain b where "syncAll opts s w = Some (b, s', w')" by auto
  then show ?case using 5 syncAll_frame smart_inv_frame by blast
next
  case (6 s w)
  then show ?case by (auto split: if_splits dest: fire_step_inv [OF _ sm_frame_timer_fields(1)])
next
  case (7 s w)
  then show ?case by (auto split: if_splits dest: fire_step_inv [OF _ sm_frame_timer_fields(2)])
next
  case (8 n s w)
  then show ?case by (auto split: if_splits dest: fire_step_inv [OF _ sm_frame_timer_fields(3)])
next
  case (9 s w)
  have i1: "smart_inv (s\<lparr>sm_forceSyncTimer := None\<rparr>)" using 9 by (simp add: smart_inv_def)
  show ?case
  proof (cases "sm_forceSyncTimer s")
    case (Some x)
    obtain t pid c where "x = (t, pid, c)" by (cases x) auto
    then show ?thesis using 9 Some forceSyncTimeout_inv [OF _ i1] by (auto split: if_splits)
  qed (use 9 in simp)
next
  case (10 s w)
  show ?case
  proof (cases "sm_activityInterval s")
    case (Some t)
    then show ?thesis using 10 by (auto split: if_splits dest: trackActivity_step_inv)
  qed (use 10 in simp)
next
  case (11 d s w)
  then have "s' = s" "w' = w\<lparr>w_now := w_now w + int d\<rparr>" by simp_all
  then show ?case using 11(2,3) reachable_wait [of w "w_now w + int d"] by simp
qed


section \<open>The invariant of reachable managers\<close>

lemma sample_world_reachable: "reachable sample_world"
  by (rule reachable.init) (simp_all add: sample_world_def table_wf_def sample_page_def init_sync_state_def
      empty_meta_def)

lemma new_manager_inv: "smart_inv (new_SmartSync manager_opts t)"
  by (simp add: smart_inv_def new_SmartSync_def new_config_def manager_opts_def js_or_def js_not_false_def)

lemma reachable_env_keep_clock:
  "reachable w \<Longrightarrow> reachable (w\<lparr>w_faults := fs, w_coins := cs, w_jitter := js, w_locks := ls,
     w_edits := es, w_vault := v, w_user := u\<rparr>)"
  using reachable.env [where w = w and fs = fs and cs = cs and js = js and ls = ls and es = es
      and v = v and u = u and t = "w_now w"] by simp

lemma sm_reach_smart_inv: "sm_reach s w \<Longrightarrow> smart_inv s \<and> reachable w"
proof (induction rule: sm_reach.induct)
  case (init w)
  then show ?case using new_manager_inv by simp
next
  case (step s w e s' w')
  then show ?case using sm_dispatch_inv by blast
next
  case (remote_write s w d)
  then show ?case by (simp add: reachable.remote_write)
next
  case env
  then show ?case by (simp add: reachable_env_keep_clock)
qed

text \<open>
  C16. Composition with the engine: every world a manager built by
  \<open>createSmartSyncManager\<close> drives is one the engine's \<open>reachable\<close> admits (its
  local saves are \<open>savePage\<close>, its cloud syncs \<open>syncDexieToFirestore\<close>), so the
  engine's invariant holds there; and the manager's own invariant holds.
\<close>

theorem sm_reach_inv:
  "sm_reach s w \<Longrightarrow> reachable w \<and> smart_inv s"
  using sm_reach_smart_inv by blast

theorem sm_reach_inv_witness:
  "sm_reach (snd (handleContentChange (Some 1) long_text (new_SmartSync manager_opts 1000) sample_world)) sample_world
   \<and> reachable sample_world
   \<and> smart_inv (snd (handleContentChange (Some 1) long_text (new_SmartSync manager_opts 1000) sample_world))"
proof -
  have r0: "sm_reach (new_SmartSync manager_opts 1000) sample_world"
    using sm_reach.init [OF sample_world_reachable] by (simp add: sample_world_def)
  have r1: "sm_reach (snd (handleContentChange (Some 1) long_text (new_SmartSync manager_opts 1000) sample_world)) sample_world"
    using sm_reach.step [OF r0, of "ContentChange (Some 1) long_text"] by simp
  show ?thesis using r1 sm_reach_inv [OF r1] by simp
qed


section \<open>Scheduling\<close>

lemma ensureMaxSyncDelay_fields [simp]:
  "sm_syncScheduled (ensureMaxSyncDelay pid c now s) = sm_syncScheduled s"
  "sm_cloudSync (ensureMaxSyncDelay pid c now s) = sm_cloudSync s"
  "sm_config (ensureMaxSyncDelay pid c now s) = sm_config s"
  "sm_forceSyncScheduled s \<Longrightarrow> ensureMaxSyncDelay pid c now s = s"
  by (simp_all add: ensureMaxSyncDelay_def Let_def)

lemma handleContentChange_scheduled:
  "sm_syncScheduled s \<Longrightarrow> db_pending (sm_cloudSync s) = None \<Longrightarrow>
   sm_syncScheduled (snd (handleContentChange pid c s w))
   \<and> db_pending (sm_cloudSync (snd (handleContentChange pid c s w))) = None"
  by (simp add: handleContentChange_def Let_def deb_cancel_def deb_call_def)

text \<open>
  C17. Once \<open>syncScheduled\<close> is set and the debounced cloud sync has run (a
  failed \<open>_performCloudSync\<close> does not reset the flag) or been cancelled, no
  later content change schedules the debounced cloud sync again: a triggering
  change cancels it and skips scheduling because the flag is set.
\<close>

theorem failed_sync_blocks_debounced_sync:
  "sm_syncScheduled s \<Longrightarrow> db_pending (sm_cloudSync s) = None \<Longrightarrow>
   \<exists>s'. run_events (map (\<lambda>(p, c). ContentChange p c) cs) s w = Some (s', w)
     \<and> sm_syncScheduled s' \<and> db_pending (sm_cloudSync s') = None"
proof (induction cs arbitrary: s)
  case Nil
  then show ?case by simp
next
  case (Cons pc cs)
  obtain p c where pc: "pc = (p, c)" by fastforce
  show ?case using Cons.IH [OF handleContentChange_scheduled [OF Cons.prems, of p c w, THEN conjunct1]
      handleContentChange_scheduled [OF Cons.prems, of p c w, THEN conjunct2]] pc
    by simp
qed

text \<open>
  C20. A cloud sync that fails (the engine refused or failed, or the content is
  \<open>null\<close>) leaves the scheduler's state exactly as it was: \<open>syncScheduled\<close>,
  \<open>pendingChanges\<close> and the forced-sync flag included.
\<close>

theorem performCloudSync_failure_keeps_state:
  "performCloudSync pid c s w = Some (False, s', w') \<Longrightarrow> s' = s"
  by (auto simp: performCloudSync_def Let_def split: option.splits bool.splits)

lemma max_delay_shift: "(a::rat) + max 0 (m - (a - b)) = max a (b + m)"
  by (simp add: max_def)

text \<open>
  C19. The durability backstop: a content change when no forced sync is scheduled
  sets one, due \<open>maxSyncDelay\<close> after the last cloud sync or now if that is
  later, and at once when there has been no cloud sync yet.
\<close>

theorem handleContentChange_schedules_backstop:
  "\<not> sm_forceSyncScheduled s \<Longrightarrow>
   sm_forceSyncScheduled (snd (handleContentChange pid c s w))
   \<and> sm_forceSyncTimer (snd (handleContentChange pid c s w)) =
       Some (case sm_lastCloudSync s of
               Some l \<Rightarrow> if l \<noteq> 0 then max (of_int (w_now w)) (of_int l + cf_maxSyncDelay (sm_config s))
                         else of_int (w_now w)
             | None \<Rightarrow> of_int (w_now w), pid, Some c)"
  by (simp add: handleContentChange_def Let_def ensureMaxSyncDelay_def time_since_def max_delay_shift
      deb_cancel_def deb_call_def split: option.split)


lemma handlePageDeletion_force_fields:
  "handlePageDeletion pid s w = Some (b, s', w') \<Longrightarrow>
   sm_forceSyncScheduled s' = sm_forceSyncScheduled s \<and> sm_forceSyncTimer s' = sm_forceSyncTimer s"
  by (auto simp: handlePageDeletion_def Let_def split: option.splits prod.splits if_splits)

lemma frame_force_fields:
  "sm_frame s s' \<Longrightarrow> sm_forceSyncScheduled s' = sm_forceSyncScheduled s \<and> sm_forceSyncTimer s' = sm_forceSyncTimer s"
  by (simp add: sm_frame_def sm_key_def)

lemma handleContentChange_force_fields:
  "sm_forceSyncScheduled s \<Longrightarrow> sm_forceSyncScheduled (snd (handleContentChange pid c s w))
   \<and> sm_forceSyncTimer (snd (handleContentChange pid c s w)) = sm_forceSyncTimer s"
  unfolding handleContentChange_def Let_def snd_conv
  by (subst ensureMaxSyncDelay_fields(4)) simp_all

lemma fire_force_fields:
  "fire_debouncer d s1 w = Some (s', w') \<Longrightarrow> sm_frame s s1 \<Longrightarrow>
   sm_forceSyncScheduled s' = sm_forceSyncScheduled s \<and> sm_forceSyncTimer s' = sm_forceSyncTimer s"
  using fire_debouncer_frame sm_frame_trans frame_force_fields by blast

lemma dispatch_backstop_off:
  "sm_dispatch e s w = Some (s', w') \<Longrightarrow> sm_forceSyncScheduled s \<Longrightarrow> sm_forceSyncTimer s = None \<Longrightarrow>
   sm_forceSyncScheduled s' \<and> sm_forceSyncTimer s' = None"
proof (induction e s w rule: sm_dispatch.induct)
  case (1 pid c s w)
  then show ?case using handleContentChange_force_fields by auto
next
  case (2 pid c s w)
  then obtain b where "forceSync pid c s w = Some (b, s', w')" by auto
  from frame_force_fields [OF conjunct1 [OF forceSync_frame [OF this]]] show ?case using 2 by simp
next
  case (3 pid c s w)
  then obtain s3 where "s' = s3\<lparr>sm_forceSyncTimer := None, sm_activityInterval := None\<rparr>" "sm_frame s s3"
    using prepareClose_frame by fastforce
  then show ?case using 3 frame_force_fields by simp
next
  case (4 pid s w)
  then obtain b where "handlePageDeletion pid s w = Some (b, s', w')" by auto
  from handlePageDeletion_force_fields [OF this] show ?case using 4 by simp
next
  case (5 opts s w)
  then obtain b where "syncAll opts s w = Some (b, s', w')" by auto
  from frame_force_fields [OF conjunct1 [OF syncAll_frame [OF this]]] show ?case using 5 by simp
next
  case (6 s w)
  then show ?case by (auto split: if_splits dest: fire_force_fields [OF _ sm_frame_timer_fields(1)])
next
  case (7 s w)
  then show ?case by (auto split: if_splits dest: fire_force_fields [OF _ sm_frame_timer_fields(2)])
next
  case (8 n s w)
  then show ?case by (auto split: if_splits dest: fire_force_fields [OF _ sm_frame_timer_fields(3)])
next
  case (9 s w)
  then show ?case by simp
next
  case (10 s w)
  show ?case
  proof (cases "sm_activityInterval s")
    case (Some t)
    show ?thesis
    proof (cases "t \<le> w_now w")
      case True
      then have "trackActivity (s\<lparr>sm_activityInterval := Some (t + 5000)\<rparr>) w = Some (s', w')"
        using 10 Some by simp
      from frame_force_fields [OF sm_frame_trans [OF sm_frame_timer_fields(4)
          conjunct1 [OF trackActivity_frame [OF this]]]]
      show ?thesis using 10 by simp
    qed (use 10 Some in simp)
  qed (use 10 in simp)
next
  case (11 d s w)
  then show ?case by simp
qed

text \<open>
  C18. \<open>prepareClose\<close> clears the forced-sync timeout but not
  \<open>forceSyncScheduled\<close>; from then on, whatever happens to the manager, no
  forced sync is ever scheduled again.
\<close>

theorem prepareClose_disables_backstop:
  "prepareClose pid c s w = Some (s1, w1) \<Longrightarrow> sm_forceSyncScheduled s \<Longrightarrow>
   run_events es s1 w1 = Some (s2, w2) \<Longrightarrow> sm_forceSyncScheduled s2 \<and> sm_forceSyncTimer s2 = None"
proof -
  assume pc: "prepareClose pid c s w = Some (s1, w1)" and fl: "sm_forceSyncScheduled s"
    and run: "run_events es s1 w1 = Some (s2, w2)"
  have "sm_forceSyncScheduled s1 \<and> sm_forceSyncTimer s1 = None"
    using prepareClose_frame [OF pc] fl frame_force_fields by fastforce
  then show ?thesis using run
  proof (induction es arbitrary: s1 w1)
    case Nil
    then show ?case by simp
  next
    case (Cons e es)
    then obtain s' w' where d: "sm_dispatch e s1 w1 = Some (s', w')" and r: "run_events es s' w' = Some (s2, w2)"
      by (auto split: option.splits)
    have "sm_forceSyncScheduled s' \<and> sm_forceSyncTimer s' = None"
      using dispatch_backstop_off [OF d conjunct1 [OF Cons.prems(1)] conjunct2 [OF Cons.prems(1)]] .
    then show ?case using Cons.IH r by blast
  qed
qed

lemma syncAll_loop_details:
  "syncAll_loop opts ps r s w = Some (r', s', w') \<Longrightarrow> dom (r_details r) \<subseteq> {None} \<Longrightarrow>
   dom (r_details r') \<subseteq> {None} \<and> (sa_localOnly opts \<longrightarrow> w' = w \<and> r_failed r' = r_failed r)"
proof (induction ps arbitrary: r s w)
  case Nil
  then show ?case by simp
next
  case (Cons p ps)
  have dom: "dom (r_details (record_item None st r)) \<subseteq> {None}" for st
    using Cons.prems(2) by (auto simp: record_item_def split: item_status.splits)
  have fail: "r_failed (record_item None st r) = r_failed r" if "st \<noteq> SyncFailed" for st
    using that by (simp add: record_item_def split: item_status.splits)
  obtain s1 w1 where ls: "performLocalSave None (pg_content p) s w = (s1, w1)" by fastforce
  have w1: "w1 = w" using ls by (simp add: performLocalSave_def onLocalSave_def normalizePageId_def)
  show ?case
  proof (cases "\<not> truthy_jstr (pg_content p) \<and> \<not> sa_forceAll opts")
    case True
    then show ?thesis using Cons.prems(1) Cons.IH [OF _ dom] fail by simp
  next
    case nskip: False
    show ?thesis
    proof (cases "sa_localOnly opts")
      case True
      then show ?thesis using Cons.prems(1) Cons.IH [OF _ dom] fail nskip ls w1 by simp
    next
      case False
      then obtain ok s2 w2 where
        rest: "syncAll_loop opts ps (record_item None (if ok then Synced else SyncFailed) r) s2 w2 = Some (r', s', w')"
        using Cons.prems(1) nskip ls by (auto split: option.splits)
      then show ?thesis using Cons.IH [OF rest dom] False by simp
    qed
  qed
qed

text \<open>
  C21. \<open>syncAll\<close> reads \<open>pageId\<close> from page rows that have none: every detail
  it reports is under the key \<open>undefined\<close>, and a local-only global sync writes
  nothing to the store yet reports success.
\<close>

theorem syncAll_undefined_page_ids:
  "syncAll opts s w = Some ((ok, r), s', w') \<Longrightarrow>
   dom (r_details r) \<subseteq> {None} \<and> (sa_localOnly opts \<longrightarrow> w' = w \<and> ok)"
  by (auto simp: syncAll_def Let_def dest!: syncAll_loop_details)

text \<open>
  C22. In every reachable state \<open>handlePageDeletion\<close> is exactly one
  \<open>syncDexieToFirestore(pageId, _, true)\<close>: its local removal
  (\<open>onLocalSave(pageId, null)\<close>) writes nothing and its bookkeeping changes
  nothing.
\<close>

theorem handlePageDeletion_delegates:
  "sm_reach s w \<Longrightarrow>
   handlePageDeletion pid s w = map_option (\<lambda>(r, w'). (sync_succeeded r, s, w')) (syncDexieToFirestore pid True w)"
  using handlePageDeletion_state sm_reach_smart_inv by blast

section \<open>Witnesses\<close>

lemma offline_run_stuck:
  "\<exists>s. run_events [ContentChange (Some 1) long_text, Wait 30000, FireCloudSync]
     (new_SmartSync manager_opts 1000) offline_world = Some (s, offline_world\<lparr>w_now := 31000\<rparr>)
   \<and> sm_syncScheduled s \<and> db_pending (sm_cloudSync s) = None"
  by (simp add: smart_run_defs)

theorem failed_sync_blocks_debounced_sync_witness:
  "\<exists>s s'. run_events [ContentChange (Some 1) long_text, Wait 30000, FireCloudSync]
     (new_SmartSync manager_opts 1000) offline_world = Some (s, offline_world\<lparr>w_now := 31000\<rparr>)
   \<and> run_events [ContentChange (Some 1) (long_text @ long_text)] s (offline_world\<lparr>w_now := 31000\<rparr>)
       = Some (s', offline_world\<lparr>w_now := 31000\<rparr>)
   \<and> sm_syncScheduled s' \<and> db_pending (sm_cloudSync s') = None"
proof -
  obtain s where run: "run_events [ContentChange (Some 1) long_text, Wait 30000, FireCloudSync]
     (new_SmartSync manager_opts 1000) offline_world = Some (s, offline_world\<lparr>w_now := 31000\<rparr>)"
    and st: "sm_syncScheduled s" "db_pending (sm_cloudSync s) = None"
    using offline_run_stuck by blast
  show ?thesis
    using run failed_sync_blocks_debounced_sync [OF st, of "[(Some 1, long_text @ long_text)]"
        "offline_world\<lparr>w_now := 31000\<rparr>"]
    by auto
qed

theorem performCloudSync_failure_keeps_state_witness:
  "performCloudSync (Some 1) (Some ''x'') (new_SmartSync manager_opts 1000) offline_world
     = Some (False, new_SmartSync manager_opts 1000, offline_world)"
proof -
  obtain s' w' where run: "performCloudSync (Some 1) (Some ''x'') (new_SmartSync manager_opts 1000) offline_world
      = Some (False, s', w')" and w: "w' = offline_world"
    by (simp add: performCloudSync_def onCloudSync_def syncDexieToFirestore_def offline_world_def
        sample_world_def init_sync_state_def sync_succeeded_def)
  show ?thesis using run w performCloudSync_failure_keeps_state [OF run] by simp
qed

theorem handleContentChange_schedules_backstop_witness:
  "sm_forceSyncTimer (snd (handleContentChange (Some 1) long_text (new_SmartSync manager_opts 1000) sample_world))
     = Some (1000, Some 1, Some long_text)"
  using handleContentChange_schedules_backstop [of "new_SmartSync manager_opts 1000" "Some 1" long_text sample_world]
  by (simp add: new_SmartSync_def Let_def sample_world_def)

theorem prepareClose_disables_backstop_witness:
  "\<exists>s1 w1 s2 w2.
     prepareClose (Some 1) long_text
       (snd (handleContentChange (Some 1) long_text (new_SmartSync manager_opts 1000) offline_world))
       offline_world = Some (s1, w1)
   \<and> run_events [ContentChange (Some 1) ''b'', Wait 400000] s1 w1 = Some (s2, w2)
   \<and> sm_forceSyncScheduled s2 \<and> sm_forceSyncTimer s2 = None"
proof -
  let ?s = "snd (handleContentChange (Some 1) long_text (new_SmartSync manager_opts 1000) offline_world)"
  have fl: "sm_forceSyncScheduled ?s" by (simp add: smart_run_defs)
  obtain s1 w1 where pc: "prepareClose (Some 1) long_text ?s offline_world = Some (s1, w1)"
    by (simp add: smart_run_defs)
  obtain s2 w2 where run: "run_events [ContentChange (Some 1) ''b'', Wait 400000] s1 w1 = Some (s2, w2)"
    by simp
  show ?thesis using pc run prepareClose_disables_backstop [OF pc fl run] by blast
qed

theorem syncAll_undefined_page_ids_witness:
  "\<exists>r s'. syncAll local_only (new_SmartSync manager_opts 1000) sample_world = Some ((True, r), s', sample_world)
     \<and> r_total r = 1 \<and> r_succeeded r = 1 \<and> dom (r_details r) \<subseteq> {None}"
proof -
  obtain r s' where run: "syncAll local_only (new_SmartSync manager_opts 1000) sample_world
      = Some ((True, r), s', sample_world)" and t: "r_total r = 1 \<and> r_succeeded r = 1"
    by (simp add: syncAll_def local_only_def smart_run_defs getPagesWithPendingChanges_def
        getPendingSyncPages_def record_item_def
        sample_page_def)
  show ?thesis using run t syncAll_undefined_page_ids [OF run] by blast
qed

lemma offline_world_reachable: "reachable offline_world"
  using reachable_env_keep_clock [OF sample_world_reachable, where fs = "w_faults sample_world"
      and cs = "w_coins sample_world" and js = "w_jitter sample_world" and ls = "w_locks sample_world"
      and es = "w_edits sample_world" and v = "w_vault sample_world" and u = False]
  by (simp add: offline_world_def)

theorem handlePageDeletion_delegates_witness:
  "handlePageDeletion 1 (new_SmartSync manager_opts 1000) offline_world
     = Some (False, new_SmartSync manager_opts 1000, offline_world)"
proof -
  have r: "sm_reach (new_SmartSync manager_opts 1000) offline_world"
    using sm_reach.init [OF offline_world_reachable] by (simp add: offline_world_def sample_world_def)
  show ?thesis using handlePageDeletion_delegates [OF r, of 1]
    by (simp add: syncDexieToFirestore_def offline_world_def sample_world_def init_sync_state_def
        sync_succeeded_def)
qed

end
