(* ===== verification/CryptoUtils.thy ===== *)
theory CryptoUtils
  imports Prelude
begin

text \<open>
  The encoding layer of \<^verbatim>\<open>src/src/utils/cryptoUtils.js\<close>: URL-safe base64
  (\<open>arrayBufferToBase64\<close>, \<open>base64ToArrayBuffer\<close>) over the platform's
  \<open>btoa\<close>/\<open>atob\<close>, the UTF-8 of \<open>TextEncoder\<close>/\<open>TextDecoder\<close>, and the framing
  of \<open>encryptData\<close>/\<open>decryptData\<close> (a 12-byte IV before the ciphertext). AES-GCM
  itself is an oracle: \<open>aes_enc iv m\<close> and \<open>aes_dec iv c\<close>, \<open>None\<close> when the
  platform rejects. Bytes are \<open>8 word\<close>; a JavaScript binary string is a HOL
  \<open>string\<close> (its characters are the 8-bit codes).
\<close>

section \<open>The platform's base64: \<open>btoa\<close> and \<open>atob\<close>\<close>

text \<open>The alphabet of RFC 4648, as a map from 6-bit values and back.\<close>

definition b64_char :: "nat \<Rightarrow> char" where
  "b64_char n =
     (if n < 26 then char_of (65 + n) else if n < 52 then char_of (71 + n)
      else if n < 62 then char_of (n - 4) else if n = 62 then CHR ''+'' else CHR ''/'')"

definition b64_val :: "char \<Rightarrow> nat option" where
  "b64_val c =
     (let n = of_char c in
      if 65 \<le> n \<and> n \<le> 90 then Some (n - 65) else if 97 \<le> n \<and> n \<le> 122 then Some (n - 71)
      else if 48 \<le> n \<and> n \<le> 57 then Some (n + 4) else if n = 43 then Some 62
      else if n = 47 then Some 63 else None)"

text \<open>Three bytes to four sextets; a last group of one or two bytes to two or three.\<close>

fun b64_enc :: "nat list \<Rightarrow> nat list" where
  "b64_enc (a # b # c # r) =
     [a div 4, (a mod 4) * 16 + b div 16, (b mod 16) * 4 + c div 64, c mod 64] @ b64_enc r"
| "b64_enc [a, b] = [a div 4, (a mod 4) * 16 + b div 16, (b mod 16) * 4]"
| "b64_enc [a] = [a div 4, (a mod 4) * 16]"
| "b64_enc [] = []"

fun b64_dec :: "nat list \<Rightarrow> nat list" where
  "b64_dec (a # b # c # d # r) = [a * 4 + b div 16, (b mod 16) * 16 + c div 4, (c mod 4) * 64 + d] @ b64_dec r"
| "b64_dec [a, b, c] = [a * 4 + b div 16, (b mod 16) * 16 + c div 4]"
| "b64_dec [a, b] = [a * 4 + b div 16]"
| "b64_dec _ = []"

text \<open>
  \<open>btoa(binary)\<close>: the sextets of the character codes (every HOL character is
  below 256, so \<open>InvalidCharacterError\<close> cannot arise), padded with \<open>=\<close> to a
  multiple of four.
\<close>

definition btoa :: "string \<Rightarrow> string" where
  "btoa s = (let q = b64_enc (map of_char s)
             in map b64_char q @ replicate ((4 - length q mod 4) mod 4) CHR ''='')"

definition js_whitespace :: "char \<Rightarrow> bool" where
  "js_whitespace c \<longleftrightarrow> c \<in> set [CHR '' '', CHR 0x09, CHR 0x0A, CHR 0x0C, CHR 0x0D]"

definition ends_with :: "string \<Rightarrow> string \<Rightarrow> bool" where
  "ends_with s t \<longleftrightarrow> suffix t s"

text \<open>The padding step of the forgiving decode: one or two final \<open>=\<close> go.\<close>

definition atob_strip_padding :: "string \<Rightarrow> string" where
  "atob_strip_padding s =
     (if length s mod 4 = 0 then
        (if ends_with s ''=='' then take (length s - 2) s
         else if ends_with s ''='' then take (length s - 1) s else s)
      else s)"

text \<open>
  \<open>atob(data)\<close>, the forgiving base64 decode: drop ASCII whitespace, then the
  padding; a length of the form \<open>4k + 1\<close> or a character outside the alphabet
  throws \<open>InvalidCharacterError\<close> (\<open>None\<close>); the bits of an incomplete last byte
  are discarded.
\<close>

definition atob :: "string \<Rightarrow> string option" where
  "atob s =
     (let s2 = atob_strip_padding (filter (\<lambda>c. \<not> js_whitespace c) s)
      in if length s2 mod 4 = 1 then None
         else map_option (\<lambda>q. map char_of (b64_dec q)) (those (map b64_val s2)))"

section \<open>URL-safe base64\<close>

definition url_char :: "char \<Rightarrow> char" where
  "url_char c = (if c = CHR ''+'' then CHR ''-'' else if c = CHR ''/'' then CHR ''_'' else c)"

definition std_char :: "char \<Rightarrow> char" where
  "std_char c = (if c = CHR ''-'' then CHR ''+'' else if c = CHR ''_'' then CHR ''/'' else c)"

text \<open>\<open>.replace(/=+$/, '')\<close>.\<close>

definition strip_trailing :: "char \<Rightarrow> string \<Rightarrow> string" where
  "strip_trailing c s = rev (dropWhile (\<lambda>x. x = c) (rev s))"

text \<open>
  \<open>arrayBufferToBase64(buffer)\<close>: the binary string of the bytes
  (\<open>String.fromCharCode\<close>), \<open>btoa\<close>, then \<open>+\<close> to \<open>-\<close>, \<open>/\<close> to \<open>_\<close>, and the
  final \<open>=\<close> removed.
\<close>

definition arrayBufferToBase64 :: "8 word list \<Rightarrow> string" where
  "arrayBufferToBase64 bytes =
     (let binary = map (\<lambda>b. char_of (unat b)) bytes
      in strip_trailing CHR ''='' (map url_char (btoa binary)))"

text \<open>
  \<open>base64ToArrayBuffer(base64)\<close>: back to the standard alphabet, padded to a
  multiple of four, \<open>atob\<close> (\<open>None\<close> when it throws), then the character codes.
\<close>

definition base64ToArrayBuffer :: "string \<Rightarrow> 8 word list option" where
  "base64ToArrayBuffer s =
     (let std = map std_char s;
          padding = length std mod 4;
          padded = (if padding \<noteq> 0 then std @ replicate (4 - padding) CHR ''='' else std)
      in map_option (map (\<lambda>c. word_of_nat (of_char c))) (atob padded))"

section \<open>Text encoding\<close>

text \<open>
  \<open>TextEncoder.encode\<close> on the characters of HOL (code points below 256): one
  byte below 128, two bytes above.
\<close>

definition utf8_char :: "char \<Rightarrow> nat list" where
  "utf8_char c = (let n = of_char c in if n < 128 then [n] else [192 + n div 64, 128 + n mod 64])"

definition text_encode :: "string \<Rightarrow> 8 word list" where
  "text_encode s = map word_of_nat (concat (map utf8_char s))"

text \<open>
  \<open>TextDecoder.decode\<close>: UTF-8 back to characters. A sequence that does not
  decode to characters below 256 is \<open>None\<close> (the decoder would insert U+FFFD,
  which a HOL character cannot hold).
\<close>

fun utf8_decode :: "nat list \<Rightarrow> string option" where
  "utf8_decode [] = Some []"
| "utf8_decode [a] = (if a < 128 then Some [char_of a] else None)"
| "utf8_decode (a # b # r) =
     (if a < 128 then map_option (Cons (char_of a)) (utf8_decode (b # r))
      else if (a = 194 \<or> a = 195) \<and> 128 \<le> b \<and> b < 192
      then map_option (Cons (char_of ((a - 192) * 64 + (b - 128)))) (utf8_decode r)
      else None)"

definition text_decode :: "8 word list \<Rightarrow> string option" where
  "text_decode bs = utf8_decode (map unat bs)"

section \<open>Encryption framing\<close>

text \<open>
  \<open>encryptData(key, data)\<close>: the IV (\<open>getRandomValues\<close>, an argument) followed
  by the AES-GCM ciphertext of the UTF-8 bytes, URL-safe base64; \<open>null\<close> when the
  platform throws. The key is part of the oracle.
\<close>

definition encryptData ::
  "(8 word list \<Rightarrow> 8 word list \<Rightarrow> 8 word list option) \<Rightarrow> 8 word list \<Rightarrow> string \<Rightarrow> string option" where
  "encryptData aes_enc iv data =
     (case aes_enc iv (text_encode data) of
        None \<Rightarrow> None
      | Some ct \<Rightarrow> Some (arrayBufferToBase64 (iv @ ct)))"

text \<open>
  \<open>decryptData(key, encryptedBase64)\<close>: decode, split at 12 bytes, decrypt, UTF-8
  decode; every error is caught and gives \<open>null\<close>.
\<close>

definition decryptData ::
  "(8 word list \<Rightarrow> 8 word list \<Rightarrow> 8 word list option) \<Rightarrow> string \<Rightarrow> string option" where
  "decryptData aes_dec s =
     (case base64ToArrayBuffer s of
        None \<Rightarrow> None
      | Some bytes \<Rightarrow>
          (case aes_dec (take 12 bytes) (drop 12 bytes) of
             None \<Rightarrow> None
           | Some pt \<Rightarrow> text_decode pt))"

text \<open>The characters \<open>arrayBufferToBase64\<close> may produce.\<close>

definition url_alphabet :: "char set" where
  "url_alphabet = url_char ` b64_char ` {..<64}"



section \<open>Lemmas on the alphabet and the sextets\<close>

lemma b64_val_char: "n < 64 \<Longrightarrow> b64_val (b64_char n) = Some n"
  by (auto simp: b64_char_def b64_val_def Let_def)

lemma b64_char_code: "n < 64 \<Longrightarrow> (of_char (b64_char n) :: nat) \<in> {43, 47} \<union> {48..57} \<union> {65..90} \<union> {97..122}"
  by (auto simp: b64_char_def)

lemma b64_char_props:
  "n < 64 \<Longrightarrow> b64_char n \<noteq> CHR ''='' \<and> b64_char n \<noteq> CHR ''-'' \<and> b64_char n \<noteq> CHR ''_''
     \<and> \<not> js_whitespace (b64_char n)"
proof -
  assume "n < 64"
  then have "(of_char (b64_char n) :: nat) \<notin> {61, 45, 95, 32, 9, 10, 12, 13}"
    using b64_char_code [of n] by auto
  then show ?thesis by (auto simp: js_whitespace_def)
qed

lemma sextet_hi: "(b::nat) < 256 \<Longrightarrow> ((a mod 4) * 16 + b div 16) div 16 = a mod 4"
  by simp

lemma sextet_mid: "(c::nat) < 256 \<Longrightarrow> ((b mod 16) * 4 + c div 64) div 4 = b mod 16"
  by simp

lemma sextet_hi_mod: "(b::nat) < 256 \<Longrightarrow> ((a mod 4) * 16 + b div 16) mod 16 = b div 16"
  by simp

lemma sextet_mid_mod: "(c::nat) < 256 \<Longrightarrow> ((b mod 16) * 4 + c div 64) mod 4 = c div 64"
  by simp

lemma byte_div_facts:
  "(b::nat) < 256 \<Longrightarrow> b div 16 div 16 = 0" "(b::nat) < 256 \<Longrightarrow> b div 16 mod 16 = b div 16"
  "(b::nat) < 256 \<Longrightarrow> b div 64 div 4 = 0" "(b::nat) < 256 \<Longrightarrow> b div 64 mod 4 = b div 64"
  by simp_all

lemmas sextet_simps = sextet_hi sextet_mid sextet_hi_mod sextet_mid_mod byte_div_facts

lemma b64_enc_bound: "list_all (\<lambda>x. x < 256) xs \<Longrightarrow> list_all (\<lambda>x. x < 64) (b64_enc xs)"
  by (induction xs rule: b64_enc.induct) auto

lemma b64_dec_enc: "list_all (\<lambda>x. x < 256) xs \<Longrightarrow> b64_dec (b64_enc xs) = xs"
  by (induction xs rule: b64_enc.induct) (simp_all add: sextet_simps)

lemma length_b64_enc: "length (b64_enc xs) mod 4 \<noteq> 1"
  by (induction xs rule: b64_enc.induct) auto

lemma those_b64_val: "list_all (\<lambda>x. x < 64) q \<Longrightarrow> those (map b64_val (map b64_char q)) = Some q"
  by (induction q) (auto simp: b64_val_char)

lemma dropWhile_replicate: "dropWhile (\<lambda>x. x = c) (replicate k c @ ys) = dropWhile (\<lambda>x. x = c) ys"
  by (induction k) simp_all

lemma strip_trailing_append: "strip_trailing c (xs @ replicate k c) = strip_trailing c xs"
  by (simp add: strip_trailing_def dropWhile_replicate)

lemma strip_trailing_keep: "list_all (\<lambda>x. x \<noteq> c) xs \<Longrightarrow> strip_trailing c xs = xs"
  by (induction xs rule: rev_induct) (auto simp: strip_trailing_def)

lemma strip_padding_b64:
  assumes "list_all (\<lambda>x. x \<noteq> CHR ''='') xs" "k \<le> 2" "length (xs @ replicate k CHR ''='') mod 4 = 0"
    "k \<noteq> 0 \<Longrightarrow> xs \<noteq> []"
  shows "atob_strip_padding (xs @ replicate k CHR ''='') = xs"
proof -
  consider "k = 0" | "k = 1" | "k = 2" using assms(2) by linarith
  then show ?thesis
  proof cases
    case 1
    then show ?thesis using assms(1,3)
      by (cases xs rule: rev_cases) (auto simp: atob_strip_padding_def ends_with_def suffix_def)
  next
    case 2
    then obtain ys y where "xs = ys @ [y]" "y \<noteq> CHR ''=''"
      using assms(1,4) by (cases xs rule: rev_cases) auto
    then show ?thesis using 2 assms(3)
      by (auto simp: atob_strip_padding_def ends_with_def suffix_def)
  next
    case 3
    then show ?thesis using assms(3)
      by (auto simp: atob_strip_padding_def ends_with_def suffix_def numeral_2_eq_2)
  qed
qed

lemma unat_byte_bound: "unat (b :: 8 word) < 256"
  using unsigned_less [of b] by simp

lemma unat_mod_256 [simp]: "unat (b :: 8 word) mod 256 = unat b"
  using unat_byte_bound [of b] by simp

lemma of_char_unat [simp]: "of_char (char_of (unat (b :: 8 word))) = unat b"
  using unat_byte_bound [of b] by simp

lemma bytes_bound: "list_all (\<lambda>x. x < 256) (map unat (bs :: 8 word list))"
  using unat_byte_bound by (simp add: list_all_iff)

lemma url_char_eq: "url_char c = CHR ''='' \<longleftrightarrow> c = CHR ''=''"
  by (simp add: url_char_def)

lemma url_char_pad [simp]: "url_char CHR ''='' = CHR ''=''"
  by (simp add: url_char_def)

lemma arrayBufferToBase64_eq:
  "arrayBufferToBase64 bs = map (url_char \<circ> b64_char) (b64_enc (map unat bs))"
proof -
  let ?q = "b64_enc (map unat bs)"
  have "list_all (\<lambda>x. x < 64) ?q" using b64_enc_bound [OF bytes_bound] .
  then have "list_all (\<lambda>x. x \<noteq> CHR ''='') (map (url_char \<circ> b64_char) ?q)"
    using b64_char_props by (auto simp: list_all_iff url_char_eq)
  then show ?thesis
    by (simp add: arrayBufferToBase64_def btoa_def Let_def comp_def strip_trailing_append strip_trailing_keep)
qed

lemma std_url_b64: "n < 64 \<Longrightarrow> std_char (url_char (b64_char n)) = b64_char n"
  using b64_char_props [of n] by (auto simp: std_char_def url_char_def)


text \<open>
  Round trip of the transport encoding: \<open>base64ToArrayBuffer\<close> decodes
  what \<open>arrayBufferToBase64\<close> produced from any bytes back to those bytes.
\<close>

lemma base64_roundtrip: "base64ToArrayBuffer (arrayBufferToBase64 bs) = Some bs"
proof -
  let ?q = "b64_enc (map unat bs)"
  let ?k = "(4 - length ?q mod 4) mod 4"
  have q64: "list_all (\<lambda>x. x < 64) ?q" using b64_enc_bound [OF bytes_bound] .
  have std: "map std_char (arrayBufferToBase64 bs) = map b64_char ?q"
    using q64 by (simp add: arrayBufferToBase64_eq list_all_iff std_url_b64)
  have m: "length ?q mod 4 \<noteq> 1" by (rule length_b64_enc)
  have padded: "(if length ?q mod 4 \<noteq> 0 then map b64_char ?q @ replicate (4 - length ?q mod 4) CHR ''=''
      else map b64_char ?q) = map b64_char ?q @ replicate ?k CHR ''=''"
    by auto
  have nows: "filter (\<lambda>c. \<not> js_whitespace c) (map b64_char ?q @ replicate ?k CHR ''='')
      = map b64_char ?q @ replicate ?k CHR ''=''"
  proof -
    have "\<forall>c \<in> set (map b64_char ?q @ replicate ?k CHR ''=''). \<not> js_whitespace c"
      using q64 b64_char_props by (auto simp: list_all_iff js_whitespace_def)
    then show ?thesis by (simp only: filter_id_conv)
  qed
  have r: "length ?q mod 4 < 4" by simp
  have k2: "?k \<le> 2" and len0: "length (map b64_char ?q @ replicate ?k CHR ''='') mod 4 = 0"
  proof -
    consider "length ?q mod 4 = 0" | "length ?q mod 4 = 2" | "length ?q mod 4 = 3" using m r by linarith
    then have "?k \<le> 2 \<and> (length ?q + ?k) mod 4 = 0"
      by cases (simp_all add: mod_Suc)
    then show "?k \<le> 2" "length (map b64_char ?q @ replicate ?k CHR ''='') mod 4 = 0" by simp_all
  qed
  have strip: "atob_strip_padding (map b64_char ?q @ replicate ?k CHR ''='') = map b64_char ?q"
  proof (rule strip_padding_b64 [OF _ k2 len0])
    show "list_all (\<lambda>x. x \<noteq> CHR ''='') (map b64_char ?q)" using q64 b64_char_props by (auto simp: list_all_iff)
    show "?k \<noteq> 0 \<Longrightarrow> map b64_char ?q \<noteq> []" by auto
  qed
  have "atob (map b64_char ?q @ replicate ?k CHR ''='') =
      (if length (map b64_char ?q) mod 4 = 1 then None
       else map_option (\<lambda>q. map char_of (b64_dec q)) (those (map b64_val (map b64_char ?q))))"
    by (simp only: atob_def Let_def nows strip)
  then have "atob (map b64_char ?q @ replicate ?k CHR ''='') = Some (map char_of (map unat bs))"
    using m those_b64_val [OF q64] b64_dec_enc [OF bytes_bound] by simp
  moreover have "base64ToArrayBuffer (arrayBufferToBase64 bs) =
      map_option (map (\<lambda>c. word_of_nat (of_char c))) (atob (map b64_char ?q @ replicate ?k CHR ''=''))"
    unfolding base64ToArrayBuffer_def Let_def std length_map padded ..
  ultimately show ?thesis by (simp add: comp_def)
qed


lemma length_b64_enc_eq: "length (b64_enc xs) = (4 * length xs + 2) div 3"
  by (induction xs rule: b64_enc.induct) auto

text \<open>
  C30. The token \<open>arrayBufferToBase64\<close> produces is URL-safe and unpadded: its
  characters are letters, digits, \<open>-\<close> and \<open>_\<close>, and it has
  \<open>ceil(4n / 3)\<close> characters for \<open>n\<close> bytes.
\<close>

theorem arrayBufferToBase64_format:
  "set (arrayBufferToBase64 bs) \<subseteq> url_alphabet \<and> length (arrayBufferToBase64 bs) = (4 * length bs + 2) div 3"
proof -
  have "list_all (\<lambda>x. x < 64) (b64_enc (map unat bs))" using b64_enc_bound [OF bytes_bound] .
  then show ?thesis by (auto simp: arrayBufferToBase64_eq length_b64_enc_eq url_alphabet_def list_all_iff)
qed

lemma char_div64: "(of_char c :: nat) div 64 < 4"
  using nat_of_char_less_256 [of c] by (simp add: less_mult_imp_div_less)

lemma char_div64_lt [simp]: "(of_char c :: nat) div 64 < 64"
  using char_div64 [of c] by simp

lemma utf8_decode_ascii: "n < 128 \<Longrightarrow> utf8_decode (n # r) = map_option (Cons (char_of n)) (utf8_decode r)"
  by (cases r) simp_all

lemma utf8_roundtrip: "utf8_decode (concat (map utf8_char s)) = Some s"
proof (induction s)
  case Nil
  then show ?case by simp
next
  case (Cons c s)
  show ?case
  proof (cases "(of_char c :: nat) < 128")
    case True
    then show ?thesis using Cons by (simp add: utf8_char_def utf8_decode_ascii)
  next
    case False
    have "(of_char c :: nat) div 64 < 4" by (rule char_div64)
    then consider (two) "(of_char c :: nat) div 64 = 2" | (three) "(of_char c :: nat) div 64 = 3"
      using False by linarith
    then show ?thesis
    proof cases
      case two
      then have "(of_char c :: nat) = 128 + of_char c mod 64" using div_mult_mod_eq [of "of_char c :: nat" 64] by simp
      then have "char_of (128 + of_char c mod 64 :: nat) = c" by (metis char_of_char)
      then show ?thesis using Cons False two by (simp add: utf8_char_def)
    next
      case three
      then have "(of_char c :: nat) = 192 + of_char c mod 64" using div_mult_mod_eq [of "of_char c :: nat" 64] by simp
      then have "char_of (192 + of_char c mod 64 :: nat) = c" by (metis char_of_char)
      then show ?thesis using Cons False three by (simp add: utf8_char_def)
    qed
  qed
qed

lemma unat_word_of_bytes:
  "list_all (\<lambda>x. x < 256) xs \<Longrightarrow> map unat (map (word_of_nat :: nat \<Rightarrow> 8 word) xs) = xs"
  by (induction xs) (auto simp: unat_of_nat)

theorem text_roundtrip: "text_decode (text_encode s) = Some s"
proof -
  have "list_all (\<lambda>x. x < 256) (concat (map utf8_char s))"
    using nat_of_char_less_256 by (auto simp: list_all_iff utf8_char_def Let_def)
  then have "map unat (map (word_of_nat :: nat \<Rightarrow> 8 word) (concat (map utf8_char s))) = concat (map utf8_char s)"
    by (rule unat_word_of_bytes)
  then show ?thesis by (simp add: text_decode_def text_encode_def utf8_roundtrip)
qed


text \<open>
  When AES-GCM decrypts what it encrypted under the same IV, \<open>decryptData\<close>
  returns exactly the plaintext \<open>encryptData\<close> encrypted (IV framing,
  base64url and UTF-8 included).
\<close>

lemma decrypt_encrypt:
  assumes "length iv = 12" "\<forall>m c. aes_enc iv m = Some c \<longrightarrow> aes_dec iv c = Some m"
    "encryptData aes_enc iv data = Some e"
  shows "decryptData aes_dec e = Some data"
proof -
  obtain ct where ct: "aes_enc iv (text_encode data) = Some ct" and e: "e = arrayBufferToBase64 (iv @ ct)"
    using assms(3) by (auto simp: encryptData_def split: option.splits)
  have "aes_dec iv ct = Some (text_encode data)" using assms(2) ct by blast
  then show ?thesis using assms(1) by (simp add: decryptData_def e base64_roundtrip text_roundtrip)
qed

lemma those_None: "None \<in> set xs \<Longrightarrow> those xs = None"
  by (induction xs) (auto split: option.splits)

lemma std_char_ws: "\<not> js_whitespace c \<Longrightarrow> \<not> js_whitespace (std_char c)"
  by (auto simp: std_char_def js_whitespace_def)


section \<open>Witnesses\<close>


end
