(* ===== verification/Vault.thy ===== *)
theory Vault
  imports CryptoUtils SyncJob
begin

text \<open>
  Key management of \<^verbatim>\<open>src/src/firebase2.js\<close>: the module variables
  \<open>userVaultKey\<close> and \<open>key\<close>, the Firestore document
  \<open>users/{uid}/vault/key\<close> that holds the vault key encrypted under the
  passphrase, and the operations \<open>unlockUserVault\<close>, \<open>lockUserVault\<close>,
  \<open>createUserVault\<close>, \<open>changeVaultPassphrase\<close>, \<open>getEncryptedKeyFromFirestore\<close>,
  \<open>storeEncryptedKeyToFirestore\<close>, \<open>checkUserVaultExists\<close> and
  \<open>isVaultUnlocked\<close>. The sync engine sees the same two variables as the fields
  \<open>w_vault\<close> (\<open>!!userVaultKey\<close>) and \<open>w_decrypt\<close> (\<open>decryptData(key, _)\<close>)
  of its world, so every operation here that assigns them updates the world too,
  and errors are logged through the engine's \<open>logSyncError\<close>.
\<close>

section \<open>State\<close>

text \<open>
  What \<open>userVaultKey\<close> holds: the \<open>CryptoKey\<close> made by \<open>createUserVault\<close>
  (its raw bytes), or the string \<open>unlockUserVault\<close> assigns, which is what
  \<open>decryptData\<close> returned.
\<close>

datatype vkey = VK_Crypto "8 word list" | VK_Text string

text \<open>
  \<open>generateKeyFromPassphrase\<close> is PBKDF2 with a fixed salt, a function of the
  passphrase: a derived key is named by the passphrase it comes from. AES-GCM under
  the key derived from \<open>p\<close> is the oracle pair \<open>ce_enc p\<close>, \<open>ce_dec p\<close>.
\<close>

record crypto_env =
  ce_enc :: "string \<Rightarrow> 8 word list \<Rightarrow> 8 word list \<Rightarrow> 8 word list option"
  ce_dec :: "string \<Rightarrow> 8 word list \<Rightarrow> 8 word list \<Rightarrow> 8 word list option"

text \<open>
  \<open>vt_uid\<close> is \<open>auth.currentUser?.uid\<close>, \<open>vt_docs uid\<close> the field
  \<open>encryptedKey\<close> of the user's vault document (\<open>None\<close>: no document or no
  field), and \<open>vt_online\<close> says whether Firestore calls succeed.
\<close>

record vault =
  vt_uid :: "string option"
  vt_userVaultKey :: "vkey option"
  vt_key :: "string option"
  vt_docs :: "string \<Rightarrow> jstr"
  vt_online :: bool

section \<open>Assignments to the module variables\<close>

text \<open>\<open>userVaultKey = k\<close>, which the sync engine reads as \<open>w_vault\<close>.\<close>

definition set_userVaultKey :: "vkey option \<Rightarrow> vault \<Rightarrow> world \<Rightarrow> vault \<times> world" where
  "set_userVaultKey k v w = (v\<lparr>vt_userVaultKey := k\<rparr>, w\<lparr>w_vault := (k \<noteq> None)\<rparr>)"

text \<open>\<open>decryptData(key, _)\<close>: with \<open>key = null\<close> the platform throws and the catch gives \<open>null\<close>.\<close>

definition key_decrypt :: "crypto_env \<Rightarrow> string option \<Rightarrow> string \<Rightarrow> jstr" where
  "key_decrypt ce k = (case k of None \<Rightarrow> (\<lambda>_. None) | Some p \<Rightarrow> decryptData (ce_dec ce p))"

text \<open>\<open>key = k\<close>, which the sync engine uses through \<open>w_decrypt\<close>.\<close>

definition set_key :: "crypto_env \<Rightarrow> string option \<Rightarrow> vault \<Rightarrow> world \<Rightarrow> vault \<times> world" where
  "set_key ce k v w = (v\<lparr>vt_key := k\<rparr>, w\<lparr>w_decrypt := key_decrypt ce k\<rparr>)"

text \<open>
  \<open>String(new Uint8Array(bytes))\<close>, which \<open>TextEncoder.encode\<close> applies to
  its argument: the decimal values (\<open>dec_nat\<close>) joined by commas.
\<close>

definition u8_toString :: "8 word list \<Rightarrow> string" where
  "u8_toString bs = js_join '','' (map (\<lambda>b. dec_nat (unat b)) bs)"

text \<open>
  \<open>crypto.subtle.exportKey("raw", userVaultKey)\<close>: the raw bytes of a
  \<open>CryptoKey\<close>; on anything else (a string, \<open>null\<close>) it throws.
\<close>

definition exportKey :: "vkey option \<Rightarrow> 8 word list option" where
  "exportKey k = (case k of Some (VK_Crypto raw) \<Rightarrow> Some raw | _ \<Rightarrow> None)"

section \<open>Firestore key document\<close>

text \<open>\<open>getEncryptedKeyFromFirestore(userId)\<close>: \<open>userData.encryptedKey || null\<close>, \<open>null\<close> on error.\<close>

definition getEncryptedKeyFromFirestore :: "string \<Rightarrow> vault \<Rightarrow> jstr" where
  "getEncryptedKeyFromFirestore uid v =
     (if \<not> vt_online v then None
      else case vt_docs v uid of None \<Rightarrow> None | Some k \<Rightarrow> if k = [] then None else Some k)"

text \<open>\<open>storeEncryptedKeyToFirestore(userId, encryptedKey)\<close>: \<open>setDoc\<close> with merge; \<open>false\<close> on error.\<close>

definition storeEncryptedKeyToFirestore :: "string \<Rightarrow> jstr \<Rightarrow> vault \<Rightarrow> bool \<times> vault" where
  "storeEncryptedKeyToFirestore uid ek v =
     (if vt_online v then (True, v\<lparr>vt_docs := (vt_docs v)(uid := ek)\<rparr>) else (False, v))"

definition saveEncryptedKeyToFirestore :: "string \<Rightarrow> jstr \<Rightarrow> vault \<Rightarrow> bool \<times> vault" where
  "saveEncryptedKeyToFirestore uid ek v = storeEncryptedKeyToFirestore uid ek v"

section \<open>Vault operations\<close>

text \<open>
  \<open>unlockUserVault(passphrase)\<close>: \<open>key\<close> is replaced by the key derived from
  the passphrase before the decryption is tried; \<open>userVaultKey\<close> is set only when
  the decryption gives a non-empty string, which is also the result (\<open>None\<close>:
  \<open>false\<close>). Without a user the thrown error is logged as \<open>vault_unlock\<close>.
\<close>

definition unlockUserVault ::
  "crypto_env \<Rightarrow> string \<Rightarrow> vault \<Rightarrow> world \<Rightarrow> jstr \<times> vault \<times> world" where
  "unlockUserVault ce p v w =
     (case vt_uid v of
        None \<Rightarrow> (None, v, logSyncError OpVaultUnlock None w)
      | Some uid \<Rightarrow>
          (case getEncryptedKeyFromFirestore uid v of
             None \<Rightarrow> (None, v, w)
           | Some ek \<Rightarrow>
               (let (v1, w1) = set_key ce (Some p) v w in
                case decryptData (ce_dec ce p) ek of
                  None \<Rightarrow> (None, v1, w1)
                | Some d \<Rightarrow> if d = [] then (None, v1, w1)
                            else (Some d, set_userVaultKey (Some (VK_Text d)) v1 w1))))"

text \<open>\<open>lockUserVault()\<close>\<close>

definition lockUserVault :: "crypto_env \<Rightarrow> vault \<Rightarrow> world \<Rightarrow> vault \<times> world" where
  "lockUserVault ce v w = (case set_userVaultKey None v w of (v1, w1) \<Rightarrow> set_key ce None v1 w1)"

text \<open>
  \<open>createUserVault(passphrase)\<close>: \<open>raw\<close> are the bytes of the AES key
  \<open>crypto.subtle.generateKey\<close> makes and \<open>iv\<close> the random IV of the
  \<open>encryptData\<close> call. Both module variables are assigned before the store is
  attempted; the result is that of the store.
\<close>

definition createUserVault ::
  "crypto_env \<Rightarrow> string \<Rightarrow> 8 word list \<Rightarrow> 8 word list \<Rightarrow> vault \<Rightarrow> world \<Rightarrow> bool \<times> vault \<times> world" where
  "createUserVault ce p raw iv v w =
     (case vt_uid v of
        None \<Rightarrow> (False, v, logSyncError OpVaultCreation None w)
      | Some uid \<Rightarrow>
          (let (v1, w1) = set_key ce (Some p) v w;
               (v2, w2) = set_userVaultKey (Some (VK_Crypto raw)) v1 w1
           in case exportKey (vt_userVaultKey v2) of
                None \<Rightarrow> (False, v2, logSyncError OpVaultCreation None w2)
              | Some bytes \<Rightarrow>
                  (let ek = encryptData (ce_enc ce p) iv (u8_toString bytes);
                       (ok, v3) = storeEncryptedKeyToFirestore uid ek v2
                   in (ok, v3, w2))))"

datatype change_reason = INCORRECT_PASSPHRASE | STORAGE_ERROR | UNKNOWN_ERROR

datatype change_result = ChangeOk | ChangeFail change_reason

text \<open>
  \<open>changeVaultPassphrase(currentPassphrase, newPassphrase)\<close>: unlock with the
  current passphrase, export \<open>userVaultKey\<close>, encrypt it under the new key
  (\<open>iv\<close> is the random IV), store it, and on success switch \<open>key\<close>.
  A thrown error is logged as \<open>passphrase_change\<close> and gives \<open>UNKNOWN_ERROR\<close>.
\<close>

definition changeVaultPassphrase ::
  "crypto_env \<Rightarrow> string \<Rightarrow> string \<Rightarrow> 8 word list \<Rightarrow> vault \<Rightarrow> world \<Rightarrow> change_result \<times> vault \<times> world" where
  "changeVaultPassphrase ce cur new iv v w =
     (case vt_uid v of
        None \<Rightarrow> (ChangeFail UNKNOWN_ERROR, v, logSyncError OpPassphraseChange None w)
      | Some uid \<Rightarrow>
          (case unlockUserVault ce cur v w of
             (None, v1, w1) \<Rightarrow> (ChangeFail INCORRECT_PASSPHRASE, v1, w1)
           | (Some _, v1, w1) \<Rightarrow>
               (case exportKey (vt_userVaultKey v1) of
                  None \<Rightarrow> (ChangeFail UNKNOWN_ERROR, v1, logSyncError OpPassphraseChange None w1)
                | Some bytes \<Rightarrow>
                    (let ek = encryptData (ce_enc ce new) iv (u8_toString bytes);
                         (ok, v2) = storeEncryptedKeyToFirestore uid ek v1
                     in if ok then (ChangeOk, set_key ce (Some new) v2 w1)
                        else (ChangeFail STORAGE_ERROR, v2, w1)))))"

text \<open>\<open>checkUserVaultExists()\<close> and \<open>isVaultUnlocked()\<close>\<close>

definition checkUserVaultExists :: "vault \<Rightarrow> bool" where
  "checkUserVaultExists v =
     (case vt_uid v of None \<Rightarrow> False | Some uid \<Rightarrow> getEncryptedKeyFromFirestore uid v \<noteq> None)"

definition isVaultUnlocked :: "vault \<Rightarrow> bool" where
  "isVaultUnlocked v = (vt_userVaultKey v \<noteq> None)"

text \<open>The world and the vault agree on the variables they share.\<close>

definition vault_agrees :: "crypto_env \<Rightarrow> vault \<Rightarrow> world \<Rightarrow> bool" where
  "vault_agrees ce v w \<longleftrightarrow>
     w_vault w = isVaultUnlocked v \<and> w_user w = (vt_uid v \<noteq> None) \<and>
     w_decrypt w = key_decrypt ce (vt_key v)"

section \<open>Sample sessions\<close>

text \<open>
  A platform on which every decryption fails, a vault unlocked by \<open>p\<close>, and a
  platform whose cipher reverses the bytes with a signed-in user whose vault is
  locked and not yet created.
\<close>

definition wrong_env :: crypto_env where
  "wrong_env = \<lparr>ce_enc = (\<lambda>_ _ m. Some m), ce_dec = (\<lambda>_ _ _. None)\<rparr>"

definition unlocked_vault :: vault where
  "unlocked_vault = \<lparr>vt_uid = Some ''u'', vt_userVaultKey = Some (VK_Text ''k''), vt_key = Some ''p'',
                     vt_docs = (\<lambda>_. Some ''AAAA''), vt_online = True\<rparr>"

definition session_env :: crypto_env where
  "session_env = \<lparr>ce_enc = (\<lambda>_ _ m. Some (rev m)), ce_dec = (\<lambda>_ _ c. Some (rev c))\<rparr>"

definition locked_vault :: vault where
  "locked_vault = \<lparr>vt_uid = Some ''u'', vt_userVaultKey = None, vt_key = None,
                   vt_docs = (\<lambda>_. None), vt_online = True\<rparr>"

definition session_world :: world where
  "session_world = sample_world\<lparr>w_vault := False, w_decrypt := key_decrypt session_env None\<rparr>"

section \<open>Properties\<close>

lemma set_key_eq [simp]:
  "set_key ce k v w = (v\<lparr>vt_key := k\<rparr>, w\<lparr>w_decrypt := key_decrypt ce k\<rparr>)"
  by (simp add: set_key_def)

lemma set_userVaultKey_eq [simp]:
  "set_userVaultKey k v w = (v\<lparr>vt_userVaultKey := k\<rparr>, w\<lparr>w_vault := (k \<noteq> None)\<rparr>)"
  by (simp add: set_userVaultKey_def)

lemma unlockUserVault_eq:
  "unlockUserVault ce p v w =
     (case vt_uid v of
        None \<Rightarrow> (None, v, logSyncError OpVaultUnlock None w)
      | Some uid \<Rightarrow>
          (case getEncryptedKeyFromFirestore uid v of
             None \<Rightarrow> (None, v, w)
           | Some ek \<Rightarrow>
               (case decryptData (ce_dec ce p) ek of
                  Some d \<Rightarrow> if d \<noteq> [] then
                     (Some d, v\<lparr>vt_key := Some p, vt_userVaultKey := Some (VK_Text d)\<rparr>,
                      w\<lparr>w_decrypt := key_decrypt ce (Some p), w_vault := True\<rparr>)
                    else (None, v\<lparr>vt_key := Some p\<rparr>, w\<lparr>w_decrypt := key_decrypt ce (Some p)\<rparr>)
                | None \<Rightarrow> (None, v\<lparr>vt_key := Some p\<rparr>, w\<lparr>w_decrypt := key_decrypt ce (Some p)\<rparr>))))"
  by (simp add: unlockUserVault_def split: option.split)

lemma unlockUserVault_docs:
  "unlockUserVault ce p v w = (r, v', w') \<Longrightarrow> vt_docs v' = vt_docs v \<and> vt_uid v' = vt_uid v \<and> vt_online v' = vt_online v"
  by (auto simp: unlockUserVault_eq split: option.splits if_splits)

lemma unlockUserVault_text:
  "unlockUserVault ce p v w = (Some d, v', w') \<Longrightarrow> vt_userVaultKey v' = Some (VK_Text d)"
  by (auto simp: unlockUserVault_eq split: option.splits if_splits)

text \<open>
  C32. \<open>changeVaultPassphrase\<close> never succeeds: a correct passphrase makes
  \<open>unlockUserVault\<close> store the decrypted string in \<open>userVaultKey\<close>, which
  \<open>exportKey("raw", _)\<close> rejects, so the call ends in \<open>UNKNOWN_ERROR\<close>
  (a wrong one in \<open>INCORRECT_PASSPHRASE\<close>) and the stored vault key is never
  re-encrypted.
\<close>

theorem changeVaultPassphrase_never_succeeds:
  "case changeVaultPassphrase ce cur new iv v w of
     (r, v', w') \<Rightarrow> r \<noteq> ChangeOk \<and> vt_docs v' = vt_docs v"
proof (cases "vt_uid v")
  case None
  then show ?thesis by (simp add: changeVaultPassphrase_def)
next
  case (Some uid)
  obtain r v1 w1 where u: "unlockUserVault ce cur v w = (r, v1, w1)" by (metis prod_cases3)
  show ?thesis
  proof (cases r)
    case None
    then show ?thesis using Some u unlockUserVault_docs [OF u] by (simp add: changeVaultPassphrase_def)
  next
    case (Some d)
    then have "exportKey (vt_userVaultKey v1) = None"
      using unlockUserVault_text u by (simp add: exportKey_def)
    then show ?thesis using Some \<open>vt_uid v = Some uid\<close> u unlockUserVault_docs [OF u]
      by (simp add: changeVaultPassphrase_def)
  qed
qed

lemma js_join_ne: "x \<noteq> [] \<Longrightarrow> js_join sep (x # xs) \<noteq> []"
  by (cases xs) simp_all

lemma u8_toString_ne: "raw \<noteq> [] \<Longrightarrow> u8_toString raw \<noteq> []"
  by (cases raw) (simp_all add: u8_toString_def js_join_ne dec_nat_ne)

lemma atob_Nil: "atob [] = Some []"
  by (simp add: atob_def Let_def atob_strip_padding_def)

lemma base64ToArrayBuffer_Nil: "base64ToArrayBuffer [] = Some []"
  by (simp add: base64ToArrayBuffer_def Let_def atob_Nil)

lemma encryptData_ne:
  assumes "length iv = 12" "encryptData enc iv data = Some e"
  shows "e \<noteq> []"
proof
  assume "e = []"
  obtain ct where "e = arrayBufferToBase64 (iv @ ct)"
    using assms(2) by (auto simp: encryptData_def split: option.splits)
  then have "base64ToArrayBuffer e = Some (iv @ ct)" by (simp add: base64_roundtrip)
  then show False using \<open>e = []\<close> assms(1) by (simp add: base64ToArrayBuffer_Nil)
qed

lemma createUserVault_stores:
  assumes "vt_uid v = Some uid" "vt_online v" "encryptData (ce_enc ce p) iv (u8_toString raw) = Some e"
  shows "createUserVault ce p raw iv v w =
           (True, v\<lparr>vt_key := Some p, vt_userVaultKey := Some (VK_Crypto raw),
                    vt_docs := (vt_docs v)(uid := Some e)\<rparr>,
            w\<lparr>w_decrypt := key_decrypt ce (Some p), w_vault := True\<rparr>)"
  using assms by (simp add: createUserVault_def exportKey_def storeEncryptedKeyToFirestore_def)

lemma lockUserVault_eq:
  "lockUserVault ce v w =
     (v\<lparr>vt_userVaultKey := None, vt_key := None\<rparr>, w\<lparr>w_vault := False, w_decrypt := key_decrypt ce None\<rparr>)"
  by (simp add: lockUserVault_def)

text \<open>
  C33. Round trip of the vault: after \<open>createUserVault(p)\<close> stored the key
  and \<open>lockUserVault()\<close> ran (a new session), \<open>unlockUserVault(p)\<close> returns
  the string the vault key was stored as, and the sync engine sees the vault
  unlocked again and decrypts with the key of \<open>p\<close>.
\<close>

theorem create_lock_unlock:
  assumes "vt_uid v = Some uid" "vt_online v" "length iv = 12" "raw \<noteq> []"
    "\<forall>m c. ce_enc ce p iv m = Some c \<longrightarrow> ce_dec ce p iv c = Some m"
    "ce_enc ce p iv (text_encode (u8_toString raw)) \<noteq> None"
    "createUserVault ce p raw iv v w = (ok, v1, w1)"
    "lockUserVault ce v1 w1 = (v2, w2)"
  shows "ok \<and> \<not> w_vault w2 \<and>
         (case unlockUserVault ce p v2 w2 of
            (r, v3, w3) \<Rightarrow> r = Some (u8_toString raw) \<and> w_vault w3 \<and>
                          w_decrypt w3 = key_decrypt ce (Some p))"
proof -
  obtain e where e: "encryptData (ce_enc ce p) iv (u8_toString raw) = Some e"
    using assms(6) by (auto simp: encryptData_def split: option.splits)
  have dec: "decryptData (ce_dec ce p) e = Some (u8_toString raw)"
    by (rule decrypt_encrypt [OF assms(3) _ e]) (use assms(5) in blast)
  have ne: "e \<noteq> []" by (rule encryptData_ne [OF assms(3) e])
  have c: "ok \<and> v1 = v\<lparr>vt_key := Some p, vt_userVaultKey := Some (VK_Crypto raw),
                    vt_docs := (vt_docs v)(uid := Some e)\<rparr> \<and>
           w1 = w\<lparr>w_decrypt := key_decrypt ce (Some p), w_vault := True\<rparr>"
    using assms(7) createUserVault_stores [OF assms(1,2) e] by simp
  then have v2: "vt_uid v2 = Some uid" "getEncryptedKeyFromFirestore uid v2 = Some e" "\<not> w_vault w2"
    using assms(1,2,8) ne by (auto simp: lockUserVault_eq getEncryptedKeyFromFirestore_def)
  have "unlockUserVault ce p v2 w2 =
     (Some (u8_toString raw), v2\<lparr>vt_key := Some p, vt_userVaultKey := Some (VK_Text (u8_toString raw))\<rparr>,
      w2\<lparr>w_decrypt := key_decrypt ce (Some p), w_vault := True\<rparr>)"
    using v2 dec u8_toString_ne [OF assms(4)] by (simp add: unlockUserVault_eq)
  then show ?thesis using c v2 by simp
qed

theorem create_lock_unlock_witness:
  "case createUserVault session_env ''p'' [7] (replicate 12 0) locked_vault session_world of
     (ok, v1, w1) \<Rightarrow> (case lockUserVault session_env v1 w1 of
       (v2, w2) \<Rightarrow> ok \<and> \<not> w_vault w2 \<and>
         (case unlockUserVault session_env ''p'' v2 w2 of
            (r, v3, w3) \<Rightarrow> r = Some ''7'' \<and> w_vault w3 \<and>
                          w_decrypt w3 = key_decrypt session_env (Some ''p'')))"
proof -
  obtain ok v1 w1 where c: "createUserVault session_env ''p'' [7] (replicate 12 0) locked_vault session_world
      = (ok, v1, w1)" by (metis prod_cases3)
  obtain v2 w2 where l: "lockUserVault session_env v1 w1 = (v2, w2)" by (metis prod.exhaust)
  have s: "u8_toString [7] = ''7''" by code_simp
  have "ok \<and> \<not> w_vault w2 \<and>
         (case unlockUserVault session_env ''p'' v2 w2 of
            (r, v3, w3) \<Rightarrow> r = Some (u8_toString [7]) \<and> w_vault w3 \<and>
                          w_decrypt w3 = key_decrypt session_env (Some ''p''))"
    by (rule create_lock_unlock [OF _ _ _ _ _ _ c l])
       (simp_all add: locked_vault_def session_env_def)
  then show ?thesis using c l s by simp
qed

text \<open>
  C34. A failed unlock still switches the key: when the passphrase does not
  decrypt the stored vault key, \<open>unlockUserVault\<close> returns \<open>false\<close> but has
  already replaced \<open>key\<close> by the key of the wrong passphrase, and leaves
  \<open>userVaultKey\<close> as it was, so a vault that was unlocked stays unlocked and the
  sync engine decrypts with the wrong key from then on.
\<close>

theorem failed_unlock_switches_key:
  assumes "vt_uid v = Some uid" "getEncryptedKeyFromFirestore uid v = Some ek"
    "decryptData (ce_dec ce q) ek = None"
  shows "unlockUserVault ce q v w =
           (None, v\<lparr>vt_key := Some q\<rparr>, w\<lparr>w_decrypt := key_decrypt ce (Some q)\<rparr>)"
  using assms by (simp add: unlockUserVault_eq)

lemma decryptData_fails: "decryptData (\<lambda>_ _. None) s = None"
  by (simp add: decryptData_def split: option.split)

theorem failed_unlock_switches_key_witness:
  "unlockUserVault wrong_env ''q'' unlocked_vault sample_world =
     (None, unlocked_vault\<lparr>vt_key := Some ''q''\<rparr>,
      sample_world\<lparr>w_decrypt := key_decrypt wrong_env (Some ''q'')\<rparr>) \<and>
   isVaultUnlocked (unlocked_vault\<lparr>vt_key := Some ''q''\<rparr>)"
proof -
  have "decryptData (ce_dec wrong_env ''q'') ''AAAA'' = None"
    by (simp add: wrong_env_def decryptData_fails)
  then show ?thesis
    using failed_unlock_switches_key [of unlocked_vault "''u''" "''AAAA''" wrong_env "''q''" sample_world]
    by (simp add: unlocked_vault_def getEncryptedKeyFromFirestore_def isVaultUnlocked_def)
qed

lemma logSyncError_vault_fields [simp]:
  "w_vault (logSyncError op d w) = w_vault w" "w_user (logSyncError op d w) = w_user w"
  "w_decrypt (logSyncError op d w) = w_decrypt w"
  by (simp_all add: logSyncError_def Let_def)

lemma vault_agrees_log [simp]:
  "vault_agrees ce v (logSyncError op d w) = vault_agrees ce v w"
  by (simp add: vault_agrees_def logSyncError_def Let_def)

lemma unlockUserVault_agrees:
  "vault_agrees ce v w \<Longrightarrow> unlockUserVault ce p v w = (r, v', w') \<Longrightarrow> vault_agrees ce v' w'"
  by (auto simp: unlockUserVault_eq vault_agrees_def isVaultUnlocked_def split: option.splits if_splits)



end
