(* ===== verification/SyncStatus.thy ===== *)
theory SyncStatus
  imports Complex_Main SyncState
begin

text \<open>
  The status getters of \<^verbatim>\<open>src/src/firebase2.js\<close> that the UI polls:
  \<open>getSyncStatus\<close>, a snapshot of \<open>syncState\<close> with a rounded percentage,
  and \<open>getSyncErrorLog\<close>, which merges the in-memory error map with the
  persisted error log, newest first. The lemmas bound the percentage and show
  that every error is reported twice, once from each log.
\<close>

section \<open>Definitions\<close>

text \<open>\<open>Math.round\<close> on a finite number: the nearest integer, halves upwards.\<close>

definition js_round :: "rat \<Rightarrow> int" where
  "js_round x = \<lfloor>x + 1 / 2\<rfloor>"

text \<open>\<open>total ? Math.round((done / total) * 100) : 0\<close>\<close>

definition percent :: "nat \<Rightarrow> nat \<Rightarrow> int" where
  "percent k n = (if n = 0 then 0 else js_round (of_nat k / of_nat n * 100))"

record sync_status =
  st_inProgress :: bool
  st_phase :: "phase option"
  st_progress :: int
  st_processedItems :: nat
  st_totalItems :: nat
  st_failedCount :: nat
  st_startTime :: "time option"
  st_elapsedTime :: rat

text \<open>
  \<open>getSyncStatus()\<close> at time \<open>now\<close>; a start time of 0 is falsy, as
  \<open>null\<close> is, and gives an elapsed time of 0.
\<close>

definition getSyncStatus :: "time \<Rightarrow> sync_state \<Rightarrow> sync_status" where
  "getSyncStatus now s =
     \<lparr>st_inProgress = ss_inProgress s, st_phase = ss_phase s,
      st_progress = percent (ss_processedItems s) (ss_totalItems s),
      st_processedItems = ss_processedItems s, st_totalItems = ss_totalItems s,
      st_failedCount = length (ss_failedItems s), st_startTime = ss_startTime s,
      st_elapsedTime = (case ss_startTime s of None \<Rightarrow> 0
                         | Some t \<Rightarrow> if t = 0 then 0 else of_int (now - t) / 1000)\<rparr>"

text \<open>
  \<open>getSyncErrorLog()\<close>: the values of \<open>syncState.errorLog\<close> followed by the
  stored log, sorted by decreasing timestamp (\<open>Array.prototype.sort\<close> is stable,
  as \<open>sort_key\<close> is), the first \<open>ERROR_LOG_LIMIT\<close> kept.
\<close>

definition getSyncErrorLog :: "world \<Rightarrow> error_info list" where
  "getSyncErrorLog w =
     take ERROR_LOG_LIMIT
       (sort_key (\<lambda>e. - ei_timestamp e) (map snd (ss_errorLog (w_sync w)) @ md_syncErrorLog (w_meta w)))"

text \<open>The entry \<open>logSyncError\<close> records.\<close>

definition error_entry :: "sync_op \<Rightarrow> page_id option \<Rightarrow> world \<Rightarrow> error_info" where
  "error_entry op d w =
     \<lparr>ei_operation = op, ei_documentId = d, ei_timestamp = w_now w, ei_jobId = ss_currentJobId (w_sync w)\<rparr>"

section \<open>Lemmas\<close>

lemma js_round_bounds: "0 \<le> x \<Longrightarrow> x \<le> 100 \<Longrightarrow> 0 \<le> js_round x \<and> js_round x \<le> 100"
  by (simp add: js_round_def floor_le_iff)

lemma percent_bounds: "k \<le> n \<Longrightarrow> 0 \<le> percent k n \<and> percent k n \<le> 100"
proof (cases "n = 0")
  case False
  assume le: "k \<le> n"
  have "of_nat k / of_nat n \<le> (1 :: rat)" using le False by simp
  then have "of_nat k / of_nat n * 100 \<le> (1 :: rat) * 100" by (rule mult_right_mono) simp
  then show ?thesis using False by (simp add: percent_def js_round_bounds)
qed (simp add: percent_def)

lemma getSyncStatus_progress:
  "ss_processedItems s \<le> ss_totalItems s \<Longrightarrow>
   0 \<le> st_progress (getSyncStatus now s) \<and> st_progress (getSyncStatus now s) \<le> 100"
  by (simp add: getSyncStatus_def percent_bounds)

text \<open>In a list sorted by key, the elements of the least key come first.\<close>

lemma sorted_min_prefix:
  "sorted (map f ys) \<Longrightarrow> \<forall>y\<in>set ys. k \<le> f y \<Longrightarrow>
   ys = filter (\<lambda>y. f y = k) ys @ filter (\<lambda>y. f y \<noteq> k) ys"
proof (induction ys)
  case (Cons y ys)
  show ?case
  proof (cases "f y = k")
    case True
    then show ?thesis using Cons by simp
  next
    case False
    then have "k < f y" using Cons.prems(2) by (simp add: order_le_less)
    then have "\<forall>z\<in>set ys. f z \<noteq> k" using Cons.prems(1) by fastforce
    then show ?thesis using False by (simp add: filter_id_conv)
  qed
qed simp

lemma sort_key_min_prefix:
  fixes f :: "'a \<Rightarrow> 'b :: linorder"
  assumes "\<forall>y\<in>set xs. k \<le> f y"
  shows "take (length (filter (\<lambda>y. f y = k) xs)) (sort_key f xs) = filter (\<lambda>y. f y = k) xs"
proof -
  let ?ys = "sort_key f xs"
  have "?ys = filter (\<lambda>y. f y = k) ?ys @ filter (\<lambda>y. f y \<noteq> k) ?ys"
    by (rule sorted_min_prefix) (use assms in simp_all)
  moreover have "filter (\<lambda>y. f y = k) ?ys = filter (\<lambda>y. f y = k) xs"
    by (rule sort_key_stable)
  ultimately show ?thesis by (metis append_eq_conv_conj)
qed

lemma filter_amap_set_values:
  assumes "distinct (map fst al)" "\<forall>x\<in>set al. \<not> P (snd x)" "P v"
  shows "filter P (map snd (amap_set al k v)) = [v]"
proof (cases "k \<in> set (map fst al)")
  case True
  have "distinct (map fst al) \<Longrightarrow> k \<in> set (map fst al) \<Longrightarrow> \<forall>x\<in>set al. \<not> P (snd x) \<Longrightarrow>
        filter P (map snd (map (\<lambda>(k', v'). if k' = k then (k, v) else (k', v')) al)) = [v]"
  proof (induction al)
    case (Cons a al)
    obtain ka va where a: "a = (ka, va)" by (cases a)
    show ?case
    proof (cases "ka = k")
      case True
      then have "k \<notin> set (map fst al)" using Cons.prems(1) a by simp
      then have "filter P (map snd (map (\<lambda>(k', v'). if k' = k then (k, v) else (k', v')) al)) = []"
        using Cons.prems(3) by (induction al) auto
      then show ?thesis using True a assms(3) by simp
    next
      case False
      then show ?thesis using Cons a by simp
    qed
  qed simp
  then show ?thesis using True assms by (simp add: amap_set_def)
next
  case False
  then show ?thesis using assms by (simp add: amap_set_def filter_empty_conv)
qed

lemma filter_push_capped:
  "0 < cap \<Longrightarrow> \<forall>x\<in>set lg. \<not> P x \<Longrightarrow> P v \<Longrightarrow> filter P (push_capped cap v lg) = [v]"
proof -
  assume cap: "0 < cap" and nl: "\<forall>x\<in>set lg. \<not> P x" and pv: "P v"
  have "length (lg @ [v]) - cap \<le> length lg" using cap by simp
  then have "push_capped cap v lg = drop (length (lg @ [v]) - cap) lg @ [v]"
    by (simp add: push_capped_def)
  then show ?thesis using nl pv by (auto simp: filter_empty_conv dest: in_set_dropD)
qed

lemma logSyncError_logs:
  "ss_errorLog (w_sync (logSyncError op d w)) =
     amap_set (if ERROR_LOG_LIMIT \<le> length (ss_errorLog (w_sync w)) then tl (ss_errorLog (w_sync w))
               else ss_errorLog (w_sync w)) (error_key op d) (error_entry op d w)"
  "md_syncErrorLog (w_meta (logSyncError op d w)) =
     push_capped ERROR_LOG_LIMIT (error_entry op d w) (md_syncErrorLog (w_meta w))"
  by (simp_all add: logSyncError_def Let_def error_entry_def)

lemma in_amap_set_values:
  "y \<in> set (map snd (amap_set al k v)) \<Longrightarrow> y = v \<or> y \<in> set (map snd al)"
  by (cases "k \<in> set (map fst al)") (auto simp: amap_set_def split: if_splits)

lemma in_push_capped: "y \<in> set (push_capped cap v lg) \<Longrightarrow> y = v \<or> y \<in> set lg"
  unfolding push_capped_def using set_drop_subset by fastforce

text \<open>
  C36. Every error is reported twice: right after \<open>logSyncError\<close> records
  an error later than everything logged before, the first two entries of
  \<open>getSyncErrorLog()\<close> are that one error, once from the in-memory map and once
  from the persisted log.
\<close>

theorem getSyncErrorLog_reports_twice:
  assumes wf: "distinct (map fst (ss_errorLog (w_sync w)))"
    and old: "\<forall>e\<in>set (map snd (ss_errorLog (w_sync w)) @ md_syncErrorLog (w_meta w)). ei_timestamp e < w_now w"
  shows "take 2 (getSyncErrorLog (logSyncError op d w)) = [error_entry op d w, error_entry op d w]"
proof -
  let ?e = "error_entry op d w"
  let ?log = "ss_errorLog (w_sync w)"
  let ?log1 = "if ERROR_LOG_LIMIT \<le> length ?log then tl ?log else ?log"
  let ?cur = "map snd (amap_set ?log1 (error_key op d) ?e)"
  let ?st = "push_capped ERROR_LOG_LIMIT ?e (md_syncErrorLog (w_meta w))"
  let ?f = "\<lambda>x. - ei_timestamp x"
  have now: "ei_timestamp ?e = w_now w" by (simp add: error_entry_def)
  have sub1: "set ?log1 \<subseteq> set ?log" by (cases ?log) auto
  have d1: "distinct (map fst ?log1)" using wf by (simp add: distinct_map_tl)
  have o1: "\<forall>x\<in>set ?log1. \<not> ei_timestamp (snd x) = w_now w"
  proof
    fix x assume "x \<in> set ?log1"
    then have "snd x \<in> set (map snd ?log @ md_syncErrorLog (w_meta w))" using sub1 by auto
    then have "ei_timestamp (snd x) < w_now w" by (rule bspec [OF old])
    then show "\<not> ei_timestamp (snd x) = w_now w" by simp
  qed
  have fc: "filter (\<lambda>x. ei_timestamp x = w_now w) ?cur = [?e]"
    by (rule filter_amap_set_values [OF d1 o1]) (simp add: now)
  have old_st: "\<forall>x\<in>set (md_syncErrorLog (w_meta w)). \<not> ei_timestamp x = w_now w"
  proof
    fix x assume "x \<in> set (md_syncErrorLog (w_meta w))"
    then have "x \<in> set (map snd ?log @ md_syncErrorLog (w_meta w))" by simp
    then have "ei_timestamp x < w_now w" by (rule bspec [OF old])
    then show "\<not> ei_timestamp x = w_now w" by simp
  qed
  have fs: "filter (\<lambda>x. ei_timestamp x = w_now w) ?st = [?e]"
    by (rule filter_push_capped [OF _ old_st]) (simp_all add: now sync_config)
  have feq: "filter (\<lambda>y. ?f y = - w_now w) (?cur @ ?st) = [?e, ?e]"
    using fc fs by simp
  have "\<forall>y\<in>set (?cur @ ?st). - w_now w \<le> ?f y"
  proof
    fix y assume "y \<in> set (?cur @ ?st)"
    then consider "y \<in> set ?cur" | "y \<in> set ?st" by auto
    then have "y = ?e \<or> y \<in> set (map snd ?log @ md_syncErrorLog (w_meta w))"
    proof cases
      case 1
      then have "y = ?e \<or> y \<in> set (map snd ?log1)" by (rule in_amap_set_values)
      then show ?thesis using sub1 by auto
    next
      case 2
      then show ?thesis using in_push_capped by fastforce
    qed
    then show "- w_now w \<le> ?f y"
    proof
      assume "y \<in> set (map snd ?log @ md_syncErrorLog (w_meta w))"
      then have "ei_timestamp y < w_now w" by (rule bspec [OF old])
      then show ?thesis by simp
    qed (simp add: now)
  qed
  then have "take (length (filter (\<lambda>y. ?f y = - w_now w) (?cur @ ?st))) (sort_key ?f (?cur @ ?st))
      = filter (\<lambda>y. ?f y = - w_now w) (?cur @ ?st)"
    by (rule sort_key_min_prefix)
  moreover have l2: "length [?e, ?e] = 2" by simp
  ultimately have t2: "take 2 (sort_key ?f (?cur @ ?st)) = [?e, ?e]"
    by (simp only: feq l2)
  have g: "getSyncErrorLog (logSyncError op d w) = take ERROR_LOG_LIMIT (sort_key ?f (?cur @ ?st))"
    by (simp only: getSyncErrorLog_def logSyncError_logs)
  have m: "min 2 ERROR_LOG_LIMIT = 2" by (simp add: ERROR_LOG_LIMIT_def)
  show ?thesis unfolding g take_take m by (rule t2)
qed

theorem getSyncErrorLog_reports_twice_witness:
  "ss_errorLog (w_sync sample_world) = [] \<and> md_syncErrorLog (w_meta sample_world) = [] \<and>
   take 2 (getSyncErrorLog (logSyncError OpSyncJob None sample_world)) =
     [error_entry OpSyncJob None sample_world, error_entry OpSyncJob None sample_world]"
proof -
  have h1: "distinct (map fst (ss_errorLog (w_sync sample_world)))"
    and h2: "\<forall>e\<in>set (map snd (ss_errorLog (w_sync sample_world)) @ md_syncErrorLog (w_meta sample_world)).
      ei_timestamp e < w_now sample_world"
    by (simp_all add: sample_world_def init_sync_state_def empty_meta_def)
  have "ss_errorLog (w_sync sample_world) = [] \<and> md_syncErrorLog (w_meta sample_world) = []"
    by (simp add: sample_world_def init_sync_state_def empty_meta_def)
  then show ?thesis using getSyncErrorLog_reports_twice [OF h1 h2, of OpSyncJob None] by blast
qed

end
