(* ===== verification/Calendar.thy ===== *)
theory Calendar
  imports SmartSyncPolicy "HOL-Library.AList"
begin

text \<open>
  The Pinia calendar store of \<^verbatim>\<open>src/src/store/calendar.js\<close>: events grouped by
  month, the set of used event ids, content-derived ids (the 32-bit hash of
  \<open>SmartSyncPolicy\<close> over \<open>title|start|rawText\<close>), the loop that makes an id
  unique, and \<open>addEvent\<close>, \<open>removeEvent\<close>, \<open>updateEvent\<close>. The month key
  \<open>toLocaleString("en-US", {month, year})\<close> depends on the platform's time zone
  and is a parameter \<open>mk\<close> of the operations.
\<close>

section \<open>State\<close>

text \<open>
  An event as the store reads it: \<open>id\<close>, \<open>title\<close>, \<open>start\<close> (its string form)
  and \<open>rawText\<close>, each \<open>None\<close> when undefined, and the other fields, which only
  \<open>JSON.stringify\<close> looks at.
\<close>

record 'a cal_event =
  ev_id :: jstr
  ev_title :: jstr
  ev_start :: jstr
  ev_rawText :: jstr
  ev_rest :: 'a

text \<open>
  \<open>groupedByMonth\<close> is an object from month keys to arrays, an association
  list in property order (\<open>AList.update\<close> replaces in place and appends a new
  key, as assignment to an object property does); \<open>eventIds\<close> is a \<open>Set\<close>
  in insertion order.
\<close>

record 'a calendar =
  cal_groupedByMonth :: "(string \<times> 'a cal_event list) list"
  cal_eventIds :: "string list"

definition empty_calendar :: "'a calendar" where
  "empty_calendar = \<lparr>cal_groupedByMonth = [], cal_eventIds = []\<rparr>"

text \<open>Truthiness of a string field, and \<open>s || ''\<close>.\<close>

definition truthy :: "jstr \<Rightarrow> bool" where
  "truthy s = (case s of None \<Rightarrow> False | Some x \<Rightarrow> x \<noteq> [])"

definition or_empty :: "jstr \<Rightarrow> string" where
  "or_empty s = (case s of None \<Rightarrow> [] | Some x \<Rightarrow> x)"

section \<open>Event ids\<close>

text \<open>
  \<open>generateEventId(event)\<close>: the hash loop is the one of
  \<open>_calculateContentHash\<close> (\<open>hash & hash\<close> truncates to 32 bits), and
  \<open>Math.abs\<close> of the signed value is printed in decimal.
\<close>

definition generateEventId :: "'a cal_event \<Rightarrow> string" where
  "generateEventId ev =
     (let str = or_empty (ev_title ev) @ ''|'' @ or_empty (ev_start ev) @ ''|'' @ or_empty (ev_rawText ev)
      in ''event-'' @ dec_nat (nat \<bar>sint (hash_word str)\<bar>))"

text \<open>
  The \<open>while (this.eventIds.has(id))\<close> loop of \<open>generateUniqueEventId\<close> from
  \<open>counter = n\<close>; as a loop it might not end, so it is a partial function whose
  value \<open>None\<close> would be divergence.
\<close>

partial_function (option) unique_loop :: "string \<Rightarrow> string list \<Rightarrow> nat \<Rightarrow> string option" where
  "unique_loop base ids n =
     (let id = base @ ''-'' @ dec_nat n in
      if id \<in> set ids then unique_loop base ids (Suc n) else Some id)"

definition generateUniqueEventId :: "'a calendar \<Rightarrow> 'a cal_event \<Rightarrow> string option" where
  "generateUniqueEventId cal ev =
     (let id = generateEventId ev in
      if id \<in> set (cal_eventIds cal) then unique_loop id (cal_eventIds cal) 1 else Some id)"

text \<open>\<open>eventsMatch(e1, e2)\<close>: strict equality of the ids, so two undefined ids match.\<close>

definition eventsMatch :: "'a cal_event \<Rightarrow> 'a cal_event \<Rightarrow> bool" where
  "eventsMatch e1 e2 = (ev_id e1 = ev_id e2)"

section \<open>Actions\<close>

text \<open>
  \<open>addEvent(event)\<close>: a missing or used id is replaced by a unique one, the id
  is added to \<open>eventIds\<close>, and the event is pushed to its month unless an event
  with the same id is there.
\<close>

definition addEvent :: "(jstr \<Rightarrow> string) \<Rightarrow> 'a calendar \<Rightarrow> 'a cal_event \<Rightarrow> 'a calendar option" where
  "addEvent mk cal ev =
     (let ids = cal_eventIds cal;
          idOpt = (if \<not> truthy (ev_id ev) then generateUniqueEventId cal ev
                   else if the (ev_id ev) \<in> set ids then generateUniqueEventId cal ev
                   else ev_id ev)
      in case idOpt of None \<Rightarrow> None | Some i \<Rightarrow>
           (let ev' = ev\<lparr>ev_id := Some i\<rparr>;
                ids' = (if i \<in> set ids then ids else ids @ [i]);
                key = mk (ev_start ev');
                lst = (case map_of (cal_groupedByMonth cal) key of None \<Rightarrow> [] | Some l \<Rightarrow> l);
                lst' = (if (\<exists>e\<in>set lst. ev_id e = Some i) then lst else lst @ [ev'])
            in Some \<lparr>cal_groupedByMonth = AList.update key lst' (cal_groupedByMonth cal),
                     cal_eventIds = ids'\<rparr>))"

text \<open>The filter of \<open>removeEvent\<close>: which events of the month are kept.\<close>

definition keep_event :: "'a cal_event \<Rightarrow> 'a cal_event \<Rightarrow> bool" where
  "keep_event ev e \<longleftrightarrow>
     \<not> (truthy (ev_id e) \<and> truthy (ev_id ev) \<and> ev_id e = ev_id ev) \<and>
     \<not> (truthy (ev_rawText e) \<and> truthy (ev_rawText ev) \<and> ev_rawText e = ev_rawText ev) \<and>
     \<not> eventsMatch e ev"

text \<open>
  \<open>removeEvent(event)\<close>: nothing without a start or when its month has no
  array; otherwise the matching events of that month go, an emptied month is
  deleted, and the event's id leaves \<open>eventIds\<close>.
\<close>

definition removeEvent :: "(jstr \<Rightarrow> string) \<Rightarrow> 'a calendar \<Rightarrow> 'a cal_event \<Rightarrow> 'a calendar" where
  "removeEvent mk cal ev =
     (if \<not> truthy (ev_start ev) then cal
      else let key = mk (ev_start ev) in
        case map_of (cal_groupedByMonth cal) key of None \<Rightarrow> cal | Some l \<Rightarrow>
          (let l' = filter (keep_event ev) l;
               g = (if l' = [] then AList.delete key (cal_groupedByMonth cal)
                    else AList.update key l' (cal_groupedByMonth cal))
           in \<lparr>cal_groupedByMonth = g,
               cal_eventIds = (if truthy (ev_id ev) then removeAll (the (ev_id ev)) (cal_eventIds cal)
                               else cal_eventIds cal)\<rparr>))"

text \<open>
  \<open>updateEvent(oldEvent, newEvent)\<close>: nothing when both have the same id and
  serialise to the same JSON; otherwise remove the old and add the new.
\<close>

definition updateEvent ::
  "(jstr \<Rightarrow> string) \<Rightarrow> 'a calendar \<Rightarrow> 'a cal_event \<Rightarrow> 'a cal_event \<Rightarrow> 'a calendar option" where
  "updateEvent mk cal old new =
     (if ev_id old = ev_id new \<and> old = new then Some cal
      else addEvent mk (removeEvent mk cal old) new)"

text \<open>
  Every stored event carries an id that \<open>eventIds\<close> holds: the invariant
  \<open>addEvent\<close> relies on to keep ids unique.
\<close>

definition cal_covers :: "'a calendar \<Rightarrow> bool" where
  "cal_covers cal \<longleftrightarrow>
     (\<forall>(k, l)\<in>set (cal_groupedByMonth cal). \<forall>e\<in>set l.
        case ev_id e of None \<Rightarrow> False | Some i \<Rightarrow> i \<in> set (cal_eventIds cal))"

text \<open>
  A month key that is the start string itself, and two events in different
  months.
\<close>

definition month_of :: "jstr \<Rightarrow> string" where
  "month_of s = or_empty s"

definition ev_jan :: "unit cal_event" where
  "ev_jan = \<lparr>ev_id = Some ''a'', ev_title = Some ''Standup'', ev_start = Some ''jan'', ev_rawText = None, ev_rest = ()\<rparr>"

definition ev_feb :: "unit cal_event" where
  "ev_feb = \<lparr>ev_id = Some ''b'', ev_title = Some ''Review'', ev_start = Some ''feb'', ev_rawText = None, ev_rest = ()\<rparr>"


section \<open>Properties\<close>

lemma unique_loop_returns:
  "\<exists>i. unique_loop base ids n = Some i \<and> i \<notin> set ids"
proof -
  let ?c = "\<lambda>k. base @ ''-'' @ dec_nat k"
  have "inj ?c" by (rule injI) (simp add: dec_nat_inj)
  then have "finite (?c -` set ids)" by (rule finite_vimageI [OF finite_set])
  then obtain B where B: "\<And>k. ?c k \<in> set ids \<Longrightarrow> k < B"
    by (metis (no_types, lifting) finite_nat_set_iff_bounded vimageI2)
  show ?thesis
  proof (induction "B - n" arbitrary: n)
    case 0
    then have "?c n \<notin> set ids" using B by fastforce
    then show ?case by (subst unique_loop.simps) simp
  next
    case (Suc d)
    show ?case
    proof (cases "?c n \<in> set ids")
      case True
      have "d = B - Suc n" using Suc.hyps(2) by arith
      then obtain i where "unique_loop base ids (Suc n) = Some i \<and> i \<notin> set ids"
        using Suc.hyps(1) by blast
      then show ?thesis using True by (subst unique_loop.simps) (simp add: Let_def)
    next
      case False
      then show ?thesis by (subst unique_loop.simps) simp
    qed
  qed
qed

lemma generateUniqueEventId_some:
  "\<exists>i. generateUniqueEventId cal ev = Some i \<and> i \<notin> set (cal_eventIds cal)"
  using unique_loop_returns [of "generateEventId ev" "cal_eventIds cal" 1]
  by (auto simp: generateUniqueEventId_def Let_def)

lemma addEvent_id_fresh:
  obtains i where
    "(if \<not> truthy (ev_id ev) then generateUniqueEventId cal ev
      else if the (ev_id ev) \<in> set (cal_eventIds cal) then generateUniqueEventId cal ev
      else ev_id ev) = Some i" "i \<notin> set (cal_eventIds cal)"
proof (cases "\<not> truthy (ev_id ev) \<or> the (ev_id ev) \<in> set (cal_eventIds cal)")
  case True
  then have "(if \<not> truthy (ev_id ev) then generateUniqueEventId cal ev
      else if the (ev_id ev) \<in> set (cal_eventIds cal) then generateUniqueEventId cal ev
      else ev_id ev) = generateUniqueEventId cal ev" by auto
  then show ?thesis using generateUniqueEventId_some [of cal ev] that by metis
next
  case False
  then show ?thesis using that by (auto simp: truthy_def split: option.splits)
qed

lemma in_set_update: "x \<in> set (AList.update k v al) \<Longrightarrow> x = (k, v) \<or> x \<in> set al"
  by (induction al) (auto split: if_splits)

lemma cal_coversD:
  "cal_covers cal \<Longrightarrow> map_of (cal_groupedByMonth cal) k = Some l \<Longrightarrow> e \<in> set l \<Longrightarrow>
   \<exists>i. ev_id e = Some i \<and> i \<in> set (cal_eventIds cal)"
  by (drule map_of_SomeD) (fastforce simp: cal_covers_def split: option.splits)

text \<open>
  C37. \<open>addEvent\<close> always returns, however many ids are used: the loop of
  \<open>generateUniqueEventId\<close> ends. On a store whose events all carry ids in
  \<open>eventIds\<close>, the id it gives the event was not used, is added to
  \<open>eventIds\<close>, and the event is appended to its month; the store keeps the
  invariant.
\<close>

theorem addEvent_fresh_id:
  assumes "cal_covers cal"
  shows "\<exists>c' i. addEvent mk cal ev = Some c' \<and> i \<notin> set (cal_eventIds cal) \<and>
           cal_eventIds c' = cal_eventIds cal @ [i] \<and> cal_covers c' \<and>
           map_of (cal_groupedByMonth c') (mk (ev_start ev)) =
             Some ((case map_of (cal_groupedByMonth cal) (mk (ev_start ev)) of None \<Rightarrow> [] | Some l \<Rightarrow> l)
                   @ [ev\<lparr>ev_id := Some i\<rparr>])"
proof -
  let ?k = "mk (ev_start ev)"
  let ?lst = "case map_of (cal_groupedByMonth cal) ?k of None \<Rightarrow> [] | Some l \<Rightarrow> l"
  obtain i where i: "(if \<not> truthy (ev_id ev) then generateUniqueEventId cal ev
      else if the (ev_id ev) \<in> set (cal_eventIds cal) then generateUniqueEventId cal ev
      else ev_id ev) = Some i" and fresh: "i \<notin> set (cal_eventIds cal)"
    by (rule addEvent_id_fresh)
  have nodup: "\<not> (\<exists>e\<in>set ?lst. ev_id e = Some i)"
  proof (cases "map_of (cal_groupedByMonth cal) ?k")
    case (Some l)
    show ?thesis
    proof
      assume "\<exists>e\<in>set ?lst. ev_id e = Some i"
      then obtain e where "e \<in> set l" "ev_id e = Some i" using Some by auto
      then show False using cal_coversD [OF assms Some] fresh by fastforce
    qed
  qed simp
  define lst where "lst = ?lst"
  let ?c' = "\<lparr>cal_groupedByMonth = AList.update ?k (lst @ [ev\<lparr>ev_id := Some i\<rparr>]) (cal_groupedByMonth cal),
              cal_eventIds = cal_eventIds cal @ [i]\<rparr>"
  have add: "addEvent mk cal ev = Some ?c'"
    using i fresh nodup unfolding lst_def by (simp add: addEvent_def Let_def) blast
  have "cal_covers ?c'"
    unfolding cal_covers_def
  proof (intro ballI, clarify)
    fix k l e assume kl: "(k, l) \<in> set (cal_groupedByMonth ?c')" and e: "e \<in> set l"
    have "(k, l) = (?k, lst @ [ev\<lparr>ev_id := Some i\<rparr>]) \<or> (k, l) \<in> set (cal_groupedByMonth cal)"
      using in_set_update [of "(k, l)"] kl by simp
    then show "case ev_id e of None \<Rightarrow> False | Some j \<Rightarrow> j \<in> set (cal_eventIds ?c')"
    proof
      assume "(k, l) = (?k, lst @ [ev\<lparr>ev_id := Some i\<rparr>])"
      then show ?thesis using e cal_coversD [OF assms] by (fastforce simp: lst_def split: option.splits)
    next
      assume "(k, l) \<in> set (cal_groupedByMonth cal)"
      then show ?thesis using e assms by (fastforce simp: cal_covers_def split: option.splits)
    qed
  qed
  then show ?thesis using add fresh by (auto simp: update_conv' lst_def)
qed

theorem addEvent_fresh_id_witness:
  "cal_covers (empty_calendar :: unit calendar) \<and>
   (\<exists>c' i. addEvent month_of empty_calendar ev_jan = Some c' \<and> i \<notin> set (cal_eventIds (empty_calendar :: unit calendar)) \<and>
           cal_eventIds c' = cal_eventIds (empty_calendar :: unit calendar) @ [i] \<and> cal_covers c' \<and>
           map_of (cal_groupedByMonth c') (month_of (ev_start ev_jan)) =
             Some ((case map_of (cal_groupedByMonth (empty_calendar :: unit calendar)) (month_of (ev_start ev_jan))
                    of None \<Rightarrow> [] | Some l \<Rightarrow> l) @ [ev_jan\<lparr>ev_id := Some i\<rparr>]))"
proof -
  have c: "cal_covers (empty_calendar :: unit calendar)" by (simp add: cal_covers_def empty_calendar_def)
  show ?thesis using addEvent_fresh_id [OF c, of month_of ev_jan] c by blast
qed


end
