(* ===== verification/JsRegex.thy ===== *)
theory JsRegex
  imports Prelude
begin

text \<open>
  The JavaScript regular expressions of the parser
  (\<^verbatim>\<open>src/src/utils/compromiseDateParser6.js\<close>), as terms of a backtracking
  matcher that follows the ECMAScript semantics: alternatives and greedy
  iterations are tried in priority order, an iteration that matches the empty
  string is rejected, a capture group records the substring its body matched,
  and \<open>exec\<close> tries the start positions from left to right. \<open>bt r s c\<close> lists
  every way \<open>r\<close> can match a prefix of \<open>s\<close> with captures \<open>c\<close>, in the order the
  engine tries them, as pairs of the captures and the rest of the input; the first
  one is the engine's result. Characters are those of HOL (code points below
  256), so a pattern character above U+00FF (\<open>\<mu>\<close>) matches nothing here.
\<close>

section \<open>Character classes\<close>

definition is_digit :: "char \<Rightarrow> bool" where
  "is_digit c \<longleftrightarrow> 48 \<le> (of_char c :: nat) \<and> (of_char c :: nat) \<le> 57"

text \<open>\<open>\s\<close>: WhiteSpace and LineTerminator below 256 (TAB, LF, VT, FF, CR, space, NBSP).\<close>

definition is_space :: "char \<Rightarrow> bool" where
  "is_space c \<longleftrightarrow> of_char c \<in> {9, 10, 11, 12, 13, 32, 160 :: nat}"

definition is_alpha :: "char \<Rightarrow> bool" where
  "is_alpha c \<longleftrightarrow> (97 \<le> (of_char c :: nat) \<and> (of_char c :: nat) \<le> 122) \<or>
     (65 \<le> (of_char c :: nat) \<and> (of_char c :: nat) \<le> 90)"

text \<open>\<open>\w\<close>\<close>

definition is_word :: "char \<Rightarrow> bool" where
  "is_word c \<longleftrightarrow> is_alpha c \<or> is_digit c \<or> c = CHR ''_''"

text \<open>\<open>.\<close>: anything but a line terminator.\<close>

definition is_dot :: "char \<Rightarrow> bool" where
  "is_dot c \<longleftrightarrow> c \<noteq> CHR 0x0A \<and> c \<noteq> CHR 0x0D"

text \<open>Case folding of the \<open>i\<close> flag on letters.\<close>

definition lower :: "char \<Rightarrow> char" where
  "lower c = (if 65 \<le> (of_char c :: nat) \<and> (of_char c :: nat) \<le> 90 then char_of (of_char c + 32 :: nat) else c)"

section \<open>Patterns\<close>

datatype rx =
    RAtom "char \<Rightarrow> bool"
  | REps
  | REnd
  | RSeq rx rx
  | RAlt rx rx
  | RStar rx
  | RLazy rx
  | RGroup nat rx

type_synonym caps = "nat \<Rightarrow> string option"

text \<open>
  The matcher. \<open>RStar\<close> is greedy: one more iteration first, stopping last;
  \<open>RLazy\<close> (\<open>*?\<close>) stops first. An iteration that consumed nothing fails
  (RepeatMatcher, step 2.b of the standard).
\<close>

function bt :: "rx \<Rightarrow> string \<Rightarrow> caps \<Rightarrow> (caps \<times> string) list" where
  "bt (RAtom p) s c = (case s of [] \<Rightarrow> [] | x # xs \<Rightarrow> if p x then [(c, xs)] else [])"
| "bt REps s c = [(c, s)]"
| "bt REnd s c = (if s = [] then [(c, s)] else [])"
| "bt (RSeq r1 r2) s c = concat (map (\<lambda>(c1, s1). bt r2 s1 c1) (bt r1 s c))"
| "bt (RAlt r1 r2) s c = bt r1 s c @ bt r2 s c"
| "bt (RStar r) s c =
     concat (map (\<lambda>(c1, s1). if length s1 < length s then bt (RStar r) s1 c1 else []) (bt r s c)) @ [(c, s)]"
| "bt (RLazy r) s c =
     (c, s) # concat (map (\<lambda>(c1, s1). if length s1 < length s then bt (RLazy r) s1 c1 else []) (bt r s c))"
| "bt (RGroup n r) s c = map (\<lambda>(c1, s1). (c1(n := Some (take (length s - length s1) s)), s1)) (bt r s c)"
  by pat_completeness auto
termination
  by (relation "measures [\<lambda>(r, s, c). size r, \<lambda>(r, s, c). length s]") auto

text \<open>The equation of an iteration unfolds itself; it is used by hand.\<close>

declare bt.simps(6) [simp del] bt.simps(7) [simp del]

text \<open>Derived forms: \<open>r+\<close>, \<open>r?\<close>, a literal, a character set.\<close>

definition RPlus :: "rx \<Rightarrow> rx" where
  "RPlus r = RSeq r (RStar r)"

definition RPlusLazy :: "rx \<Rightarrow> rx" where
  "RPlusLazy r = RSeq r (RLazy r)"

definition ROpt :: "rx \<Rightarrow> rx" where
  "ROpt r = RAlt r REps"

fun RLit :: "string \<Rightarrow> rx" where
  "RLit [] = REps"
| "RLit [x] = RAtom (\<lambda>c. c = x)"
| "RLit (x # xs) = RSeq (RAtom (\<lambda>c. c = x)) (RLit xs)"

text \<open>A literal under the \<open>i\<close> flag.\<close>

fun RLitI :: "string \<Rightarrow> rx" where
  "RLitI [] = REps"
| "RLitI [x] = RAtom (\<lambda>c. lower c = lower x)"
| "RLitI (x # xs) = RSeq (RAtom (\<lambda>c. lower c = lower x)) (RLitI xs)"

definition RSet :: "string \<Rightarrow> rx" where
  "RSet cs = RAtom (\<lambda>c. c \<in> set cs)"

text \<open>
  A JavaScript regular expression: anchored by a leading \<open>^\<close> (without the
  \<open>m\<close> flag, only position 0 can match) or searched from every position.
\<close>

datatype jsre = Anchored rx | Floating rx

definition no_caps :: caps where
  "no_caps = (\<lambda>_. None)"

fun exec_from :: "rx \<Rightarrow> string \<Rightarrow> nat \<Rightarrow> (nat \<times> caps \<times> string) option" where
  "exec_from r s i =
     (case bt r s no_caps of
        (c, rest) # _ \<Rightarrow> Some (i, c, rest)
      | [] \<Rightarrow> (case s of [] \<Rightarrow> None | _ # s' \<Rightarrow> exec_from r s' (Suc i)))"

text \<open>
  \<open>re.exec(s)\<close> / \<open>s.match(re)\<close> without the \<open>g\<close> flag: the index of the
  match, its captures and the input after it.
\<close>

definition js_exec :: "jsre \<Rightarrow> string \<Rightarrow> (nat \<times> caps \<times> string) option" where
  "js_exec re s =
     (case re of
        Anchored r \<Rightarrow> (case bt r s no_caps of [] \<Rightarrow> None | (c, rest) # _ \<Rightarrow> Some (0, c, rest))
      | Floating r \<Rightarrow> exec_from r s 0)"

definition js_test :: "jsre \<Rightarrow> string \<Rightarrow> bool" where
  "js_test re s \<longleftrightarrow> js_exec re s \<noteq> None"

text \<open>The capture \<open>n\<close> of \<open>s.match(re)\<close>, \<open>None\<close> when there is no match or the group did not take part.\<close>

definition js_group :: "jsre \<Rightarrow> string \<Rightarrow> nat \<Rightarrow> string option" where
  "js_group re s n = (case js_exec re s of None \<Rightarrow> None | Some (_, c, _) \<Rightarrow> c n)"

section \<open>String helpers\<close>

text \<open>\<open>String.prototype.trim\<close> (the white space of \<open>\s\<close>).\<close>

definition js_trim :: "string \<Rightarrow> string" where
  "js_trim s = rev (dropWhile is_space (rev (dropWhile is_space s)))"

text \<open>
  \<open>GetSubstitution\<close> for a replacement string without capture groups:
  \<open>$$\<close>, \<open>$&\<close>, \<open>$`\<close> and \<open>$'\<close> are special, everything else is literal.
\<close>

fun get_subst :: "string \<Rightarrow> string \<Rightarrow> string \<Rightarrow> string \<Rightarrow> string" where
  "get_subst [] m pre post = []"
| "get_subst (x # y # r) m pre post =
     (if x = CHR ''$'' \<and> y = CHR ''$'' then CHR ''$'' # get_subst r m pre post
      else if x = CHR ''$'' \<and> y = CHR ''&'' then m @ get_subst r m pre post
      else if x = CHR ''$'' \<and> y = CHR ''`'' then pre @ get_subst r m pre post
      else if x = CHR ''$'' \<and> y = CHR 0x27 then post @ get_subst r m pre post
      else x # get_subst (y # r) m pre post)"
| "get_subst [x] m pre post = [x]"

text \<open>
  \<open>s.replace(new RegExp(`\\b${w}\\b`, 'g'), rep)\<close> for a word \<open>w\<close> of
  \<open>\w\<close> characters: scanning from position \<open>i\<close>, a match starts where the
  previous character is not a word character, \<open>w\<close> follows, and no word
  character comes after it; scanning resumes after a match.
\<close>

function replace_word :: "string \<Rightarrow> string \<Rightarrow> string \<Rightarrow> nat \<Rightarrow> string" where
  "replace_word w rep s i =
     (if length s \<le> i \<or> w = [] then drop i s
      else if (i = 0 \<or> \<not> is_word (s ! (i - 1))) \<and> take (length w) (drop i s) = w \<and>
              (length s \<le> i + length w \<or> \<not> is_word (s ! (i + length w)))
      then get_subst rep w (take i s) (drop (i + length w) s) @ replace_word w rep s (i + length w)
      else s ! i # replace_word w rep s (Suc i))"
  by pat_completeness auto
termination
  by (relation "measure (\<lambda>(w, rep, s, i). length s - i)") (auto simp flip: length_greater_0_conv)

declare replace_word.simps [simp del]

text \<open>The numbers of the capture groups a pattern contains.\<close>

fun rx_groups :: "rx \<Rightarrow> nat set" where
  "rx_groups (RSeq r1 r2) = rx_groups r1 \<union> rx_groups r2"
| "rx_groups (RAlt r1 r2) = rx_groups r1 \<union> rx_groups r2"
| "rx_groups (RStar r) = rx_groups r"
| "rx_groups (RLazy r) = rx_groups r"
| "rx_groups (RGroup n r) = insert n (rx_groups r)"
| "rx_groups _ = {}"

section \<open>Lemmas\<close>

text \<open>A result of an iteration is the stop or comes from one nonempty iteration.\<close>

lemma star_member:
  assumes "(c', s') \<in> set (bt (RStar r) s c)" and "(c', s') \<noteq> (c, s)"
  obtains c1 s1 where "(c1, s1) \<in> set (bt r s c)" "length s1 < length s"
    "(c', s') \<in> set (bt (RStar r) s1 c1)"
  using assms that by (subst (asm) bt.simps(6)) (auto split: if_splits)

lemma lazy_member:
  assumes "(c', s') \<in> set (bt (RLazy r) s c)" and "(c', s') \<noteq> (c, s)"
  obtains c1 s1 where "(c1, s1) \<in> set (bt r s c)" "length s1 < length s"
    "(c', s') \<in> set (bt (RLazy r) s1 c1)"
  using assms that by (subst (asm) bt.simps(7)) (auto split: if_splits)

text \<open>What the matcher leaves is a suffix of its input.\<close>

lemma bt_suffix: "(c', s') \<in> set (bt r s c) \<Longrightarrow> suffix s' s"
proof (induction r s c arbitrary: c' s' rule: bt.induct)
  case (1 p s c)
  show ?case
  proof (cases s)
    case (Cons x xs)
    then have "s' = xs" using "1.prems" by (simp split: if_splits)
    then show ?thesis using Cons by (simp add: suffix_ConsI)
  qed (use "1.prems" in simp)
next
  case (2 s c)
  then show ?case by simp
next
  case (3 s c)
  then show ?case by (simp split: if_splits)
next
  case (4 r1 r2 s c)
  obtain c1 s1 where m1: "(c1, s1) \<in> set (bt r1 s c)" and m2: "(c', s') \<in> set (bt r2 s1 c1)"
    using "4.prems" by auto
  have "suffix s1 s" by (rule "4.IH"(1) [OF m1])
  moreover have "suffix s' s1" by (rule "4.IH"(2) [OF m1 refl m2])
  ultimately show ?case using suffix_order.trans by blast
next
  case (5 r1 r2 s c)
  from "5.prems" have "(c', s') \<in> set (bt r1 s c) \<or> (c', s') \<in> set (bt r2 s c)" by simp
  then show ?case using "5.IH" by blast
next
  case (6 r s c)
  show ?case
  proof (cases "(c', s') = (c, s)")
    case False
    then obtain c1 s1 where m1: "(c1, s1) \<in> set (bt r s c)" and lt: "length s1 < length s"
      and m2: "(c', s') \<in> set (bt (RStar r) s1 c1)"
      using star_member [OF "6.prems"] by blast
    have "suffix s1 s" by (rule "6.IH"(1) [OF m1])
    moreover have "suffix s' s1" by (rule "6.IH"(2) [OF m1 refl lt m2])
    ultimately show ?thesis using suffix_order.trans by blast
  qed simp
next
  case (7 r s c)
  show ?case
  proof (cases "(c', s') = (c, s)")
    case False
    then obtain c1 s1 where m1: "(c1, s1) \<in> set (bt r s c)" and lt: "length s1 < length s"
      and m2: "(c', s') \<in> set (bt (RLazy r) s1 c1)"
      using lazy_member [OF "7.prems"] by blast
    have "suffix s1 s" by (rule "7.IH"(1) [OF m1])
    moreover have "suffix s' s1" by (rule "7.IH"(2) [OF m1 refl lt m2])
    ultimately show ?thesis using suffix_order.trans by blast
  qed simp
next
  case (8 n r s c)
  then obtain c1 where "(c1, s') \<in> set (bt r s c)" by auto
  then show ?case by (rule "8.IH")
qed

text \<open>Every capture is one the matcher was given or a substring of its input.\<close>

lemma bt_caps:
  "(c', s') \<in> set (bt r s c) \<Longrightarrow> c' n = Some g \<Longrightarrow> c n = Some g \<or> sublist g s"
proof (induction r s c arbitrary: c' s' rule: bt.induct)
  case (4 r1 r2 s c)
  obtain c1 s1 where m1: "(c1, s1) \<in> set (bt r1 s c)" and m2: "(c', s') \<in> set (bt r2 s1 c1)"
    using "4.prems"(1) by auto
  have sub: "sublist s1 s" using bt_suffix [OF m1] by (rule suffix_imp_sublist)
  have "c1 n = Some g \<or> sublist g s1" by (rule "4.IH"(2) [OF m1 refl m2 "4.prems"(2)])
  then show ?case
  proof
    assume "c1 n = Some g"
    then show ?thesis by (rule "4.IH"(1) [OF m1])
  qed (use sub sublist_order.order_trans in blast)
next
  case (6 r s c)
  show ?case
  proof (cases "(c', s') = (c, s)")
    case False
    then obtain c1 s1 where m1: "(c1, s1) \<in> set (bt r s c)" and lt: "length s1 < length s"
      and m2: "(c', s') \<in> set (bt (RStar r) s1 c1)"
      using star_member [OF "6.prems"(1)] by blast
    have sub: "sublist s1 s" using bt_suffix [OF m1] by (rule suffix_imp_sublist)
    have "c1 n = Some g \<or> sublist g s1" by (rule "6.IH"(2) [OF m1 refl lt m2 "6.prems"(2)])
    then show ?thesis
    proof
      assume "c1 n = Some g"
      then show ?thesis by (rule "6.IH"(1) [OF m1])
    qed (use sub sublist_order.order_trans in blast)
  qed (use "6.prems" in simp)
next
  case (7 r s c)
  show ?case
  proof (cases "(c', s') = (c, s)")
    case False
    then obtain c1 s1 where m1: "(c1, s1) \<in> set (bt r s c)" and lt: "length s1 < length s"
      and m2: "(c', s') \<in> set (bt (RLazy r) s1 c1)"
      using lazy_member [OF "7.prems"(1)] by blast
    have sub: "sublist s1 s" using bt_suffix [OF m1] by (rule suffix_imp_sublist)
    have "c1 n = Some g \<or> sublist g s1" by (rule "7.IH"(2) [OF m1 refl lt m2 "7.prems"(2)])
    then show ?thesis
    proof
      assume "c1 n = Some g"
      then show ?thesis by (rule "7.IH"(1) [OF m1])
    qed (use sub sublist_order.order_trans in blast)
  qed (use "7.prems" in simp)
next
  case (8 m r s c)
  obtain c1 where m1: "(c1, s') \<in> set (bt r s c)"
    and c': "c' = c1(m := Some (take (length s - length s') s))"
    using "8.prems"(1) by auto
  show ?case
  proof (cases "n = m")
    case True
    then have "g = take (length s - length s') s" using c' "8.prems"(2) by simp
    then show ?thesis by simp
  next
    case False
    then have "c1 n = Some g" using c' "8.prems"(2) by simp
    then show ?thesis by (rule "8.IH" [OF m1])
  qed
qed (auto split: list.splits if_splits)

text \<open>A capture the pattern does not contain is left as it was.\<close>

lemma bt_caps_other:
  "(c', s') \<in> set (bt r s c) \<Longrightarrow> n \<notin> rx_groups r \<Longrightarrow> c' n = c n"
proof (induction r s c arbitrary: c' s' rule: bt.induct)
  case (4 r1 r2 s c)
  obtain c1 s1 where m1: "(c1, s1) \<in> set (bt r1 s c)" and m2: "(c', s') \<in> set (bt r2 s1 c1)"
    using "4.prems"(1) by auto
  have "c' n = c1 n" using "4.IH"(2) [OF m1 refl m2] "4.prems"(2) by simp
  also have "c1 n = c n" using "4.IH"(1) [OF m1] "4.prems"(2) by simp
  finally show ?case .
next
  case (6 r s c)
  show ?case
  proof (cases "(c', s') = (c, s)")
    case False
    then obtain c1 s1 where m1: "(c1, s1) \<in> set (bt r s c)" and lt: "length s1 < length s"
      and m2: "(c', s') \<in> set (bt (RStar r) s1 c1)"
      using star_member [OF "6.prems"(1)] by blast
    have "c' n = c1 n" by (rule "6.IH"(2) [OF m1 refl lt m2 "6.prems"(2)])
    also have "c1 n = c n" using "6.IH"(1) [OF m1] "6.prems"(2) by simp
    finally show ?thesis .
  qed simp
next
  case (7 r s c)
  show ?case
  proof (cases "(c', s') = (c, s)")
    case False
    then obtain c1 s1 where m1: "(c1, s1) \<in> set (bt r s c)" and lt: "length s1 < length s"
      and m2: "(c', s') \<in> set (bt (RLazy r) s1 c1)"
      using lazy_member [OF "7.prems"(1)] by blast
    have "c' n = c1 n" by (rule "7.IH"(2) [OF m1 refl lt m2 "7.prems"(2)])
    also have "c1 n = c n" using "7.IH"(1) [OF m1] "7.prems"(2) by simp
    finally show ?thesis .
  qed simp
next
  case (8 m r s c)
  obtain c1 where m1: "(c1, s') \<in> set (bt r s c)"
    and c': "c' = c1(m := Some (take (length s - length s') s))"
    using "8.prems"(1) by auto
  have "c1 n = c n" using "8.IH" [OF m1] "8.prems"(2) by simp
  then show ?case using c' "8.prems"(2) by simp
qed (auto split: list.splits if_splits)

text \<open>
  In \<open>r1 r2\<close> where every match of \<open>r1\<close> consumes a character, a group of
  \<open>r2\<close> unset before captures a strict part of the input.
\<close>

lemma bt_seq_group_shorter:
  assumes m: "(c', s') \<in> set (bt (RSeq r1 r2) s c)" and g: "c' n = Some g"
    and n: "n \<notin> rx_groups r1" and unset: "c n = None"
    and cons: "\<And>c1 s1. (c1, s1) \<in> set (bt r1 s c) \<Longrightarrow> length s1 < length s"
  shows "length g < length s"
proof -
  obtain c1 s1 where m1: "(c1, s1) \<in> set (bt r1 s c)" and m2: "(c', s') \<in> set (bt r2 s1 c1)"
    using m by auto
  have "c1 n = None" using bt_caps_other [OF m1 n] unset by simp
  then have "sublist g s1" using bt_caps [OF m2 g] by simp
  then have "length g \<le> length s1" by (rule sublist_length_le)
  then show ?thesis using cons [OF m1] by simp
qed

text \<open>A nonempty run of one character class consumes a character.\<close>

lemma bt_plus_atom_shorter:
  "(c1, s1) \<in> set (bt (RGroup n (RPlus (RAtom p))) s c) \<Longrightarrow> length s1 < length s"
proof -
  assume "(c1, s1) \<in> set (bt (RGroup n (RPlus (RAtom p))) s c)"
  then obtain x xs c2 where s: "s = x # xs" and m: "(c2, s1) \<in> set (bt (RStar (RAtom p)) xs c)"
    by (auto simp: RPlus_def split: list.splits if_splits)
  have "suffix s1 xs" by (rule bt_suffix [OF m])
  then show ?thesis using s by (simp add: suffix_length_le le_imp_less_Suc)
qed

lemma exec_from_caps:
  "exec_from r s i = Some (j, c, rest) \<Longrightarrow> c n = Some g \<Longrightarrow> sublist g s"
proof (induction r s i rule: exec_from.induct)
  case (1 r s i)
  show ?case
  proof (cases "bt r s no_caps")
    case Nil
    then obtain x s' where s: "s = x # s'" and e: "exec_from r s' (Suc i) = Some (j, c, rest)"
      using "1.prems"(1) by (auto split: list.splits)
    have "sublist g s'" by (rule "1.IH" [OF Nil s e "1.prems"(2)])
    then show ?thesis using s by (simp add: sublist_Cons_right)
  next
    case (Cons a l)
    obtain c0 rest0 where a: "a = (c0, rest0)" by (cases a)
    then have "c0 = c" using "1.prems"(1) Cons by simp
    then have "(c, rest0) \<in> set (bt r s no_caps)" using Cons a by simp
    then have "no_caps n = Some g \<or> sublist g s" by (rule bt_caps) (rule "1.prems"(2))
    then show ?thesis by (simp add: no_caps_def)
  qed
qed

text \<open>A search ends its match inside the input: the rest after it is shorter.\<close>

lemma exec_from_rest:
  "exec_from r s k = Some (j, c, rest) \<Longrightarrow> k \<le> j \<and> j - k + length rest \<le> length s"
proof (induction r s k rule: exec_from.induct)
  case (1 r s k)
  show ?case
  proof (cases "bt r s no_caps")
    case Nil
    then obtain x s' where s: "s = x # s'" and e: "exec_from r s' (Suc k) = Some (j, c, rest)"
      using "1.prems" by (auto split: list.splits)
    have "Suc k \<le> j \<and> j - Suc k + length rest \<le> length s'" by (rule "1.IH" [OF Nil s e])
    then show ?thesis using s by auto
  next
    case (Cons a l)
    then have "j = k" and "(c, rest) \<in> set (bt r s no_caps)" using "1.prems" by (auto split: prod.splits)
    then show ?thesis using bt_suffix suffix_length_le by fastforce
  qed
qed

lemma js_group_sublist: "js_group re s n = Some g \<Longrightarrow> sublist g s"
proof (cases re)
  case (Anchored r)
  assume h: "js_group re s n = Some g"
  then obtain c rest l where b: "bt r s no_caps = (c, rest) # l" and cn: "c n = Some g"
    using Anchored by (auto simp: js_group_def js_exec_def split: list.splits)
  then have "(c, rest) \<in> set (bt r s no_caps)" by simp
  then have "no_caps n = Some g \<or> sublist g s" by (rule bt_caps) (rule cn)
  then show ?thesis by (simp add: no_caps_def)
next
  case (Floating r)
  assume h: "js_group re s n = Some g"
  then obtain j c rest where "exec_from r s 0 = Some (j, c, rest)" and "c n = Some g"
    using Floating by (auto simp: js_group_def js_exec_def split: option.splits)
  then show ?thesis by (rule exec_from_caps)
qed

end
