(* ===== verification/ParserUnits.thy ===== *)
theory ParserUnits
  imports Complex_Main JsRegex
begin

text \<open>
  The unit conversions of \<^verbatim>\<open>src/src/utils/compromiseDateParser6.js\<close>: the
  temperature and SI-prefix helpers of \<open>unitConversionFunctions\<close>, the patterns
  \<open>TEMPERATURE\<close>, \<open>UNIT_CONVERSION\<close> and \<open>SI_NOTATION\<close>, and the class
  \<open>UnitConversionParser\<close> (\<open>parse\<close>, \<open>convertTemperature\<close>, \<open>convertUnit\<close>,
  \<open>convertSIPrefix\<close>). Numbers are exact rationals, \<open>None\<close> standing for
  \<open>NaN\<close>; JavaScript computes with binary doubles, so the last digit of a
  \<open>toFixed\<close> can differ where a decimal is not a double. The mathjs unit
  conversion is the oracle \<open>unit_conv\<close>; \<open>formatSI\<close>, which prints the Greek
  \<open>\<mu>\<close> (a character above U+00FF), is the oracle \<open>format_si\<close>.
\<close>

section \<open>Numbers\<close>

text \<open>
  \<open>Number.prototype.toFixed(f)\<close> for a magnitude below \<open>10^21\<close>: the integer
  \<open>n\<close> nearest to \<open>|x| * 10^f\<close> (halves up), its digits padded to \<open>f + 1\<close>,
  the point before the last \<open>f\<close>, and a minus sign when \<open>x < 0\<close>.
\<close>

definition js_toFixed :: "nat \<Rightarrow> rat \<Rightarrow> string" where
  "js_toFixed f x =
     (let m = dec_nat (nat \<lfloor>\<bar>x\<bar> * 10 ^ f + 1 / 2\<rfloor>);
          m' = (if f \<noteq> 0 \<and> length m \<le> f then replicate (f + 1 - length m) CHR ''0'' @ m else m);
          body = (if f = 0 then m' else take (length m' - f) m' @ ''.'' @ drop (length m' - f) m')
      in (if x < 0 then ''-'' else []) @ body)"

text \<open>\<open>toFixed\<close> of a value that may be \<open>NaN\<close>.\<close>

definition fixed_or_nan :: "nat \<Rightarrow> rat option \<Rightarrow> string" where
  "fixed_or_nan f r = (case r of None \<Rightarrow> ''NaN'' | Some x \<Rightarrow> js_toFixed f x)"

text \<open>\<open>parseFloat\<close> of a string matched by \<open>-?\d+\.?\d*\<close>.\<close>

definition parse_num :: "string \<Rightarrow> rat" where
  "parse_num s =
     (let neg = (s \<noteq> [] \<and> hd s = CHR ''-'');
          t = (if neg then tl s else s);
          ip = takeWhile is_digit t;
          fp = (case dropWhile is_digit t of c # r \<Rightarrow> if c = CHR ''.'' then takeWhile is_digit r else []
                | [] \<Rightarrow> []);
          v = of_nat (parse_dec ip) + of_nat (parse_dec fp) / 10 ^ length fp
      in if neg then - v else v)"

section \<open>\<open>unitConversionFunctions\<close>\<close>

definition celsiusToFahrenheit :: "rat \<Rightarrow> rat" where
  "celsiusToFahrenheit c = c * 9 / 5 + 32"

definition fahrenheitToCelsius :: "rat \<Rightarrow> rat" where
  "fahrenheitToCelsius f = (f - 32) * 5 / 9"

definition celsiusToKelvin :: "rat \<Rightarrow> rat" where
  "celsiusToKelvin c = c + 27315 / 100"

definition kelvinToCelsius :: "rat \<Rightarrow> rat" where
  "kelvinToCelsius k = k - 27315 / 100"

definition fahrenheitToKelvin :: "rat \<Rightarrow> rat" where
  "fahrenheitToKelvin f = (f - 32) * 5 / 9 + 27315 / 100"

definition kelvinToFahrenheit :: "rat \<Rightarrow> rat" where
  "kelvinToFahrenheit k = (k - 27315 / 100) * 9 / 5 + 32"

text \<open>The prefix table of \<open>siPrefix\<close> (its key \<open>\<mu>\<close> is no HOL string).\<close>

definition si_prefixes :: "(string \<times> int) list" where
  "si_prefixes =
     [(''y'', -24), (''z'', -21), (''a'', -18), (''f'', -15), (''p'', -12), (''n'', -9),
      (''m'', -3), (''c'', -2), (''d'', -1), ('''', 0), (''da'', 1), (''h'', 2), (''k'', 3),
      (''M'', 6), (''G'', 9), (''T'', 12), (''P'', 15), (''E'', 18), (''Z'', 21), (''Y'', 24)]"

text \<open>\<open>siPrefix(value, from, to)\<close>: an unknown prefix makes the scale \<open>NaN\<close>.\<close>

definition siPrefix :: "rat \<Rightarrow> string \<Rightarrow> string \<Rightarrow> rat option" where
  "siPrefix v fromP toP =
     (case (map_of si_prefixes toP, map_of si_prefixes fromP) of
        (Some t, Some f) \<Rightarrow> Some (v * 10 powi (t - f))
      | _ \<Rightarrow> None)"

section \<open>Patterns\<close>

text \<open>Letters, \<open>\<degree>\<close>, \<open>/\<close>, \<open>\<two>\<close> and \<open>\<three>\<close>: the class \<open>[a-zA-Z\<degree>/\<two>\<three>]\<close>.\<close>

definition unit_char :: "char \<Rightarrow> bool" where
  "unit_char c \<longleftrightarrow> is_alpha c \<or> c \<in> {CHR 0xB0, CHR ''/'', CHR 0xB2, CHR 0xB3}"

definition sp :: rx where "sp = RAtom is_space"
definition digit :: rx where "digit = RAtom is_digit"

text \<open>\<open>-?\d+\.?\d*\<close>\<close>

definition number_rx :: rx where
  "number_rx = RSeq (ROpt (RLit ''-'')) (RSeq (RPlus digit) (RSeq (ROpt (RLit ''.'')) (RStar digit)))"

text \<open>\<open>(?:to|in|into)\<close> under the \<open>i\<close> flag.\<close>

definition to_in_into :: rx where
  "to_in_into = RAlt (RLitI ''to'') (RAlt (RLitI ''in'') (RLitI ''into''))"

text \<open>\<open>[a-zA-Z\<degree>/\<two>\<three>]+(?:\s*[a-zA-Z\<degree>/\<two>\<three>]+)*\<close>\<close>

definition unit_words :: rx where
  "unit_words = RSeq (RPlus (RAtom unit_char)) (RStar (RSeq (RStar sp) (RPlus (RAtom unit_char))))"

text \<open>\<open>TEMPERATURE: /(-?\d+\.?\d*)\s*?([FCK])\s+(?:to|in|into)\s+?([FCK])/i\<close>\<close>

definition TEMPERATURE :: jsre where
  "TEMPERATURE = Floating
     (RSeq (RGroup 1 number_rx) (RSeq (RLazy sp) (RSeq (RGroup 2 (RAtom (\<lambda>c. lower c \<in> set ''fck'')))
        (RSeq (RPlus sp) (RSeq to_in_into (RSeq (RPlusLazy sp)
           (RGroup 3 (RAtom (\<lambda>c. lower c \<in> set ''fck'')))))))))"

text \<open>\<open>UNIT_CONVERSION: /(?:convert\s+)?(-?\d+\.?\d*)\s*(units)\s+(?:to|in|into)\s+(units)/i\<close>\<close>

definition UNIT_CONVERSION :: jsre where
  "UNIT_CONVERSION = Floating
     (RSeq (ROpt (RSeq (RLitI ''convert'') (RPlus sp))) (RSeq (RGroup 1 number_rx) (RSeq (RStar sp)
        (RSeq (RGroup 2 unit_words) (RSeq (RPlus sp) (RSeq to_in_into (RSeq (RPlus sp)
           (RGroup 3 unit_words))))))))"

text \<open>\<open>SI_NOTATION: /(-?\d+\.?\d*)[eE][-+]?\d+/\<close>\<close>

definition SI_NOTATION :: jsre where
  "SI_NOTATION = Floating
     (RSeq (RGroup 1 number_rx) (RSeq (RSet ''eE'') (RSeq (ROpt (RSet ''-+'')) (RPlus digit))))"

text \<open>\<open>/^([yzafpn\<mu>mcdhkMGTPEZY])?([a-zA-Z]+)$/\<close> of \<open>convertSIPrefix\<close>\<close>

definition prefix_rx :: jsre where
  "prefix_rx = Anchored
     (RSeq (ROpt (RGroup 1 (RSet ''yzafpnmcdhkMGTPEZY''))) (RSeq (RGroup 2 (RPlus (RAtom is_alpha))) REnd))"

section \<open>\<open>UnitConversionParser\<close>\<close>

text \<open>
  A result of the parser: \<open>{value}\<close>, \<open>{value, unit, formatted}\<close> (the value
  \<open>None\<close> when it is \<open>NaN\<close>), or what \<open>formatSI\<close> returns (its value and
  \<open>formatted\<close>).
\<close>

datatype conv = ConvValue rat | Conv "rat option" string string | ConvSI "rat option" string

text \<open>
  The platform: \<open>unit_conv v from to\<close> is \<open>math.unit(v, from).toNumber(to)\<close>
  (\<open>None\<close> when mathjs throws), \<open>format_si input\<close> is \<open>formatSI(input)\<close>.
\<close>

record unit_env =
  unit_conv :: "rat \<Rightarrow> string \<Rightarrow> string \<Rightarrow> rat option"
  format_si :: "string \<Rightarrow> conv option"

text \<open>The table \<open>conversions[from][to]\<close> of \<open>convertTemperature\<close>.\<close>

definition temp_conversion :: "string \<Rightarrow> string \<Rightarrow> (rat \<Rightarrow> rat) option" where
  "temp_conversion f t =
     (if f = ''F'' \<and> t = ''C'' then Some fahrenheitToCelsius
      else if f = ''F'' \<and> t = ''K'' then Some fahrenheitToKelvin
      else if f = ''C'' \<and> t = ''F'' then Some celsiusToFahrenheit
      else if f = ''C'' \<and> t = ''K'' then Some celsiusToKelvin
      else if f = ''K'' \<and> t = ''F'' then Some kelvinToFahrenheit
      else if f = ''K'' \<and> t = ''C'' then Some kelvinToCelsius
      else None)"

text \<open>
  \<open>convertTemperature(value, from, to)\<close>: equal units give \<open>{value}\<close>; a pair
  missing from the table makes the call of \<open>undefined\<close> throw, and the catch
  gives \<open>null\<close>.
\<close>

definition convertTemperature :: "rat \<Rightarrow> string \<Rightarrow> string \<Rightarrow> conv option" where
  "convertTemperature v f t =
     (if f = t then Some (ConvValue v)
      else case temp_conversion f t of
             None \<Rightarrow> None
           | Some g \<Rightarrow> Some (Conv (Some (g v)) t (js_toFixed 2 (g v) @ [CHR 0xB0] @ t)))"

text \<open>\<open>String.prototype.toLowerCase\<close> on Latin-1.\<close>

definition js_lower :: "char \<Rightarrow> char" where
  "js_lower c =
     (let n = (of_char c :: nat) in
      if (65 \<le> n \<and> n \<le> 90) \<or> (192 \<le> n \<and> n \<le> 222 \<and> n \<noteq> 215) then char_of (n + 32) else c)"

definition unit_aliases :: "(string \<times> string) list" where
  "unit_aliases =
     [(''meters'', ''m''), (''meter'', ''m''), (''kilometer'', ''km''), (''kilometers'', ''km''),
      (''centimeter'', ''cm''), (''centimeters'', ''cm''), (''millimeter'', ''mm''), (''millimeters'', ''mm''),
      (''mile'', ''mi''), (''miles'', ''mi''), (''foot'', ''ft''), (''feet'', ''ft''), (''inch'', ''in''),
      (''inches'', ''in''), (''pound'', ''lbs''), (''pounds'', ''lbs''), (''kilogram'', ''kg''),
      (''kilograms'', ''kg''), (''gram'', ''g''), (''grams'', ''g''), (''second'', ''s''), (''seconds'', ''s''),
      (''minute'', ''min''), (''minutes'', ''min''), (''hour'', ''h''), (''hours'', ''h''), (''liter'', ''L''),
      (''liters'', ''L''), (''milliliter'', ''mL''), (''milliliters'', ''mL''), (''gallon'', ''gal''),
      (''gallons'', ''gal'')]"

text \<open>
  The properties every object inherits from \<open>Object.prototype\<close>: looking one
  of them up in \<open>unitAliases\<close> gives a function, not a unit name.
\<close>

definition proto_props :: "string list" where
  "proto_props = [''constructor'', ''hasOwnProperty'', ''isPrototypeOf'', ''propertyIsEnumerable'',
     ''toLocaleString'', ''toString'', ''valueOf'', ''__proto__'', ''__defineGetter__'',
     ''__defineSetter__'', ''__lookupGetter__'', ''__lookupSetter__'']"

text \<open>\<open>unitAliases[u.toLowerCase()] || u\<close>; \<open>None\<close>: an inherited function.\<close>

definition normalize_unit :: "string \<Rightarrow> string option" where
  "normalize_unit u =
     (let l = map js_lower u in
      case map_of unit_aliases l of Some a \<Rightarrow> Some a
      | None \<Rightarrow> if l \<in> set proto_props then None else Some u)"

text \<open>
  \<open>convertSIPrefix(value, fromUnit, toUnit)\<close>: both units split into an
  optional one-letter prefix and a base; equal bases scale the value.
\<close>

definition convertSIPrefix :: "rat \<Rightarrow> string \<Rightarrow> string \<Rightarrow> conv option" where
  "convertSIPrefix v fromU toU =
     (case (js_exec prefix_rx fromU, js_exec prefix_rx toU) of
        (Some (_, cf, _), Some (_, ct, _)) \<Rightarrow>
          if cf 2 = ct 2 then
            (let r = siPrefix v (case cf 1 of None \<Rightarrow> [] | Some p \<Rightarrow> p) (case ct 1 of None \<Rightarrow> [] | Some p \<Rightarrow> p)
             in Some (Conv r toU (fixed_or_nan 4 r @ '' '' @ toU)))
          else None
      | _ \<Rightarrow> None)"

text \<open>
  \<open>convertUnit(value, fromUnit, toUnit)\<close>: the normalised units through mathjs;
  when mathjs throws, the prefix conversion of the units as written.
\<close>

definition convertUnit :: "unit_env \<Rightarrow> rat \<Rightarrow> string \<Rightarrow> string \<Rightarrow> conv option" where
  "convertUnit env v fromU toU =
     (case (normalize_unit fromU, normalize_unit toU) of
        (Some nf, Some nt) \<Rightarrow>
          (case unit_conv env v nf nt of
             Some r \<Rightarrow> Some (Conv (Some r) nt (js_toFixed 4 r @ '' '' @ nt))
           | None \<Rightarrow> convertSIPrefix v fromU toU)
      | _ \<Rightarrow> convertSIPrefix v fromU toU)"

text \<open>
  \<open>UnitConversionParser.parse(input)\<close>: a temperature first, then a general
  conversion (units trimmed), then SI notation.
\<close>

definition unit_parse :: "unit_env \<Rightarrow> string \<Rightarrow> conv option" where
  "unit_parse env s =
     (case js_exec TEMPERATURE s of
        Some (_, c, _) \<Rightarrow> convertTemperature (parse_num (the (c 1))) (the (c 2)) (the (c 3))
      | None \<Rightarrow>
          (case js_exec UNIT_CONVERSION s of
             Some (_, c, _) \<Rightarrow> convertUnit env (parse_num (the (c 1))) (js_trim (the (c 2))) (js_trim (the (c 3)))
           | None \<Rightarrow> if js_test SI_NOTATION s then format_si env s else None))"

section \<open>Lemmas\<close>

lemma siPrefix_kilo: "siPrefix v ''k'' [] = Some (v / 1000) \<and> siPrefix v [] ''k'' = Some (v * 1000)"
  by (simp add: siPrefix_def si_prefixes_def)


end
