(* ===== verification/ParserVars.thy ===== *)
theory ParserVars
  imports ParserUnits "HOL-Library.AList" "HOL-Library.Code_Target_Nat"
begin

text \<open>
  The values, results and variable store of the input handler of
  \<^verbatim>\<open>src/src/utils/compromiseDateParser6.js\<close>: the JavaScript values the
  handler passes around, the platform (mathjs, \<open>Number.prototype.toString\<close>
  and the compromise-based steps of \<open>LanguageParser.parse\<close>) as the record
  \<open>penv\<close>, the patterns \<open>PURE_MATH\<close> and \<open>VARIABLE_ASSIGNMENT\<close>, the store
  \<open>variables\<close> with the key order of \<open>Object.keys\<close>, both
  \<open>replaceVariables\<close>, \<open>MathParser.parse\<close>, step 1 of
  \<open>LanguageParser.parse\<close>, the match of \<open>handleVariableAssignment\<close> and the
  formula branch of \<open>handleInput\<close>.
\<close>
section \<open>Values and results\<close>

text \<open>
  A JavaScript value as far as the handler looks at it: \<open>undefined\<close>,
  \<open>NaN\<close>, an infinity (\<open>True\<close> for \<open>+Infinity\<close>), a finite number, a
  string, or another object printed by its \<open>toString\<close>.
\<close>

datatype jsval = JUndef | JNaN | JInf bool | JNum rat | JStr string | JObj string

text \<open>
  What \<open>handleInput\<close> returns: \<open>null\<close>, \<open>{value}\<close>, a formula
  \<open>{value, type: 'formula', original}\<close>, a unit conversion, or
  \<open>{success: false, error, type}\<close> (\<open>None\<close> for an absent \<open>type\<close>).
\<close>

datatype hres = HNull | HVal jsval | HFormula jsval string | HConv conv | HFail string "string option"

text \<open>
  The platform: \<open>pe_eval e\<close> is \<open>math.evaluate(e)\<close> and \<open>pe_eval_fns e\<close>
  \<open>math.evaluate(e, predefinedFunctions)\<close> (\<open>None\<close> when they throw),
  \<open>pe_num\<close> is \<open>String\<close> of a number. \<open>pe_dates s\<close> is what the
  compromise-based steps of \<open>LanguageParser.parse(s)\<close> (the date cache,
  \<open>handleDateArithmetic\<close>, \<open>handleExtractEvent\<close>, \<open>handleGetWeekRange\<close>,
  \<open>handleDateProcessing\<close>) return, \<open>HNull\<close> when none answers and \<open>None\<close>
  when \<open>nlp\<close> throws; \<open>pe_numbers s\<close> says whether \<open>doc.numbers()\<close> or
  \<open>doc.match('#Percent')\<close> finds anything.
\<close>

record penv =
  pe_units :: unit_env
  pe_eval :: "string \<Rightarrow> jsval option"
  pe_eval_fns :: "string \<Rightarrow> jsval option"
  pe_num :: "rat \<Rightarrow> string"
  pe_dates :: "string \<Rightarrow> hres option"
  pe_numbers :: "string \<Rightarrow> bool"

text \<open>\<open>String(v)\<close>.\<close>

fun js_string :: "penv \<Rightarrow> jsval \<Rightarrow> string" where
  "js_string env JUndef = ''undefined''"
| "js_string env JNaN = ''NaN''"
| "js_string env (JInf b) = (if b then ''Infinity'' else ''-Infinity'')"
| "js_string env (JNum r) = pe_num env r"
| "js_string env (JStr s) = s"
| "js_string env (JObj s) = s"

definition num_val :: "rat option \<Rightarrow> jsval" where
  "num_val r = (case r of None \<Rightarrow> JNaN | Some x \<Rightarrow> JNum x)"

text \<open>\<open>resolvedValue.value\<close>: the \<open>value\<close> property of a result.\<close>

fun value_of :: "hres \<Rightarrow> jsval" where
  "value_of (HVal v) = v"
| "value_of (HFormula v _) = v"
| "value_of (HConv (ConvValue r)) = JNum r"
| "value_of (HConv (Conv r _ _)) = num_val r"
| "value_of (HConv (ConvSI r _)) = num_val r"
| "value_of _ = JUndef"

text \<open>\<open>parser.parse(...) || {success: false, error: 'Could not parse input'}\<close>\<close>

definition or_fail :: "hres \<Rightarrow> hres" where
  "or_fail r = (if r = HNull then HFail ''Could not parse input'' None else r)"

definition conv_result :: "conv option \<Rightarrow> hres" where
  "conv_result r = (case r of None \<Rightarrow> HNull | Some c \<Rightarrow> HConv c)"

section \<open>Patterns\<close>

definition math_char :: "char \<Rightarrow> bool" where
  "math_char c \<longleftrightarrow> is_digit c \<or> c \<in> set ''+-*/().'' \<or> is_space c"

text \<open>\<open>PURE_MATH: /^[0-9+\-*/().\s]+$/\<close>\<close>

definition PURE_MATH :: jsre where
  "PURE_MATH = Anchored (RSeq (RPlus (RAtom math_char)) REnd)"

text \<open>\<open>VARIABLE_ASSIGNMENT: /^(\w+)\s*[:=]\s*(.+)$/\<close>\<close>

definition VARIABLE_ASSIGNMENT :: jsre where
  "VARIABLE_ASSIGNMENT = Anchored
     (RSeq (RGroup 1 (RPlus (RAtom is_word))) (RSeq (RStar sp) (RSeq (RSet '':='')
        (RSeq (RStar sp) (RSeq (RGroup 2 (RPlus (RAtom is_dot))) REnd)))))"

section \<open>Variables\<close>

text \<open>
  The store \<open>variables\<close> (a \<open>Proxy\<close> whose \<open>set\<close> trap only assigns), as an
  association list in insertion order.
\<close>

type_synonym vars = "(string \<times> jsval) list"

text \<open>
  \<open>Object.keys\<close>: array indices (canonical numerals below \<open>2^32 - 1\<close>) in
  ascending order, then the other keys in insertion order.
\<close>

definition is_index :: "string \<Rightarrow> bool" where
  "is_index k \<longleftrightarrow> k \<noteq> [] \<and> list_all is_digit k \<and> (k = ''0'' \<or> hd k \<noteq> CHR ''0'') \<and>
     parse_dec k < 4294967295"

definition js_keys :: "vars \<Rightarrow> string list" where
  "js_keys vs = sort_key parse_dec (filter is_index (map fst vs)) @ filter (Not \<circ> is_index) (map fst vs)"

text \<open>\<open>variableNames.sort((a, b) => b.length - a.length)\<close>, a stable sort.\<close>

definition var_names :: "vars \<Rightarrow> string list" where
  "var_names vs = sort_key (\<lambda>k. - int (length k)) (js_keys vs)"

text \<open>The loop replacing each \<open>\b name \b\<close> by \<open>String(variables[name])\<close>.\<close>

definition replace_vars :: "penv \<Rightarrow> vars \<Rightarrow> string \<Rightarrow> string" where
  "replace_vars env vs s =
     foldl (\<lambda>acc k. replace_word k (js_string env (case map_of vs k of Some v \<Rightarrow> v | None \<Rightarrow> JUndef)) acc 0)
       s (var_names vs)"

text \<open>\<open>MathParser.replaceVariables\<close>; \<open>isEmptyObject(variables)\<close> is \<open>vs = []\<close>.\<close>

definition mp_replaceVariables :: "penv \<Rightarrow> vars \<Rightarrow> string \<Rightarrow> string" where
  "mp_replaceVariables env vs s = (if vs = [] then s else replace_vars env vs s)"

text \<open>\<open>LanguageParser.replaceVariables\<close>: a pure arithmetic result is evaluated.\<close>

definition lp_replaceVariables :: "penv \<Rightarrow> vars \<Rightarrow> string \<Rightarrow> string" where
  "lp_replaceVariables env vs s =
     (if vs = [] then s
      else let m = replace_vars env vs s in
           if js_test PURE_MATH m then (case pe_eval env m of Some v \<Rightarrow> js_string env v | None \<Rightarrow> m)
           else m)"

section \<open>Parsers\<close>

text \<open>\<open>MathParser.parse\<close>\<close>

definition math_parse :: "penv \<Rightarrow> vars \<Rightarrow> string \<Rightarrow> hres" where
  "math_parse env vs s =
     (let m = mp_replaceVariables env vs s in
      if js_test PURE_MATH m then (case pe_eval env m of Some v \<Rightarrow> HVal v | None \<Rightarrow> HNull)
      else HNull)"

text \<open>Step 1 of \<open>LanguageParser.parse\<close>: \<open>None\<close> lets the parse go on.\<close>

definition lang_math :: "penv \<Rightarrow> vars \<Rightarrow> string \<Rightarrow> hres option" where
  "lang_math env vs s =
     (let m = lp_replaceVariables env vs s in
      if js_test PURE_MATH m then (case pe_eval env m of Some v \<Rightarrow> Some (HVal v) | None \<Rightarrow> None)
      else None)"

text \<open>
  \<open>input.match(VARIABLE_ASSIGNMENT)\<close> in \<open>handleVariableAssignment\<close>: the
  name and the expression (a match sets both groups).
\<close>

definition assignment_match :: "string \<Rightarrow> (string \<times> string) option" where
  "assignment_match s =
     (case js_exec VARIABLE_ASSIGNMENT s of
        Some (_, c, _) \<Rightarrow> (case (c 1, c 2) of (Some n, Some e) \<Rightarrow> Some (n, e) | _ \<Rightarrow> None)
      | None \<Rightarrow> None)"

text \<open>The formula branch of \<open>handleInput\<close>, for an input starting with \<open>=\<close>.\<close>

definition formula_result :: "penv \<Rightarrow> vars \<Rightarrow> string \<Rightarrow> hres" where
  "formula_result env vs s =
     (let f = js_trim (drop 1 s) in
      if f = [] then HNull
      else case pe_eval_fns env (mp_replaceVariables env vs f) of
             Some v \<Rightarrow> HFormula v s
           | None \<Rightarrow> HNull)"

section \<open>Lemmas\<close>

lemma js_trim_length: "length (js_trim s) \<le> length s"
proof -
  have "length (js_trim s) \<le> length (dropWhile is_space s)"
    unfolding js_trim_def by (metis length_dropWhile_le length_rev)
  also have "\<dots> \<le> length s" by (rule length_dropWhile_le)
  finally show ?thesis .
qed

text \<open>The expression of an assignment is a strict part of the input.\<close>

lemma assignment_match_shorter:
  assumes "assignment_match s = Some (n, e)"
  shows "length e < length s"
proof -
  let ?r1 = "RGroup 1 (RPlus (RAtom is_word))"
  let ?r2 = "RSeq (RStar sp) (RSeq (RSet '':='') (RSeq (RStar sp) (RSeq (RGroup 2 (RPlus (RAtom is_dot))) REnd)))"
  obtain c rest l where b: "bt (RSeq ?r1 ?r2) s no_caps = (c, rest) # l" and e: "c 2 = Some e"
    using assms by (auto simp: assignment_match_def js_exec_def VARIABLE_ASSIGNMENT_def
                        split: list.splits option.splits prod.splits)
  have m: "(c, rest) \<in> set (bt (RSeq ?r1 ?r2) s no_caps)" using b by simp
  show ?thesis
  proof (rule bt_seq_group_shorter [OF m e])
    show "2 \<notin> rx_groups ?r1" by (simp add: RPlus_def)
    show "no_caps 2 = None" by (simp add: no_caps_def)
  next
    fix c1 s1
    assume "(c1, s1) \<in> set (bt ?r1 s no_caps)"
    then show "length s1 < length s" by (rule bt_plus_atom_shorter)
  qed
qed

end
