(* ===== verification/ParserLanguage.thy ===== *)
theory ParserLanguage
  imports ParserVars
begin

text \<open>
  The steps of \<open>LanguageParser.parse\<close> in
  \<^verbatim>\<open>src/src/utils/compromiseDateParser6.js\<close> after the variable assignment
  that do not need compromise: \<open>handleNumbersAndPercentages\<close> (the
  percentage rewriting, the \<open>PERCENTAGE\<close> replacement, the natural-language
  function patterns \<open>nlPatterns\<close> with the \<open>predefinedFunctions\<close> they call)
  and \<open>handleProportions\<close>, composed with the compromise-based steps
  (\<open>pe_dates\<close>, \<open>pe_numbers\<close>) in the order \<open>parse\<close> tries them.
\<close>

section \<open>Global matching\<close>

text \<open>
  \<open>s.match(re)\<close> and \<open>s.replace(re, f)\<close> with the \<open>g\<close> flag, for patterns
  without anchors or word boundaries, where searching from \<open>lastIndex\<close> is
  searching the rest of the string: each search starts after the previous
  match, one character later when that match was empty.
\<close>

function match_all :: "rx \<Rightarrow> string \<Rightarrow> string list" where
  "match_all r s =
     (case exec_from r s 0 of
        None \<Rightarrow> []
      | Some (i, c, rest) \<Rightarrow>
          take (length s - i - length rest) (drop i s) #
            (if length rest < length s - i then match_all r rest
             else case rest of [] \<Rightarrow> [] | _ # r' \<Rightarrow> match_all r r'))"
  by pat_completeness auto
termination
  by (relation "measure (\<lambda>(r, s). length s)") (auto dest!: exec_from_rest simp del: exec_from.simps)

declare match_all.simps [simp del]

function replace_g :: "rx \<Rightarrow> (string \<Rightarrow> caps \<Rightarrow> string) \<Rightarrow> string \<Rightarrow> string" where
  "replace_g r f s =
     (case exec_from r s 0 of
        None \<Rightarrow> s
      | Some (i, c, rest) \<Rightarrow>
          take i s @ f (take (length s - i - length rest) (drop i s)) c @
            (if length rest < length s - i then replace_g r f rest
             else case rest of [] \<Rightarrow> [] | x # r' \<Rightarrow> x # replace_g r f r'))"
  by pat_completeness auto
termination
  by (relation "measure (\<lambda>(r, f, s). length s)") (auto dest!: exec_from_rest simp del: exec_from.simps)

declare replace_g.simps [simp del]

text \<open>A capture group that took part (\<open>[]\<close> stands for \<open>undefined\<close>, which no pattern here leaves).\<close>

definition cap :: "caps \<Rightarrow> nat \<Rightarrow> string" where
  "cap c n = (case c n of Some g \<Rightarrow> g | None \<Rightarrow> [])"

text \<open>A sequence of patterns.\<close>

fun RCat :: "rx list \<Rightarrow> rx" where
  "RCat [] = REps"
| "RCat [r] = r"
| "RCat (r # rs) = RSeq r (RCat rs)"

text \<open>\<open>String.prototype.includes\<close>\<close>

definition js_includes :: "string \<Rightarrow> string \<Rightarrow> bool" where
  "js_includes t p \<longleftrightarrow> list_ex (\<lambda>i. take (length p) (drop i t) = p) [0..<Suc (length t)]"

section \<open>Numbers\<close>

text \<open>
  Division and scaling of JavaScript numbers: a nonzero number over zero is an
  infinity of its sign, \<open>0/0\<close> is \<open>NaN\<close>, and a positive factor keeps both.
\<close>

definition js_div :: "rat \<Rightarrow> rat \<Rightarrow> jsval" where
  "js_div a b =
     (if b \<noteq> 0 then JNum (a / b) else if 0 < a then JInf True else if a < 0 then JInf False else JNaN)"

definition js_scale :: "rat \<Rightarrow> jsval \<Rightarrow> jsval" where
  "js_scale k v = (case v of JNum x \<Rightarrow> JNum (x * k) | _ \<Rightarrow> v)"

text \<open>\<open>Number.prototype.toFixed\<close> of a value that may not be finite.\<close>

definition js_toFixed_val :: "nat \<Rightarrow> jsval \<Rightarrow> string" where
  "js_toFixed_val f v =
     (case v of JNum x \<Rightarrow> js_toFixed f x | JInf b \<Rightarrow> (if b then ''Infinity'' else ''-Infinity'') | _ \<Rightarrow> ''NaN'')"

section \<open>\<open>predefinedFunctions\<close> and \<open>nlPatterns\<close>\<close>

text \<open>
  The functions of \<open>predefinedFunctions\<close> with rational results, called with
  the numbers found in the text: a missing argument is \<open>undefined\<close>, which
  makes the result \<open>NaN\<close>; extra arguments are ignored. \<open>None\<close> for the
  functions mathjs computes (\<open>stddev\<close>, \<open>factorial\<close>) and for
  \<open>compound_interest\<close>, whose \<open>Math.pow\<close> with a fractional exponent is
  irrational.
\<close>

fun median_of :: "rat list \<Rightarrow> rat" where
  "median_of xs =
     (let ys = sort xs; n = length ys in
      if even n then (ys ! (n div 2 - 1) + ys ! (n div 2)) / 2 else ys ! (n div 2))"

definition predefined :: "string \<Rightarrow> rat list \<Rightarrow> jsval option" where
  "predefined f xs =
     (let a = (\<lambda>i. xs ! i); n = length xs in
      if f = ''sum'' then Some (JNum (sum_list xs))
      else if f = ''avg'' then Some (if n = 0 then JNaN else JNum (sum_list xs / of_nat n))
      else if f = ''median'' then Some (if n = 0 then JNaN else JNum (median_of xs))
      else if f = ''percentage'' then Some (if n < 2 then JNaN else js_scale 100 (js_div (a 0) (a 1)))
      else if f = ''roi'' then Some (if n < 2 then JNaN else js_scale 100 (js_div (a 0 - a 1) (a 1)))
      else if f = ''break_even'' then Some (if n < 3 then JNaN else js_div (a 0) (a 1 - a 2))
      else if f = ''velocity'' then Some (if n < 2 then JNaN else js_div (a 0) (a 1))
      else if f = ''burn_rate'' then Some (if n < 3 then JNaN else js_div (a 0 - a 1) (a 2))
      else if f = ''pert'' then Some (if n < 3 then JNaN else JNum ((a 0 + 4 * a 1 + a 2) / 6))
      else if f = ''cycle_time'' then Some (if n < 2 then JNaN else js_div (a 1) (a 0))
      else if f = ''lead_time'' then Some (if n < 2 then JNaN else JNum (a 1 - a 0))
      else if f = ''communication_channels'' then Some (if n < 1 then JNaN else JNum (a 0 * (a 0 - 1) / 2))
      else if f = ''resource_utilization'' then Some (if n < 2 then JNaN else js_scale 100 (js_div (a 0) (a 1)))
      else if f = ''resource_overallocation'' then Some (if n < 2 then JNaN else JNum (a 0 - a 1))
      else if f = ''variance'' then Some (if n < 2 then JNaN else js_scale 100 (js_div (a 0 - a 1) (a 1)))
      else None)"

text \<open>\<open>math.evaluate(`${func}(${numbers.join(',')})`, predefinedFunctions)\<close>\<close>

definition call_fn :: "penv \<Rightarrow> string \<Rightarrow> string list \<Rightarrow> jsval option" where
  "call_fn env f ns =
     (case predefined f (map parse_num ns) of
        Some v \<Rightarrow> Some v
      | None \<Rightarrow> pe_eval_fns env (f @ ''('' @ js_join '','' ns @ '')''))"

definition nlPatterns :: "(string \<times> string list) list" where
  "nlPatterns =
     [(''sum'', [''sum of'', ''total of'', ''add'']), (''avg'', [''average of'', ''mean of'', ''avg of'']),
      (''median'', [''median of'']), (''stddev'', [''standard deviation of'', ''std dev of'']),
      (''factorial'', [''factorial of'']), (''percentage'', [''percentage of'', ''percent of'']),
      (''roi'', [''return on investment of'', ''roi of'']),
      (''compound_interest'', [''compound interest of'', ''interest on'']),
      (''break_even'', [''break even point of'', ''break-even of'']), (''velocity'', [''velocity of'', ''speed of'']),
      (''burn_rate'', [''burn rate of'', ''burning rate of'']), (''pert'', [''pert of'']),
      (''cycle_time'', [''cycle time of'']), (''lead_time'', [''lead time of'']),
      (''communication_channels'', [''comms channels of'', ''communication channels of'']),
      (''resource_utilization'', [''resource utilization of'']),
      (''resource_overallocation'', [''resource allocation of'']), (''variance'', [''variance of''])]"

text \<open>\<open>/\d+(\.\d+)?/g\<close>\<close>

definition num_rx :: rx where
  "num_rx = RSeq (RPlus digit) (ROpt (RGroup 1 (RSeq (RLit ''.'') (RPlus digit))))"

text \<open>
  The two loops over \<open>Object.entries(nlPatterns)\<close> and their patterns: the
  first pattern the text includes, when the text has numbers, evaluates its
  function on them; \<open>HNull\<close> is \<open>null\<close>.
\<close>

fun nl_loop :: "penv \<Rightarrow> string \<Rightarrow> (string \<times> string) list \<Rightarrow> hres" where
  "nl_loop env t [] = HNull"
| "nl_loop env t ((f, p) # ps) =
     (if js_includes t p then
        (let ns = match_all num_rx t in
         if ns \<noteq> [] then (case call_fn env f ns of Some v \<Rightarrow> HVal v | None \<Rightarrow> HNull)
         else nl_loop env t ps)
      else nl_loop env t ps)"

definition nl_entries :: "(string \<times> string) list" where
  "nl_entries = concat (map (\<lambda>(f, ps). map (Pair f) ps) nlPatterns)"

text \<open>\<open>toLowerCase().replace(/[.,]/g, '').replace(/\s+/g, ' ').trim()\<close>\<close>

definition clean_text :: "string \<Rightarrow> string" where
  "clean_text s =
     js_trim (replace_g (RPlus sp) (\<lambda>_ _. '' '') (replace_g (RSet ''.,'') (\<lambda>_ _. []) (map js_lower s)))"

section \<open>Percentages\<close>

text \<open>\<open>PERCENTAGE: /(\d+)%/g\<close> and \<open>PERCENTAGE_OF: /% of /g\<close>\<close>

definition PERCENTAGE :: rx where
  "PERCENTAGE = RSeq (RGroup 1 (RPlus digit)) (RLit ''%'')"

definition PERCENTAGE_OF :: rx where
  "PERCENTAGE_OF = RLit ''% of ''"

text \<open>\<open>/(\d+(\.\d+)?)\s*OP\s*(\d+(\.\d+)?)%/g\<close> for an operator \<open>OP\<close>.\<close>

definition pct_rx :: "char \<Rightarrow> rx" where
  "pct_rx op = RCat
     [RGroup 1 (RSeq (RPlus digit) (ROpt (RGroup 2 (RSeq (RLit ''.'') (RPlus digit))))), RStar sp,
      RAtom (\<lambda>c. c = op), RStar sp,
      RGroup 3 (RSeq (RPlus digit) (ROpt (RGroup 4 (RSeq (RLit ''.'') (RPlus digit))))), RLit ''%'']"

text \<open>The four normalisations of \<open>X OP Y%\<close>, in the order of the code.\<close>

definition percent_rewrite :: "string \<Rightarrow> string" where
  "percent_rewrite m =
     replace_g (pct_rx CHR ''/'') (\<lambda>_ c. cap c 1 @ '' / ('' @ cap c 3 @ '' / 100)'')
      (replace_g (pct_rx CHR ''*'') (\<lambda>_ c. cap c 1 @ '' * ('' @ cap c 3 @ '' / 100)'')
        (replace_g (pct_rx CHR ''-'') (\<lambda>_ c. cap c 1 @ '' - ('' @ cap c 1 @ '' * '' @ cap c 3 @ '' / 100)'')
          (replace_g (pct_rx CHR ''+'') (\<lambda>_ c. cap c 1 @ '' + ('' @ cap c 1 @ '' * '' @ cap c 3 @ '' / 100)'') m)))"

text \<open>\<open>X% \<mapsto> String(parseFloat(X) / 100)\<close> after \<open>% of \<mapsto> % * \<close>.\<close>

definition percent_expression :: "penv \<Rightarrow> string \<Rightarrow> string" where
  "percent_expression env m =
     replace_g PERCENTAGE (\<lambda>_ c. js_string env (JNum (parse_num (cap c 1) / 100)))
       (replace_g PERCENTAGE_OF (\<lambda>_ _. ''% * '') m)"

section \<open>\<open>handleNumbersAndPercentages\<close> and \<open>handleProportions\<close>\<close>

definition has_percent_op :: "string \<Rightarrow> bool" where
  "has_percent_op m \<longleftrightarrow> CHR ''%'' \<in> set m \<and> list_ex (\<lambda>c. c \<in> set m) ''+-*/''"

text \<open>
  \<open>handleNumbersAndPercentages\<close> after its first block, on the modified input
  \<open>m\<close> and the input \<open>s\<close>: nothing without numbers, else the percentage
  rewriting, the \<open>PERCENTAGE\<close> replacement and, when the result is not pure
  arithmetic, the natural-language functions.
\<close>

definition numbers_rest :: "penv \<Rightarrow> string \<Rightarrow> string \<Rightarrow> hres" where
  "numbers_rest env m s =
     (if \<not> pe_numbers env s then HNull
      else
        (let m' = (if has_percent_op m then percent_rewrite m else m);
             e = percent_expression env m'
         in if js_test PURE_MATH e then (case pe_eval env e of Some v \<Rightarrow> HVal v | None \<Rightarrow> HNull)
            else nl_loop env (clean_text m') nl_entries))"

text \<open>\<open>handleNumbersAndPercentages(doc, input)\<close>\<close>

definition numbers_percentages :: "penv \<Rightarrow> vars \<Rightarrow> string \<Rightarrow> hres" where
  "numbers_percentages env vs s =
     (let m = lp_replaceVariables env vs s in
      case (if js_test PURE_MATH m then pe_eval env m else None) of
        Some v \<Rightarrow> HVal v
      | None \<Rightarrow> numbers_rest env m s)"

text \<open>\<open>PROPORTION\<close> (with the \<open>i\<close> flag)\<close>

definition dec_rx :: rx where
  "dec_rx = RSeq (RPlus digit) (ROpt (RSeq (RLit ''.'') (RPlus digit)))"

definition PROPORTION :: jsre where
  "PROPORTION = Floating (RCat
     [RLitI ''if'', RPlus sp, RGroup 1 dec_rx, RStar sp, RGroup 2 (RPlus (RAtom is_alpha)), RPlus sp,
      RLitI ''requires'', RPlus sp, RGroup 3 dec_rx, RStar sp, RGroup 4 (RPlus (RAtom is_alpha)), RPlus sp,
      RLitI ''than'', RPlus sp, RGroup 5 dec_rx, RStar sp, RGroup 6 (RPlus (RAtom is_alpha)), RPlus sp,
      RLitI ''requires'', RStar sp, RLit ''??''])"

definition handleProportions :: "penv \<Rightarrow> string \<Rightarrow> hres" where
  "handleProportions env s =
     (case js_exec PROPORTION s of
        None \<Rightarrow> HNull
      | Some (_, c, _) \<Rightarrow>
          (let x1 = parse_num (cap c 1); y1 = parse_num (cap c 3); x2 = parse_num (cap c 5)
           in HVal (JStr (js_string env (JNum x2) @ '' '' @ cap c 6 @ '' requires '' @
                          js_toFixed_val 2 (js_div (y1 * x2) x1) @ '' '' @ cap c 4))))"

text \<open>
  \<open>LanguageParser.parse\<close> after the variable assignment: the compromise-based
  steps, then numbers and percentages, then proportions, each result that is not
  \<open>null\<close> returned; the \<open>catch\<close> gives \<open>null\<close>.
\<close>

definition lang_rest :: "penv \<Rightarrow> vars \<Rightarrow> string \<Rightarrow> hres" where
  "lang_rest env vs s =
     (case pe_dates env s of
        None \<Rightarrow> HNull
      | Some r \<Rightarrow>
          if r \<noteq> HNull then r
          else (let n = numbers_percentages env vs s in if n \<noteq> HNull then n else handleProportions env s))"

section \<open>Lemmas\<close>

text \<open>
  The first block of \<open>handleNumbersAndPercentages\<close> repeats step 1 of
  \<open>parse\<close>; after a step 1 that did not answer it never answers.
\<close>

lemma numbers_percentages_after_step1:
  "lang_math env vs s = None \<Longrightarrow>
     numbers_percentages env vs s = numbers_rest env (lp_replaceVariables env vs s) s"
  by (simp add: lang_math_def numbers_percentages_def Let_def split: if_splits option.splits)

text \<open>
  \<open>cleanText.includes('add')\<close> holds for any word containing \<open>add\<close>: a line
  such as \<open>padding 5px\<close> is answered by \<open>sum(5)\<close>.
\<close>

lemma padding_is_a_sum:
  assumes "pe_numbers env ''padding 5px''"
  shows "numbers_percentages env [] ''padding 5px'' = HVal (JNum 5)"
proof -
  have "js_test PURE_MATH ''padding 5px'' = False" by code_simp
  moreover have "has_percent_op ''padding 5px'' = False" by code_simp
  moreover have "percent_expression env ''padding 5px'' = ''padding 5px''" by code_simp
  moreover have "nl_loop env (clean_text ''padding 5px'') nl_entries = HVal (JNum 5)" by code_simp
  ultimately show ?thesis using assms
    by (simp add: numbers_percentages_def numbers_rest_def lp_replaceVariables_def)
qed

text \<open>
  \<open>PERCENTAGE\<close> reads only the digits before \<open>%\<close>: in \<open>12.5%\<close> it replaces
  \<open>5%\<close>, giving \<open>12.0.05\<close>.
\<close>

lemma decimal_percentage_split:
  "percent_expression env ''12.5% of 80'' = ''12.'' @ pe_num env (1 / 20) @ '' * 80''"
  by code_simp simp

text \<open>A proportion whose first quantity is 0 answers \<open>Infinity\<close>.\<close>

lemma proportion_by_zero:
  "handleProportions env ''if 0 apples requires 3 cups than 4 apples requires ??'' =
     HVal (JStr (pe_num env 4 @ '' apples requires Infinity cups''))"
  by code_simp simp

text \<open>The pattern wants \<open>than\<close>: the same question with \<open>then\<close> is not a proportion.\<close>

lemma proportion_needs_than:
  "handleProportions env ''if 2 apples requires 3 cups then 4 apples requires ??'' = HNull"
  by code_simp

end
