(* ===== verification/ParserRouter.thy ===== *)
theory ParserRouter
  imports ParserLanguage
begin

text \<open>
  The router and the input handler of
  \<^verbatim>\<open>src/src/utils/compromiseDateParser6.js\<close>: the patterns and
  \<open>decideParser\<close> of \<open>ParserRouter\<close>, and \<open>handleInput\<close>, whose language
  branch is \<open>LanguageParser.parse\<close>: step 1, then
  \<open>handleVariableAssignment\<close>, which calls \<open>handleInput\<close> back on the
  assigned expression, then the later steps (\<open>lang_rest\<close>).
\<close>

section \<open>Patterns of the router\<close>

text \<open>The router's \<open>math\<close> pattern \<open>/^[\d\s+\-*/().]+$/\<close>.\<close>

definition router_math :: jsre where
  "router_math = Anchored
     (RSeq (RPlus (RAtom (\<lambda>c. is_digit c \<or> is_space c \<or> c \<in> set ''+-*/().''))) REnd)"

definition router_unit_char :: "char \<Rightarrow> bool" where
  "router_unit_char c \<longleftrightarrow> is_alpha c \<or> c = CHR 0xB0"

text \<open>
  The router's \<open>unit\<close> pattern
  \<open>/(?:convert\s+)?\d+\.?\d*\s*[a-zA-Z\<degree>]+\s+(?:to|in|into)\s+[a-zA-Z\<degree>]+/i\<close>.
\<close>

definition router_unit :: jsre where
  "router_unit = Floating
     (RSeq (ROpt (RSeq (RLitI ''convert'') (RPlus sp))) (RSeq (RPlus digit) (RSeq (ROpt (RLit ''.''))
        (RSeq (RStar digit) (RSeq (RStar sp) (RSeq (RPlus (RAtom router_unit_char))
           (RSeq (RPlus sp) (RSeq to_in_into (RSeq (RPlus sp) (RPlus (RAtom router_unit_char)))))))))))"

text \<open>
  The router's \<open>language\<close> pattern
  \<open>/\b(next|last|ago|from|later|in)\b|\b(monday|...|sunday)\b/i\<close>: one of
  the words, in any case, between word boundaries.
\<close>

definition lang_words :: "string list" where
  "lang_words = [''next'', ''last'', ''ago'', ''from'', ''later'', ''in'', ''monday'', ''tuesday'',
     ''wednesday'', ''thursday'', ''friday'', ''saturday'', ''sunday'']"

definition kw_at :: "string \<Rightarrow> string \<Rightarrow> nat \<Rightarrow> bool" where
  "kw_at s w i \<longleftrightarrow> i + length w \<le> length s \<and> map lower (take (length w) (drop i s)) = w \<and>
     (i = 0 \<or> \<not> is_word (s ! (i - 1))) \<and> (length s = i + length w \<or> \<not> is_word (s ! (i + length w)))"

definition router_language :: "string \<Rightarrow> bool" where
  "router_language s \<longleftrightarrow> list_ex (\<lambda>i. list_ex (\<lambda>w. kw_at s w i) lang_words) [0..<Suc (length s)]"

section \<open>\<open>ParserRouter.decideParser\<close>\<close>

datatype ptype = PMath | PUnit | PLanguage

text \<open>\<open>this.patterns\<close>, a \<open>Map\<close> iterated in insertion order.\<close>

definition router_patterns :: "(ptype \<times> (string \<Rightarrow> bool)) list" where
  "router_patterns = [(PMath, js_test router_math), (PUnit, js_test router_unit), (PLanguage, router_language)]"

text \<open>\<open>new ParserError(message, type)\<close>\<close>

datatype parser_error = ParserError string string

text \<open>\<open>decideParser\<close>: \<open>Inl\<close> the \<open>ParserError\<close> it throws on blank input.\<close>

definition decideParser :: "string \<Rightarrow> parser_error + ptype" where
  "decideParser s =
     (if js_trim s = [] then Inl (ParserError ''Empty input'' ''VALIDATION_ERROR'')
      else case find (\<lambda>(t, p). p s) router_patterns of
             Some (t, _) \<Rightarrow> Inr t
           | None \<Rightarrow> Inr PLanguage)"

section \<open>\<open>handleInput\<close>\<close>

text \<open>
  \<open>handleInput(inputText)\<close> with the store: the result and the store after.
  The language branch is \<open>LanguageParser.parse\<close>: step 1, then
  \<open>handleVariableAssignment\<close>, which resolves the expression by a call of
  \<open>handleInput\<close> and stores its \<open>value\<close> unless it is \<open>null\<close>; a \<open>null\<close>
  resolution lets the parse go on to the natural-language steps.
\<close>

partial_function (option) handleInput :: "penv \<Rightarrow> vars \<Rightarrow> string \<Rightarrow> (hres \<times> vars) option" where
  "handleInput env vs s =
     (if take 1 s = ''='' then Some (formula_result env vs s, vs)
      else case decideParser s of
        Inl (ParserError m t) \<Rightarrow> Some (HFail m (Some t), vs)
      | Inr PMath \<Rightarrow> Some (or_fail (math_parse env vs s), vs)
      | Inr PUnit \<Rightarrow> Some (or_fail (conv_result (unit_parse (pe_units env) s)), vs)
      | Inr PLanguage \<Rightarrow>
          (case lang_math env vs s of
             Some r \<Rightarrow> Some (r, vs)
           | None \<Rightarrow>
               (case assignment_match s of
                  None \<Rightarrow> Some (or_fail (lang_rest env vs s), vs)
                | Some (n, e) \<Rightarrow>
                    Option.bind (handleInput env vs (js_trim e))
                      (\<lambda>(r, vs'). if r = HNull then Some (or_fail (lang_rest env vs s), vs')
                                  else Some (r, AList.update n (value_of r) vs')))))"

declare handleInput.simps [code]

text \<open>
  A sample platform on which mathjs evaluates nothing and the
  natural-language steps find nothing.
\<close>

definition silent_penv :: penv where
  "silent_penv = \<lparr>pe_units = \<lparr>unit_conv = (\<lambda>_ _ _. None), format_si = (\<lambda>_. None)\<rparr>,
     pe_eval = (\<lambda>_. None), pe_eval_fns = (\<lambda>_. None), pe_num = (\<lambda>_. ''5''),
     pe_dates = (\<lambda>_. Some HNull), pe_numbers = (\<lambda>_. False)\<rparr>"

section \<open>Lemmas\<close>

text \<open>The router's arithmetic pattern is \<open>PURE_MATH\<close>.\<close>

lemma router_math_eq: "router_math = PURE_MATH"
proof -
  have "(\<lambda>c. is_digit c \<or> is_space c \<or> c \<in> set ''+-*/().'') = math_char"
    by (auto simp: math_char_def)
  then show ?thesis by (simp add: router_math_def PURE_MATH_def)
qed

text \<open>
  \<open>decideParser\<close> never needs its \<open>language\<close> pattern: whatever it says, the
  answer is \<open>language\<close>.
\<close>

lemma decideParser_eq:
  "decideParser s =
     (if js_trim s = [] then Inl (ParserError ''Empty input'' ''VALIDATION_ERROR'')
      else if js_test PURE_MATH s then Inr PMath
      else if js_test router_unit s then Inr PUnit
      else Inr PLanguage)"
  by (simp add: decideParser_def router_patterns_def router_math_eq)

text \<open>
  The branches of \<open>handleInput\<close> that do not resolve an assignment return
  at once.
\<close>

lemma handleInput_direct:
  assumes "take 1 s = ''='' \<or> decideParser s \<noteq> Inr PLanguage \<or> lang_math env vs s \<noteq> None \<or>
    assignment_match s = None"
  shows "\<exists>r. handleInput env vs s = Some r"
  using assms by (subst handleInput.simps) (auto split: sum.splits parser_error.splits ptype.splits option.splits)

text \<open>An assignment stores the \<open>value\<close> of what its expression resolves to.\<close>

lemma handleInput_assign:
  assumes "take 1 s \<noteq> ''=''" and "decideParser s = Inr PLanguage" and "lang_math env vs s = None"
    and "assignment_match s = Some (n, e)" and "handleInput env vs (js_trim e) = Some (r, vs')"
    and "r \<noteq> HNull"
  shows "handleInput env vs s = Some (r, AList.update n (value_of r) vs')"
  using assms by (subst handleInput.simps) simp

text \<open>
  A failed assignment \<open>x = expr\<close> still binds \<open>x\<close>: the failure object is not
  \<open>null\<close>, and its \<open>value\<close> is \<open>undefined\<close>.
\<close>

lemma failed_assignment_binds_undefined:
  assumes "take 1 s \<noteq> ''=''" and "decideParser s = Inr PLanguage" and "lang_math env vs s = None"
    and "assignment_match s = Some (n, e)" and "handleInput env vs (js_trim e) = Some (HFail m t, vs')"
  shows "handleInput env vs s = Some (HFail m t, AList.update n JUndef vs')"
  using handleInput_assign [OF assms] by simp

text \<open>
  Reassigning a stored variable to text nothing parses replaces its value by
  \<open>undefined\<close>.
\<close>

lemma failed_reassignment_clobbers:
  "handleInput silent_penv [(''x'', JNum 5)] ''x = foo'' =
     Some (HFail ''Could not parse input'' None, [(''x'', JUndef)])"
proof -
  have d: "decideParser ''foo'' = Inr PLanguage" by code_simp
  have a: "assignment_match ''foo'' = None" by code_simp
  have l: "lang_math silent_penv [(''x'', JNum 5)] ''foo'' = None" by code_simp
  have r: "lang_rest silent_penv [(''x'', JNum 5)] ''foo'' = HNull" by code_simp
  have "handleInput silent_penv [(''x'', JNum 5)] ''foo'' =
      Some (HFail ''Could not parse input'' None, [(''x'', JNum 5)])"
    using d a l r by (subst handleInput.simps) (simp add: or_fail_def)
  moreover have "decideParser ''x = foo'' = Inr PLanguage" by code_simp
  moreover have "assignment_match ''x = foo'' = Some (''x'', ''foo'')" by code_simp
  moreover have "lang_math silent_penv [(''x'', JNum 5)] ''x = foo'' = None" by code_simp
  moreover have "js_trim ''foo'' = ''foo''" by code_simp
  ultimately show ?thesis
    using failed_assignment_binds_undefined [of "''x = foo''" silent_penv "[(''x'', JNum 5)]" "''x''" "''foo''"]
    by simp
qed

text \<open>
  A temperature with lower-case units is routed to the unit parser and matched
  by the case-insensitive \<open>TEMPERATURE\<close>, but the table of
  \<open>convertTemperature\<close> has upper-case keys only, so the input fails.
\<close>

lemma handleInput_lowercase_temperature:
  "handleInput env vs ''100 c to f'' = Some (HFail ''Could not parse input'' None, vs)"
  by (subst handleInput.simps) code_simp

lemma handleInput_temperature:
  "handleInput env vs ''100 C to F'' = Some (HConv (Conv (Some 212) ''F'' (''212.00'' @ [CHR 0xB0] @ ''F'')), vs)"
  by (subst handleInput.simps) code_simp

text \<open>
  C39. \<open>handleInput\<close> returns on every input and store: the recursion
  through a variable assignment resolves the captured expression, a strict
  part of the input.
\<close>

theorem handleInput_returns: "\<exists>r. handleInput env vs s = Some r"
proof (induction "length s" arbitrary: s vs rule: less_induct)
  case less
  show ?case
  proof (cases "take 1 s = ''='' \<or> decideParser s \<noteq> Inr PLanguage \<or> lang_math env vs s \<noteq> None \<or>
      assignment_match s = None")
    case True
    then show ?thesis by (rule handleInput_direct)
  next
    case False
    note branch = this
    then obtain n e where a: "assignment_match s = Some (n, e)" by auto
    have "length (js_trim e) < length s"
      using assignment_match_shorter [OF a] js_trim_length [of e] by simp
    then obtain r vs' where h: "handleInput env vs (js_trim e) = Some (r, vs')"
      using less by fast
    show ?thesis
    proof (cases "r = HNull")
      case True
      then show ?thesis using branch a h by (subst handleInput.simps) simp
    next
      case False
      then show ?thesis using branch a h handleInput_assign by blast
    qed
  qed
qed

end
