(* ===== verification/ParserDates.thy ===== *)
theory ParserDates
  imports ParserLanguage
begin

text \<open>
  \<open>LanguageParser.handleDateArithmetic\<close> of
  \<^verbatim>\<open>src/src/utils/compromiseDateParser6.js\<close>: the split of a line such as
  \<open>first day of next month + 2 workdays\<close> into a date part and an arithmetic
  part, the normalisation of the unit and the choice of the calculator of
  \<open>timeUnitCalculatorsWithAmount\<close>. Dates are a type variable: what compromise
  finds in the date part, the dayjs calculators and the final \<open>format\<close> are
  the operations of a \<open>date_env\<close>.
\<close>

text \<open>The keys of \<open>timeUnitCalculatorsWithAmount\<close>.\<close>

datatype time_unit = TDay | TWeek | TMonth | TYear | TWorkday

definition time_units :: "(string \<times> time_unit) list" where
  "time_units = [(''day'', TDay), (''week'', TWeek), (''month'', TMonth), (''year'', TYear), (''workday'', TWorkday)]"

text \<open>
  The platform: \<open>de_parse p\<close> is the start of the first date compromise finds
  in \<open>p\<close> (\<open>None\<close> when it finds none), \<open>de_shift u d n\<close> the calculator of
  unit \<open>u\<close> applied to \<open>d\<close> and \<open>n\<close>, and \<open>de_format\<close> the
  \<open>format('YYYY-MM-DD HH:mm:ss [GMT]Z')\<close> of the result.
\<close>

record 'd date_env =
  de_parse :: "string \<Rightarrow> 'd option"
  de_shift :: "time_unit \<Rightarrow> 'd \<Rightarrow> int \<Rightarrow> 'd"
  de_format :: "'d \<Rightarrow> string"

text \<open>\<open>(days?|workdays?|weeks?|months?|years?)\<close> under the \<open>i\<close> flag.\<close>

definition unit_alt :: rx where
  "unit_alt = RAlt (RSeq (RLitI ''day'') (ROpt (RLitI ''s'')))
     (RAlt (RSeq (RLitI ''workday'') (ROpt (RLitI ''s'')))
       (RAlt (RSeq (RLitI ''week'') (ROpt (RLitI ''s'')))
         (RAlt (RSeq (RLitI ''month'') (ROpt (RLitI ''s''))) (RSeq (RLitI ''year'') (ROpt (RLitI ''s''))))))"

text \<open>\<open>/^(.*?)(\s*[\+\-]\s*\d+\s*(units))?$/i\<close>\<close>

definition DATE_ARITH :: jsre where
  "DATE_ARITH = Anchored (RCat
     [RGroup 1 (RLazy (RAtom is_dot)),
      ROpt (RGroup 2 (RCat [RStar sp, RSet ''+-'', RStar sp, RPlus digit, RStar sp, RGroup 3 unit_alt])),
      REnd])"

text \<open>\<open>/([\+\-])\s*(\d+)\s*(units)/i\<close>\<close>

definition ARITH_MATCH :: jsre where
  "ARITH_MATCH = Floating (RCat [RGroup 1 (RSet ''+-''), RStar sp, RGroup 2 (RPlus digit), RStar sp, RGroup 3 unit_alt])"

text \<open>\<open>u.toLowerCase().replace(/s$/, '')\<close>\<close>

definition unit_key :: "string \<Rightarrow> string" where
  "unit_key u = (let l = map js_lower u in if l \<noteq> [] \<and> last l = CHR ''s'' then butlast l else l)"

text \<open>
  The match of \<open>DATE_ARITH\<close>: the trimmed date part and, when group 2 took
  part, the trimmed arithmetic part.
\<close>

definition arith_split :: "string \<Rightarrow> (string \<times> string option) option" where
  "arith_split s =
     (case js_exec DATE_ARITH s of
        None \<Rightarrow> None
      | Some (_, c, _) \<Rightarrow> Some (js_trim (cap c 1), map_option js_trim (c 2)))"

text \<open>
  The match of \<open>ARITH_MATCH\<close>: the calculator of the normalised unit (\<open>None\<close>
  when \<open>timeUnitCalculatorsWithAmount\<close> has none) and the adjustment, the amount
  signed by the operator.
\<close>

definition arith_parse :: "string \<Rightarrow> (time_unit \<times> int) option" where
  "arith_parse a =
     (case js_exec ARITH_MATCH a of
        None \<Rightarrow> None
      | Some (_, c, _) \<Rightarrow>
          (case map_of time_units (unit_key (cap c 3)) of
             None \<Rightarrow> None
           | Some u \<Rightarrow>
               (let amount = int (parse_dec (cap c 2))
                in Some (u, if cap c 1 = ''+'' then amount else - amount))))"

text \<open>
  \<open>handleDateArithmetic(input)\<close>: \<open>null\<close> (\<open>HNull\<close>) without a date part, a
  date or an arithmetic part, else the formatted shifted date.
\<close>

definition handleDateArithmetic :: "'d date_env \<Rightarrow> string \<Rightarrow> hres" where
  "handleDateArithmetic de s =
     (case arith_split s of
        None \<Rightarrow> HNull
      | Some (datePart, a) \<Rightarrow>
          if datePart = [] then HNull
          else case de_parse de datePart of
            None \<Rightarrow> HNull
          | Some d \<Rightarrow>
              (case a of
                 None \<Rightarrow> HNull
               | Some a' \<Rightarrow>
                   if a' = [] then HNull
                   else case arith_parse a' of
                     None \<Rightarrow> HNull
                   | Some (u, n) \<Rightarrow> HVal (JStr (de_format de (de_shift de u d n)))))"

section \<open>Lemmas\<close>

text \<open>A date with an arithmetic part: the calculator of its unit, signed amount.\<close>

lemma date_arith_workdays:
  "handleDateArithmetic de ''next friday - 3 Workdays'' =
     (case de_parse de ''next friday'' of
        None \<Rightarrow> HNull
      | Some d \<Rightarrow> HVal (JStr (de_format de (de_shift de TWorkday d (-3)))))"
proof -
  have "arith_split ''next friday - 3 Workdays'' = Some (''next friday'', Some ''- 3 Workdays'')"
    by code_simp
  moreover have "arith_parse ''- 3 Workdays'' = Some (TWorkday, -3)" by code_simp
  ultimately show ?thesis by (simp add: handleDateArithmetic_def split: option.split)
qed

text \<open>Without an arithmetic part the answer is \<open>null\<close>, whatever the date.\<close>

lemma date_arith_needs_amount: "handleDateArithmetic de ''first day of next month'' = HNull"
proof -
  have "arith_split ''first day of next month'' = Some (''first day of next month'', None)"
    by code_simp
  then show ?thesis by (simp add: handleDateArithmetic_def split: option.split)
qed

end
