(* ===== verification/Workdays.thy ===== *)
theory Workdays
  imports Prelude
begin

text \<open>
  The workday arithmetic of \<^verbatim>\<open>src/src/utils/compromiseDateParser6.js\<close>:
  \<open>timeUnitCalculators.workdays\<close>, which counts the weekdays from one date to
  another, and \<open>addWorkdays\<close>, which steps day by day until it has passed the
  requested number of weekdays. A date is its day number (days since
  1970-01-01, a Thursday) in the calendar the code reads it in, and
  \<open>dayjs().day()\<close> is \<open>day_of_week\<close> (0 is Sunday, 6 Saturday).
\<close>

definition day_of_week :: "int \<Rightarrow> int" where
  "day_of_week d = (d + 4) mod 7"

definition is_workday :: "int \<Rightarrow> bool" where
  "is_workday d \<longleftrightarrow> day_of_week d \<noteq> 0 \<and> day_of_week d \<noteq> 6"

text \<open>
  The \<open>while\<close> loop of \<open>workdays(startDate, endDate)\<close>: while \<open>curDate\<close> is
  not after \<open>endDate\<close>, count it if it is a weekday and move to the next day.
\<close>

function workdays_loop :: "int \<Rightarrow> int \<Rightarrow> nat \<Rightarrow> nat" where
  "workdays_loop cur e count =
     (if cur \<le> e then workdays_loop (cur + 1) e (if is_workday cur then count + 1 else count)
      else count)"
  by pat_completeness auto
termination
  by (relation "measure (\<lambda>(cur, e, _). nat (e - cur + 1))") auto

declare workdays_loop.simps [simp del]

definition workdays :: "int \<Rightarrow> int \<Rightarrow> nat" where
  "workdays startDate endDate = workdays_loop startDate endDate 0"

text \<open>
  The \<open>while\<close> loop of \<open>addWorkdays(start, amount)\<close>: forwards for a positive
  amount, backwards otherwise, counting the weekdays it lands on. It ends
  because a weekday comes within every three steps, which is a lemma below,
  so it is a partial function here.
\<close>

partial_function (option) add_workdays_loop :: "int \<Rightarrow> int \<Rightarrow> nat \<Rightarrow> int option" where
  "add_workdays_loop amount date count =
     (if count < nat \<bar>amount\<bar> then
        (let date' = (if 0 < amount then date + 1 else date - 1)
         in add_workdays_loop amount date' (if is_workday date' then count + 1 else count))
      else Some date)"

declare add_workdays_loop.simps [code]

definition addWorkdays :: "int \<Rightarrow> int \<Rightarrow> int option" where
  "addWorkdays start amount = add_workdays_loop amount start 0"

section \<open>Lemmas\<close>

lemma workdays_loop_count:
  "workdays_loop cur e count = count + length (filter is_workday [cur..e])"
proof (induction cur e count rule: workdays_loop.induct)
  case (1 cur e count)
  show ?case
  proof (cases "cur \<le> e")
    case True
    then have "[cur..e] = cur # [cur + 1..e]" by (simp add: upto_rec1)
    then show ?thesis using True "1.IH" by (subst workdays_loop.simps) simp
  qed (subst workdays_loop.simps, simp)
qed

text \<open>\<open>workdays\<close> counts the weekdays of the closed interval.\<close>

lemma workdays_eq: "workdays s e = length (filter is_workday [s..e])"
  by (simp add: workdays_def workdays_loop_count)

lemma day_of_week_add: "day_of_week (d + k) = (day_of_week d + k) mod 7"
  by (simp add: day_of_week_def mod_simps algebra_simps)

lemma day_of_week_diff: "day_of_week (d - k) = (day_of_week d - k) mod 7"
  by (simp add: day_of_week_def mod_simps algebra_simps)

lemma day_of_week_cases:
  "day_of_week d = 0 \<or> day_of_week d = 1 \<or> day_of_week d = 2 \<or> day_of_week d = 3 \<or>
   day_of_week d = 4 \<or> day_of_week d = 5 \<or> day_of_week d = 6"
proof -
  have "0 \<le> day_of_week d" "day_of_week d < 7" by (simp_all add: day_of_week_def)
  then show ?thesis by arith
qed

text \<open>Seven consecutive days hold five weekdays.\<close>

lemma week_workdays: "length (filter is_workday [s..s + 6]) = 5"
proof -
  have "[s..s + 6] = [s, s + 1, s + 2, s + 3, s + 4, s + 5, s + 6]"
    by (simp add: upto_rec1)
  then show ?thesis
    using day_of_week_cases [of s] by (elim disjE) (simp_all add: is_workday_def day_of_week_add)
qed

text \<open>Among three consecutive days, forwards or backwards, one is a weekday.\<close>

lemma workday_within_three:
  "is_workday (d + s) \<or> is_workday (d + 2 * s) \<or> is_workday (d + 3 * s)" if "s = 1 \<or> s = -1"
  using that day_of_week_cases [of d]
  by (elim disjE) (simp_all add: is_workday_def day_of_week_add day_of_week_diff)

text \<open>One turn of the \<open>addWorkdays\<close> loop.\<close>

lemma add_workdays_step:
  "n < nat \<bar>a\<bar> \<Longrightarrow> add_workdays_loop a d n =
     add_workdays_loop a (d + (if 0 < a then 1 else -1)) (if is_workday (d + (if 0 < a then 1 else -1)) then n + 1 else n)"
  by (subst add_workdays_loop.simps) (simp add: Let_def)

text \<open>The loop of \<open>addWorkdays\<close> always ends.\<close>

lemma add_workdays_loop_returns: "\<exists>r. add_workdays_loop a d n = Some r"
proof (induction "nat \<bar>a\<bar> - n" arbitrary: d n rule: less_induct)
  case less
  show ?case
  proof (cases "n < nat \<bar>a\<bar>")
    case False
    then show ?thesis by (subst add_workdays_loop.simps) simp
  next
    case True
    define s :: int where "s = (if 0 < a then 1 else -1)"
    have st: "\<And>x. add_workdays_loop a x n = add_workdays_loop a (x + s) (if is_workday (x + s) then n + 1 else n)"
      using add_workdays_step [OF True] by (simp add: s_def)
    have ih: "\<And>x. \<exists>r. add_workdays_loop a x (n + 1) = Some r"
      using less True by simp
    have "s = 1 \<or> s = -1" by (simp add: s_def)
    then consider "is_workday (d + s)" | "\<not> is_workday (d + s)" "is_workday (d + 2 * s)"
      | "\<not> is_workday (d + s)" "\<not> is_workday (d + 2 * s)" "is_workday (d + 3 * s)"
      using workday_within_three by blast
    then show ?thesis
    proof cases
      case 1
      then show ?thesis using st [of d] ih by simp
    next
      case 2
      have x2: "d + s + s = d + 2 * s" by simp
      have "add_workdays_loop a d n = add_workdays_loop a (d + s) n" using st [of d] 2(1) by simp
      also have "\<dots> = add_workdays_loop a (d + 2 * s) (n + 1)" using st [of "d + s", unfolded x2] 2(2) by simp
      finally show ?thesis using ih by simp
    next
      case 3
      have x2: "d + s + s = d + 2 * s" and x3: "d + 2 * s + s = d + 3 * s" by simp_all
      have "add_workdays_loop a d n = add_workdays_loop a (d + s) n" using st [of d] 3(1) by simp
      also have "\<dots> = add_workdays_loop a (d + 2 * s) n" using st [of "d + s", unfolded x2] 3(2) by simp
      also have "\<dots> = add_workdays_loop a (d + 3 * s) (n + 1)" using st [of "d + 2 * s", unfolded x3] 3(3) by simp
      finally show ?thesis using ih by simp
    qed
  qed
qed

lemma addWorkdays_returns: "\<exists>r. addWorkdays start amount = Some r"
  by (simp add: addWorkdays_def add_workdays_loop_returns)

text \<open>A nonzero number of workdays from any date lands on a weekday.\<close>

lemma add_workdays_loop_lands:
  "add_workdays_loop a d n = Some r \<Longrightarrow>
     (nat \<bar>a\<bar> \<le> n \<longrightarrow> r = d) \<and> (n < nat \<bar>a\<bar> \<longrightarrow> is_workday r)"
proof (induction rule: add_workdays_loop.raw_induct [rotated, consumes 1])
  case (1 f a d n r)
  show ?case
  proof (cases "n < nat \<bar>a\<bar>")
    case True
    define d' where "d' = (if 0 < a then d + 1 else d - 1)"
    have "f a d' (if is_workday d' then n + 1 else n) = Some r"
      using "1"(2) True by (simp add: d'_def Let_def)
    from "1"(1) [OF this] True show ?thesis by (auto split: if_splits)
  qed (use "1"(2) in simp)
qed

lemma addWorkdays_weekday: "amount \<noteq> 0 \<Longrightarrow> addWorkdays start amount = Some r \<Longrightarrow> is_workday r"
  using add_workdays_loop_lands [of amount start 0 r] by (simp add: addWorkdays_def)

end
