(* ===== verification/Spec2Isabelle.thy ===== *)
theory Spec2Isabelle
  imports SyncInvariant SmartSync CryptoUtils Vault SyncStatus Calendar ParserRouter ParserDates Workdays
begin

text \<open>
  \<^bold>\<open>A verification development of notesum-hybrid's sync engine.\<close>

  The program is a note-taking web app. Its core keeps pages in a local IndexedDB
  store (Dexie, \<^verbatim>\<open>src/src/utils/noteTextStorage.js\<close>) and synchronises them with a
  per-user Firestore collection (\<^verbatim>\<open>src/src/firebase2.js\<close>): a sync job applies
  remote tombstones, uploads locally edited pages (encrypted), deletes remotely the
  pages deleted locally, and downloads remote changes, merging them with local
  versions. A job is guarded (one at a time, a user, an unlocked vault),
  checkpoints its progress, retries remote calls with exponential backoff, and
  resumes an interrupted job from its checkpoint.

  \<^bold>\<open>Theories.\<close>
  \<^item> \<open>Prelude\<close>: the shared types (\<open>time\<close>, \<open>page_id\<close>, \<open>jstr\<close> for a JavaScript
    string that may be \<open>null\<close>), \<open>chunks\<close> (the \<open>slice(i, i + n)\<close> batching loops
    of every phase, with \<open>concat_chunks\<close> and \<open>length_chunks\<close> = \<open>Math.ceil\<close>), and
    \<open>push_capped\<close> (the persisted error log's push-then-shift).
  \<^item> \<open>LocalStore\<close>: the Dexie \<open>pages\<close> table as a list of rows in key order
    (\<open>table_wf\<close>) with the map abstraction \<open>table_map\<close>; \<open>get\<close>, \<open>update\<close>,
    \<open>delete\<close>, \<open>add\<close> (\<open>ConstraintError\<close> on a present key), \<open>put\<close>; and the
    helpers of \<open>noteTextStorage\<close> and \<open>appMetadataStorage\<close> the engine calls
    (\<open>savePage\<close>, \<open>updatePage\<close>, \<open>deletePage\<close>, \<open>getPendingSyncPages\<close>,
    \<open>createPageFromFirestore\<close>, the deleted-id set). Lemmas: every operation keeps
    the table well formed and acts on \<open>table_map\<close> as the map operation it names.
  \<^item> \<open>Merge\<close>: \<open>shouldMergePages\<close> and \<open>mergeAndSavePages\<close> (\<open>merged_page\<close> is the
    object the code computes, \<open>mergeAndSavePages\<close> what it writes through
    \<open>savePage\<close>). Lemmas: the decision on each branch, the merged object on each
    branch, and that the written row keeps the old name and order.
  \<^item> \<open>SyncState\<close>: \<open>SYNC_CONFIG\<close>, \<open>syncState\<close> (\<open>sync_state\<close>), the persisted
    metadata (\<open>meta\<close>), and the \<open>world\<close> the engine runs in: local table, metadata,
    remote table and tombstones, vault, user, clock, and oracle lists for what the
    code does not decide itself (remote call failures \<open>w_faults\<close>, \<open>Math.random\<close>
    coins, backoff jitter, vault locks by a concurrent user action, editor saves
    that land while an upload batch commits). The helpers:
    \<open>saveCheckpoint\<close>, \<open>saveResumeCheckpoint\<close>, \<open>handleSyncRetry\<close>,
    \<open>checkVaultLock\<close>, \<open>abortSync\<close>, \<open>logSyncError\<close> (a JavaScript \<open>Map\<close> as an
    association list in insertion order) and \<open>executeWithRetry\<close>
    (\<open>retry_loop\<close>, terminating by the measure \<open>maxRetries - attempt\<close>).
    Lemmas: when the retry succeeds, the bound on its total backoff, the error
    log bounds, and frames (what each helper leaves unchanged, \<open>frame_simps\<close>).
  \<^item> \<open>SyncPhases\<close>: \<open>processRemoteDeletions\<close>, \<open>uploadFromDexieToFirestore\<close> with
    \<open>processUploadBatch\<close>, \<open>handleDeletions\<close>, \<open>downloadFromFirestore\<close> with
    \<open>processDownloadBatch\<close>. A phase returns \<open>(sync_exn + unit) \<times> world\<close>:
    \<open>Inl\<close> is an exception thrown out of it. The batch loops are structural
    recursion over \<open>chunks\<close>; the paginated download \<open>while\<close> loop, whose end
    depends on the remote collection, is a \<^theory_text>\<open>partial_function (option)\<close>.
    Lemmas: what a committed upload batch writes (and how it loses an edit saved
    during the commit), and that the download loop returns, by induction on the
    remaining faults and on whether the cursor document exists.
  \<^item> \<open>SyncJob\<close>: \<open>syncDexieToFirestore\<close> (guards, \<open>start_job\<close>, \<open>finish_job\<close>) and
    \<open>startNewSyncJob\<close>/\<open>resumeSyncJob\<close>, which call each other, as one
    \<^theory_text>\<open>partial_function (option)\<close> \<open>sync_job\<close>: \<open>None\<close> means the job never
    returns. Lemmas: the guards, the in-progress flag, divergence on a checkpoint
    with no phase (by fixpoint induction, \<open>sync_job.raw_induct\<close>), and concrete
    runs on sample worlds, evaluated by \<open>simp\<close> with \<open>sync_run_defs\<close>.
  \<^item> \<open>SyncInvariant\<close>: \<open>world_inv\<close> (both tables well formed, both error logs
    bounded) is preserved by every helper, phase and the job (collection
    \<open>inv_simps\<close>; the partial functions by \<open>raw_induct\<close>), and \<open>reachable\<close>, an
    inductive closure of an initial world under the app's operations, satisfies
    it by rule induction.

  \<^item> \<open>SmartSyncPolicy\<close>: the pure decisions of the change scheduler
    (\<^verbatim>\<open>src/src/smartSync.js\<close>): the configuration the constructor builds, the
    metrics of a change, \<open>_shouldTriggerCloudSync\<close>, the grouping of the change
    history into sessions and the user patterns of \<open>_updateAdaptiveTiming\<close>,
    \<open>_adjustTimings\<close>, and \<open>_calculateContentHash\<close> on \<open>32 word\<close> with
    \<open>toString(16)\<close>. Delays and averages are \<open>rat\<close>, \<open>NaN\<close> and \<open>Infinity\<close>
    are \<open>None\<close>. Lemmas: the hash equals the signed 32-bit reduction of the
    reference recurrence \<open>h * 31 + c\<close> (equivalence), its hexadecimal form
    parses back (round trip), the sessions partition the history, the \<open>NaN\<close>
    path, and the bounds and surprises of the adaptive delays.
  \<^item> \<open>SmartSync\<close>: the scheduler as a state machine over its state \<open>smart\<close>
    and the engine's \<open>world\<close>, wired as \<open>createSmartSyncManager\<close> wires it
    (local save through \<open>savePage\<close>, cloud sync through
    \<open>syncDexieToFirestore\<close>). Lodash's \<open>debounce\<close> is a \<open>debouncer\<close> with
    the arguments and time of its last call; debounced functions that
    \<open>_adjustTimings\<close> replaced while a call was pending are kept as orphans that
    still fire. Every method is a definition; \<open>sm_event\<close> is what can happen
    to a manager (a method call, a timer that is due, time passing) and
    \<open>sm_dispatch\<close>/\<open>run_events\<close> run events in order; \<open>sm_reach\<close> closes a
    fresh manager in a reachable world under its events. Lemmas: frames
    (\<open>sm_frame\<close>), the scheduler's invariant \<open>smart_inv\<close>, that the worlds a
    manager drives are \<open>reachable\<close> ones (so the engine's invariant applies),
    and the scheduling behaviours: the backstop timer, how a failed sync or
    \<open>prepareClose\<close> disables the later syncs, \<open>syncAll\<close>'s undefined ids, and
    page deletion.
  \<^item> \<open>CryptoUtils\<close>: the encryption gateway of \<^verbatim>\<open>src/src/utils/cryptoUtils.js\<close>
    on bytes (\<open>8 word list\<close>): \<open>encryptData\<close>/\<open>decryptData\<close> with the
    12-byte IV before the ciphertext, URL-safe base64 without padding
    (\<open>arrayBufferToBase64\<close>, \<open>base64ToArrayBuffer\<close>) over the platform's
    \<open>btoa\<close>/\<open>atob\<close> (RFC 4648, the forgiving decode), and the UTF-8 of
    \<open>TextEncoder\<close>/\<open>TextDecoder\<close>. AES-GCM is an oracle. Lemmas: the base64
    round trip, the format of a token, the round trip of encryption given the
    cipher's, and the failure on a malformed token. The engine's
    \<open>w_encrypt\<close>/\<open>w_decrypt\<close> stand for these two functions with the key fixed.

  \<^bold>\<open>Correspondence.\<close> Each definition keeps the name of the JavaScript function
  it translates; a \<open>fun\<close> named after a loop (\<open>upload_batches\<close>,
  \<open>delete_batches\<close>, \<open>download_subbatches\<close>, \<open>download_loop\<close>) is that loop of
  the function it belongs to. \<open>await\<close> sequencing is \<open>then_phase\<close>; a
  \<open>catch\<close> that logs and rethrows is \<open>log_rethrow\<close>; \<open>uuidv4()\<close> is the counter
  \<open>w_nextJob\<close>; \<open>Date.now()\<close> is \<open>w_now\<close>, which does not advance during a job.

  \<^bold>\<open>Bounds and fuel.\<close> No fuel: the loops that may run forever are partial
  functions, and a claim that one returns is stated as \<open>\<exists>r. f x = Some r\<close> or
  its negation as \<open>f x = None\<close>. The sizes in \<open>SYNC_CONFIG\<close> (20, 5, 200, 50, 100)
  are the code's constants.

  \<^bold>\<open>Not modelled.\<close> AES-GCM and the vault key wrapping (an opaque
  \<open>w_encrypt\<close>/\<open>w_decrypt\<close>, which like \<open>encryptData\<close>/\<open>decryptData\<close> return
  \<open>null\<close> on failure); progress events and console output; the Firestore SDK
  beyond the query shape the code builds; the difference between Firestore's string
  document ids and Dexie's numeric keys (recorded as a finding). The scheduler's progress events, timezone formatting and console output, and
  its dead code (\<open>_syncFromCloud\<close>, \<open>_getCloudChangesSince\<close>,
  \<open>_prepareDifferentialSync\<close>, the commented-out \<open>_performCloudSync\<close>
  versions); an asynchronous handler of the scheduler is one atomic step, so
  interleavings inside a handler are not modelled. Not yet modelled: the parser
  router and domain parsers (\<^verbatim>\<open>src/src/utils/compromiseDateParser6.js\<close>),
  and the calendar store; the key derivation of \<open>generateKeyFromPassphrase\<close>
  (PBKDF2, a platform primitive); the
  experimental ML router, the legacy \<^verbatim>\<open>firebase.js\<close> engine and the UI are out of
  scope.
\<close>

end
